(* ===== verification/Prelude.thy ===== *)
theory Prelude
  imports Main "HOL-Library.Multiset" "HOL-Library.List_Lexorder" "HOL-Library.Char_ord" "HOL-Library.Sublist"
    "HOL-Library.State_Monad"
begin

text \<open>
  Shared vocabulary of the development: the names of the model's basic types, the collections of
  rewrite rules the component theories extend, generic lemmas on lists and maps, and a small
  calculus of preserved predicates for the state monad, with which a safety property of a long
  handler is proved call by call instead of path by path.
\<close>

section \<open>Type names and rule collections\<close>

type_synonym bytes = string
type_synonym time = int      \<comment> \<open>nanoseconds since the zero time.Time, so 0 is the zero value\<close>
type_synonym duration = int  \<comment> \<open>time.Duration, in nanoseconds\<close>

named_theorems go_defs \<open>unfolding rules of the modelled standard-library helpers\<close>
named_theorems keeps \<open>preservation rules: an operation keeps a predicate of the state\<close>

section \<open>Lists and maps\<close>

text \<open>The first element of a list that satisfies a predicate is one of its members.\<close>

lemma find_SomeD: "List.find P xs = Some x \<Longrightarrow> x \<in> set xs \<and> P x"
  by (induction xs) (auto split: if_splits)

lemma find_map_type: "List.find P (map f xs) = map_option f (List.find (P \<circ> f) xs)"
  by (induction xs) auto

text \<open>Sorting forgets the order of its input.\<close>

lemma sort_mset_cong: "mset xs = mset ys \<Longrightarrow> sort xs = sort (ys :: 'a::linorder list)"
  by (simp add: properties_for_sort)

lemma mset_filter_cong: "mset xs = mset ys \<Longrightarrow> mset (filter P xs) = mset (filter P ys)"
  by (simp add: mset_filter)

section \<open>Predicates preserved by stateful operations\<close>

text \<open>
  \<open>keeps_pred P m\<close>: running \<open>m\<close> from a state that satisfies \<open>P\<close> ends in a state that
  satisfies \<open>P\<close>. The rules below follow the monad's combinators, so a handler written with them
  is checked by resolution with the collection \<open>keeps\<close>.
\<close>

definition keeps_pred :: "('s \<Rightarrow> bool) \<Rightarrow> ('s, 'a) state \<Rightarrow> bool" where
  "keeps_pred P m \<longleftrightarrow> (\<forall>s. P s \<longrightarrow> P (snd (run_state m s)))"

lemma keeps_predI: "(\<And>s. P s \<Longrightarrow> P (snd (run_state m s))) \<Longrightarrow> keeps_pred P m"
  by (simp add: keeps_pred_def)

lemma keeps_predD: "keeps_pred P m \<Longrightarrow> P s \<Longrightarrow> P (snd (run_state m s))"
  by (simp add: keeps_pred_def)

lemma keeps_return [keeps]: "keeps_pred P (State_Monad.return x)"
  by (simp add: keeps_pred_def)

lemma keeps_get [keeps]: "keeps_pred P State_Monad.get"
  by (simp add: keeps_pred_def)

lemma keeps_bind [keeps]:
  "keeps_pred P m \<Longrightarrow> (\<And>x. keeps_pred P (f x)) \<Longrightarrow> keeps_pred P (State_Monad.bind m f)"
  by (fastforce simp: keeps_pred_def split: prod.split)

lemma keeps_if [keeps]:
  "(b \<Longrightarrow> keeps_pred P m) \<Longrightarrow> (\<not> b \<Longrightarrow> keeps_pred P n) \<Longrightarrow> keeps_pred P (if b then m else n)"
  by simp

lemma keeps_option [keeps]:
  "(x = None \<Longrightarrow> keeps_pred P m) \<Longrightarrow> (\<And>y. x = Some y \<Longrightarrow> keeps_pred P (f y)) \<Longrightarrow>
   keeps_pred P (case x of None \<Rightarrow> m | Some y \<Rightarrow> f y)"
  by (cases x) auto

lemma keeps_sum [keeps]:
  "(\<And>e. x = Inl e \<Longrightarrow> keeps_pred P (f e)) \<Longrightarrow> (\<And>y. x = Inr y \<Longrightarrow> keeps_pred P (g y)) \<Longrightarrow>
   keeps_pred P (case x of Inl e \<Rightarrow> f e | Inr y \<Rightarrow> g y)"
  by (cases x) auto

lemma keeps_prod [keeps]:
  "(\<And>a b. x = (a, b) \<Longrightarrow> keeps_pred P (f a b)) \<Longrightarrow> keeps_pred P (case x of (a, b) \<Rightarrow> f a b)"
  by (cases x) auto

lemma keeps_let [keeps]: "keeps_pred P (f x) \<Longrightarrow> keeps_pred P (let y = x in f y)"
  by simp

section \<open>The least element of a list under a key\<close>

lemma ex1_least:
  fixes f :: "'a \<Rightarrow> 'b :: linorder"
  assumes "finite S" "S \<noteq> {}" "inj_on f S"
  shows "\<exists>!m. m \<in> S \<and> (\<forall>b \<in> S. f m \<le> f b)"
proof -
  have fin: "finite (f ` S)" "f ` S \<noteq> {}" using assms by auto
  then have "Min (f ` S) \<in> f ` S" by (rule Min_in)
  then obtain m where m: "Min (f ` S) = f m" "m \<in> S" by (rule imageE)
  have least: "\<forall>b \<in> S. f m \<le> f b"
    unfolding m(1) [symmetric] using fin(1) by simp
  show ?thesis
  proof (rule ex1I [of _ m])
    fix c
    assume c: "c \<in> S \<and> (\<forall>b \<in> S. f c \<le> f b)"
    with least m(2) have "f c = f m" by (meson order_antisym)
    with assms(3) c m(2) show "c = m" by (auto dest: inj_onD)
  qed (use m least in blast)
qed

end
