(* ===== verification/Go_Strings.thy ===== *)
theory Go_Strings
  imports Prelude
begin

text \<open>
  What the source uses of Go's \<open>strings\<close>, \<open>unicode/utf8\<close>, \<open>strconv\<close>, \<open>fmt\<close> and
  \<open>time\<close> packages. A Go string is a sequence of bytes, here a list of the 8-bit characters of
  HOL, so \<open>len\<close> is \<open>length\<close> and \<open>sort.Strings\<close> is \<open>sort\<close> for the
  lexicographic order of bytes.
  The verb \<open>%q\<close> is exact on ASCII text; bytes above 127 are passed through, as
  \<open>strconv.Quote\<close> does for printable characters of well-formed UTF-8.
\<close>

section \<open>strings\<close>

definition byte :: "char \<Rightarrow> nat" where
  "byte c = of_char c"

lemma byte_inj [simp]: "byte a = byte b \<longleftrightarrow> a = b"
  by (simp add: byte_def)

definition is_alpha :: "char \<Rightarrow> bool" where
  "is_alpha c \<longleftrightarrow> (97 \<le> byte c \<and> byte c \<le> 122) \<or> (65 \<le> byte c \<and> byte c \<le> 90)"

definition is_digit :: "char \<Rightarrow> bool" where
  "is_digit c \<longleftrightarrow> 48 \<le> byte c \<and> byte c \<le> 57"

definition hasPrefix :: "string \<Rightarrow> string \<Rightarrow> bool" where
  [go_defs]: "hasPrefix s p = prefix p s"

definition hasSuffix :: "string \<Rightarrow> string \<Rightarrow> bool" where
  [go_defs]: "hasSuffix s p = suffix p s"

definition contains :: "string \<Rightarrow> string \<Rightarrow> bool" where
  [go_defs]: "contains s p = sublist p s"

definition trimPrefix :: "string \<Rightarrow> string \<Rightarrow> string" where
  "trimPrefix s p = (if hasPrefix s p then drop (length p) s else s)"

text \<open>The text before and after the first and before the last occurrence of a byte.\<close>

fun indexByte :: "string \<Rightarrow> char \<Rightarrow> nat option" where
  "indexByte [] c = None"
| "indexByte (x # xs) c = (if x = c then Some 0 else map_option Suc (indexByte xs c))"

definition lastIndexByte :: "string \<Rightarrow> char \<Rightarrow> nat option" where
  "lastIndexByte s c = map_option (\<lambda>i. length s - 1 - i) (indexByte (rev s) c)"

fun splitOn :: "char \<Rightarrow> string \<Rightarrow> string list" where
  "splitOn c [] = [[]]"
| "splitOn c (x # xs) =
     (if x = c then [] # splitOn c xs
      else (case splitOn c xs of w # ws \<Rightarrow> (x # w) # ws | [] \<Rightarrow> [[x]]))"

fun joinWith :: "string \<Rightarrow> string list \<Rightarrow> string" where
  "joinWith sep [] = []"
| "joinWith sep [w] = w"
| "joinWith sep (w # ws) = w @ sep @ joinWith sep ws"

text \<open>\<open>strings.ReplaceAll\<close> for a one-byte pattern.\<close>

definition replaceByte :: "char \<Rightarrow> string \<Rightarrow> string \<Rightarrow> string" where
  "replaceByte c new s = concat (map (\<lambda>x. if x = c then new else [x]) s)"

definition lower :: "char \<Rightarrow> char" where
  "lower c = (if 65 \<le> byte c \<and> byte c \<le> 90 then char_of (byte c + 32) else c)"

text \<open>
  \<open>strings.ToLower\<close> on ASCII. The source applies it to URL schemes and hexadecimal hashes, which are
  ASCII, and compares file extensions with words that hold no \<open>k\<close> and no \<open>i\<close>, the only ASCII
  letters that some non-ASCII letter lower-cases to, so the comparisons agree on every input.
\<close>

definition toLower :: "string \<Rightarrow> string" where
  "toLower s = map lower s"

lemma indexByte_None: "indexByte s c = None \<longleftrightarrow> c \<notin> set s"
  by (induction s) auto

lemma indexByte_Some:
  "indexByte s c = Some i \<Longrightarrow> i < length s \<and> s ! i = c \<and> c \<notin> set (take i s)"
  by (induction s arbitrary: i) (auto split: if_splits)

lemma splitOn_nonempty [simp]: "splitOn c s \<noteq> []"
  by (cases s) (auto split: list.splits)

lemma splitOn_no_sep: "w \<in> set (splitOn c s) \<Longrightarrow> c \<notin> set w"
  by (induction s arbitrary: w) (auto split: if_splits list.splits)

lemma joinWith_splitOn: "joinWith [c] (splitOn c s) = s"
proof (induction s)
  case (Cons x s)
  show ?case
  proof (cases "splitOn c s")
    case Nil
    then show ?thesis by simp
  next
    case (Cons w ws)
    with Cons.IH show ?thesis by (cases ws) auto
  qed
qed simp

lemma splitOn_word: "c \<notin> set w \<Longrightarrow> splitOn c w = [w]"
  by (induction w) auto

lemma splitOn_cons_word: "c \<notin> set w \<Longrightarrow> splitOn c (w @ c # s) = w # splitOn c s"
  by (induction w) auto

lemma splitOn_append: "splitOn c (a @ c # b) = splitOn c a @ splitOn c b"
proof (induction a)
  case (Cons x a)
  then show ?case by (cases "splitOn c a") auto
qed simp

lemma splitOn_joinWith:
  "ws \<noteq> [] \<Longrightarrow> (\<forall>w \<in> set ws. c \<notin> set w) \<Longrightarrow> splitOn c (joinWith [c] ws) = ws"
proof (induction "[c]" ws rule: joinWith.induct)
  case (2 w)
  then show ?case by (simp add: splitOn_word)
next
  case (3 w v ws)
  then show ?case using splitOn_cons_word [of c w] by simp
qed simp

section \<open>unicode/utf8 and white space\<close>

definition cont_byte :: "char \<Rightarrow> bool" where
  "cont_byte c \<longleftrightarrow> 128 \<le> byte c \<and> byte c \<le> 191"

text \<open>The length of the well-formed UTF-8 sequence a string starts with, 0 if there is none.\<close>

definition rune_len :: "string \<Rightarrow> nat" where
  "rune_len s = (case s of [] \<Rightarrow> 0 | a # t \<Rightarrow>
     (let x = byte a in
      if x < 128 then 1
      else if 194 \<le> x \<and> x \<le> 223 then (case t of b # _ \<Rightarrow> if cont_byte b then 2 else 0 | [] \<Rightarrow> 0)
      else if 224 \<le> x \<and> x \<le> 239 then
        (case t of b # c # _ \<Rightarrow>
           (if (if x = 224 then 160 else 128) \<le> byte b \<and> byte b \<le> (if x = 237 then 159 else 191)
               \<and> cont_byte c then 3 else 0)
         | _ \<Rightarrow> 0)
      else if 240 \<le> x \<and> x \<le> 244 then
        (case t of b # c # d # _ \<Rightarrow>
           (if (if x = 240 then 144 else 128) \<le> byte b \<and> byte b \<le> (if x = 244 then 143 else 191)
               \<and> cont_byte c \<and> cont_byte d then 4 else 0)
         | _ \<Rightarrow> 0)
      else 0))"

function utf8_valid :: "string \<Rightarrow> bool" where
  "utf8_valid s =
     (if s = [] then True
      else if rune_len s = 0 then False
      else utf8_valid (drop (rune_len s) s))"
  by pat_completeness auto
termination
  by (relation "measure length") auto

declare utf8_valid.simps [simp del]

text \<open>The white space of \<open>unicode.IsSpace\<close>, as the UTF-8 sequences that encode it.\<close>

definition space_encodings :: "string list" where
  "space_encodings =
     [[CHR 0x09], [CHR 0x0A], [CHR 0x0B], [CHR 0x0C], [CHR 0x0D], [CHR 0x20], [CHR 0xC2, CHR 0x85],
      [CHR 0xC2, CHR 0xA0], [CHR 0xE1, CHR 0x9A, CHR 0x80], [CHR 0xE2, CHR 0x80, CHR 0x80],
      [CHR 0xE2, CHR 0x80, CHR 0x81], [CHR 0xE2, CHR 0x80, CHR 0x82],
      [CHR 0xE2, CHR 0x80, CHR 0x83], [CHR 0xE2, CHR 0x80, CHR 0x84],
      [CHR 0xE2, CHR 0x80, CHR 0x85], [CHR 0xE2, CHR 0x80, CHR 0x86],
      [CHR 0xE2, CHR 0x80, CHR 0x87], [CHR 0xE2, CHR 0x80, CHR 0x88],
      [CHR 0xE2, CHR 0x80, CHR 0x89], [CHR 0xE2, CHR 0x80, CHR 0x8A],
      [CHR 0xE2, CHR 0x80, CHR 0xA8], [CHR 0xE2, CHR 0x80, CHR 0xA9],
      [CHR 0xE2, CHR 0x80, CHR 0xAF], [CHR 0xE2, CHR 0x81, CHR 0x9F],
      [CHR 0xE3, CHR 0x80, CHR 0x80]]"

function strip_with :: "string list \<Rightarrow> string \<Rightarrow> string" where
  "strip_with es s =
     (case List.find (\<lambda>e. e \<noteq> [] \<and> prefix e s) es of
        None \<Rightarrow> s
      | Some e \<Rightarrow> strip_with es (drop (length e) s))"
  by pat_completeness auto
termination
  by (relation "measure (\<lambda>(es, s). length s)") (auto dest!: find_SomeD simp: prefix_def)

declare strip_with.simps [simp del]

definition trimSpace :: "string \<Rightarrow> string" where
  "trimSpace s =
     rev (strip_with (map rev space_encodings) (rev (strip_with space_encodings s)))"

lemma strip_with_suffix: "\<exists>t. s = t @ strip_with es s"
proof (induction es s rule: strip_with.induct)
  case (1 es s)
  show ?case
  proof (cases "List.find (\<lambda>e. e \<noteq> [] \<and> prefix e s) es")
    case None
    then show ?thesis by (simp add: strip_with.simps [of es s])
  next
    case (Some e)
    with 1 obtain t where "drop (length e) s = t @ strip_with es (drop (length e) s)" by blast
    moreover have "s = take (length e) s @ drop (length e) s" by simp
    ultimately have "s = (take (length e) s @ t) @ strip_with es (drop (length e) s)" by simp
    with Some show ?thesis by (metis (no_types, lifting) strip_with.simps option.simps(5))
  qed
qed

lemma trimSpace_sub: "\<exists>t u. s = t @ trimSpace s @ u"
proof -
  let ?l = "strip_with space_encodings s"
  let ?es = "map rev space_encodings"
  obtain t where t: "s = t @ ?l" using strip_with_suffix by blast
  obtain u where u: "rev ?l = u @ strip_with ?es (rev ?l)" using strip_with_suffix by blast
  then have "?l = trimSpace s @ rev u"
    unfolding trimSpace_def by (metis rev_append rev_rev_ident)
  with t show ?thesis by metis
qed

lemma set_trimSpace: "set (trimSpace s) \<subseteq> set s"
proof -
  obtain t u where "s = t @ trimSpace s @ u" using trimSpace_sub by blast
  then have "set s = set (t @ trimSpace s @ u)" by simp
  then show ?thesis by auto
qed

section \<open>fmt and strconv\<close>

definition digit :: "nat \<Rightarrow> char" where
  "digit n = ''0123456789abcdef'' ! n"

function show_nat :: "nat \<Rightarrow> string" where
  "show_nat n = (if n < 10 then [digit n] else show_nat (n div 10) @ [digit (n mod 10)])"
  by pat_completeness auto
termination
  by (relation "measure id") auto

declare show_nat.simps [simp del]

definition show_int :: "int \<Rightarrow> string" where
  "show_int i = (if i < 0 then ''-'' @ show_nat (nat (- i)) else show_nat (nat i))"

definition quote_byte :: "char \<Rightarrow> char \<Rightarrow> string" where
  "quote_byte q c =
     (let x = byte c in
      if c = q \<or> x = 92 then [CHR 0x5C, c]
      else if x = 7 then [CHR 0x5C, CHR ''a''] else if x = 8 then [CHR 0x5C, CHR ''b'']
      else if x = 12 then [CHR 0x5C, CHR ''f''] else if x = 10 then [CHR 0x5C, CHR ''n'']
      else if x = 13 then [CHR 0x5C, CHR ''r''] else if x = 9 then [CHR 0x5C, CHR ''t'']
      else if x = 11 then [CHR 0x5C, CHR ''v'']
      else if x < 32 \<or> x = 127 then [CHR 0x5C, CHR ''x'', digit (x div 16), digit (x mod 16)]
      else [c])"

definition quote :: "string \<Rightarrow> string" where
  "quote s = CHR 0x22 # concat (map (quote_byte (CHR 0x22)) s) @ [CHR 0x22]"

text \<open>\<open>%q\<close> of the first rune of a string; an ill-formed byte is shown as U+FFFD.\<close>

definition quote_rune :: "string \<Rightarrow> string" where
  "quote_rune s =
     [CHR 0x27]
     @ (if rune_len s = 0 then [CHR 0xEF, CHR 0xBF, CHR 0xBD]
        else concat (map (quote_byte (CHR 0x27)) (take (rune_len s) s)))
     @ [CHR 0x27]"

text \<open>\<open>%v\<close> of a \<open>[]string\<close>.\<close>

definition show_list :: "string list \<Rightarrow> string" where
  "show_list ws = ''['' @ joinWith '' '' ws @ '']''"

section \<open>time.Duration\<close>

text \<open>\<open>time.Time.Sub\<close> saturates at the bounds of a 64-bit duration.\<close>

definition time_sub :: "time \<Rightarrow> time \<Rightarrow> duration" where
  "time_sub t u = max (- (2 ^ 63)) (min (2 ^ 63 - 1) (t - u))"

definition second :: duration where
  "second = 1000000000"

definition minute :: duration where
  "minute = 60 * second"

text \<open>The digits of \<open>n\<close> padded to \<open>w\<close> places, less the trailing zeros; "" or ".ddd".\<close>

definition frac_digits :: "nat \<Rightarrow> nat \<Rightarrow> string" where
  "frac_digits w n =
     (let d = show_nat n; p = replicate (w - length d) (CHR ''0'') @ d;
          r = rev (dropWhile (\<lambda>c. c = CHR ''0'') (rev p))
      in if r = [] then [] else ''.'' @ r)"

definition show_duration :: "duration \<Rightarrow> string" where
  "show_duration d =
     (let u = nat \<bar>d\<bar>; sec = u div 1000000000; frac = u mod 1000000000;
          body =
            (if u = 0 then ''0s''
             else if u < 1000 then show_nat u @ ''ns''
             else if u < 1000000 then show_nat (u div 1000) @ frac_digits 3 (u mod 1000)
               @ [CHR 0xC2, CHR 0xB5, CHR ''s'']
             else if u < 1000000000 then show_nat (u div 1000000) @ frac_digits 6 (u mod 1000000) @ ''ms''
             else (let m = sec div 60; h = m div 60
                   in (if h > 0 then show_nat h @ ''h'' else [])
                      @ (if m > 0 then show_nat (m mod 60) @ ''m'' else [])
                      @ show_nat (sec mod 60) @ frac_digits 9 frac @ ''s''))
      in if d < 0 then ''-'' @ body else body)"

lemma show_duration_15m: "show_duration (15 * minute) = ''15m0s''"
  by (simp add: show_duration_def minute_def second_def show_nat.simps digit_def frac_digits_def Let_def)

lemma show_duration_frac: "show_duration 1500000000 = ''1.5s''"
  by (simp add: show_duration_def show_nat.simps digit_def frac_digits_def Let_def)

end
