(* ===== verification/Go_Sha256_Check.thy ===== *)
theory Go_Sha256_Check
  imports Go_Sha256
begin

text \<open>
  A check of the digest model against a published test vector, in a theory of its own because the
  kernel evaluation of one block takes most of a minute.
\<close>

text \<open>The standard's test vector for the message \<open>abc\<close>, evaluated in the kernel.\<close>

lemma sha256_abc:
  "sha256_hex ''abc'' = ''ba7816bf8f01cfea414140de5dae2223b00361a396177a9cb410ff61f20015ad''"
  by code_simp

end
