(* ===== verification/Errors.thy ===== *)
theory Errors
  imports Go_Strings
begin

text \<open>
  Go error values: plain errors, errors wrapped by \<open>fmt.Errorf\<close> with \<open>%w\<close>, the errors of the
  API server (seen only through the \<open>apierrors\<close> predicates), the errors of the git transport
  (seen only through the two \<open>errors.Is\<close> tests of the source) and the five typed errors of the
  packages \<open>git\<close>, \<open>render\<close>, \<open>apply\<close>, \<open>wire\<close> and \<open>manifest\<close>, with their
  messages and their \<open>ReasonOf\<close> functions, which walk the chain of wrapped causes as
  \<open>errors.As\<close> does. The locale \<open>typed_error\<close> states what the reconciler relies on in all
  five packages.
\<close>

section \<open>Reasons\<close>

datatype git_reason = GitFetchFailed | GitAuthFailed | GitSourceNotAllowed | GitPathNotFound

fun git_reason_text :: "git_reason \<Rightarrow> string" where
  "git_reason_text GitFetchFailed = ''FetchFailed''"
| "git_reason_text GitAuthFailed = ''AuthFailed''"
| "git_reason_text GitSourceNotAllowed = ''SourceNotAllowed''"
| "git_reason_text GitPathNotFound = ''PathNotFound''"

datatype render_reason =
  RenderTreeSafetyViolation | RenderOversize | RenderInvalidKey | RenderKeyConflict

fun render_reason_text :: "render_reason \<Rightarrow> string" where
  "render_reason_text RenderTreeSafetyViolation = ''TreeSafetyViolation''"
| "render_reason_text RenderOversize = ''Oversize''"
| "render_reason_text RenderInvalidKey = ''InvalidKey''"
| "render_reason_text RenderKeyConflict = ''KeyConflict''"

datatype apply_reason = ApplyAlreadyExistsNotOwned | ApplyApplyFailed

fun apply_reason_text :: "apply_reason \<Rightarrow> string" where
  "apply_reason_text ApplyAlreadyExistsNotOwned = ''AlreadyExistsNotOwned''"
| "apply_reason_text ApplyApplyFailed = ''ApplyFailed''"

datatype wire_reason = WireWorkloadNotFound | WireContainerNotFound | WireApplyConflict | WireWireFailed

fun wire_reason_text :: "wire_reason \<Rightarrow> string" where
  "wire_reason_text WireWorkloadNotFound = ''WorkloadNotFound''"
| "wire_reason_text WireContainerNotFound = ''ContainerNotFound''"
| "wire_reason_text WireApplyConflict = ''ApplyConflict''"
| "wire_reason_text WireWireFailed = ''WireFailed''"

datatype guard_reason =
  GuardKindNotAllowed | GuardNamespaceViolation | GuardStoreNotAllowed | GuardNameMissing

fun guard_reason_text :: "guard_reason \<Rightarrow> string" where
  "guard_reason_text GuardKindNotAllowed = ''ManifestKindNotAllowed''"
| "guard_reason_text GuardNamespaceViolation = ''ManifestNamespaceViolation''"
| "guard_reason_text GuardStoreNotAllowed = ''StoreNotAllowed''"
| "guard_reason_text GuardNameMissing = ''ManifestInvalid''"

section \<open>Error values\<close>

text \<open>
  An API error is in one of the classes of \<open>apierrors.IsNotFound\<close>, \<open>apierrors.IsConflict\<close>
  and \<open>meta.IsNoMatchError\<close>, or in none. The flag of a transport error says whether
  \<open>errors.Is\<close> finds one of go-git's two authentication errors in it.
\<close>

datatype api_class = ApiNotFound | ApiConflict | ApiNoMatch | ApiOther

datatype error =
    Plain string
  | Wrapf string error
  | Api api_class string
  | Transport bool string
  | GitErr git_reason string "error option"
  | RenderErr render_reason string
  | ApplyErr apply_reason string "error option"
  | WireErr wire_reason string "error option"
  | GuardErr guard_reason string

fun err_text :: "error \<Rightarrow> string" where
  "err_text (Plain m) = m"
| "err_text (Wrapf m e) = m @ '': '' @ err_text e"
| "err_text (Api c m) = m"
| "err_text (Transport a m) = m"
| "err_text (GitErr r m None) = m"
| "err_text (GitErr r m (Some e)) = m @ '': '' @ err_text e"
| "err_text (RenderErr r m) = m"
| "err_text (ApplyErr r m None) = apply_reason_text r @ '': '' @ m"
| "err_text (ApplyErr r m (Some e)) = apply_reason_text r @ '': '' @ m @ '': '' @ err_text e"
| "err_text (WireErr r m None) = wire_reason_text r @ '': '' @ m"
| "err_text (WireErr r m (Some e)) = wire_reason_text r @ '': '' @ m @ '': '' @ err_text e"
| "err_text (GuardErr r m) = guard_reason_text r @ '': '' @ m"

text \<open>The error and the causes it wraps, outermost first.\<close>

fun err_chain :: "error \<Rightarrow> error list" where
  "err_chain (Wrapf m e) = Wrapf m e # err_chain e"
| "err_chain (GitErr r m (Some e)) = GitErr r m (Some e) # err_chain e"
| "err_chain (ApplyErr r m (Some e)) = ApplyErr r m (Some e) # err_chain e"
| "err_chain (WireErr r m (Some e)) = WireErr r m (Some e) # err_chain e"
| "err_chain e = [e]"

fun first_some :: "('a \<Rightarrow> 'b option) \<Rightarrow> 'a list \<Rightarrow> 'b option" where
  "first_some f [] = None"
| "first_some f (x # xs) = (case f x of Some y \<Rightarrow> Some y | None \<Rightarrow> first_some f xs)"

fun as_git :: "error \<Rightarrow> git_reason option" where
  "as_git (GitErr r m e) = Some r" | "as_git e = None"

fun as_render :: "error \<Rightarrow> render_reason option" where
  "as_render (RenderErr r m) = Some r" | "as_render e = None"

fun as_apply :: "error \<Rightarrow> apply_reason option" where
  "as_apply (ApplyErr r m e) = Some r" | "as_apply e = None"

fun as_wire :: "error \<Rightarrow> wire_reason option" where
  "as_wire (WireErr r m e) = Some r" | "as_wire e = None"

fun as_guard :: "error \<Rightarrow> guard_reason option" where
  "as_guard (GuardErr r m) = Some r" | "as_guard e = None"

definition git_ReasonOf :: "error \<Rightarrow> git_reason option" where
  "git_ReasonOf e = first_some as_git (err_chain e)"

definition render_ReasonOf :: "error \<Rightarrow> render_reason option" where
  "render_ReasonOf e = first_some as_render (err_chain e)"

definition apply_ReasonOf :: "error \<Rightarrow> apply_reason option" where
  "apply_ReasonOf e = first_some as_apply (err_chain e)"

definition wire_ReasonOf :: "error \<Rightarrow> wire_reason option" where
  "wire_ReasonOf e = first_some as_wire (err_chain e)"

definition GuardReasonOf :: "error \<Rightarrow> guard_reason option" where
  "GuardReasonOf e = first_some as_guard (err_chain e)"

text \<open>The API classifications look through wrapped causes.\<close>

fun as_api :: "error \<Rightarrow> api_class option" where
  "as_api (Api c m) = Some c" | "as_api e = None"

definition api_class_of :: "error \<Rightarrow> api_class option" where
  "api_class_of e = first_some as_api (err_chain e)"

definition isNotFound :: "error \<Rightarrow> bool" where
  "isNotFound e \<longleftrightarrow> api_class_of e = Some ApiNotFound"

definition isConflict :: "error \<Rightarrow> bool" where
  "isConflict e \<longleftrightarrow> api_class_of e = Some ApiConflict"

definition isNoMatch :: "error \<Rightarrow> bool" where
  "isNoMatch e \<longleftrightarrow> api_class_of e = Some ApiNoMatch"

text \<open>\<open>errors.Is\<close> for go-git's \<open>ErrAuthenticationRequired\<close> and \<open>ErrAuthorizationFailed\<close>.\<close>

definition transport_auth :: "error \<Rightarrow> bool" where
  "transport_auth e \<longleftrightarrow> list_ex (\<lambda>x. case x of Transport a m \<Rightarrow> a | _ \<Rightarrow> False) (err_chain e)"

text \<open>Wrapping by \<open>fmt.Errorf\<close>, innermost message first.\<close>

definition wrap_all :: "string list \<Rightarrow> error \<Rightarrow> error" where
  "wrap_all ms e = fold Wrapf ms e"

section \<open>The contract of a typed error package\<close>

text \<open>
  What the reconciler relies on when it maps an error to a condition reason: a freshly made error
  carries its reason, plain wrapping does not hide it, and an error that the package did not make
  has none.
\<close>

locale typed_error =
  fixes mk :: "'r \<Rightarrow> string \<Rightarrow> error"
    and reason_of :: "error \<Rightarrow> 'r option"
  assumes reason_mk: "reason_of (mk r m) = Some r"
    and reason_wrapf: "reason_of (Wrapf m e) = reason_of e"
    and reason_plain: "reason_of (Plain m) = None"
    and reason_api: "reason_of (Api c m) = None"
begin

lemma reason_wrap_all: "reason_of (wrap_all ms e) = reason_of e"
  unfolding wrap_all_def by (induction ms arbitrary: e) (simp_all add: reason_wrapf)

lemma reason_survives: "reason_of (wrap_all ms (mk r m)) = Some r"
  by (simp add: reason_wrap_all reason_mk)

lemma no_reason_foreign:
  "reason_of (wrap_all ms (Plain m)) = None" "reason_of (wrap_all ms (Api c m)) = None"
  by (simp_all add: reason_wrap_all reason_plain reason_api)

end

interpretation git_error: typed_error "\<lambda>r m. GitErr r m None" git_ReasonOf
  by unfold_locales (simp_all add: git_ReasonOf_def)

interpretation render_error: typed_error RenderErr render_ReasonOf
  by unfold_locales (simp_all add: render_ReasonOf_def)

interpretation apply_error: typed_error "\<lambda>r m. ApplyErr r m None" apply_ReasonOf
  by unfold_locales (simp_all add: apply_ReasonOf_def)

interpretation wire_error: typed_error "\<lambda>r m. WireErr r m None" wire_ReasonOf
  by unfold_locales (simp_all add: wire_ReasonOf_def)

interpretation guard_error: typed_error GuardErr GuardReasonOf
  by unfold_locales (simp_all add: GuardReasonOf_def)

lemma apply_ReasonOf_mk [simp]: "apply_ReasonOf (ApplyErr r m e) = Some r"
  by (cases e) (simp_all add: apply_ReasonOf_def)

lemma wire_ReasonOf_mk [simp]: "wire_ReasonOf (WireErr r m e) = Some r"
  by (cases e) (simp_all add: wire_ReasonOf_def)

lemma git_ReasonOf_mk [simp]: "git_ReasonOf (GitErr r m e) = Some r"
  by (cases e) (simp_all add: git_ReasonOf_def)

lemma api_class_simps [simp]:
  "api_class_of (Api c m) = Some c"
  "api_class_of (Wrapf m e) = api_class_of e"
  "api_class_of (ApplyErr r m (Some e)) = api_class_of e"
  "api_class_of (ApplyErr r m None) = None"
  by (simp_all add: api_class_of_def)

end
