(* ===== verification/Api_Types.thy ===== *)
theory Api_Types
  imports Errors
begin

text \<open>
  The API types of \<open>api/v1alpha1\<close>: the specification and status records of a ConfigSync, the
  defaulting methods of the specification, and the constants of conditions, reasons, annotations and
  labels. Enumerations are strings, as in the source, because the reconciler handles values outside
  them. Objects of other kinds that the operator reads (Secret, Deployment, StatefulSet) are records
  of the fields the source uses.
\<close>

section \<open>Constants\<close>

abbreviation RolloutAuto :: string where "RolloutAuto \<equiv> ''auto''"
abbreviation RolloutNone :: string where "RolloutNone \<equiv> ''none''"
abbreviation BackendExternalSecret :: string where "BackendExternalSecret \<equiv> ''externalSecret''"
abbreviation BackendNativeSecret :: string where "BackendNativeSecret \<equiv> ''nativeSecret''"
abbreviation SurfaceFile :: string where "SurfaceFile \<equiv> ''file''"
abbreviation SurfaceEnv :: string where "SurfaceEnv \<equiv> ''env''"

abbreviation ConditionReady :: string where "ConditionReady \<equiv> ''Ready''"
abbreviation ConditionFetched :: string where "ConditionFetched \<equiv> ''Fetched''"
abbreviation ConditionRendered :: string where "ConditionRendered \<equiv> ''Rendered''"
abbreviation ConditionManifestsApplied :: string where "ConditionManifestsApplied \<equiv> ''ManifestsApplied''"
abbreviation ConditionSecretsReady :: string where "ConditionSecretsReady \<equiv> ''SecretsReady''"
abbreviation ConditionWorkloadWired :: string where "ConditionWorkloadWired \<equiv> ''WorkloadWired''"
abbreviation ConditionRolloutComplete :: string where "ConditionRolloutComplete \<equiv> ''RolloutComplete''"

abbreviation ReasonSynced :: string where "ReasonSynced \<equiv> ''Synced''"
abbreviation ReasonProgressing :: string where "ReasonProgressing \<equiv> ''Progressing''"
abbreviation ReasonDegraded :: string where "ReasonDegraded \<equiv> ''Degraded''"
abbreviation ReasonFetchFailed :: string where "ReasonFetchFailed \<equiv> ''FetchFailed''"
abbreviation ReasonAuthFailed :: string where "ReasonAuthFailed \<equiv> ''AuthFailed''"
abbreviation ReasonSecretNotFound :: string where "ReasonSecretNotFound \<equiv> ''SecretNotFound''"
abbreviation ReasonKeyMissing :: string where "ReasonKeyMissing \<equiv> ''KeyMissing''"
abbreviation ReasonAwaitingFirstResolution :: string where
  "ReasonAwaitingFirstResolution \<equiv> ''AwaitingFirstResolution''"
abbreviation ReasonBackendNotReady :: string where "ReasonBackendNotReady \<equiv> ''BackendNotReady''"
abbreviation ReasonDegradedServingLastGood :: string where
  "ReasonDegradedServingLastGood \<equiv> ''DegradedServingLastGood''"
abbreviation ReasonMaxDegradedExceeded :: string where
  "ReasonMaxDegradedExceeded \<equiv> ''MaxDegradedExceeded''"
abbreviation ReasonInvalidSurface :: string where "ReasonInvalidSurface \<equiv> ''InvalidSurface''"
abbreviation ReasonManifestKindNotAllowed :: string where
  "ReasonManifestKindNotAllowed \<equiv> ''ManifestKindNotAllowed''"
abbreviation ReasonManifestNamespaceViolation :: string where
  "ReasonManifestNamespaceViolation \<equiv> ''ManifestNamespaceViolation''"
abbreviation ReasonStoreNotAllowed :: string where "ReasonStoreNotAllowed \<equiv> ''StoreNotAllowed''"
abbreviation ReasonManifestInvalid :: string where "ReasonManifestInvalid \<equiv> ''ManifestInvalid''"
abbreviation ReasonManifestApplyFailed :: string where
  "ReasonManifestApplyFailed \<equiv> ''ManifestApplyFailed''"
abbreviation ReasonWorkloadNotFound :: string where "ReasonWorkloadNotFound \<equiv> ''WorkloadNotFound''"
abbreviation ReasonUnsupportedStrategy :: string where
  "ReasonUnsupportedStrategy \<equiv> ''UnsupportedStrategy''"
abbreviation ReasonApplyConflict :: string where "ReasonApplyConflict \<equiv> ''ApplyConflict''"
abbreviation ReasonSingletonViolation :: string where
  "ReasonSingletonViolation \<equiv> ''SingletonViolation''"
abbreviation ReasonRollingOut :: string where "ReasonRollingOut \<equiv> ''RollingOut''"
abbreviation ReasonProgressDeadlineExceeded :: string where
  "ReasonProgressDeadlineExceeded \<equiv> ''ProgressDeadlineExceeded''"

text \<open>Every condition reason that \<open>conditions.go\<close> declares, in its order.\<close>

definition declaredReasons :: "string list" where
  "declaredReasons =
     [ReasonSynced, ReasonProgressing, ReasonDegraded,
      ''FetchFailed'', ''AuthFailed'', ''SourceNotAllowed'', ''PathNotFound'',
      ''Oversize'', ''TreeSafetyViolation'', ''InvalidKey'', ''KeyConflict'',
      ReasonSecretNotFound, ReasonKeyMissing, ReasonAwaitingFirstResolution, ReasonBackendNotReady,
      ReasonDegradedServingLastGood, ReasonMaxDegradedExceeded, ReasonInvalidSurface,
      ReasonManifestKindNotAllowed, ReasonManifestNamespaceViolation, ReasonStoreNotAllowed,
      ReasonManifestInvalid, ReasonManifestApplyFailed,
      ReasonWorkloadNotFound, ReasonUnsupportedStrategy, ReasonApplyConflict, ReasonSingletonViolation,
      ReasonRollingOut, ReasonProgressDeadlineExceeded]"

abbreviation AnnotationConfigSHA :: string where "AnnotationConfigSHA \<equiv> ''kohen.dev/config-sha''"
abbreviation AnnotationSyncNow :: string where "AnnotationSyncNow \<equiv> ''kohen.dev/sync-now''"
abbreviation LabelGitCredential :: string where "LabelGitCredential \<equiv> ''kohen.dev/git-credential''"

section \<open>Specification\<close>

record git_source =
  src_URL :: string
  src_Ref :: string
  src_AuthSecretRef :: "string option"

record workload_ref =
  wl_Kind :: string
  wl_Name :: string

record wiring =
  wi_Container :: string
  wi_MountPath :: string

record secret_surface =
  sf_As :: string
  sf_MountPath :: string
  sf_EnvVar :: string
  sf_Key :: string
  sf_RolloutOnRotate :: "bool option"

definition ShouldRolloutOnRotate :: "secret_surface \<Rightarrow> bool" where
  "ShouldRolloutOnRotate s = (case sf_RolloutOnRotate s of None \<Rightarrow> True | Some b \<Rightarrow> b)"

record secret_reference =
  sr_Name :: string
  sr_Backend :: string
  sr_ExternalSecret :: "string option"
  sr_NativeSecret :: "string option"
  sr_Surface :: secret_surface

definition SecretName :: "secret_reference \<Rightarrow> string" where
  "SecretName r =
     (if sr_Backend r = BackendExternalSecret then
        (case sr_ExternalSecret r of Some n \<Rightarrow> n | None \<Rightarrow> [])
      else if sr_Backend r = BackendNativeSecret then
        (case sr_NativeSecret r of Some n \<Rightarrow> n | None \<Rightarrow> [])
      else [])"

record config_sync_spec =
  sp_Source :: git_source
  sp_Path :: string
  sp_WorkloadRef :: workload_ref
  sp_ConfigMapName :: string
  sp_Wiring :: wiring
  sp_Rollout :: string
  sp_SyncInterval :: duration
  sp_SecretRefs :: "secret_reference list"

definition DefaultSyncInterval :: duration where
  "DefaultSyncInterval = 30 * second"

definition ConfigMapName :: "config_sync_spec \<Rightarrow> string" where
  "ConfigMapName s =
     (if sp_ConfigMapName s \<noteq> [] then sp_ConfigMapName s
      else wl_Name (sp_WorkloadRef s) @ ''-config'')"

definition SyncInterval :: "config_sync_spec \<Rightarrow> duration" where
  "SyncInterval s = (if sp_SyncInterval s \<le> 0 then DefaultSyncInterval else sp_SyncInterval s)"

section \<open>Status\<close>

datatype condition_status = CondTrue | CondFalse | CondUnknown

record condition =
  c_Type :: string
  c_Status :: condition_status
  c_Reason :: string
  c_Message :: string
  c_ObservedGeneration :: int
  c_LastTransitionTime :: time

record secret_ref_status =
  ss_Name :: string
  ss_Resolved :: bool
  ss_Backend :: string
  ss_Reason :: string
  ss_Established :: bool

record config_sync_status =
  st_ObservedGeneration :: int
  st_SourceCommit :: string
  st_ConfigVersion :: string
  st_WorkloadVersion :: string
  st_RolloutInProgress :: bool
  st_SecretRefs :: "secret_ref_status list"
  st_Conditions :: "condition list"

record config_sync =
  cs_Namespace :: string
  cs_Name :: string
  cs_UID :: string
  cs_Generation :: int
  cs_CreationTimestamp :: time
  cs_DeletionTimestamp :: "time option"
  cs_Finalizers :: "string list"
  cs_Annotations :: "string \<rightharpoonup> string"
  cs_Spec :: config_sync_spec
  cs_Status :: config_sync_status

text \<open>\<open>DeletionTimestamp.IsZero()\<close>: absent or the zero time.\<close>

definition not_deleting :: "config_sync \<Rightarrow> bool" where
  "not_deleting cs \<longleftrightarrow> cs_DeletionTimestamp cs = None \<or> cs_DeletionTimestamp cs = Some 0"

section \<open>Lemmas\<close>

lemma SyncInterval_pos: "0 < SyncInterval s"
  by (simp add: SyncInterval_def DefaultSyncInterval_def second_def)

lemma ConfigMapName_nonempty: "ConfigMapName s \<noteq> []"
  by (simp add: ConfigMapName_def)

lemma SecretName_known_backend:
  "SecretName r \<noteq> [] \<Longrightarrow> sr_Backend r \<in> {BackendExternalSecret, BackendNativeSecret}"
  by (auto simp: SecretName_def split: if_splits)

end
