(* ===== verification/Secret_Policy.thy ===== *)
theory Secret_Policy
  imports Api_Types
begin

text \<open>
  The package \<open>internal/secret\<close>: the normalized reference, the resolution a backend returns,
  and the readiness policy \<open>Evaluate\<close> that turns the resolutions of all references into one
  decision. The abstract policy \<open>readiness\<close> states the contract of the package (first resolution
  fails closed, later outages fail safe, degradation is bounded) on the two flags of each
  reference; \<open>Evaluate\<close> refines it.
\<close>

section \<open>Data\<close>

record secret_ref =
  r_Name :: string
  r_SecretName :: string
  r_RequiredKeys :: "string list"

record resolution =
  rs_Ready :: bool
  rs_SecretName :: string
  rs_VersionToken :: string
  rs_Reason :: string
  rs_Message :: string

record evaluated_ref =
  ev_Name :: string
  ev_EnvSurfaced :: bool
  ev_RolloutOnRotate :: bool
  ev_Established :: bool
  ev_Resolution :: resolution

record decision =
  d_AllReady :: bool
  d_SecretsReady :: bool
  d_Reason :: string
  d_Message :: string
  d_ReadyReason :: string
  d_MaxDegradedExceeded :: bool
  d_EnvTokens :: "string list"

section \<open>Evaluate\<close>

definition envTokens :: "evaluated_ref list \<Rightarrow> string list" where
  "envTokens refs =
     sort (map (\<lambda>r. ev_Name r @ ''='' @ rs_VersionToken (ev_Resolution r))
             (filter (\<lambda>r. ev_EnvSurfaced r \<and> ev_RolloutOnRotate r) refs))"

definition describe :: "evaluated_ref list \<Rightarrow> string" where
  "describe refs =
     joinWith '', ''
       (map (\<lambda>r. let reason = rs_Reason (ev_Resolution r);
                     reason' = (if reason = [] then ReasonBackendNotReady else reason)
                 in ev_Name r @ '' ('' @ reason' @ '')'') refs)"

definition Evaluate :: "evaluated_ref list \<Rightarrow> time \<Rightarrow> duration \<Rightarrow> time \<Rightarrow> decision" where
  "Evaluate refs degradedSince maxDegraded now =
     (if refs = [] then
        \<lparr>d_AllReady = True, d_SecretsReady = True, d_Reason = ReasonSynced,
         d_Message = ''no secret references'', d_ReadyReason = ReasonSynced,
         d_MaxDegradedExceeded = False, d_EnvTokens = []\<rparr>
      else
        let unready = filter (\<lambda>r. \<not> rs_Ready (ev_Resolution r)) refs;
            firstUnready = filter (\<lambda>r. \<not> ev_Established r) unready
        in if unready = [] then
             \<lparr>d_AllReady = True, d_SecretsReady = True, d_Reason = ReasonSynced,
              d_Message = ''all '' @ show_nat (length refs) @ '' secret references resolved'',
              d_ReadyReason = ReasonSynced, d_MaxDegradedExceeded = False,
              d_EnvTokens = envTokens refs\<rparr>
           else if firstUnready \<noteq> [] then
             \<lparr>d_AllReady = False, d_SecretsReady = False, d_Reason = ReasonAwaitingFirstResolution,
              d_Message = ''awaiting first resolution: '' @ describe firstUnready,
              d_ReadyReason = ReasonProgressing, d_MaxDegradedExceeded = False, d_EnvTokens = []\<rparr>
           else if degradedSince \<noteq> 0 \<and> maxDegraded > 0 \<and> time_sub now degradedSince > maxDegraded then
             \<lparr>d_AllReady = False, d_SecretsReady = False, d_Reason = ReasonMaxDegradedExceeded,
              d_Message = ''serving last-good for over '' @ show_duration maxDegraded
                @ ''; not advancing: '' @ describe unready,
              d_ReadyReason = ReasonDegraded, d_MaxDegradedExceeded = True, d_EnvTokens = []\<rparr>
           else
             \<lparr>d_AllReady = False, d_SecretsReady = False, d_Reason = ReasonDegradedServingLastGood,
              d_Message = ''serving last-good, awaiting recovery: '' @ describe unready,
              d_ReadyReason = ReasonDegraded, d_MaxDegradedExceeded = False, d_EnvTokens = []\<rparr>)"

section \<open>The readiness policy, abstractly\<close>

datatype phase = Resolved | AwaitingFirst | ServingLastGood | ServingTooLong

text \<open>\<open>readiness\<close> reads one pair of flags per reference: resolved now, and established before.\<close>

definition readiness :: "(bool \<times> bool) list \<Rightarrow> bool \<Rightarrow> phase" where
  "readiness flags tooLong =
     (if list_all fst flags then Resolved
      else if list_ex (\<lambda>(ready, established). \<not> ready \<and> \<not> established) flags then AwaitingFirst
      else if tooLong then ServingTooLong
      else ServingLastGood)"

definition flags_of :: "evaluated_ref list \<Rightarrow> (bool \<times> bool) list" where
  "flags_of refs = map (\<lambda>r. (rs_Ready (ev_Resolution r), ev_Established r)) refs"

definition too_long :: "time \<Rightarrow> duration \<Rightarrow> time \<Rightarrow> bool" where
  "too_long since bound now \<longleftrightarrow> since \<noteq> 0 \<and> bound > 0 \<and> time_sub now since > bound"

fun phase_reason :: "phase \<Rightarrow> string" where
  "phase_reason Resolved = ReasonSynced"
| "phase_reason AwaitingFirst = ReasonAwaitingFirstResolution"
| "phase_reason ServingLastGood = ReasonDegradedServingLastGood"
| "phase_reason ServingTooLong = ReasonMaxDegradedExceeded"

fun phase_ready_reason :: "phase \<Rightarrow> string" where
  "phase_ready_reason Resolved = ReasonSynced"
| "phase_ready_reason AwaitingFirst = ReasonProgressing"
| "phase_ready_reason ServingLastGood = ReasonDegraded"
| "phase_ready_reason ServingTooLong = ReasonDegraded"

section \<open>Evaluate refines the policy\<close>

lemma unready_empty_iff:
  "filter (\<lambda>r. \<not> rs_Ready (ev_Resolution r)) refs = [] \<longleftrightarrow> list_all fst (flags_of refs)"
  by (induction refs) (auto simp: flags_of_def)

lemma first_unready_iff:
  "filter (\<lambda>r. \<not> ev_Established r) (filter (\<lambda>r. \<not> rs_Ready (ev_Resolution r)) refs) \<noteq> [] \<longleftrightarrow>
   list_ex (\<lambda>(ready, established). \<not> ready \<and> \<not> established) (flags_of refs)"
  by (induction refs) (auto simp: flags_of_def)

lemma Evaluate_cases:
  obtains (resolved) "readiness (flags_of refs) (too_long since bound now) = Resolved"
      "d_AllReady (Evaluate refs since bound now)" "d_SecretsReady (Evaluate refs since bound now)"
      "d_Reason (Evaluate refs since bound now) = ReasonSynced"
      "d_ReadyReason (Evaluate refs since bound now) = ReasonSynced"
      "\<not> d_MaxDegradedExceeded (Evaluate refs since bound now)"
      "d_EnvTokens (Evaluate refs since bound now) = envTokens refs"
  | (unresolved) p where "readiness (flags_of refs) (too_long since bound now) = p" "p \<noteq> Resolved"
      "\<not> d_AllReady (Evaluate refs since bound now)" "\<not> d_SecretsReady (Evaluate refs since bound now)"
      "d_Reason (Evaluate refs since bound now) = phase_reason p"
      "d_ReadyReason (Evaluate refs since bound now) = phase_ready_reason p"
      "d_MaxDegradedExceeded (Evaluate refs since bound now) = (p = ServingTooLong)"
      "d_EnvTokens (Evaluate refs since bound now) = []"
proof (cases "list_all fst (flags_of refs)")
  case True
  then have "readiness (flags_of refs) (too_long since bound now) = Resolved"
    by (simp add: readiness_def)
  moreover have "envTokens [] = []" by (simp add: envTokens_def)
  ultimately show ?thesis
    using True resolved by (cases "refs = []") (auto simp: Evaluate_def Let_def unready_empty_iff)
next
  case False
  then have ne: "refs \<noteq> []" by (auto simp: flags_of_def)
  show ?thesis
    using False ne unresolved [of "readiness (flags_of refs) (too_long since bound now)"]
    by (auto simp: Evaluate_def Let_def unready_empty_iff first_unready_iff readiness_def
        too_long_def simp del: filter_filter)
qed

lemma Evaluate_refines:
  "d_Reason (Evaluate refs since bound now) =
     phase_reason (readiness (flags_of refs) (too_long since bound now))"
  "d_ReadyReason (Evaluate refs since bound now) =
     phase_ready_reason (readiness (flags_of refs) (too_long since bound now))"
  "d_AllReady (Evaluate refs since bound now) \<longleftrightarrow>
     readiness (flags_of refs) (too_long since bound now) = Resolved"
  "d_SecretsReady (Evaluate refs since bound now) \<longleftrightarrow>
     readiness (flags_of refs) (too_long since bound now) = Resolved"
  "d_MaxDegradedExceeded (Evaluate refs since bound now) \<longleftrightarrow>
     readiness (flags_of refs) (too_long since bound now) = ServingTooLong"
  by (rule Evaluate_cases [of refs since bound now]; simp)+

lemma readiness_Resolved_iff: "readiness flags t = Resolved \<longleftrightarrow> list_all fst flags"
  by (simp add: readiness_def)

lemma Evaluate_tokens_not_ready:
  "\<not> d_AllReady (Evaluate refs since bound now) \<Longrightarrow> d_EnvTokens (Evaluate refs since bound now) = []"
  by (rule Evaluate_cases [of refs since bound now]) auto

lemma Evaluate_tokens_ready:
  "d_AllReady (Evaluate refs since bound now) \<Longrightarrow>
   d_EnvTokens (Evaluate refs since bound now) = envTokens refs"
  by (rule Evaluate_cases [of refs since bound now]) auto

text \<open>The tokens depend on the multiset of references only.\<close>

lemma envTokens_perm: "mset refs = mset refs' \<Longrightarrow> envTokens refs = envTokens refs'"
  unfolding envTokens_def
  by (intro sort_mset_cong) (simp add: mset_filter_cong [of refs refs'])

lemma readiness_perm:
  assumes "mset refs = mset refs'"
  shows "readiness (flags_of refs) t = readiness (flags_of refs') t"
proof -
  have "set (flags_of refs) = set (flags_of refs')"
    using assms by (metis flags_of_def list.set_map mset_eq_setD)
  then show ?thesis by (simp add: readiness_def list_all_iff list_ex_iff)
qed

end
