(* ===== verification/Redact.thy ===== *)
theory Redact
  imports Go_Strings
begin

text \<open>
  The package \<open>internal/redact\<close>: the registry of sensitive values and the replacement of their
  occurrences. \<open>strings.NewReplacer\<close> compares the old strings in argument order at each
  position and never overlaps matches; the arguments come from ranging over a Go map, so their
  order is a parameter of \<open>rebuild\<close>. The theorems show that no registered value occurs in a
  redacted text, for every order, and that the registry and the replacer stay in step.
\<close>

section \<open>strings.Replacer\<close>

function replace_pairs :: "(string \<times> string) list \<Rightarrow> string \<Rightarrow> string" where
  "replace_pairs ps s =
     (case s of [] \<Rightarrow> []
      | c # cs \<Rightarrow>
          (case List.find (\<lambda>p. fst p \<noteq> [] \<and> prefix (fst p) s) ps of
             Some p \<Rightarrow> snd p @ replace_pairs ps (drop (length (fst p)) s)
           | None \<Rightarrow> c # replace_pairs ps cs))"
  by pat_completeness auto
termination
  by (relation "measure (\<lambda>(ps, s). length s)") (auto dest!: find_SomeD)

declare replace_pairs.simps [simp del]

lemma replace_pairs_Nil [simp]: "replace_pairs ps [] = []"
  by (simp add: replace_pairs.simps)

lemma replace_pairs_match:
  "s \<noteq> [] \<Longrightarrow> List.find (\<lambda>p. fst p \<noteq> [] \<and> prefix (fst p) s) ps = Some p \<Longrightarrow>
   replace_pairs ps s = snd p @ replace_pairs ps (drop (length (fst p)) s)"
  by (cases s) (simp_all add: replace_pairs.simps [of ps "_ # _"])

lemma replace_pairs_miss:
  "List.find (\<lambda>p. fst p \<noteq> [] \<and> prefix (fst p) (c # cs)) ps = None \<Longrightarrow>
   replace_pairs ps (c # cs) = c # replace_pairs ps cs"
  by (subst replace_pairs.simps) simp

section \<open>Redactor\<close>

definition Placeholder :: string where
  "Placeholder = ''[REDACTED]''"

definition minSecretLen :: nat where
  "minSecretLen = 5"

record redactor =
  rd_secrets :: "string list"              \<comment> \<open>the keys of the registry\<close>
  rd_replacer :: "(string \<times> string) list"  \<comment> \<open>the arguments of the current replacer\<close>

definition redactor_New :: redactor where
  "redactor_New = \<lparr>rd_secrets = [], rd_replacer = []\<rparr>"

definition rebuild :: "(string list \<Rightarrow> string list) \<Rightarrow> redactor \<Rightarrow> redactor" where
  "rebuild order r = r\<lparr>rd_replacer := map (\<lambda>s. (s, Placeholder)) (order (rd_secrets r))\<rparr>"

definition candidates_of :: "string \<Rightarrow> string list" where
  "candidates_of s = map trimSpace (s # splitOn (CHR 0x0A) s)"

fun register :: "string list \<Rightarrow> string list \<Rightarrow> string list" where
  "register known [] = known"
| "register known (c # cs) =
     (if length c < minSecretLen \<or> c \<in> set known then register known cs
      else register (known @ [c]) cs)"

definition redactor_Add :: "(string list \<Rightarrow> string list) \<Rightarrow> string list \<Rightarrow> redactor \<Rightarrow> redactor" where
  "redactor_Add order secrets r =
     (let known = register (rd_secrets r) (concat (map candidates_of secrets))
      in if known \<noteq> rd_secrets r then rebuild order (r\<lparr>rd_secrets := known\<rparr>) else r)"

definition redactor_String :: "redactor \<Rightarrow> string \<Rightarrow> string" where
  "redactor_String r s = replace_pairs (rd_replacer r) s"

section \<open>The log sink\<close>

text \<open>
  A key-value argument of a log call is a string, an error (seen through its text) or a value of
  another type, which the sink passes through.
\<close>

datatype 'v log_value = LString string | LError string | LOther 'v

fun redact_value :: "redactor \<Rightarrow> 'v log_value \<Rightarrow> 'v log_value" where
  "redact_value r (LString s) = LString (redactor_String r s)"
| "redact_value r (LError m) = LError (redactor_String r m)"
| "redact_value r (LOther v) = LOther v"

definition redactKV :: "redactor \<Rightarrow> 'v log_value list \<Rightarrow> 'v log_value list" where
  "redactKV r kv = map (redact_value r) kv"

definition redactErr :: "redactor \<Rightarrow> string option \<Rightarrow> string option" where
  "redactErr r e = map_option (redactor_String r) e"

definition sink_Info :: "redactor \<Rightarrow> string \<Rightarrow> 'v log_value list \<Rightarrow> string \<times> 'v log_value list" where
  "sink_Info r msg kv = (redactor_String r msg, redactKV r kv)"

definition sink_Error ::
  "redactor \<Rightarrow> string option \<Rightarrow> string \<Rightarrow> 'v log_value list \<Rightarrow>
   string option \<times> string \<times> 'v log_value list" where
  "sink_Error r e msg kv = (redactErr r e, redactor_String r msg, redactKV r kv)"

text \<open>
  The wrapped sink is a parameter: the operations of the interface that derive a sink or query it, on
  its type \<open>'i\<close>. The redactor is shared, so each call uses the registry of its own time: the values
  that \<open>WithValues\<close> keeps are redacted once, when they are added.
\<close>

record ('i, 'v) log_sink =
  ls_Enabled :: "int \<Rightarrow> 'i \<Rightarrow> bool"
  ls_WithValues :: "'v log_value list \<Rightarrow> 'i \<Rightarrow> 'i"
  ls_WithName :: "string \<Rightarrow> 'i \<Rightarrow> 'i"

definition sink_Enabled :: "('i, 'v) log_sink \<Rightarrow> int \<Rightarrow> 'i \<Rightarrow> bool" where
  "sink_Enabled inner level i = ls_Enabled inner level i"

definition sink_WithValues :: "('i, 'v) log_sink \<Rightarrow> redactor \<Rightarrow> 'v log_value list \<Rightarrow> 'i \<Rightarrow> 'i" where
  "sink_WithValues inner r kv i = ls_WithValues inner (redactKV r kv) i"

definition sink_WithName :: "('i, 'v) log_sink \<Rightarrow> string \<Rightarrow> 'i \<Rightarrow> 'i" where
  "sink_WithName inner name i = ls_WithName inner name i"

section \<open>The registry and the replacer agree\<close>

definition redactor_ok :: "redactor \<Rightarrow> bool" where
  "redactor_ok r \<longleftrightarrow>
     fst ` set (rd_replacer r) = set (rd_secrets r) \<and> snd ` set (rd_replacer r) \<subseteq> {Placeholder} \<and>
     (\<forall>s \<in> set (rd_secrets r). minSecretLen \<le> length s)"

lemma set_register:
  "set (register known cs) = set known \<union> {c \<in> set cs. minSecretLen \<le> length c}"
proof (induction cs arbitrary: known)
  case (Cons c cs)
  then show ?case by (cases "length c < minSecretLen \<or> c \<in> set known") auto
qed simp

lemma redactor_New_ok: "redactor_ok redactor_New"
  by (simp add: redactor_ok_def redactor_New_def)

lemma rebuild_ok:
  assumes "\<forall>s \<in> set (rd_secrets r). minSecretLen \<le> length s" "set (order (rd_secrets r)) = set (rd_secrets r)"
  shows "redactor_ok (rebuild order r)"
proof -
  have "fst ` set (rd_replacer (rebuild order r)) = set (order (rd_secrets r))"
    by (simp add: rebuild_def image_image)
  with assms show ?thesis by (auto simp: redactor_ok_def rebuild_def)
qed

lemma redactor_Add_ok:
  assumes "redactor_ok r" "\<forall>xs. set (order xs) = set xs"
  shows "redactor_ok (redactor_Add order ss r)"
proof -
  define known where "known = register (rd_secrets r) (concat (map candidates_of ss))"
  have "\<forall>s \<in> set known. minSecretLen \<le> length s"
    using assms(1) by (auto simp: known_def set_register redactor_ok_def)
  then have "redactor_ok (rebuild order (r\<lparr>rd_secrets := known\<rparr>))"
    using assms(2) by (intro rebuild_ok) simp_all
  with assms(1) show ?thesis by (simp add: redactor_Add_def known_def Let_def)
qed

lemma redactor_Add_secrets:
  "set (rd_secrets (redactor_Add order ss r)) =
   set (rd_secrets r) \<union> {c \<in> set (concat (map candidates_of ss)). minSecretLen \<le> length c}"
  using set_register [of "rd_secrets r" "concat (map candidates_of ss)"]
  by (auto simp: redactor_Add_def Let_def rebuild_def)

section \<open>No registered value survives\<close>

text \<open>A value that no piece of the placeholder can contribute to.\<close>

definition apart :: "string \<Rightarrow> bool" where
  "apart s \<longleftrightarrow> s \<noteq> [] \<and> CHR ''['' \<notin> set s \<and> CHR '']'' \<notin> set s \<and> \<not> sublist s ''REDACTED''"

lemma prefix_replace_pairs:
  assumes "\<forall>p \<in> set ps. snd p = Placeholder" "CHR ''['' \<notin> set s" "prefix s (replace_pairs ps t)"
  shows "prefix s t"
  using assms
proof (induction ps t arbitrary: s rule: replace_pairs.induct)
  case (1 ps t)
  show ?case
  proof (cases "t = [] \<or> s = []")
    case True
    then show ?thesis using "1.prems"(3) by auto
  next
    case False
    then obtain c cs x xs where t: "t = c # cs" and s: "s = x # xs" by (metis neq_Nil_conv)
    show ?thesis
    proof (cases "List.find (\<lambda>p. fst p \<noteq> [] \<and> prefix (fst p) t) ps")
      case None
      then have "replace_pairs ps t = c # replace_pairs ps cs" using t replace_pairs_miss by blast
      with "1.prems" s have "x = c" "prefix xs (replace_pairs ps cs)" by auto
      moreover have "prefix xs cs" using "1.IH"(1) [OF t None] "1.prems" s calculation by simp
      ultimately show ?thesis using t s by simp
    next
      case (Some p)
      then have "replace_pairs ps t = snd p @ replace_pairs ps (drop (length (fst p)) t)"
        using t replace_pairs_match by blast
      moreover have "snd p = Placeholder" using Some "1.prems"(1) find_SomeD by fastforce
      ultimately show ?thesis using "1.prems" s by (auto simp: Placeholder_def)
    qed
  qed
qed

lemma sublist_Placeholder:
  assumes a: "apart s"
  shows "\<not> sublist s Placeholder"
proof
  assume "sublist s Placeholder"
  then obtain u v where uv: "Placeholder = u @ s @ v" by (auto simp: sublist_def)
  have "u \<noteq> []" using uv a by (cases s) (auto simp: apart_def Placeholder_def)
  moreover have "v \<noteq> []"
  proof
    assume "v = []"
    moreover have "s \<noteq> []" using a by (simp add: apart_def)
    ultimately have "last Placeholder = last s" using uv by (metis append_Nil2 last_appendR)
    then have "last s = CHR '']''" by (simp add: Placeholder_def)
    then show False using a last_in_set [of s] by (simp add: apart_def)
  qed
  ultimately obtain a u' v' b where "u = a # u'" "v = v' @ [b]"
    by (metis neq_Nil_conv rev_exhaust)
  then have "tl Placeholder = (u' @ s @ v') @ [b]" using uv by (metis append_Cons append_assoc list.sel(3))
  then have "butlast (tl Placeholder) = u' @ s @ v'" by (metis butlast_snoc)
  then have "''REDACTED'' = u' @ s @ v'" by (simp add: Placeholder_def)
  then show False using a by (auto simp: apart_def sublist_def)
qed

lemma suffix_Placeholder: "suffix u Placeholder \<Longrightarrow> u \<noteq> [] \<Longrightarrow> CHR '']'' \<in> set u"
proof -
  assume "suffix u Placeholder" "u \<noteq> []"
  then have "last u = last Placeholder" unfolding suffix_def by (metis last_appendR)
  then show ?thesis using \<open>u \<noteq> []\<close> last_in_set [of u] by (simp add: Placeholder_def)
qed

lemma sublist_append_Placeholder:
  assumes "apart s" "sublist s (Placeholder @ r)"
  shows "sublist s r"
proof -
  consider "sublist s Placeholder" | "sublist s r"
    | u v where "s = u @ v" "suffix u Placeholder" "prefix v r"
    using assms(2) by (auto simp: sublist_append)
  then show ?thesis
  proof cases
    case (3 u v)
    then have "u = []" using suffix_Placeholder [of u] assms(1) by (auto simp: apart_def)
    with 3 show ?thesis by (simp add: prefix_imp_sublist)
  qed (use assms(1) sublist_Placeholder in auto)
qed

lemma replace_pairs_clean:
  assumes "\<forall>p \<in> set ps. snd p = Placeholder" "apart s" "s \<in> fst ` set ps"
  shows "\<not> sublist s (replace_pairs ps t)"
  using assms
proof (induction ps t rule: replace_pairs.induct)
  case (1 ps t)
  show ?case
  proof (cases t)
    case Nil
    then show ?thesis using "1.prems"(2) by (simp add: apart_def)
  next
    case (Cons c cs)
    show ?thesis
    proof (cases "List.find (\<lambda>p. fst p \<noteq> [] \<and> prefix (fst p) t) ps")
      case None
      have "\<not> prefix s t"
        using None "1.prems"(2,3) by (auto simp: find_None_iff apart_def)
      then have "\<not> prefix s (replace_pairs ps t)"
        using prefix_replace_pairs [of ps s t] "1.prems"(1,2) by (auto simp: apart_def)
      moreover have "\<not> sublist s (replace_pairs ps cs)" using "1.IH"(1) [OF Cons None] "1.prems" by simp
      moreover have "replace_pairs ps t = c # replace_pairs ps cs"
        using None Cons replace_pairs_miss by blast
      ultimately show ?thesis by (simp add: sublist_Cons_right)
    next
      case (Some p)
      then have "replace_pairs ps t = snd p @ replace_pairs ps (drop (length (fst p)) t)"
        using Cons replace_pairs_match by blast
      moreover have "snd p = Placeholder" using Some "1.prems"(1) find_SomeD by fastforce
      moreover have "\<not> sublist s (replace_pairs ps (drop (length (fst p)) t))"
        using "1.IH"(2) [OF Cons Some] "1.prems" by simp
      ultimately show ?thesis using sublist_append_Placeholder "1.prems"(2) by metis
    qed
  qed
qed

lemma redactor_String_clean:
  assumes "redactor_ok r" "s \<in> set (rd_secrets r)" "apart s"
  shows "\<not> contains (redactor_String r t) s"
  unfolding contains_def redactor_String_def
  using assms by (intro replace_pairs_clean) (auto simp: redactor_ok_def)

text \<open>A text with no registered value is unchanged.\<close>

lemma replace_pairs_id:
  assumes "\<forall>p \<in> set ps. fst p = [] \<or> \<not> sublist (fst p) t"
  shows "replace_pairs ps t = t"
  using assms
proof (induction t)
  case (Cons c cs)
  have "List.find (\<lambda>p. fst p \<noteq> [] \<and> prefix (fst p) (c # cs)) ps = None"
    using Cons.prems prefix_imp_sublist by (fastforce simp: find_None_iff)
  moreover have "replace_pairs ps cs = cs"
    using Cons.prems by (intro Cons.IH) (auto simp: sublist_Cons_right)
  ultimately show ?case by (simp add: replace_pairs_miss)
qed simp

end
