(* ===== verification/Metrics.thy ===== *)
theory Metrics
  imports Go_Strings
begin

text \<open>
  The package \<open>internal/metrics\<close>: the counters, labelled counters, per-object gauges and duration
  histograms the operator exports, and their registration. A labelled vector is the map from label
  values to a value that Prometheus keeps; \<open>DeletePartialMatch\<close> removes every series that agrees with
  the given labels. A histogram is the list of its observations, from which the buckets follow.
\<close>

datatype counter =
    ReconcileTotal string
  | FetchErrors string
  | RenderErrors string
  | RolloutsTriggered
  | RolloutsSkipped
  | SecretResolveErrors string
  | SecretResolveTotal string
  | MaxDegradedExceededTotal
  | WireErrors string
  | ProgressDeadlineExceededTotal
  | ApplyTotal string
  | PruneTotal string

datatype histogram = ReconcileDuration | FetchDuration

record metrics =
  mt_Counters :: "counter \<Rightarrow> nat"
  mt_Degraded :: "string \<times> string \<rightharpoonup> nat"
  mt_ConfigVersionInfo :: "string \<times> string \<times> string \<rightharpoonup> nat"
  mt_Histograms :: "histogram \<Rightarrow> duration list"

definition metrics_init :: metrics where
  "metrics_init = \<lparr>mt_Counters = (\<lambda>_. 0), mt_Degraded = Map.empty, mt_ConfigVersionInfo = Map.empty,
     mt_Histograms = (\<lambda>_. [])\<rparr>"

definition Inc :: "counter \<Rightarrow> metrics \<Rightarrow> metrics" where
  "Inc c m = m\<lparr>mt_Counters := (mt_Counters m)(c := Suc (mt_Counters m c))\<rparr>"

definition Observe :: "histogram \<Rightarrow> duration \<Rightarrow> metrics \<Rightarrow> metrics" where
  "Observe h d m = m\<lparr>mt_Histograms := (mt_Histograms m)(h := mt_Histograms m h @ [d])\<rparr>"

definition SetDegraded :: "string \<Rightarrow> string \<Rightarrow> nat \<Rightarrow> metrics \<Rightarrow> metrics" where
  "SetDegraded ns name v m = m\<lparr>mt_Degraded := (mt_Degraded m)((ns, name) \<mapsto> v)\<rparr>"

definition DeletePartialMatch :: "string \<Rightarrow> string \<Rightarrow> metrics \<Rightarrow> metrics" where
  "DeletePartialMatch ns name m =
     m\<lparr>mt_ConfigVersionInfo :=
         (\<lambda>(ns', name', v). if ns' = ns \<and> name' = name then None else mt_ConfigVersionInfo m (ns', name', v))\<rparr>"

definition SetConfigVersion :: "string \<Rightarrow> string \<Rightarrow> string \<Rightarrow> metrics \<Rightarrow> metrics" where
  "SetConfigVersion ns name version m =
     (let m1 = DeletePartialMatch ns name m
      in if version \<noteq> []
         then m1\<lparr>mt_ConfigVersionInfo := (mt_ConfigVersionInfo m1)((ns, name, version) \<mapsto> 1)\<rparr>
         else m1)"

definition ClearConfigSync :: "string \<Rightarrow> string \<Rightarrow> metrics \<Rightarrow> metrics" where
  "ClearConfigSync ns name m =
     DeletePartialMatch ns name (m\<lparr>mt_Degraded := (mt_Degraded m)((ns, name) := None)\<rparr>)"

section \<open>Bounded cardinality\<close>

text \<open>The versions a ConfigSync has a series for.\<close>

definition versions_of :: "metrics \<Rightarrow> string \<Rightarrow> string \<Rightarrow> string set" where
  "versions_of m ns name = {v. mt_ConfigVersionInfo m (ns, name, v) \<noteq> None}"

lemma versions_SetConfigVersion:
  "versions_of (SetConfigVersion ns name v m) ns' name' =
     (if ns' = ns \<and> name' = name then (if v = [] then {} else {v}) else versions_of m ns' name')"
  by (auto simp: versions_of_def SetConfigVersion_def DeletePartialMatch_def Let_def)

lemma versions_ClearConfigSync:
  "versions_of (ClearConfigSync ns name m) ns' name' =
     (if ns' = ns \<and> name' = name then {} else versions_of m ns' name')"
  by (auto simp: versions_of_def ClearConfigSync_def DeletePartialMatch_def)

lemma degraded_ClearConfigSync:
  "mt_Degraded (ClearConfigSync ns name m) = (mt_Degraded m)((ns, name) := None)"
  by (simp add: ClearConfigSync_def DeletePartialMatch_def)

lemma counters_frame [simp]:
  "mt_Counters (SetConfigVersion ns name v m) = mt_Counters m"
  "mt_Counters (ClearConfigSync ns name m) = mt_Counters m"
  "mt_Counters (SetDegraded ns name d m) = mt_Counters m"
  "mt_Counters (Observe h dur m) = mt_Counters m"
  by (simp_all add: SetConfigVersion_def ClearConfigSync_def DeletePartialMatch_def SetDegraded_def Observe_def Let_def)

text \<open>At most one version series per ConfigSync, whatever the sequence of updates.\<close>

datatype metric_op = OpSet string string string | OpClear string string | OpInc counter
  | OpDegraded string string nat | OpObserve histogram duration

fun metric_step :: "metric_op \<Rightarrow> metrics \<Rightarrow> metrics" where
  "metric_step (OpSet ns name v) = SetConfigVersion ns name v"
| "metric_step (OpClear ns name) = ClearConfigSync ns name"
| "metric_step (OpInc c) = Inc c"
| "metric_step (OpDegraded ns name d) = SetDegraded ns name d"
| "metric_step (OpObserve h d) = Observe h d"

definition one_series :: "metrics \<Rightarrow> bool" where
  "one_series m \<longleftrightarrow> (\<forall>ns name. \<exists>v. versions_of m ns name \<subseteq> {v})"

lemma versions_frame [simp]:
  "versions_of (Inc c m) = versions_of m" "versions_of (SetDegraded ns name d m) = versions_of m"
  "versions_of (Observe h dur m) = versions_of m"
  by (simp_all add: versions_of_def Inc_def SetDegraded_def Observe_def fun_eq_iff)

lemma metric_step_one_series: "one_series m \<Longrightarrow> one_series (metric_step x m)"
  by (cases x) (auto simp: one_series_def versions_SetConfigVersion versions_ClearConfigSync)

lemma metric_run_one_series: "one_series (fold metric_step ops metrics_init)"
proof -
  have "one_series m \<Longrightarrow> one_series (fold metric_step ops m)" for m
    by (induction ops arbitrary: m) (simp_all add: metric_step_one_series)
  moreover have "one_series metrics_init" by (simp add: one_series_def versions_of_def metrics_init_def)
  ultimately show ?thesis by blast
qed

section \<open>Registration\<close>

datatype metric_kind = CounterKind | GaugeKind | HistogramKind

record collector =
  co_Name :: string
  co_Help :: string
  co_Kind :: metric_kind
  co_Labels :: "string list"

text \<open>The collector that a counter of the model is a series of, as its declaration names it.\<close>

primrec counter_collector :: "counter \<Rightarrow> collector" where
  "counter_collector (ReconcileTotal l) = \<lparr>co_Name = ''kohen_reconcile_total'',
     co_Help = ''ConfigSync reconcile outcomes by result.'', co_Kind = CounterKind, co_Labels = [''result'']\<rparr>"
| "counter_collector (FetchErrors l) = \<lparr>co_Name = ''kohen_fetch_errors_total'',
     co_Help = ''Git fetch/resolve failures by reason.'', co_Kind = CounterKind, co_Labels = [''reason'']\<rparr>"
| "counter_collector (RenderErrors l) = \<lparr>co_Name = ''kohen_render_errors_total'',
     co_Help = ''Config render failures by reason.'', co_Kind = CounterKind, co_Labels = [''reason'']\<rparr>"
| "counter_collector RolloutsTriggered = \<lparr>co_Name = ''kohen_rollouts_triggered_total'',
     co_Help = ''Rollouts triggered by a config-version change.'', co_Kind = CounterKind, co_Labels = []\<rparr>"
| "counter_collector RolloutsSkipped = \<lparr>co_Name = ''kohen_rollouts_skipped_total'',
     co_Help = ''Reconciles where the version stamp already matched.'', co_Kind = CounterKind, co_Labels = []\<rparr>"
| "counter_collector (SecretResolveErrors l) =
     \<lparr>co_Name = ''kohen_secret_resolve_errors_total'',
     co_Help = ''Secret resolution not-ready outcomes by reason.'', co_Kind = CounterKind, co_Labels = [''reason'']\<rparr>"
| "counter_collector (SecretResolveTotal l) =
     \<lparr>co_Name = ''kohen_secret_resolve_total'',
     co_Help = ''Secret resolution outcomes by result (success|error|pending).'', co_Kind = CounterKind, co_Labels = [''result'']\<rparr>"
| "counter_collector MaxDegradedExceededTotal =
     \<lparr>co_Name = ''kohen_secret_max_degraded_exceeded_total'',
     co_Help = ''Times a ConfigSync exceeded maxDegradedDuration serving last-good secrets.'', co_Kind = CounterKind, co_Labels = []\<rparr>"
| "counter_collector (WireErrors l) = \<lparr>co_Name = ''kohen_wire_errors_total'',
     co_Help = ''Workload wiring failures by reason.'', co_Kind = CounterKind, co_Labels = [''reason'']\<rparr>"
| "counter_collector ProgressDeadlineExceededTotal =
     \<lparr>co_Name = ''kohen_progress_deadline_exceeded_total'',
     co_Help = ''Times a workload rollout hit ProgressDeadlineExceeded.'', co_Kind = CounterKind, co_Labels = []\<rparr>"
| "counter_collector (ApplyTotal l) = \<lparr>co_Name = ''kohen_apply_total'',
     co_Help = ''Owned object apply outcomes by result (success|error).'', co_Kind = CounterKind, co_Labels = [''result'']\<rparr>"
| "counter_collector (PruneTotal l) = \<lparr>co_Name = ''kohen_prune_total'',
     co_Help = ''Owned object prune outcomes by result (success|error).'', co_Kind = CounterKind, co_Labels = [''result'']\<rparr>"

primrec histogram_collector :: "histogram \<Rightarrow> collector" where
  "histogram_collector ReconcileDuration =
     \<lparr>co_Name = ''kohen_reconcile_duration_seconds'',
     co_Help = ''ConfigSync reconcile pipeline duration.'', co_Kind = HistogramKind, co_Labels = []\<rparr>"
| "histogram_collector FetchDuration =
     \<lparr>co_Name = ''kohen_fetch_duration_seconds'',
     co_Help = ''Git fetch (resolve + checkout) duration.'', co_Kind = HistogramKind, co_Labels = []\<rparr>"

definition Degraded :: collector where
  "Degraded = \<lparr>co_Name = ''kohen_configsync_degraded'',
     co_Help = ''1 when a ConfigSync is degraded, 0 otherwise.'', co_Kind = GaugeKind, co_Labels = [''namespace'', ''name'']\<rparr>"

definition ConfigVersionInfo :: collector where
  "ConfigVersionInfo = \<lparr>co_Name = ''kohen_configsync_config_version_info'',
     co_Help = ''Applied config version per ConfigSync (value is always 1).'', co_Kind = GaugeKind,
     co_Labels = [''namespace'', ''name'', ''version'']\<rparr>"

text \<open>What \<open>init\<close> registers, in its order. A vector is registered once for all its label values.\<close>

definition registered :: "collector list" where
  "registered =
     [counter_collector (ReconcileTotal []), counter_collector (FetchErrors []), counter_collector (RenderErrors []),
      counter_collector RolloutsTriggered, counter_collector RolloutsSkipped, Degraded,
      histogram_collector ReconcileDuration, histogram_collector FetchDuration, ConfigVersionInfo,
      counter_collector (SecretResolveErrors []), counter_collector (SecretResolveTotal []),
      counter_collector MaxDegradedExceededTotal, counter_collector (WireErrors []),
      counter_collector ProgressDeadlineExceededTotal, counter_collector (ApplyTotal []),
      counter_collector (PruneTotal [])]"

text \<open>\<open>MustRegister\<close> panics when two collectors share a name: \<open>init\<close> does not. Nothing the operator
  counts or observes is missing from the registry.\<close>

lemma registered_distinct: "distinct (map co_Name registered)"
  by (simp add: registered_def Degraded_def ConfigVersionInfo_def)

lemma counter_registered: "counter_collector c \<in> set registered"
  by (cases c) (simp_all add: registered_def)

lemma histogram_registered: "histogram_collector h \<in> set registered"
  by (cases h) (simp_all add: registered_def)

end
