(* ===== verification/Kube.thy ===== *)
theory Kube
  imports Api_Types Redact Metrics "HOL-Library.Word"
begin

text \<open>
  The operator's view of the cluster. The API server and everything behind it are not code of the
  repository: they are the parameter \<open>client\<close>, one function per call the operator makes, over a
  cluster state of any type, with no assumption on what a call returns or does to that state (so a
  call may also see changes that other actors made since the call before). The world record holds
  that state, the ConfigSync object of the running reconcile (the \<open>cs\<close> pointer), the registry of
  the redactor, the metrics, and two logs, of the emitted events and of the calls that change the
  cluster, in the order the operator issued them. The operations of the client are state-monad
  actions that thread the world and append to the log.
\<close>

section \<open>Objects\<close>

text \<open>JSON-like trees (Go's \<open>map[string]any\<close>); numbers are kept as their text.\<close>

datatype json =
    JNull
  | JBool bool
  | JNum string
  | JStr string
  | JArr "json list"
  | JObj "(string \<times> json) list"

fun jfield :: "json \<Rightarrow> string \<Rightarrow> json option" where
  "jfield (JObj kvs) k = map_of kvs k"
| "jfield j k = None"

text \<open>The accessors \<open>NestedString\<close> and \<open>NestedSlice\<close>: \<open>None\<close> is not found or an error.\<close>

fun nested :: "json \<Rightarrow> string list \<Rightarrow> json option" where
  "nested j [] = Some j"
| "nested j (k # ks) = (case jfield j k of None \<Rightarrow> None | Some v \<Rightarrow> nested v ks)"

definition nestedString :: "json \<Rightarrow> string list \<Rightarrow> string option" where
  "nestedString j ks = (case nested j ks of Some (JStr s) \<Rightarrow> Some s | _ \<Rightarrow> None)"

definition nestedSlice :: "json \<Rightarrow> string list \<Rightarrow> json list option" where
  "nestedSlice j ks = (case nested j ks of Some (JArr xs) \<Rightarrow> Some xs | _ \<Rightarrow> None)"

record gvk =
  g_Group :: string
  g_Version :: string
  g_Kind :: string

record owner_ref =
  or_UID :: string
  or_Name :: string
  or_Controller :: bool

text \<open>A ConfigMap keeps its two maps; any other object is a tree (its fields besides metadata).\<close>

datatype payload =
    ConfigMapData "(string \<times> string) list" "(string \<times> bytes) list"
  | Tree json

record kobject =
  ko_GVK :: gvk
  ko_Namespace :: string
  ko_Name :: string
  ko_UID :: string
  ko_Labels :: "string \<rightharpoonup> string"
  ko_Annotations :: "string \<rightharpoonup> string"
  ko_Owners :: "owner_ref list"
  ko_ResourceVersion :: string
  ko_ManagedFields :: "string list"
  ko_Payload :: payload

definition ko_Tree :: "kobject \<Rightarrow> json" where
  "ko_Tree o' = (case ko_Payload o' of Tree j \<Rightarrow> j | ConfigMapData d b \<Rightarrow> JNull)"

text \<open>The owner that controls an object (\<open>metav1.GetControllerOf\<close>).\<close>

definition GetControllerOf :: "kobject \<Rightarrow> owner_ref option" where
  "GetControllerOf ob = List.find or_Controller (ko_Owners ob)"

record secret =
  sec_ResourceVersion :: string
  sec_Labels :: "string \<rightharpoonup> string"
  sec_Data :: "(string \<times> bytes) list"
  sec_StringData :: "(string \<times> string) list"

definition sec_value :: "secret \<Rightarrow> string \<Rightarrow> bytes" where
  "sec_value s k = (case map_of (sec_Data s) k of Some v \<Rightarrow> v | None \<Rightarrow> [])"

text \<open>Workloads: replica counts are 32-bit and generations 64-bit signed integers.\<close>

type_synonym int32 = "32 word"
type_synonym int64 = "64 word"

record workload_condition =
  wc_Type :: string
  wc_Status :: string
  wc_Reason :: string
  wc_Message :: string

record deployment =
  dp_Generation :: int64
  dp_Replicas :: "int32 option"
  dp_StrategyType :: string
  dp_TemplateAnnotations :: "string \<rightharpoonup> string"
  dp_Conditions :: "workload_condition list"
  dp_ObservedGeneration :: int64
  dp_UpdatedReplicas :: int32
  dp_StatusReplicas :: int32
  dp_AvailableReplicas :: int32

record stateful_set =
  ss_Generation :: int64
  ss_Replicas :: "int32 option"
  ss_UpdateStrategyType :: string
  ss_TemplateAnnotations :: "string \<rightharpoonup> string"
  ss_ObservedGeneration :: int64
  ss_UpdatedReplicas :: int32
  ss_ReadyReplicas :: int32
  ss_CurrentRevision :: string
  ss_UpdateRevision :: string

section \<open>Calls\<close>

text \<open>A Server-Side Apply request: the applied object, its field manager, and the force flag.\<close>

record patch =
  pa_Object :: kobject
  pa_FieldOwner :: string
  pa_Force :: bool

datatype call =
    CPatch patch
  | CDelete kobject
  | CUpdate config_sync
  | CStatusUpdate config_sync
  | CCleanup string

datatype event_type = Normal | Warning

record event =
  e_Type :: event_type
  e_Reason :: string
  e_Message :: string

text \<open>
  The calls of the cluster client. The last fields are the third-party helpers the source calls: \<open>SetControllerReference\<close>,
  \<open>SetStatusCondition\<close>, the kind lookup of the scheme, \<open>meta.ExtractList\<close>, the order in
  which Go ranges over a map, and the finalizer helpers of \<open>controllerutil\<close>.
\<close>

record 'k client =
  cl_Now :: "'k \<Rightarrow> time \<times> 'k"
  cl_GetConfigSync :: "string \<Rightarrow> string \<Rightarrow> 'k \<Rightarrow> (error + config_sync) \<times> 'k"
  cl_ListConfigSyncs :: "string \<Rightarrow> 'k \<Rightarrow> (error + config_sync list) \<times> 'k"
  cl_GetSecret :: "string \<Rightarrow> string \<Rightarrow> 'k \<Rightarrow> (error + secret) \<times> 'k"
  cl_GetDeployment :: "string \<Rightarrow> string \<Rightarrow> 'k \<Rightarrow> (error + deployment) \<times> 'k"
  cl_GetStatefulSet :: "string \<Rightarrow> string \<Rightarrow> 'k \<Rightarrow> (error + stateful_set) \<times> 'k"
  cl_GetObject :: "gvk \<Rightarrow> string \<Rightarrow> string \<Rightarrow> 'k \<Rightarrow> (error + kobject) \<times> 'k"
  cl_ListObjects :: "gvk \<Rightarrow> string \<Rightarrow> (string \<times> string) list \<Rightarrow> 'k \<Rightarrow> (error + kobject list) \<times> 'k"
  cl_Patch :: "patch \<Rightarrow> 'k \<Rightarrow> error option \<times> 'k"
  cl_Delete :: "kobject \<Rightarrow> 'k \<Rightarrow> error option \<times> 'k"
  cl_Update :: "config_sync \<Rightarrow> 'k \<Rightarrow> error option \<times> 'k"
  cl_StatusUpdate :: "config_sync \<Rightarrow> 'k \<Rightarrow> error option \<times> 'k"
  lib_SetControllerReference :: "config_sync \<Rightarrow> kobject \<Rightarrow> error + kobject"
  lib_SetStatusCondition :: "time \<Rightarrow> condition \<Rightarrow> condition list \<Rightarrow> condition list"
  lib_ObjectKinds :: "kobject \<Rightarrow> error + gvk list"
  lib_ExtractList :: "kobject list \<Rightarrow> error + kobject list"
  lib_MapOrder :: "string list \<Rightarrow> string list"
  lib_ContainsFinalizer :: "config_sync \<Rightarrow> string \<Rightarrow> bool"
  lib_AddFinalizer :: "config_sync \<Rightarrow> string \<Rightarrow> config_sync"
  lib_RemoveFinalizer :: "config_sync \<Rightarrow> string \<Rightarrow> config_sync"

record 'k world =
  w_Cluster :: 'k
  w_CS :: config_sync
  w_Redactor :: redactor
  w_Metrics :: metrics
  w_Events :: "event list"
  w_Calls :: "call list"

type_synonym ('k, 'a) act = "('k world, 'a) state"

section \<open>Actions\<close>

definition reads :: "('k \<Rightarrow> 'a \<times> 'k) \<Rightarrow> ('k, 'a) act" where
  "reads f = State (\<lambda>w. let (a, k) = f (w_Cluster w) in (a, w\<lparr>w_Cluster := k\<rparr>))"

definition writes :: "call \<Rightarrow> ('k \<Rightarrow> 'a \<times> 'k) \<Rightarrow> ('k, 'a) act" where
  "writes c f =
     State (\<lambda>w. let (a, k) = f (w_Cluster w)
                in (a, w\<lparr>w_Cluster := k, w_Calls := w_Calls w @ [c]\<rparr>))"

definition metric :: "(metrics \<Rightarrow> metrics) \<Rightarrow> ('k, unit) act" where
  "metric f = State (\<lambda>w. ((), w\<lparr>w_Metrics := f (w_Metrics w)\<rparr>))"

definition the_cs :: "('k, config_sync) act" where
  "the_cs = State (\<lambda>w. (w_CS w, w))"

definition modify_cs :: "(config_sync \<Rightarrow> config_sync) \<Rightarrow> ('k, unit) act" where
  "modify_cs f = State (\<lambda>w. ((), w\<lparr>w_CS := f (w_CS w)\<rparr>))"

definition redacted :: "string \<Rightarrow> ('k, string) act" where
  "redacted m = State (\<lambda>w. (redactor_String (w_Redactor w) m, w))"

definition emit :: "event_type \<Rightarrow> string \<Rightarrow> string \<Rightarrow> ('k, unit) act" where
  "emit t r m =
     State (\<lambda>w. ((), w\<lparr>w_Events := w_Events w @ [\<lparr>e_Type = t, e_Reason = r, e_Message = m\<rparr>]\<rparr>))"

definition k_Patch :: "'k client \<Rightarrow> patch \<Rightarrow> ('k, error option) act" where
  "k_Patch cl p = writes (CPatch p) (cl_Patch cl p)"

definition k_Delete :: "'k client \<Rightarrow> kobject \<Rightarrow> ('k, error option) act" where
  "k_Delete cl ob = writes (CDelete ob) (cl_Delete cl ob)"

definition k_Update :: "'k client \<Rightarrow> config_sync \<Rightarrow> ('k, error option) act" where
  "k_Update cl cs = writes (CUpdate cs) (cl_Update cl cs)"

definition k_StatusUpdate :: "'k client \<Rightarrow> config_sync \<Rightarrow> ('k, error option) act" where
  "k_StatusUpdate cl cs = writes (CStatusUpdate cs) (cl_StatusUpdate cl cs)"

lemma run_reads: "run_state (reads f) w = (fst (f (w_Cluster w)), w\<lparr>w_Cluster := snd (f (w_Cluster w))\<rparr>)"
  by (simp add: reads_def split_beta)

lemma run_writes:
  "run_state (writes c f) w =
     (fst (f (w_Cluster w)),
      w\<lparr>w_Cluster := snd (f (w_Cluster w)), w_Calls := w_Calls w @ [c]\<rparr>)"
  by (simp add: writes_def split_beta)

lemma run_acts:
  "run_state (metric g) w = ((), w\<lparr>w_Metrics := g (w_Metrics w)\<rparr>)"
  "run_state the_cs w = (w_CS w, w)"
  "run_state (modify_cs h) w = ((), w\<lparr>w_CS := h (w_CS w)\<rparr>)"
  "run_state (redacted m) w = (redactor_String (w_Redactor w) m, w)"
  "run_state (emit t r m) w =
     ((), w\<lparr>w_Events := w_Events w @ [\<lparr>e_Type = t, e_Reason = r, e_Message = m\<rparr>]\<rparr>)"
  by (simp_all add: metric_def the_cs_def modify_cs_def redacted_def emit_def)

lemmas run_simps = run_reads run_writes run_acts k_Patch_def k_Delete_def k_Update_def k_StatusUpdate_def

section \<open>The log of calls grows by allowed calls only\<close>

text \<open>
  \<open>issues A m\<close>: whatever the cluster answers, \<open>m\<close> appends to the log of calls only calls that
  satisfy \<open>A\<close>. Combined with the rules of the monad, this is how each handler's writes are bounded.
\<close>

definition issues :: "(call \<Rightarrow> bool) \<Rightarrow> ('k, 'a) act \<Rightarrow> bool" where
  "issues A m \<longleftrightarrow>
     (\<forall>w. \<exists>cs. w_Calls (snd (run_state m w)) = w_Calls w @ cs \<and> list_all A cs)"

named_theorems issue_rules \<open>introduction rules for the calls an action may issue\<close>

lemma issuesI:
  "(\<And>w. \<exists>cs. w_Calls (snd (run_state m w)) = w_Calls w @ cs \<and> list_all A cs) \<Longrightarrow> issues A m"
  by (simp add: issues_def)

lemma issuesE:
  assumes "issues A m"
  obtains cs where "w_Calls (snd (run_state m w)) = w_Calls w @ cs" "list_all A cs"
  using assms unfolding issues_def by blast

lemma issues_silent: "(\<And>w. w_Calls (snd (run_state m w)) = w_Calls w) \<Longrightarrow> issues A m"
  by (rule issuesI) (auto intro: exI [of _ "[]"])

lemma issues_weaken: "issues A m \<Longrightarrow> (\<And>c. A c \<Longrightarrow> B c) \<Longrightarrow> issues B m"
  unfolding issues_def by (metis list_all_iff)

lemma issues_return [issue_rules]: "issues A (State_Monad.return x)"
  by (rule issues_silent) simp

lemma issues_bind [issue_rules]:
  assumes "issues A m" "\<And>x. issues A (f x)"
  shows "issues A (State_Monad.bind m f)"
proof (rule issuesI)
  fix w
  obtain x w1 where m: "run_state m w = (x, w1)" by (cases "run_state m w")
  obtain cs1 where 1: "w_Calls w1 = w_Calls w @ cs1" "list_all A cs1"
    using issuesE [OF assms(1), of w] m by auto
  obtain cs2 where 2: "w_Calls (snd (run_state (f x) w1)) = w_Calls w1 @ cs2" "list_all A cs2"
    using issuesE [OF assms(2), of x w1] by auto
  show "\<exists>cs. w_Calls (snd (run_state (m \<bind> f) w)) = w_Calls w @ cs \<and> list_all A cs"
    using 1 2 m by (intro exI [of _ "cs1 @ cs2"]) simp
qed

lemma issues_if [issue_rules]:
  "(b \<Longrightarrow> issues A m) \<Longrightarrow> (\<not> b \<Longrightarrow> issues A n) \<Longrightarrow> issues A (if b then m else n)"
  by simp

lemma issues_option [issue_rules]:
  "(x = None \<Longrightarrow> issues A m) \<Longrightarrow> (\<And>y. x = Some y \<Longrightarrow> issues A (f y)) \<Longrightarrow>
   issues A (case x of None \<Rightarrow> m | Some y \<Rightarrow> f y)"
  by (cases x) auto

lemma issues_sum [issue_rules]:
  "(\<And>e. x = Inl e \<Longrightarrow> issues A (f e)) \<Longrightarrow> (\<And>y. x = Inr y \<Longrightarrow> issues A (g y)) \<Longrightarrow>
   issues A (case x of Inl e \<Rightarrow> f e | Inr y \<Rightarrow> g y)"
  by (cases x) auto

lemma issues_prod [issue_rules]:
  "(\<And>a b. x = (a, b) \<Longrightarrow> issues A (f a b)) \<Longrightarrow> issues A (case x of (a, b) \<Rightarrow> f a b)"
  by (cases x) auto

lemma issues_let [issue_rules]: "issues A (f x) \<Longrightarrow> issues A (let y = x in f y)"
  by simp

lemma issues_acts [issue_rules]:
  "issues A (reads f)" "issues A (metric g)" "issues A the_cs" "issues A (modify_cs h)"
  "issues A (redacted m)" "issues A (emit t r m)" "issues A State_Monad.get"
  by (rule issues_silent; simp add: run_simps)+

lemma issues_writes [issue_rules]: "A c \<Longrightarrow> issues A (writes c f)"
  by (rule issuesI) (simp add: run_writes)

lemma issues_k [issue_rules]:
  "A (CPatch p) \<Longrightarrow> issues A (k_Patch cl p)" "A (CDelete ob) \<Longrightarrow> issues A (k_Delete cl ob)"
  "A (CUpdate cs) \<Longrightarrow> issues A (k_Update cl cs)" "A (CStatusUpdate cs) \<Longrightarrow> issues A (k_StatusUpdate cl cs)"
  by (simp_all add: k_Patch_def k_Delete_def k_Update_def k_StatusUpdate_def issues_writes)

text \<open>An action that issues no call leaves the log alone.\<close>

lemma issues_nothing: "issues (\<lambda>_. False) m \<Longrightarrow> w_Calls (snd (run_state m w)) = w_Calls w"
  by (erule issuesE [of _ _ w]) (auto simp: list_all_iff)

end
