(* ===== verification/Rollout.thy ===== *)
theory Rollout
  imports Kube Go_Sha256
begin

text \<open>
  The package \<open>internal/rollout\<close>: the config version, the strategies a version stamp can drive,
  the progress of a rollout, and the stamp on the workload object for \<open>rollout: none\<close>. Replica
  counts are compared as the signed 32-bit integers they are.
\<close>

section \<open>Versions\<close>

abbreviation StampFieldManager :: string where "StampFieldManager \<equiv> ''kohen-stamp''"

definition ShortCommitLen :: nat where
  "ShortCommitLen = 12"

definition SecretHashLen :: nat where
  "SecretHashLen = 12"

definition ShortCommit :: "string \<Rightarrow> string" where
  "ShortCommit commit = (if length commit \<le> ShortCommitLen then commit else take ShortCommitLen commit)"

definition Version :: "string \<Rightarrow> string" where
  "Version commit = ''git:'' @ ShortCommit commit"

definition VersionWithSecrets :: "string \<Rightarrow> string list \<Rightarrow> string" where
  "VersionWithSecrets commit toks =
     (let base = Version commit
      in if toks = [] then base
         else base @ ''-sec:'' @ take SecretHashLen (sha256_hex (joinWith [CHR 0x00] (sort toks))))"

section \<open>Strategies and progress\<close>

definition StatefulSetSupported :: "stateful_set \<Rightarrow> bool \<times> string" where
  "StatefulSetSupported s =
     (if ss_UpdateStrategyType s = ''OnDelete''
      then (False, ''StatefulSet uses the OnDelete update strategy, which cannot be triggered by a version stamp'')
      else (True, []))"

definition DeploymentSupported :: "deployment \<Rightarrow> bool \<times> string" where
  "DeploymentSupported d =
     (if dp_StrategyType d = ''Recreate''
      then (False, ''Deployment uses the Recreate strategy, which would cause full downtime on every config change; use RollingUpdate or rollout: none'')
      else (True, []))"

record progress =
  pr_Complete :: bool
  pr_Reason :: string
  pr_Message :: string

definition rollingOut :: "string \<Rightarrow> progress" where
  "rollingOut msg = \<lparr>pr_Complete = False, pr_Reason = ReasonRollingOut, pr_Message = msg\<rparr>"

definition rolledOut :: progress where
  "rolledOut = \<lparr>pr_Complete = True, pr_Reason = ReasonSynced, pr_Message = ''rollout complete''\<rparr>"

definition show_i32 :: "int32 \<Rightarrow> string" where
  "show_i32 n = show_int (sint n)"

definition deadline_exceeded :: "workload_condition \<Rightarrow> bool" where
  "deadline_exceeded c \<longleftrightarrow>
     wc_Type c = ''Progressing'' \<and> wc_Status c = ''False'' \<and> wc_Reason c = ''ProgressDeadlineExceeded''"

definition desired_replicas :: "int32 option \<Rightarrow> int32" where
  "desired_replicas r = (case r of None \<Rightarrow> 1 | Some n \<Rightarrow> n)"

definition DeploymentProgress :: "deployment \<Rightarrow> progress" where
  "DeploymentProgress d =
     (let desired = desired_replicas (dp_Replicas d)
      in case List.find deadline_exceeded (dp_Conditions d) of
           Some c \<Rightarrow> \<lparr>pr_Complete = False, pr_Reason = ReasonProgressDeadlineExceeded, pr_Message = wc_Message c\<rparr>
         | None \<Rightarrow>
             if dp_ObservedGeneration d <s dp_Generation d then
               rollingOut ''waiting for the deployment controller to observe the updated generation''
             else if dp_UpdatedReplicas d <s desired then
               rollingOut (show_i32 (dp_UpdatedReplicas d) @ '' of '' @ show_i32 desired @ '' replicas updated'')
             else if dp_UpdatedReplicas d <s dp_StatusReplicas d then
               rollingOut (show_i32 (dp_StatusReplicas d - dp_UpdatedReplicas d)
                 @ '' old replicas pending termination'')
             else if dp_AvailableReplicas d <s desired then
               rollingOut (show_i32 (dp_AvailableReplicas d) @ '' of '' @ show_i32 desired
                 @ '' updated replicas available'')
             else rolledOut)"

definition StatefulSetProgress :: "stateful_set \<Rightarrow> progress" where
  "StatefulSetProgress s =
     (let desired = desired_replicas (ss_Replicas s)
      in if ss_ObservedGeneration s <s ss_Generation s then
           rollingOut ''waiting for the statefulset controller to observe the updated generation''
         else if ss_UpdatedReplicas s <s desired then
           rollingOut (show_i32 (ss_UpdatedReplicas s) @ '' of '' @ show_i32 desired @ '' replicas updated'')
         else if ss_ReadyReplicas s <s desired then
           rollingOut (show_i32 (ss_ReadyReplicas s) @ '' of '' @ show_i32 desired @ '' replicas ready'')
         else if ss_UpdateRevision s \<noteq> [] \<and> ss_CurrentRevision s \<noteq> ss_UpdateRevision s then
           rollingOut ''waiting for the updated revision to become current''
         else rolledOut)"

section \<open>The stamp of the workload object\<close>

text \<open>An object with only its identity: the base of every apply request for a workload.\<close>

definition apps_gvk :: "string \<Rightarrow> gvk" where
  "apps_gvk kind = \<lparr>g_Group = ''apps'', g_Version = ''v1'', g_Kind = kind\<rparr>"

definition bare_object :: "gvk \<Rightarrow> string \<Rightarrow> string \<Rightarrow> kobject" where
  "bare_object g ns name =
     \<lparr>ko_GVK = g, ko_Namespace = ns, ko_Name = name, ko_UID = [], ko_Labels = Map.empty,
      ko_Annotations = Map.empty, ko_Owners = [], ko_ResourceVersion = [], ko_ManagedFields = [],
      ko_Payload = Tree (JObj [])\<rparr>"

definition stampObject :: "string \<Rightarrow> string \<Rightarrow> string \<Rightarrow> error + kobject" where
  "stampObject kind ns name =
     (if kind = ''Deployment'' \<or> kind = ''StatefulSet'' then Inr (bare_object (apps_gvk kind) ns name)
      else Inl (Plain (''unsupported workload kind '' @ quote kind)))"

definition stampPatch :: "kobject \<Rightarrow> patch" where
  "stampPatch ob = \<lparr>pa_Object = ob, pa_FieldOwner = StampFieldManager, pa_Force = False\<rparr>"

definition StampNoRestart ::
  "'k client \<Rightarrow> string \<Rightarrow> string \<Rightarrow> string \<Rightarrow> string \<Rightarrow> ('k, error option) act" where
  "StampNoRestart cl kind ns name version =
     (case stampObject kind ns name of
        Inl e \<Rightarrow> State_Monad.return (Some e)
      | Inr ob \<Rightarrow> k_Patch cl (stampPatch (ob\<lparr>ko_Annotations := [AnnotationConfigSHA \<mapsto> version]\<rparr>)))"

definition ClearStamp ::
  "'k client \<Rightarrow> string \<Rightarrow> string \<Rightarrow> string \<Rightarrow> ('k, error option) act" where
  "ClearStamp cl kind ns name =
     (case stampObject kind ns name of
        Inl e \<Rightarrow> State_Monad.return (Some e)
      | Inr ob \<Rightarrow> do {
          r \<leftarrow> reads (cl_GetObject cl (ko_GVK ob) ns name);
          case r of
            Inl e \<Rightarrow> State_Monad.return (if isNotFound e then None else Some e)
          | Inr existing \<Rightarrow> k_Patch cl (stampPatch ob)
        })"

definition ObjectStamp ::
  "'k client \<Rightarrow> string \<Rightarrow> string \<Rightarrow> string \<Rightarrow> ('k, error + string) act" where
  "ObjectStamp cl kind ns name =
     (case stampObject kind ns name of
        Inl e \<Rightarrow> State_Monad.return (Inl e)
      | Inr ob \<Rightarrow> do {
          r \<leftarrow> reads (cl_GetObject cl (ko_GVK ob) ns name);
          State_Monad.return
            (case r of
               Inl e \<Rightarrow> Inl e
             | Inr o' \<Rightarrow> Inr (case ko_Annotations o' AnnotationConfigSHA of None \<Rightarrow> [] | Some v \<Rightarrow> v))
        })"

section \<open>Version lemmas\<close>

lemma length_ShortCommit: "length (ShortCommit c) = min (length c) 12"
  by (simp add: ShortCommit_def ShortCommitLen_def)

lemma ShortCommit_prefix: "prefix (ShortCommit c) c"
  by (simp add: ShortCommit_def take_is_prefix)

lemma VersionWithSecrets_perm:
  "mset toks = mset toks' \<Longrightarrow> VersionWithSecrets c toks = VersionWithSecrets c toks'"
proof -
  assume "mset toks = mset toks'"
  then have "sort toks = sort toks'" by (rule sort_mset_cong)
  moreover have "toks = [] \<longleftrightarrow> toks' = []" using \<open>mset toks = mset toks'\<close> by auto
  ultimately have "sort toks = sort toks'" "toks = [] \<longleftrightarrow> toks' = []" by blast+
  then show ?thesis by (cases "toks = []") (simp_all add: VersionWithSecrets_def)
qed

lemma length_VersionWithSecrets:
  "length (VersionWithSecrets c toks) = 4 + min (length c) 12 + (if toks = [] then 0 else 17)"
  by (simp add: VersionWithSecrets_def Version_def length_ShortCommit SecretHashLen_def Let_def)

text \<open>
  Two versions agree exactly when the shortened commits agree and the secret components agree, so a
  new commit or a new digest is a new version and nothing else is.
\<close>

definition sec_part :: "string list \<Rightarrow> string" where
  "sec_part toks =
     (if toks = [] then []
      else ''-sec:'' @ take SecretHashLen (sha256_hex (joinWith [CHR 0x00] (sort toks))))"

lemma VersionWithSecrets_parts: "VersionWithSecrets c toks = ''git:'' @ ShortCommit c @ sec_part toks"
  by (simp add: VersionWithSecrets_def Version_def sec_part_def Let_def)

lemma VersionWithSecrets_eq_iff:
  assumes "12 \<le> length c" "12 \<le> length c'"
  shows "VersionWithSecrets c toks = VersionWithSecrets c' toks' \<longleftrightarrow>
         take 12 c = take 12 c' \<and> sec_part toks = sec_part toks'"
  using assms by (auto simp: VersionWithSecrets_parts ShortCommit_def ShortCommitLen_def)

section \<open>Progress lemmas\<close>

lemma progress_simps [simp]:
  "\<not> pr_Complete (rollingOut m)" "pr_Complete rolledOut"
  "pr_Reason (rollingOut m) = ReasonRollingOut" "pr_Reason rolledOut = ReasonSynced"
  by (simp_all add: rollingOut_def rolledOut_def)

lemma DeploymentProgress_complete:
  "pr_Complete (DeploymentProgress d) \<longleftrightarrow>
     \<not> list_ex deadline_exceeded (dp_Conditions d) \<and>
     sint (dp_Generation d) \<le> sint (dp_ObservedGeneration d) \<and>
     sint (desired_replicas (dp_Replicas d)) \<le> sint (dp_UpdatedReplicas d) \<and>
     sint (dp_StatusReplicas d) \<le> sint (dp_UpdatedReplicas d) \<and>
     sint (desired_replicas (dp_Replicas d)) \<le> sint (dp_AvailableReplicas d)"
proof (cases "List.find deadline_exceeded (dp_Conditions d)")
  case None
  then have "\<not> list_ex deadline_exceeded (dp_Conditions d)" by (simp add: find_None_iff list_ex_iff)
  with None show ?thesis by (auto simp: DeploymentProgress_def word_sless_alt Let_def)
next
  case (Some c)
  then have "list_ex deadline_exceeded (dp_Conditions d)" using find_SomeD by (fastforce simp: list_ex_iff)
  with Some show ?thesis by (simp add: DeploymentProgress_def Let_def)
qed

lemma StatefulSetProgress_complete:
  "pr_Complete (StatefulSetProgress s) \<longleftrightarrow>
     sint (ss_Generation s) \<le> sint (ss_ObservedGeneration s) \<and>
     sint (desired_replicas (ss_Replicas s)) \<le> sint (ss_UpdatedReplicas s) \<and>
     sint (desired_replicas (ss_Replicas s)) \<le> sint (ss_ReadyReplicas s) \<and>
     (ss_UpdateRevision s = [] \<or> ss_CurrentRevision s = ss_UpdateRevision s)"
  by (auto simp: StatefulSetProgress_def word_sless_alt Let_def)

lemma DeploymentProgress_reason:
  "pr_Reason (DeploymentProgress d) =
     (if list_ex deadline_exceeded (dp_Conditions d) then ReasonProgressDeadlineExceeded
      else if pr_Complete (DeploymentProgress d) then ReasonSynced else ReasonRollingOut)"
proof (cases "List.find deadline_exceeded (dp_Conditions d)")
  case None
  then have "\<not> list_ex deadline_exceeded (dp_Conditions d)" by (simp add: find_None_iff list_ex_iff)
  with None show ?thesis by (simp add: DeploymentProgress_def Let_def)
next
  case (Some c)
  then have "list_ex deadline_exceeded (dp_Conditions d)" using find_SomeD by (fastforce simp: list_ex_iff)
  with Some show ?thesis by (simp add: DeploymentProgress_def Let_def)
qed

lemma StatefulSetProgress_reason:
  "pr_Reason (StatefulSetProgress s) =
     (if pr_Complete (StatefulSetProgress s) then ReasonSynced else ReasonRollingOut)"
  by (simp add: StatefulSetProgress_def Let_def)

section \<open>Calls of the stamp operations\<close>

text \<open>An apply request by the stamp manager, never forced, that claims no pod-template field.\<close>

fun stamp_call :: "call \<Rightarrow> bool" where
  "stamp_call (CPatch p) \<longleftrightarrow>
     pa_FieldOwner p = StampFieldManager \<and> \<not> pa_Force p \<and> ko_Payload (pa_Object p) = Tree (JObj [])"
| "stamp_call c \<longleftrightarrow> False"

lemma stampObject_payload: "stampObject kind ns name = Inr ob \<Longrightarrow> ob = bare_object (apps_gvk kind) ns name"
  by (simp add: stampObject_def split: if_splits)

lemma issues_stamps [issue_rules]:
  "issues stamp_call (StampNoRestart cl kind ns name version)"
  "issues stamp_call (ClearStamp cl kind ns name)"
  unfolding StampNoRestart_def ClearStamp_def
  by (intro issue_rules; auto simp: stampPatch_def bare_object_def dest!: stampObject_payload)+

lemma issues_ObjectStamp [issue_rules]: "issues A (ObjectStamp cl kind ns name)"
  unfolding ObjectStamp_def by (intro issue_rules)

end
