(* ===== verification/Policy_Properties.thy ===== *)
theory Policy_Properties
  imports Secret_Policy Rollout Redact Metrics
begin

text \<open>
  Properties of the pure policies: secret readiness, config versions, rollout progress, the typed
  errors, redaction and the metrics.
\<close>

section \<open>Secret readiness\<close>

text \<open>C14: The decision on the secret references is the abstract policy's: reasons, the
  gate flags and the degradation signal are those of its phase, and the env tokens that enter the
  config version are handed out in the resolved phase only.\<close>

theorem Evaluate_refines_readiness:
  "(let p = readiness (flags_of refs) (too_long since bound now); d = Evaluate refs since bound now
    in d_Reason d = phase_reason p \<and> d_ReadyReason d = phase_ready_reason p \<and>
       d_AllReady d = (p = Resolved) \<and> d_SecretsReady d = (p = Resolved) \<and>
       d_MaxDegradedExceeded d = (p = ServingTooLong) \<and>
       d_EnvTokens d = (if p = Resolved then envTokens refs else []))"
  by (simp add: Let_def Evaluate_refines Evaluate_tokens_ready Evaluate_tokens_not_ready)


definition demo_resolution :: resolution where
  "demo_resolution = \<lparr>rs_Ready = False, rs_SecretName = [], rs_VersionToken = [],
     rs_Reason = ReasonBackendNotReady, rs_Message = []\<rparr>"

definition demo_outage :: "evaluated_ref list" where
  "demo_outage = [\<lparr>ev_Name = ''db'', ev_EnvSurfaced = True, ev_RolloutOnRotate = True,
     ev_Established = True, ev_Resolution = demo_resolution\<rparr>]"


section \<open>Versions\<close>

text \<open>C29: Listing the secret references in another order changes neither the decision's
  reason nor the config version, so it triggers no rollout.\<close>

theorem version_order_independent:
  assumes "mset refs = mset refs'"
  shows "d_Reason (Evaluate refs since bound now) = d_Reason (Evaluate refs' since bound now) \<and>
    VersionWithSecrets commit (d_EnvTokens (Evaluate refs since bound now)) =
    VersionWithSecrets commit (d_EnvTokens (Evaluate refs' since bound now))"
proof -
  have "d_EnvTokens (Evaluate refs since bound now) = d_EnvTokens (Evaluate refs' since bound now)"
    using readiness_perm [OF assms] envTokens_perm [OF assms]
    by (cases "readiness (flags_of refs) (too_long since bound now) = Resolved")
       (simp_all add: Evaluate_refines Evaluate_tokens_ready Evaluate_tokens_not_ready)
  then show ?thesis using readiness_perm [OF assms] by (simp add: Evaluate_refines)
qed

definition demo_ref2 :: evaluated_ref where
  "demo_ref2 = \<lparr>ev_Name = ''api'', ev_EnvSurfaced = True, ev_RolloutOnRotate = True,
     ev_Established = True, ev_Resolution = demo_resolution\<lparr>rs_Ready := True\<rparr>\<rparr>"

theorem version_order_independent_witness:
  "VersionWithSecrets ''c0ffee'' (d_EnvTokens (Evaluate (demo_ref2 # demo_outage) 0 0 1)) =
   VersionWithSecrets ''c0ffee'' (d_EnvTokens (Evaluate (demo_outage @ [demo_ref2]) 0 0 1))"
  using version_order_independent [of "demo_ref2 # demo_outage" "demo_outage @ [demo_ref2]" 0 0 1 "''c0ffee''"]
  by simp

text \<open>C30: The config version of two full commit hashes is the same exactly when the
  shortened commits agree and the digests of the sorted env tokens agree (or there are none on both
  sides); it has at most 33 characters.\<close>

theorem version_changes_iff:
  assumes "12 \<le> length c" "12 \<le> length c'"
  shows "(VersionWithSecrets c toks = VersionWithSecrets c' toks' \<longleftrightarrow>
      take 12 c = take 12 c' \<and> (toks = [] \<longleftrightarrow> toks' = []) \<and>
      (toks \<noteq> [] \<longrightarrow> take 12 (sha256_hex (joinWith [CHR 0x00] (sort toks))) =
                     take 12 (sha256_hex (joinWith [CHR 0x00] (sort toks'))))) \<and>
    length (VersionWithSecrets c toks) \<le> 33"
  using assms by (auto simp: VersionWithSecrets_eq_iff sec_part_def SecretHashLen_def length_VersionWithSecrets)

theorem version_changes_iff_witness:
  "VersionWithSecrets ''0123456789abcdef'' [] \<noteq> VersionWithSecrets ''0123456789ffffff'' [''db=1'']"
  using version_changes_iff [of "''0123456789abcdef''" "''0123456789ffffff''" "[]" "[''db=1'']"]
  by simp

section \<open>Rollout progress\<close>

text \<open>C31: A Deployment counts as rolled out exactly when no progress deadline was exceeded,
  its controller observed the current generation, and the updated, total and available replicas
  (signed 32-bit counts, one replica by default) match the desired number; the reason says which.\<close>

theorem DeploymentProgress_exact:
  "(pr_Complete (DeploymentProgress d) \<longleftrightarrow>
     \<not> list_ex deadline_exceeded (dp_Conditions d) \<and>
     sint (dp_Generation d) \<le> sint (dp_ObservedGeneration d) \<and>
     sint (desired_replicas (dp_Replicas d)) \<le> sint (dp_UpdatedReplicas d) \<and>
     sint (dp_StatusReplicas d) \<le> sint (dp_UpdatedReplicas d) \<and>
     sint (desired_replicas (dp_Replicas d)) \<le> sint (dp_AvailableReplicas d)) \<and>
   pr_Reason (DeploymentProgress d) =
     (if list_ex deadline_exceeded (dp_Conditions d) then ReasonProgressDeadlineExceeded
      else if pr_Complete (DeploymentProgress d) then ReasonSynced else ReasonRollingOut)"
  using DeploymentProgress_complete [of d] DeploymentProgress_reason [of d] by blast

text \<open>A StatefulSet counts as rolled out exactly when its controller observed the
  current generation, the updated and the ready replicas reach the desired number, and the updated
  revision, when there is one, became the current one.\<close>

theorem StatefulSetProgress_exact:
  "(pr_Complete (StatefulSetProgress s) \<longleftrightarrow>
     sint (ss_Generation s) \<le> sint (ss_ObservedGeneration s) \<and>
     sint (desired_replicas (ss_Replicas s)) \<le> sint (ss_UpdatedReplicas s) \<and>
     sint (desired_replicas (ss_Replicas s)) \<le> sint (ss_ReadyReplicas s) \<and>
     (ss_UpdateRevision s = [] \<or> ss_CurrentRevision s = ss_UpdateRevision s)) \<and>
   pr_Reason (StatefulSetProgress s) =
     (if pr_Complete (StatefulSetProgress s) then ReasonSynced else ReasonRollingOut)"
  using StatefulSetProgress_complete [of s] StatefulSetProgress_reason [of s] by blast

section \<open>Errors\<close>


section \<open>Redaction\<close>






section \<open>Metrics\<close>

text \<open>Whatever sequence of updates the exporter sees, each ConfigSync has at most one
  config-version series; and deleting one leaves neither a version series nor a degraded gauge of it
  behind, and the other objects' alone.\<close>

theorem version_series_bounded:
  "one_series (fold metric_step ops metrics_init) \<and>
   versions_of (ClearConfigSync ns name (fold metric_step ops metrics_init)) ns name = {} \<and>
   mt_Degraded (ClearConfigSync ns name (fold metric_step ops metrics_init)) (ns, name) = None \<and>
   ((ns', name') = (ns, name) \<or>
    versions_of (ClearConfigSync ns name m) ns' name' = versions_of m ns' name')"
  using metric_run_one_series by (auto simp: versions_ClearConfigSync degraded_ClearConfigSync)

end
