(* ===== verification/Go_Url.thy ===== *)
theory Go_Url
  imports Errors
begin

text \<open>
  What the source uses of Go's \<open>net/url\<close> (Go 1.23): \<open>Parse\<close> with its error texts, \<open>Hostname\<close>, and
  \<open>String\<close> of a URL whose userinfo was replaced. Strings are byte strings, as in Go.
\<close>

section \<open>Characters\<close>

definition unhex :: "char \<Rightarrow> nat option" where
  "unhex c =
     (if is_digit c then Some (byte c - 48)
      else if 97 \<le> byte c \<and> byte c \<le> 102 then Some (byte c - 87)
      else if 65 \<le> byte c \<and> byte c \<le> 70 then Some (byte c - 55)
      else None)"

definition upper_hex :: "nat \<Rightarrow> char" where
  "upper_hex n = (if n < 10 then char_of (48 + n) else char_of (55 + n))"

datatype encoding = encodePath | encodeUserPassword | encodeHost | encodeZone | encodeFragment

definition shouldEscape :: "char \<Rightarrow> encoding \<Rightarrow> bool" where
  "shouldEscape c mode =
     (if is_alpha c \<or> is_digit c then False
      else if (mode = encodeHost \<or> mode = encodeZone) \<and> c \<in> set (CHR 0x27 # ''!$&()*+,;=:[]<>'' @ [CHR 0x22])
      then False
      else if c \<in> set ''-_.~'' then False
      else if c \<in> set ''$&+,/:;=?@'' \<and> mode = encodePath then c = CHR ''?''
      else if c \<in> set ''$&+,/:;=?@'' \<and> mode = encodeUserPassword then c \<in> set ''@/?:''
      else if c \<in> set ''$&+,/:;=?@'' \<and> mode = encodeFragment then False
      else if mode = encodeFragment \<and> c \<in> set ''!()*'' then False
      else True)"

section \<open>Percent escapes\<close>

definition EscapeError :: "string \<Rightarrow> string" where
  "EscapeError s = ''invalid URL escape '' @ quote s"

definition InvalidHostError :: "string \<Rightarrow> string" where
  "InvalidHostError s = ''invalid character '' @ quote s @ '' in host name''"

fun unescape :: "string \<Rightarrow> encoding \<Rightarrow> string + string" where
  "unescape [] mode = Inr []"
| "unescape (c # s) mode =
     (if c = CHR ''%'' then
        (case s of
           a # b # rest \<Rightarrow>
             (case (unhex a, unhex b) of
                (Some x, Some y) \<Rightarrow>
                  if mode = encodeHost \<and> x < 8 \<and> [a, b] \<noteq> ''25'' then Inl (EscapeError [c, a, b])
                  else if mode = encodeZone \<and> [a, b] \<noteq> ''25'' \<and> char_of (16 * x + y) \<noteq> CHR '' ''
                          \<and> shouldEscape (char_of (16 * x + y)) encodeHost
                  then Inl (EscapeError [c, a, b])
                  else (case unescape rest mode of
                          Inl e \<Rightarrow> Inl e | Inr t \<Rightarrow> Inr (char_of (16 * x + y) # t))
              | _ \<Rightarrow> Inl (EscapeError [c, a, b]))
         | _ \<Rightarrow> Inl (EscapeError (c # s)))
      else if (mode = encodeHost \<or> mode = encodeZone) \<and> byte c < 128 \<and> shouldEscape c mode
      then Inl (InvalidHostError [c])
      else (case unescape s mode of Inl e \<Rightarrow> Inl e | Inr t \<Rightarrow> Inr (c # t)))"

definition escape :: "string \<Rightarrow> encoding \<Rightarrow> string" where
  "escape s mode =
     concat (map (\<lambda>c. if shouldEscape c mode
                      then [CHR ''%'', upper_hex (byte c div 16), upper_hex (byte c mod 16)] else [c]) s)"

definition validEncoded :: "string \<Rightarrow> encoding \<Rightarrow> bool" where
  "validEncoded s mode \<longleftrightarrow>
     list_all (\<lambda>c. c \<in> set (CHR 0x27 # ''!$&()*+,;=:@[]%'') \<or> \<not> shouldEscape c mode) s"

section \<open>Parsing\<close>

record url =
  u_Scheme :: string
  u_Opaque :: string
  u_HasUser :: bool
  u_Host :: string
  u_Path :: string
  u_RawPath :: string
  u_ForceQuery :: bool
  u_RawQuery :: string
  u_Fragment :: string
  u_RawFragment :: string

definition empty_url :: url where
  "empty_url = \<lparr>u_Scheme = [], u_Opaque = [], u_HasUser = False, u_Host = [], u_Path = [],
     u_RawPath = [], u_ForceQuery = False, u_RawQuery = [], u_Fragment = [], u_RawFragment = []\<rparr>"

definition cutByte :: "char \<Rightarrow> string \<Rightarrow> string \<times> string" where
  "cutByte c s = (case indexByte s c of None \<Rightarrow> (s, []) | Some i \<Rightarrow> (take i s, drop (Suc i) s))"

fun indexStr :: "string \<Rightarrow> string \<Rightarrow> nat option" where
  "indexStr t [] = (if t = [] then Some 0 else None)"
| "indexStr t (c # s) =
     (if hasPrefix (c # s) t then Some 0 else map_option Suc (indexStr t s))"

fun scheme_loop :: "bool \<Rightarrow> string \<Rightarrow> string \<Rightarrow> string \<Rightarrow> string + (string \<times> string)" where
  "scheme_loop first raw seen [] = Inr ([], raw)"
| "scheme_loop first raw seen (c # s) =
     (if is_alpha c then scheme_loop False raw (seen @ [c]) s
      else if is_digit c \<or> c \<in> set ''+-.'' then
        (if first then Inr ([], raw) else scheme_loop False raw (seen @ [c]) s)
      else if c = CHR '':'' then
        (if first then Inl ''missing protocol scheme'' else Inr (seen, s))
      else Inr ([], raw))"

definition getScheme :: "string \<Rightarrow> string + (string \<times> string)" where
  "getScheme raw = scheme_loop True raw [] raw"

definition validOptionalPort :: "string \<Rightarrow> bool" where
  "validOptionalPort p = (case p of [] \<Rightarrow> True | c # ds \<Rightarrow> c = CHR '':'' \<and> list_all is_digit ds)"

definition bad_port :: "string \<Rightarrow> string" where
  "bad_port p = ''invalid port '' @ quote p @ '' after host''"

definition parseHost :: "string \<Rightarrow> string + string" where
  "parseHost host =
     (if hasPrefix host ''['' then
        (case lastIndexByte host (CHR '']'') of
           None \<Rightarrow> Inl (''missing '' @ [CHR 0x27, CHR '']'', CHR 0x27] @ '' in host'')
         | Some i \<Rightarrow>
             if \<not> validOptionalPort (drop (Suc i) host) then Inl (bad_port (drop (Suc i) host))
             else case indexStr ''%25'' (take i host) of
                    Some z \<Rightarrow>
                      (case unescape (take z host) encodeHost of
                         Inl e \<Rightarrow> Inl e
                       | Inr h1 \<Rightarrow>
                           (case unescape (drop z (take i host)) encodeZone of
                              Inl e \<Rightarrow> Inl e
                            | Inr h2 \<Rightarrow>
                                (case unescape (drop i host) encodeHost of
                                   Inl e \<Rightarrow> Inl e | Inr h3 \<Rightarrow> Inr (h1 @ h2 @ h3))))
                  | None \<Rightarrow> unescape host encodeHost)
      else case lastIndexByte host (CHR '':'') of
             None \<Rightarrow> unescape host encodeHost
           | Some i \<Rightarrow>
               if \<not> validOptionalPort (drop i host) then Inl (bad_port (drop i host))
               else unescape host encodeHost)"

definition validUserinfo :: "string \<Rightarrow> bool" where
  "validUserinfo s \<longleftrightarrow>
     list_all (\<lambda>c. is_alpha c \<or> is_digit c \<or> c \<in> set (CHR 0x27 # ''-._:~!$&()*+,;=%@'')) s"

text \<open>The host, and whether there is a userinfo (its text is never read by the source).\<close>

definition parseAuthority :: "string \<Rightarrow> string + (bool \<times> string)" where
  "parseAuthority a =
     (case lastIndexByte a (CHR ''@'') of
        None \<Rightarrow> (case parseHost a of Inl e \<Rightarrow> Inl e | Inr h \<Rightarrow> Inr (False, h))
      | Some i \<Rightarrow>
          (case parseHost (drop (Suc i) a) of
             Inl e \<Rightarrow> Inl e
           | Inr h \<Rightarrow>
               let info = take i a; (user, pass) = cutByte (CHR '':'') info
               in if \<not> validUserinfo info then Inl ''net/url: invalid userinfo''
                  else case unescape user encodeUserPassword of
                         Inl e \<Rightarrow> Inl e
                       | Inr _ \<Rightarrow>
                           (case unescape pass encodeUserPassword of
                              Inl e \<Rightarrow> Inl e | Inr _ \<Rightarrow> Inr (True, h))))"

definition setPath :: "url \<Rightarrow> string \<Rightarrow> string + url" where
  "setPath u p =
     (case unescape p encodePath of
        Inl e \<Rightarrow> Inl e
      | Inr path \<Rightarrow>
          Inr (u\<lparr>u_Path := path, u_RawPath := (if p = escape path encodePath then [] else p)\<rparr>))"

definition setFragment :: "url \<Rightarrow> string \<Rightarrow> string + url" where
  "setFragment u f =
     (case unescape f encodeFragment of
        Inl e \<Rightarrow> Inl e
      | Inr frag \<Rightarrow>
          Inr (u\<lparr>u_Fragment := frag, u_RawFragment := (if f = escape frag encodeFragment then [] else f)\<rparr>))"

definition has_ctl :: "string \<Rightarrow> bool" where
  "has_ctl s \<longleftrightarrow> list_ex (\<lambda>c. byte c < 32 \<or> byte c = 127) s"

text \<open>The hierarchical part that follows the scheme and precedes the query.\<close>

definition parse_rest :: "url \<Rightarrow> string \<Rightarrow> string + url" where
  "parse_rest u rest =
     (if \<not> hasPrefix rest ''/'' \<and> u_Scheme u \<noteq> [] then Inr (u\<lparr>u_Opaque := rest\<rparr>)
      else if \<not> hasPrefix rest ''/'' \<and> CHR '':'' \<in> set (fst (cutByte (CHR ''/'') rest)) then
        Inl ''first path segment in URL cannot contain colon''
      else if (u_Scheme u \<noteq> [] \<or> \<not> hasPrefix rest ''///'') \<and> hasPrefix rest ''//'' then
        (let after = drop 2 rest;
             (authority, tail) = (case indexByte after (CHR ''/'') of
                                    None \<Rightarrow> (after, []) | Some i \<Rightarrow> (take i after, drop i after))
         in case parseAuthority authority of
              Inl e \<Rightarrow> Inl e
            | Inr (user, host) \<Rightarrow> setPath (u\<lparr>u_HasUser := user, u_Host := host\<rparr>) tail)
      else setPath u rest)"

definition parse_nofrag :: "string \<Rightarrow> string + url" where
  "parse_nofrag raw =
     (if has_ctl raw then Inl ''net/url: invalid control character in URL''
      else if raw = ''*'' then Inr (empty_url\<lparr>u_Path := ''*''\<rparr>)
      else case getScheme raw of
             Inl e \<Rightarrow> Inl e
           | Inr (scheme, rest) \<Rightarrow>
               let u = empty_url\<lparr>u_Scheme := toLower scheme\<rparr>
               in if hasSuffix rest ''?'' \<and> count_list rest (CHR ''?'') = 1
                  then parse_rest (u\<lparr>u_ForceQuery := True\<rparr>) (butlast rest)
                  else parse_rest (u\<lparr>u_RawQuery := snd (cutByte (CHR ''?'') rest)\<rparr>)
                         (fst (cutByte (CHR ''?'') rest)))"

definition parse_error :: "string \<Rightarrow> string \<Rightarrow> error" where
  "parse_error u msg = Plain (''parse '' @ quote u @ '': '' @ msg)"

definition url_Parse :: "string \<Rightarrow> error + url" where
  "url_Parse raw =
     (let (u, frag) = cutByte (CHR ''#'') raw
      in case parse_nofrag u of
           Inl e \<Rightarrow> Inl (parse_error u e)
         | Inr url \<Rightarrow>
             if frag = [] then Inr url
             else case setFragment url frag of
                    Inl e \<Rightarrow> Inl (parse_error raw e) | Inr url' \<Rightarrow> Inr url')"

section \<open>Reading a URL\<close>

definition splitHostPort :: "string \<Rightarrow> string" where
  "splitHostPort hp =
     (let h = (case lastIndexByte hp (CHR '':'') of
                 None \<Rightarrow> hp | Some i \<Rightarrow> if validOptionalPort (drop i hp) then take i hp else hp)
      in if hasPrefix h ''['' \<and> hasSuffix h '']'' then butlast (tl h) else h)"

definition u_Hostname :: "url \<Rightarrow> string" where
  "u_Hostname u = splitHostPort (u_Host u)"

definition EscapedPath :: "url \<Rightarrow> string" where
  "EscapedPath u =
     (if u_RawPath u \<noteq> [] \<and> validEncoded (u_RawPath u) encodePath
         \<and> unescape (u_RawPath u) encodePath = Inr (u_Path u) then u_RawPath u
      else if u_Path u = ''*'' then ''*''
      else escape (u_Path u) encodePath)"

definition EscapedFragment :: "url \<Rightarrow> string" where
  "EscapedFragment u =
     (if u_RawFragment u \<noteq> [] \<and> validEncoded (u_RawFragment u) encodeFragment
         \<and> unescape (u_RawFragment u) encodeFragment = Inr (u_Fragment u) then u_RawFragment u
      else escape (u_Fragment u) encodeFragment)"

text \<open>
  \<open>String\<close> of a URL whose userinfo is \<open>user\<close> (a word that needs no escaping). Only URLs with an
  authority have a userinfo, so the branches for opaque URLs and for an omitted host do not occur.
\<close>

definition string_with_user :: "url \<Rightarrow> string \<Rightarrow> string" where
  "string_with_user u user =
     (if u_Scheme u \<noteq> [] then u_Scheme u @ '':'' else [])
     @ ''//'' @ user @ ''@'' @ escape (u_Host u) encodeHost
     @ (if EscapedPath u \<noteq> [] \<and> hd (EscapedPath u) \<noteq> CHR ''/'' \<and> u_Host u \<noteq> [] then ''/'' else [])
     @ EscapedPath u
     @ (if u_ForceQuery u \<or> u_RawQuery u \<noteq> [] then ''?'' @ u_RawQuery u else [])
     @ (if u_Fragment u \<noteq> [] then ''#'' @ EscapedFragment u else [])"

section \<open>Facts\<close>

lemma scheme_loop_colon:
  "scheme_loop first raw seen s = Inr (sch, rest) \<Longrightarrow> sch \<noteq> [] \<Longrightarrow> \<exists>t. seen @ s = sch @ CHR '':'' # rest"
  by (induction first raw seen s rule: scheme_loop.induct) (auto split: if_splits)

text \<open>A scheme is a prefix of the URL, ended by a colon.\<close>

lemma getScheme_colon:
  "getScheme raw = Inr (sch, rest) \<Longrightarrow> sch \<noteq> [] \<Longrightarrow> raw = sch @ CHR '':'' # rest"
  unfolding getScheme_def using scheme_loop_colon by fastforce

end
