(* ===== verification/Net_IP.thy ===== *)
theory Net_IP
  imports Go_Url "HOL-Library.Word"
begin

text \<open>
  What the source uses of Go's \<open>net.IP\<close>: \<open>ParseIP\<close> and the range tests of the SSRF guard, on
  lists of bytes (4 or 16 of them), and the CIDR ranges they stand for.
\<close>

unbundle bit_operations_syntax

type_synonym ip = "8 word list"

section \<open>The range tests\<close>

definition v4InV6Prefix :: ip where
  "v4InV6Prefix = [0, 0, 0, 0, 0, 0, 0, 0, 0, 0, 255, 255]"

definition To4 :: "ip \<Rightarrow> ip option" where
  "To4 a =
     (if length a = 4 then Some a
      else if length a = 16 \<and> take 12 a = v4InV6Prefix then Some (drop 12 a)
      else None)"

definition ip_Equal :: "ip \<Rightarrow> ip \<Rightarrow> bool" where
  "ip_Equal a b =
     (if length a = length b then a = b
      else if length a = 4 \<and> length b = 16 then take 12 b = v4InV6Prefix \<and> a = drop 12 b
      else if length a = 16 \<and> length b = 4 then take 12 a = v4InV6Prefix \<and> drop 12 a = b
      else False)"

definition IPv4zero :: ip where "IPv4zero = v4InV6Prefix @ [0, 0, 0, 0]"
definition IPv6unspecified :: ip where "IPv6unspecified = [0, 0, 0, 0, 0, 0, 0, 0, 0, 0, 0, 0, 0, 0, 0, 0]"
definition IPv6loopback :: ip where "IPv6loopback = [0, 0, 0, 0, 0, 0, 0, 0, 0, 0, 0, 0, 0, 0, 0, 1]"

definition IsUnspecified :: "ip \<Rightarrow> bool" where
  "IsUnspecified a \<longleftrightarrow> ip_Equal a IPv4zero \<or> ip_Equal a IPv6unspecified"

definition IsLoopback :: "ip \<Rightarrow> bool" where
  "IsLoopback a = (case To4 a of Some b \<Rightarrow> b ! 0 = 127 | None \<Rightarrow> ip_Equal a IPv6loopback)"

definition IsMulticast :: "ip \<Rightarrow> bool" where
  "IsMulticast a =
     (case To4 a of Some b \<Rightarrow> b ! 0 AND 0xf0 = 0xe0 | None \<Rightarrow> length a = 16 \<and> a ! 0 = 0xff)"

definition IsInterfaceLocalMulticast :: "ip \<Rightarrow> bool" where
  "IsInterfaceLocalMulticast a \<longleftrightarrow> length a = 16 \<and> a ! 0 = 0xff \<and> a ! 1 AND 0x0f = 0x01"

definition IsLinkLocalMulticast :: "ip \<Rightarrow> bool" where
  "IsLinkLocalMulticast a =
     (case To4 a of
        Some b \<Rightarrow> b ! 0 = 224 \<and> b ! 1 = 0 \<and> b ! 2 = 0
      | None \<Rightarrow> length a = 16 \<and> a ! 0 = 0xff \<and> a ! 1 AND 0x0f = 0x02)"

definition IsLinkLocalUnicast :: "ip \<Rightarrow> bool" where
  "IsLinkLocalUnicast a =
     (case To4 a of
        Some b \<Rightarrow> b ! 0 = 169 \<and> b ! 1 = 254
      | None \<Rightarrow> length a = 16 \<and> a ! 0 = 0xfe \<and> a ! 1 AND 0xc0 = 0x80)"

section \<open>ParseIP\<close>

definition decimal :: "string \<Rightarrow> nat" where
  "decimal ds = foldl (\<lambda>n c. 10 * n + (byte c - 48)) 0 ds"

definition octet :: "string \<Rightarrow> 8 word option" where
  "octet f =
     (if f \<noteq> [] \<and> list_all is_digit f \<and> (hd f = CHR ''0'' \<longrightarrow> length f = 1) \<and> decimal f \<le> 255
      then Some (of_nat (decimal f)) else None)"

text \<open>Four decimal fields without leading zeros.\<close>

definition parseIPv4Fields :: "string \<Rightarrow> ip option" where
  "parseIPv4Fields s =
     (case map octet (splitOn (CHR ''.'') s) of
        [Some a, Some b, Some c, Some d] \<Rightarrow> Some [a, b, c, d]
      | _ \<Rightarrow> None)"

definition is_hex :: "char \<Rightarrow> bool" where
  "is_hex c \<longleftrightarrow> unhex c \<noteq> None"

definition hex_value :: "string \<Rightarrow> nat" where
  "hex_value ds = foldl (\<lambda>n c. 16 * n + the (unhex c)) 0 ds"

text \<open>
  The group loop of \<open>netip.parseIPv6\<close>: the bytes so far, the position of the ellipsis, the rest of
  the text. The result is the bytes and the ellipsis once the text is consumed.
\<close>

function ipv6_groups :: "ip \<Rightarrow> nat option \<Rightarrow> string \<Rightarrow> (ip \<times> nat option) option" where
  "ipv6_groups acc ell s =
     (if 16 \<le> length acc then (if s = [] then Some (acc, ell) else None)
      else
        let ds = takeWhile is_hex s; rest = dropWhile is_hex s; v = hex_value ds;
            acc' = acc @ [of_nat (v div 256), of_nat (v mod 256)]
        in if ds = [] \<or> 4 < length ds then None
           else case rest of
                  [] \<Rightarrow> Some (acc', ell)
                | c # rest' \<Rightarrow>
                    if c = CHR ''.'' then
                      (if ell = None \<and> length acc \<noteq> 12 then None
                       else if 16 < length acc + 4 then None
                       else map_option (\<lambda>b. (acc @ b, ell)) (parseIPv4Fields s))
                    else if c \<noteq> CHR '':'' \<or> rest' = [] then None
                    else if hd rest' = CHR '':'' then
                      (if ell \<noteq> None then None
                       else if tl rest' = [] then Some (acc', Some (length acc'))
                       else ipv6_groups acc' (Some (length acc')) (tl rest'))
                    else ipv6_groups acc' ell rest')"
  by pat_completeness auto

termination
proof (relation "measure (\<lambda>(acc, ell, s). length s)", goal_cases)
  case 1 then show ?case by simp
next
  case (2 acc ell s ds rest v acc' c rest')
  then have "length (c # rest') \<le> length s" by (metis length_dropWhile_le)
  then show ?case by (cases rest') auto
next
  case (3 acc ell s ds rest v acc' c rest')
  then have "length (c # rest') \<le> length s" by (metis length_dropWhile_le)
  then show ?case by auto
qed

declare ipv6_groups.simps [simp del]

text \<open>The ellipsis expands to the missing bytes, and must expand to at least one.\<close>

definition ipv6_expand :: "ip \<times> nat option \<Rightarrow> ip option" where
  "ipv6_expand r =
     (case r of (acc, ell) \<Rightarrow>
        if length acc < 16 then
          (case ell of
             None \<Rightarrow> None
           | Some e \<Rightarrow> Some (take e acc @ replicate (16 - length acc) 0 @ drop e acc))
        else if ell = None then Some acc else None)"

definition parseIPv6 :: "string \<Rightarrow> ip option" where
  "parseIPv6 s =
     (if hasPrefix s ''::'' then
        (if drop 2 s = [] then Some (replicate 16 0)
         else Option.bind (ipv6_groups [] (Some 0) (drop 2 s)) ipv6_expand)
      else Option.bind (ipv6_groups [] None s) ipv6_expand)"

text \<open>
  \<open>net.ParseIP\<close>: the first of the bytes \<open>.\<close>, \<open>:\<close>, \<open>%\<close> decides the format; an address with a
  zone is not accepted. The result has 16 bytes.
\<close>

definition ParseIP :: "string \<Rightarrow> ip option" where
  "ParseIP s =
     (if CHR ''%'' \<in> set s then None
      else case List.find (\<lambda>c. c = CHR ''.'' \<or> c = CHR '':'') s of
             None \<Rightarrow> None
           | Some c \<Rightarrow>
               if c = CHR ''.'' then map_option (\<lambda>b. v4InV6Prefix @ b) (parseIPv4Fields s)
               else parseIPv6 s)"

lemma parseIPv4Fields_length: "parseIPv4Fields s = Some a \<Longrightarrow> length a = 4"
  by (auto simp: parseIPv4Fields_def split: list.splits option.splits)

section \<open>The ranges as CIDR blocks\<close>

text \<open>The bits of an address, most significant first, and membership in the block \<open>net/len\<close>.\<close>

definition byte_bits :: "8 word \<Rightarrow> bool list" where
  "byte_bits b = map (bit b) [7, 6, 5, 4, 3, 2, 1, 0]"

definition ip_bits :: "ip \<Rightarrow> bool list" where
  "ip_bits a = concat (map byte_bits a)"

definition in_block :: "ip \<Rightarrow> nat \<Rightarrow> ip \<Rightarrow> bool" where
  "in_block net len a \<longleftrightarrow> length a = length net \<and> take len (ip_bits a) = take len (ip_bits net)"

lemma byte_bits_length [simp]: "length (byte_bits b) = 8"
  by (simp add: byte_bits_def)

lemma byte_eq_bits: "(a :: 8 word) = b \<longleftrightarrow> (\<forall>n \<in> {0, 1, 2, 3, 4, 5, 6, 7}. bit a n = bit b n)"
proof
  assume "\<forall>n \<in> {0, 1, 2, 3, 4, 5, 6, 7}. bit a n = bit b n"
  then have "bit a n = bit b n" if "n < 8" for n using that by (auto simp: numeral_eq_Suc less_Suc_eq)
  then show "a = b" by (intro bit_word_eqI) simp
qed simp

lemma byte_bits_inj [simp]: "byte_bits a = byte_bits b \<longleftrightarrow> a = b"
proof
  assume "byte_bits a = byte_bits b"
  then have "\<And>n. n < 8 \<Longrightarrow> bit a n = bit b n"
    by (auto simp: byte_bits_def numeral_eq_Suc less_Suc_eq)
  then show "a = b" by (intro bit_word_eqI) simp
qed simp

lemma take_ip_bits_Cons:
  "take n (ip_bits (b # bs)) = (if n \<le> 8 then take n (byte_bits b) else byte_bits b @ take (n - 8) (ip_bits bs))"
  by (simp add: ip_bits_def)

lemma ip_bits_inj: "length a = length b \<Longrightarrow> ip_bits a = ip_bits b \<longleftrightarrow> a = b"
proof (induction a b rule: list_induct2)
  case (Cons x xs y ys)
  then show ?case by (simp add: ip_bits_def)
qed simp

lemma length_ip_bits [simp]: "length (ip_bits a) = 8 * length a"
  by (induction a) (simp_all add: ip_bits_def)

text \<open>The masked comparisons of the source are comparisons of leading bits.\<close>

lemma top4_bits: "b AND 0xf0 = 0xe0 \<longleftrightarrow> take 4 (byte_bits b) = [True, True, True, False]"
  unfolding byte_eq_bits by (auto simp: bit_simps byte_bits_def)

lemma top2_bits: "b AND 0xc0 = 0x80 \<longleftrightarrow> take 2 (byte_bits b) = [True, False]"
  unfolding byte_eq_bits by (auto simp: bit_simps byte_bits_def)

end
