(* ===== verification/Url_Guard.thy ===== *)
theory Url_Guard
  imports Net_IP
begin

text \<open>
  The gate in front of every fetch (\<open>internal/git/url.go\<close>, \<open>transport.go\<close>): classification of the
  source URL, the SSRF guard on its host, the operator's allow-list, and the guard on redirects.
\<close>

section \<open>Data\<close>

datatype transportKind = transportHTTPS | transportSSH | transportLocal

record parsedURL =
  pu_raw :: string
  pu_kind :: transportKind
  pu_host :: string

text \<open>The DNS resolver is a service: a function from host names to an error or addresses.\<close>

type_synonym resolver = "string \<Rightarrow> error + ip list"

record git_client =
  gc_allowList :: "string list"
  gc_allowLocalTransport :: bool
  gc_allowLoopback :: bool
  gc_resolver :: "resolver option"
  gc_caching :: bool

definition git_newError :: "git_reason \<Rightarrow> string \<Rightarrow> error" where
  [go_defs]: "git_newError r m = GitErr r m None"

definition git_wrapError :: "git_reason \<Rightarrow> error \<Rightarrow> string \<Rightarrow> error" where
  [go_defs]: "git_wrapError r e m = GitErr r m (Some e)"

definition allowedSchemes :: "string \<Rightarrow> transportKind option" where
  "allowedSchemes s =
     (if s = ''https'' then Some transportHTTPS else if s = ''ssh'' then Some transportSSH else None)"

section \<open>Classification\<close>

definition url_redact :: "string \<Rightarrow> string" where
  "url_redact raw =
     (case url_Parse raw of
        Inl e \<Rightarrow> raw
      | Inr u \<Rightarrow> if u_HasUser u then string_with_user u ''redacted'' else raw)"

definition scpHost :: "string \<Rightarrow> string option" where
  "scpHost s =
     (case indexByte s (CHR '':'') of
        None \<Rightarrow> None
      | Some 0 \<Rightarrow> None
      | Some colon \<Rightarrow>
          (let authority = take colon s
           in if CHR ''/'' \<in> set authority then None
              else let host = (case lastIndexByte authority (CHR ''@'') of
                                 None \<Rightarrow> authority | Some at \<Rightarrow> drop (at + 1) authority)
                   in if host = [] then None else Some host))"

definition parseURL :: "string \<Rightarrow> bool \<Rightarrow> error + parsedURL" where
  "parseURL raw allowLocal =
     (let trimmed = trimSpace raw
      in if trimmed = [] then Inl (git_newError GitSourceNotAllowed ''source url is empty'')
         else if contains trimmed ''://'' then
           (case url_Parse trimmed of
              Inl e \<Rightarrow> Inl (git_wrapError GitSourceNotAllowed e
                        (''invalid source url '' @ quote (url_redact raw)))
            | Inr u \<Rightarrow>
                let scheme = toLower (u_Scheme u)
                in if scheme = ''file'' then
                     (if \<not> allowLocal then
                        Inl (git_newError GitSourceNotAllowed
                          (''scheme '' @ quote scheme @ '' is not allowed''))
                      else Inr \<lparr>pu_raw = trimmed, pu_kind = transportLocal, pu_host = []\<rparr>)
                   else case allowedSchemes scheme of
                          None \<Rightarrow> Inl (git_newError GitSourceNotAllowed
                            (''scheme '' @ quote scheme
                              @ '' is not allowed (only https and ssh are permitted)''))
                        | Some kind \<Rightarrow>
                            if u_Hostname u = [] then
                              Inl (git_newError GitSourceNotAllowed
                                (''source url '' @ quote (url_redact raw) @ '' has no host''))
                            else Inr \<lparr>pu_raw = trimmed, pu_kind = kind, pu_host = u_Hostname u\<rparr>)
         else case scpHost trimmed of
                Some host \<Rightarrow> Inr \<lparr>pu_raw = trimmed, pu_kind = transportSSH, pu_host = host\<rparr>
              | None \<Rightarrow>
                  if allowLocal then Inr \<lparr>pu_raw = trimmed, pu_kind = transportLocal, pu_host = []\<rparr>
                  else Inl (git_newError GitSourceNotAllowed
                    (''source url '' @ quote (url_redact raw)
                      @ '' has no supported scheme (use https:// or ssh://)'')))"

section \<open>Guards\<close>

text \<open>The word for a refused range; \<open>None\<close> is an address the operator may reach.\<close>

definition blockedIP :: "ip \<Rightarrow> string option" where
  "blockedIP a =
     (if IsLoopback a then Some ''loopback''
      else if IsUnspecified a then Some ''unspecified''
      else if IsLinkLocalUnicast a then Some ''link-local''
      else if IsLinkLocalMulticast a then Some ''link-local multicast''
      else if IsMulticast a then Some ''multicast''
      else if IsInterfaceLocalMulticast a then Some ''interface-local multicast''
      else None)"

definition checkIP :: "bool \<Rightarrow> ip \<Rightarrow> string option" where
  "checkIP allowLoopback a = (if allowLoopback \<and> IsLoopback a then None else blockedIP a)"

fun check_addrs :: "bool \<Rightarrow> string \<Rightarrow> ip list \<Rightarrow> error option" where
  "check_addrs lb host [] = None"
| "check_addrs lb host (a # as) =
     (case checkIP lb a of
        Some why \<Rightarrow>
          Some (git_newError GitSourceNotAllowed
            (''source host '' @ quote host @ '' resolves to a '' @ why @ '' address''))
      | None \<Rightarrow> check_addrs lb host as)"

definition guardResolvedHostAllowing :: "resolver option \<Rightarrow> string \<Rightarrow> bool \<Rightarrow> error option" where
  "guardResolvedHostAllowing res host lb =
     (case ParseIP host of
        Some a \<Rightarrow>
          (case checkIP lb a of
             Some why \<Rightarrow>
               Some (git_newError GitSourceNotAllowed
                 (''source host '' @ quote host @ '' is a '' @ why @ '' address''))
           | None \<Rightarrow> None)
      | None \<Rightarrow>
          (case res of
             None \<Rightarrow> None
           | Some lookup \<Rightarrow>
               (case lookup host of
                  Inl e \<Rightarrow> Some (git_wrapError GitFetchFailed e (''resolving source host '' @ quote host))
                | Inr addrs \<Rightarrow> check_addrs lb host addrs)))"

definition guardResolvedHost :: "resolver option \<Rightarrow> string \<Rightarrow> error option" where
  "guardResolvedHost res host = guardResolvedHostAllowing res host False"

definition guardHost :: "git_client \<Rightarrow> string \<Rightarrow> error option" where
  "guardHost c host = guardResolvedHostAllowing (gc_resolver c) host (gc_allowLoopback c)"

definition entry_permits :: "parsedURL \<Rightarrow> string \<Rightarrow> bool" where
  "entry_permits p entry0 =
     (let entry = trimSpace entry0
      in if entry = [] then False
         else if contains entry ''/'' then hasPrefix (pu_raw p) entry
         else pu_host p = entry \<or> hasSuffix (pu_host p) (''.'' @ entry))"

definition checkAllowList :: "git_client \<Rightarrow> parsedURL \<Rightarrow> error option" where
  "checkAllowList c p =
     (if gc_allowList c = [] then None
      else if list_ex (entry_permits p) (gc_allowList c) then None
      else Some (git_newError GitSourceNotAllowed
        (''source url '' @ quote (url_redact (pu_raw p))
          @ '' is not permitted by the operator source allow-list'')))"

definition validate :: "git_client \<Rightarrow> parsedURL \<Rightarrow> error option" where
  "validate c p =
     (if pu_kind p = transportLocal then None
      else case guardHost c (pu_host p) of
             Some e \<Rightarrow> Some e
           | None \<Rightarrow> checkAllowList c p)"

section \<open>Redirects\<close>

definition maxRedirects :: nat where "maxRedirects = 10"

definition guardRedirect :: "resolver option \<Rightarrow> string \<Rightarrow> string \<Rightarrow> error option" where
  "guardRedirect res scheme host =
     (if toLower scheme \<noteq> ''https'' then
        Some (git_newError GitSourceNotAllowed
          (''redirect to non-https scheme '' @ quote scheme @ '' blocked''))
      else guardResolvedHost res host)"

text \<open>
  The policy that \<open>installSafeHTTPTransport\<close> installs, for the target of the redirect after \<open>via\<close>
  requests; without a resolver of its own it uses the system's, \<open>dflt\<close>.
\<close>

definition CheckRedirect :: "resolver \<Rightarrow> resolver option \<Rightarrow> nat \<Rightarrow> string \<Rightarrow> string \<Rightarrow> error option" where
  "CheckRedirect dflt res via scheme host =
     (if maxRedirects \<le> via then Some (Plain (''stopped after '' @ show_nat maxRedirects @ '' redirects''))
      else guardRedirect (Some (case res of None \<Rightarrow> dflt | Some r \<Rightarrow> r)) scheme host)"

text \<open>Go's client asks the policy before each hop; the chain of targets it would follow.\<close>

fun follow :: "resolver \<Rightarrow> resolver option \<Rightarrow> nat \<Rightarrow> (string \<times> string) list \<Rightarrow> error option" where
  "follow dflt res via [] = None"
| "follow dflt res via ((scheme, host) # hops) =
     (case CheckRedirect dflt res via scheme host of
        Some e \<Rightarrow> Some e
      | None \<Rightarrow> follow dflt res (Suc via) hops)"

section \<open>The refused ranges\<close>

text \<open>The CIDR blocks of the guard, for four-byte and for sixteen-byte addresses.\<close>

definition blocked_blocks :: "(ip \<times> nat) list" where
  "blocked_blocks =
     [([127, 0, 0, 0], 8), ([0, 0, 0, 0], 32), ([169, 254, 0, 0], 16), ([224, 0, 0, 0], 4),
      (IPv6loopback, 128), (IPv6unspecified, 128),
      (0xfe # 0x80 # replicate 14 0, 10), (0xff # replicate 15 0, 8)]"

text \<open>The address an IPv4-mapped one stands for.\<close>

definition unmapped :: "ip \<Rightarrow> ip" where
  "unmapped a = (case To4 a of Some b \<Rightarrow> b | None \<Rightarrow> a)"

definition in_blocked :: "ip \<Rightarrow> bool" where
  "in_blocked a \<longleftrightarrow> list_ex (\<lambda>(net, len). in_block net len (unmapped a)) blocked_blocks"

lemma list4: "length xs = 4 \<Longrightarrow> \<exists>a b c d. xs = [a, b, c, d]"
  by (auto simp: length_Suc_conv numeral_eq_Suc)

lemma in_block_full: "in_block net (8 * length net) a \<longleftrightarrow> a = net"
  by (auto simp: in_block_def ip_bits_inj)

lemma blockedIP_iff:
  "blockedIP a \<noteq> None \<longleftrightarrow>
     IsLoopback a \<or> IsUnspecified a \<or> IsLinkLocalUnicast a \<or> IsLinkLocalMulticast a \<or> IsMulticast a
     \<or> IsInterfaceLocalMulticast a"
  by (simp add: blockedIP_def)

text \<open>The last case of the guard's switch is never reached: its range is multicast.\<close>

lemma interface_local_is_multicast: "To4 a = None \<Longrightarrow> IsInterfaceLocalMulticast a \<Longrightarrow> IsMulticast a"
  by (simp add: IsInterfaceLocalMulticast_def IsMulticast_def)

lemma To4_ff: "a ! 0 = 0xff \<Longrightarrow> length a = 16 \<Longrightarrow> To4 a = None"
proof -
  assume "a ! 0 = 0xff" "length a = 16"
  then have "take 12 a ! 0 \<noteq> v4InV6Prefix ! 0" by (simp add: v4InV6Prefix_def)
  then have "take 12 a \<noteq> v4InV6Prefix" by metis
  with \<open>length a = 16\<close> show ?thesis by (simp add: To4_def)
qed

lemma v4_tests:
  "IsLoopback [a, b, c, d] \<longleftrightarrow> a = 127"
  "IsUnspecified [a, b, c, d] \<longleftrightarrow> [a, b, c, d] = [0, 0, 0, 0]"
  "IsLinkLocalUnicast [a, b, c, d] \<longleftrightarrow> a = 169 \<and> b = 254"
  "IsMulticast [a, b, c, d] \<longleftrightarrow> take 4 (byte_bits a) = take 4 (byte_bits 224)"
  "IsLinkLocalMulticast [a, b, c, d] \<longleftrightarrow> a = 224 \<and> b = 0 \<and> c = 0"
  "\<not> IsInterfaceLocalMulticast [a, b, c, d]"
proof -
  have "To4 [a, b, c, d] = Some [a, b, c, d]" by (simp add: To4_def)
  moreover have "take 4 (byte_bits 224) = [True, True, True, False]" by code_simp
  ultimately show "IsLoopback [a, b, c, d] \<longleftrightarrow> a = 127"
    "IsLinkLocalUnicast [a, b, c, d] \<longleftrightarrow> a = 169 \<and> b = 254"
    "IsMulticast [a, b, c, d] \<longleftrightarrow> take 4 (byte_bits a) = take 4 (byte_bits 224)"
    "IsLinkLocalMulticast [a, b, c, d] \<longleftrightarrow> a = 224 \<and> b = 0 \<and> c = 0"
    "\<not> IsInterfaceLocalMulticast [a, b, c, d]"
    by (simp_all add: IsLoopback_def IsLinkLocalUnicast_def IsMulticast_def top4_bits
          IsLinkLocalMulticast_def IsInterfaceLocalMulticast_def)
  have "length IPv6unspecified = 16" "length IPv4zero = 16"
    "drop 12 IPv4zero = [0, 0, 0, 0]" "take 12 IPv4zero = v4InV6Prefix"
    "take 12 IPv6unspecified \<noteq> v4InV6Prefix"
    by (simp_all add: IPv6unspecified_def IPv4zero_def v4InV6Prefix_def)
  then show "IsUnspecified [a, b, c, d] \<longleftrightarrow> [a, b, c, d] = [0, 0, 0, 0]"
    by (simp add: IsUnspecified_def ip_Equal_def)
qed

lemma v4_blocks:
  "in_block [127, 0, 0, 0] 8 [a, b, c, d] \<longleftrightarrow> a = 127"
  "in_block [169, 254, 0, 0] 16 [a, b, c, d] \<longleftrightarrow> a = 169 \<and> b = 254"
  "in_block [224, 0, 0, 0] 4 [a, b, c, d] \<longleftrightarrow> take 4 (byte_bits a) = take 4 (byte_bits 224)"
  "in_block [0, 0, 0, 0] 32 [a, b, c, d] \<longleftrightarrow> [a, b, c, d] = [0, 0, 0, 0]"
  using in_block_full [of "[0, 0, 0, 0]" "[a, b, c, d]"]
  by (simp_all add: in_block_def take_ip_bits_Cons)

lemma v6_blocks_v4: "length net = 16 \<Longrightarrow> \<not> in_block net len [a, b, c, d]"
  by (simp add: in_block_def)

lemma block_lengths:
  "length IPv6loopback = 16" "length IPv6unspecified = 16"
  "length (0xfe # 0x80 # replicate 14 (0 :: 8 word)) = 16" "length (0xff # replicate 15 (0 :: 8 word)) = 16"
  by (simp_all add: IPv6loopback_def IPv6unspecified_def)

lemma blocked_v4:
  "blockedIP [a, b, c, d] \<noteq> None \<longleftrightarrow>
   list_ex (\<lambda>(net, len). in_block net len [a, b, c, d]) blocked_blocks"
  unfolding blockedIP_iff blocked_blocks_def
  by (simp add: v4_blocks v4_tests v6_blocks_v4 block_lengths) auto

text \<open>A mapped address is judged as the IPv4 address it stands for.\<close>

lemma To4_mapped: "To4 a = Some b \<Longrightarrow> length a = 16 \<Longrightarrow> take 12 a = v4InV6Prefix \<and> b = drop 12 a \<and> length b = 4"
  by (auto simp: To4_def split: if_splits)

lemma To4_To4: "To4 a = Some b \<Longrightarrow> To4 b = Some b"
  by (auto simp: To4_def split: if_splits)

lemma mapped_tests:
  assumes "To4 a = Some b" "length a = 16"
  shows "IsLoopback a = IsLoopback b" "IsUnspecified a = IsUnspecified b"
    "IsLinkLocalUnicast a = IsLinkLocalUnicast b" "IsMulticast a = IsMulticast b"
    "IsLinkLocalMulticast a = IsLinkLocalMulticast b" "IsInterfaceLocalMulticast a = IsInterfaceLocalMulticast b"
proof -
  note m = To4_mapped [OF assms]
  show "IsLoopback a = IsLoopback b" "IsLinkLocalUnicast a = IsLinkLocalUnicast b"
    "IsMulticast a = IsMulticast b" "IsLinkLocalMulticast a = IsLinkLocalMulticast b"
    using assms To4_To4 [OF assms(1)]
    by (simp_all add: IsLoopback_def IsLinkLocalUnicast_def IsMulticast_def IsLinkLocalMulticast_def)
  have "\<not> IsInterfaceLocalMulticast a"
    using To4_ff [of a] assms by (auto simp: IsInterfaceLocalMulticast_def)
  with m assms(2) show "IsInterfaceLocalMulticast a = IsInterfaceLocalMulticast b"
    by (simp add: IsInterfaceLocalMulticast_def)
  have "take 12 IPv6unspecified \<noteq> v4InV6Prefix" "a \<noteq> IPv6unspecified"
    using m by (auto simp: IPv6unspecified_def v4InV6Prefix_def)
  moreover have "a = IPv4zero \<longleftrightarrow> b = [0, 0, 0, 0]"
    using m append_take_drop_id [of 12 a] by (auto simp: IPv4zero_def)
  ultimately show "IsUnspecified a = IsUnspecified b"
    using m assms by (auto simp: IsUnspecified_def ip_Equal_def IPv4zero_def IPv6unspecified_def v4InV6Prefix_def)
qed

lemma list16: "length xs = 16 \<Longrightarrow> \<exists>a b ys. xs = a # b # ys \<and> length ys = 14"
  by (auto simp: length_Suc_conv numeral_eq_Suc)

lemma v6_blocks:
  assumes "length a = 16"
  shows "in_block IPv6loopback 128 a \<longleftrightarrow> a = IPv6loopback"
    "in_block IPv6unspecified 128 a \<longleftrightarrow> a = IPv6unspecified"
    "in_block (0xff # replicate 15 0) 8 a \<longleftrightarrow> a ! 0 = 0xff"
    "in_block (0xfe # 0x80 # replicate 14 0) 10 a \<longleftrightarrow> a ! 0 = 0xfe \<and> a ! 1 AND 0xc0 = 0x80"
proof -
  show "in_block IPv6loopback 128 a \<longleftrightarrow> a = IPv6loopback"
    "in_block IPv6unspecified 128 a \<longleftrightarrow> a = IPv6unspecified"
    using in_block_full [of IPv6loopback a] in_block_full [of IPv6unspecified a] by (simp_all add: block_lengths)
  obtain x y ys where a: "a = x # y # ys" "length ys = 14" using list16 [OF assms] by blast
  then show "in_block (0xff # replicate 15 0) 8 a \<longleftrightarrow> a ! 0 = 0xff"
    by (simp add: in_block_def take_ip_bits_Cons)
  have "take 2 (byte_bits 0x80) = [True, False]" by code_simp
  with a show "in_block (0xfe # 0x80 # replicate 14 0) 10 a \<longleftrightarrow> a ! 0 = 0xfe \<and> a ! 1 AND 0xc0 = 0x80"
    by (simp add: in_block_def take_ip_bits_Cons top2_bits)
qed

lemma blocked_v6:
  assumes "To4 a = None" "length a = 16"
  shows "blockedIP a \<noteq> None \<longleftrightarrow> list_ex (\<lambda>(net, len). in_block net len a) blocked_blocks"
proof -
  have v4: "\<not> in_block [p, q, r, s] len a" for p q r s len
    using assms by (simp add: in_block_def)
  have "take 12 IPv4zero = v4InV6Prefix" "length IPv4zero = 16"
    by (simp_all add: IPv4zero_def v4InV6Prefix_def)
  then have "a \<noteq> IPv4zero" using assms by (auto simp: To4_def)
  then have "IsUnspecified a \<longleftrightarrow> a = IPv6unspecified" "IsLoopback a \<longleftrightarrow> a = IPv6loopback"
    using assms \<open>length IPv4zero = 16\<close>
    by (simp_all add: IsUnspecified_def IsLoopback_def ip_Equal_def block_lengths)
  moreover have "IsLinkLocalMulticast a \<or> IsMulticast a \<or> IsInterfaceLocalMulticast a \<longleftrightarrow> a ! 0 = 0xff"
    "IsLinkLocalUnicast a \<longleftrightarrow> a ! 0 = 0xfe \<and> a ! 1 AND 0xc0 = 0x80"
    using assms by (auto simp: IsLinkLocalMulticast_def IsMulticast_def IsInterfaceLocalMulticast_def
        IsLinkLocalUnicast_def)
  ultimately show ?thesis
    unfolding blockedIP_iff blocked_blocks_def using assms(2)
    by (simp add: v4 v6_blocks)
qed

lemma blockedIP_blocks:
  assumes "length a = 4 \<or> length a = 16"
  shows "blockedIP a \<noteq> None \<longleftrightarrow> in_blocked a"
proof (cases "To4 a")
  case None
  with assms have "length a = 16" by (auto simp: To4_def)
  with None blocked_v6 show ?thesis by (simp add: in_blocked_def unmapped_def)
next
  case (Some b)
  then have "length b = 4" by (auto simp: To4_def split: if_splits)
  then obtain p q r s where b: "b = [p, q, r, s]" using list4 by blast
  have "blockedIP a \<noteq> None \<longleftrightarrow> blockedIP b \<noteq> None"
  proof (cases "length a = 16")
    case True
    then show ?thesis unfolding blockedIP_iff using mapped_tests [OF Some True] by simp
  next
    case False
    with assms Some show ?thesis by (simp add: To4_def)
  qed
  with Some b blocked_v4 show ?thesis by (simp add: in_blocked_def unmapped_def)
qed

section \<open>What the gate lets through\<close>

lemma check_addrs_None: "check_addrs lb host as = None \<longleftrightarrow> list_all (\<lambda>a. checkIP lb a = None) as"
  by (induction as) (auto split: option.splits)

text \<open>
  A host the guard accepts: an IP literal is outside the refused ranges; a name, when there is a
  resolver, resolves, and to addresses outside them only.
\<close>

definition reachable :: "resolver option \<Rightarrow> string \<Rightarrow> bool" where
  "reachable res host =
     (case ParseIP host of
        Some a \<Rightarrow> blockedIP a = None
      | None \<Rightarrow>
          (case res of
             None \<Rightarrow> True
           | Some lookup \<Rightarrow>
               (case lookup host of Inl e \<Rightarrow> False | Inr as \<Rightarrow> list_all (\<lambda>a. blockedIP a = None) as)))"

lemma guardResolvedHost_reachable: "guardResolvedHost res host = None \<longleftrightarrow> reachable res host"
  by (auto simp: guardResolvedHost_def guardResolvedHostAllowing_def reachable_def checkIP_def
        check_addrs_None split: option.splits sum.splits)

lemma parseURL_kind:
  assumes "parseURL raw False = Inr p"
  shows "pu_kind p = transportHTTPS \<or> pu_kind p = transportSSH" "pu_host p \<noteq> []" "pu_raw p = trimSpace raw"
  using assms
  by (auto simp: parseURL_def Let_def scpHost_def allowedSchemes_def
        split: if_splits sum.splits option.splits nat.splits)

lemma validate_guards:
  assumes "validate c p = None" "pu_kind p \<noteq> transportLocal" "\<not> gc_allowLoopback c"
  shows "reachable (gc_resolver c) (pu_host p)"
    "gc_allowList c = [] \<or> list_ex (entry_permits p) (gc_allowList c)"
  using assms guardResolvedHost_reachable [of "gc_resolver c" "pu_host p"]
  by (auto simp: validate_def guardHost_def guardResolvedHost_def checkAllowList_def
        split: option.splits if_splits)

lemma follow_guarded:
  "follow dflt res via hops = None \<Longrightarrow>
   length hops + via \<le> max via maxRedirects \<and>
   list_all (\<lambda>(s, h). toLower s = ''https'' \<and> reachable (Some (case res of None \<Rightarrow> dflt | Some r \<Rightarrow> r)) h) hops"
proof (induction dflt res via hops rule: follow.induct)
  case (2 dflt res via scheme host hops)
  from 2(2) have ok: "CheckRedirect dflt res via scheme host = None"
    and rest: "follow dflt res (Suc via) hops = None" by (auto split: option.splits)
  then show ?case
    using 2(1) [OF ok rest] guardResolvedHost_reachable
    by (auto simp: CheckRedirect_def guardRedirect_def split: if_splits)
qed simp

text \<open>
  A URL that does not parse is not redacted: its userinfo stays in the error text, twice, once by
  the quoted URL and once by the text of Go's parse error.
\<close>

lemma parseURL_leaks:
  "parseURL ''https://u:hunter2@h:x/'' False =
     Inl (GitErr GitSourceNotAllowed (''invalid source url '' @ quote ''https://u:hunter2@h:x/'')
       (Some (Plain (''parse '' @ quote ''https://u:hunter2@h:x/'' @ '': invalid port '' @ quote '':x''
          @ '' after host''))))"
  by code_simp

end
