(* ===== verification/Net_Properties.thy ===== *)
theory Net_Properties
  imports Url_Guard
begin

text \<open>Properties of the source URL guard: the refused address ranges, redirects and the allow-list.\<close>

text \<open>C39: The guard refuses an IPv4 or IPv6 address exactly when it, or the IPv4 address it maps,
  lies in one of the CIDR blocks 127/8, 169.254/16, 224/4, 0.0.0.0/32, ::1/128, ::/128, fe80::/10 and
  ff00::/8.\<close>

theorem blockedIP_is_blocks:
  assumes "length a = 4 \<or> length a = 16"
  shows "blockedIP a \<noteq> None \<longleftrightarrow> in_blocked a"
  by (rule blockedIP_blocks [OF assms])

theorem blockedIP_is_blocks_witness:
  "in_blocked [169, 254, 169, 254] \<and> \<not> in_blocked [93, 184, 216, 34]"
proof -
  have "blockedIP [169, 254, 169, 254] \<noteq> None" "blockedIP [93, 184, 216, 34] = None" by code_simp+
  then show ?thesis
    using blockedIP_is_blocks [of "[169, 254, 169, 254]"] blockedIP_is_blocks [of "[93, 184, 216, 34]"] by simp
qed



lemma hasSuffix_append: "hasSuffix s t \<longleftrightarrow> (\<exists>u. s = u @ t)"
  by (auto simp: hasSuffix_def suffix_def)

text \<open>With an allow-list of plain host names, a source is permitted exactly when its host is
  one of them or ends in a dot and one of them, so a look-alike host that merely ends in the same
  letters is not.\<close>

theorem allowList_hosts:
  assumes "gc_allowList c \<noteq> []"
    and "\<forall>entry \<in> set (gc_allowList c). trimSpace entry = entry \<and> entry \<noteq> [] \<and> CHR ''/'' \<notin> set entry"
  shows "checkAllowList c p = None \<longleftrightarrow>
    (\<exists>entry \<in> set (gc_allowList c). pu_host p = entry \<or> (\<exists>sub. pu_host p = sub @ ''.'' @ entry))"
proof -
  have "entry_permits p entry \<longleftrightarrow> pu_host p = entry \<or> (\<exists>sub. pu_host p = sub @ ''.'' @ entry)"
    if "entry \<in> set (gc_allowList c)" for entry
  proof -
    have "trimSpace entry = entry" "entry \<noteq> []" "\<not> contains entry ''/''"
      using assms(2) that by (auto simp: contains_def sublist_def)
    then show ?thesis unfolding entry_permits_def by (simp add: hasSuffix_append Let_def)
  qed
  then show ?thesis using assms(1) by (auto simp: checkAllowList_def list_ex_iff)
qed

definition demo_gate :: git_client where
  "demo_gate = \<lparr>gc_allowList = [''g.io''], gc_allowLocalTransport = False, gc_allowLoopback = False,
     gc_resolver = None, gc_caching = False\<rparr>"

theorem allowList_hosts_witness:
  "checkAllowList demo_gate \<lparr>pu_raw = ''https://evilg.io/x'', pu_kind = transportHTTPS, pu_host = ''evilg.io''\<rparr> \<noteq> None"
proof -
  have t: "trimSpace ''g.io'' = ''g.io''" by code_simp
  have "\<forall>sub. ''evilg.io'' \<noteq> sub @ ''.g.io''"
    using suffixI [of "''evilg.io''" _ "''.g.io''"] by (auto simp: suffix_to_prefix)
  with t show ?thesis
    using allowList_hosts [of demo_gate "\<lparr>pu_raw = ''https://evilg.io/x'', pu_kind = transportHTTPS, pu_host = ''evilg.io''\<rparr>"]
    by (simp add: demo_gate_def)
qed

end
