(* ===== verification/Go_Path.thy ===== *)
theory Go_Path
  imports Go_Strings
begin

text \<open>
  What the source uses of Go's \<open>path\<close> and \<open>path/filepath\<close> packages on a Unix system, where
  \<open>filepath.ToSlash\<close> and \<open>FromSlash\<close> are the identity and the separator is one slash, and the
  containment test \<open>within\<close> that the packages \<open>git\<close>, \<open>render\<close> and
  \<open>manifest\<close> each define with the same body. The lemmas read paths as lists of components: a
  cleaned absolute path is a slash and its components joined, none of them empty, a dot or two dots,
  and containment is the prefix order of component lists.
\<close>

section \<open>Clean, Join, Base, Ext\<close>

abbreviation slash :: char where
  "slash \<equiv> CHR ''/''"

definition isAbs :: "string \<Rightarrow> bool" where
  "isAbs p \<longleftrightarrow> prefix ''/'' p"

text \<open>
  The component loop of \<open>Clean\<close>: \<open>out\<close> is the output so far, last component first. A
  backtracking component at the start of a relative path is kept, at the start of a rooted one
  dropped.
\<close>

fun clean_comps :: "bool \<Rightarrow> string list \<Rightarrow> string list \<Rightarrow> string list" where
  "clean_comps rooted out [] = rev out"
| "clean_comps rooted out (w # ws) =
     (if w = [] \<or> w = ''.'' then clean_comps rooted out ws
      else if w = ''..'' then
        (case out of
           o' # out' \<Rightarrow>
             if o' = ''..'' then clean_comps rooted (w # out) ws else clean_comps rooted out' ws
         | [] \<Rightarrow> if rooted then clean_comps rooted [] ws else clean_comps rooted [w] ws)
      else clean_comps rooted (w # out) ws)"

definition comps :: "string \<Rightarrow> string list" where
  "comps p = clean_comps (isAbs p) [] (splitOn slash p)"

definition of_comps :: "bool \<Rightarrow> string list \<Rightarrow> string" where
  "of_comps rooted ws =
     (if rooted then ''/'' @ joinWith ''/'' ws else if ws = [] then ''.'' else joinWith ''/'' ws)"

definition path_clean :: "string \<Rightarrow> string" where
  "path_clean p = of_comps (isAbs p) (comps p)"

definition path_join :: "string \<Rightarrow> string \<Rightarrow> string" where
  "path_join a b =
     (if a = [] \<and> b = [] then []
      else if a = [] then path_clean b
      else if b = [] then path_clean a
      else path_clean (a @ ''/'' @ b))"

definition path_base :: "string \<Rightarrow> string" where
  "path_base p =
     (if p = [] then ''.''
      else (let q = rev (dropWhile (\<lambda>c. c = slash) (rev p))
            in if q = [] then ''/'' else last (splitOn slash q)))"

definition path_ext :: "string \<Rightarrow> string" where
  "path_ext p =
     (let w = last (splitOn slash p)
      in case lastIndexByte w (CHR ''.'') of None \<Rightarrow> [] | Some i \<Rightarrow> drop i w)"

section \<open>Rel\<close>

text \<open>The words \<open>filepath.Rel\<close> compares: the current directory as a base has none.\<close>

definition base_words :: "string \<Rightarrow> string list" where
  "base_words p =
     (if p = ''.'' \<or> p = ''/'' then [] else splitOn slash (if isAbs p then tl p else p))"

definition targ_words :: "string \<Rightarrow> string list" where
  "targ_words p = (if p = ''/'' then [] else splitOn slash (if isAbs p then tl p else p))"

fun strip_common :: "string list \<Rightarrow> string list \<Rightarrow> string list \<times> string list" where
  "strip_common (b # bs) (t # ts) = (if b = t then strip_common bs ts else (b # bs, t # ts))"
| "strip_common bs ts = (bs, ts)"

definition path_rel :: "string \<Rightarrow> string \<Rightarrow> string option" where
  "path_rel basepath targpath =
     (let base = path_clean basepath; targ = path_clean targpath
      in if targ = base then Some ''.''
         else if isAbs base \<noteq> isAbs targ then None
         else (case strip_common (base_words base) (targ_words targ) of
                 ([], ts) \<Rightarrow> Some (joinWith ''/'' ts)
               | (b # bs, ts) \<Rightarrow>
                   if b = ''..'' \<and> ts \<noteq> [] then None
                   else Some (joinWith ''/'' (replicate (Suc (length bs)) ''..'' @ ts))))"

text \<open>Whether \<open>target\<close> is \<open>base\<close> or lies beneath it.\<close>

definition within :: "string \<Rightarrow> string \<Rightarrow> bool" where
  "within base target =
     (if target = base then True
      else (case path_rel base target of
              None \<Rightarrow> False
            | Some rel \<Rightarrow> rel \<noteq> ''..'' \<and> \<not> hasPrefix rel ''../''))"

section \<open>Cleaned paths as component lists\<close>

text \<open>A plain component: what \<open>Clean\<close> leaves in a rooted path.\<close>

definition plain :: "string \<Rightarrow> bool" where
  "plain w \<longleftrightarrow> w \<noteq> [] \<and> w \<noteq> ''.'' \<and> w \<noteq> ''..'' \<and> slash \<notin> set w"

lemma slash_plain: "plain w \<Longrightarrow> slash \<notin> set w"
  by (simp add: plain_def)

lemma plain_simps [simp]:
  "\<not> plain []" "\<not> plain ''.''" "\<not> plain ''..''"
  by (simp_all add: plain_def)

lemma clean_comps_ordinary:
  "w \<noteq> [] \<Longrightarrow> w \<noteq> ''.'' \<Longrightarrow> w \<noteq> ''..'' \<Longrightarrow>
   clean_comps rooted out (w # ws) = clean_comps rooted (w # out) ws"
  by simp

lemma clean_comps_rooted_plain:
  "\<forall>w \<in> set out. plain w \<Longrightarrow> \<forall>w \<in> set ws. slash \<notin> set w \<Longrightarrow>
   \<forall>w \<in> set (clean_comps True out ws). plain w"
proof (induction ws arbitrary: out)
  case (Cons w ws)
  have step: "\<forall>v \<in> set (clean_comps True out' ws). plain v" if "\<forall>v \<in> set out'. plain v" for out'
    using Cons.IH that Cons.prems(2) by simp
  consider "w = [] \<or> w = ''.''" | "w = ''..''" | "w \<noteq> []" "w \<noteq> ''.''" "w \<noteq> ''..''" by blast
  then show ?case
  proof cases
    case 1
    then show ?thesis using step [of out] Cons.prems(1) by auto
  next
    case 2
    then show ?thesis
      using step [of "[]"] step [of "tl out"] Cons.prems(1) by (cases out) auto
  next
    case 3
    have "slash \<notin> set w" using Cons.prems(2) by simp
    with 3 have "plain w" unfolding plain_def by blast
    then have "\<forall>v \<in> set (w # out). plain v" using Cons.prems(1) by (simp only: list.set ball_simps)
    then have "\<forall>v \<in> set (clean_comps True (w # out) ws). plain v" by (rule step)
    then show ?thesis by (simp only: clean_comps_ordinary [OF 3])
  qed
qed simp

lemma comps_abs_plain: "isAbs p \<Longrightarrow> w \<in> set (comps p) \<Longrightarrow> plain w"
  unfolding comps_def using clean_comps_rooted_plain [of "[]" "splitOn slash p"]
  by (auto dest: splitOn_no_sep)

lemma clean_comps_plain_id:
  "\<forall>w \<in> set ws. plain w \<Longrightarrow> clean_comps r out ws = rev out @ ws"
  by (induction ws arbitrary: out) (auto simp: plain_def)

lemma isAbs_Cons [simp]: "isAbs (c # p) \<longleftrightarrow> c = slash" "\<not> isAbs []"
  by (auto simp: isAbs_def)

lemma splitOn_join_plain:
  "ws \<noteq> [] \<Longrightarrow> \<forall>w \<in> set ws. plain w \<Longrightarrow> splitOn slash (joinWith [slash] ws) = ws"
  using slash_plain by (blast intro: splitOn_joinWith)

lemma splitOn_of_comps:
  "\<forall>w \<in> set ws. plain w \<Longrightarrow>
   splitOn slash (of_comps True ws) = [] # (if ws = [] then [[]] else ws)"
  using splitOn_join_plain [of ws] by (auto simp: of_comps_def)

lemma comps_of_comps:
  assumes "\<forall>w \<in> set ws. plain w"
  shows "comps (of_comps True ws) = ws"
proof -
  have "isAbs (of_comps True ws)" by (simp add: of_comps_def)
  then show ?thesis
    using assms by (simp add: comps_def splitOn_of_comps clean_comps_plain_id)
qed

lemma path_clean_abs:
  "isAbs p \<Longrightarrow> path_clean p = of_comps True (comps p)"
  by (simp add: path_clean_def)

lemma isAbs_of_comps [simp]: "isAbs (of_comps True ws)"
  by (simp add: of_comps_def)

lemma path_clean_of_comps [simp]:
  "\<forall>w \<in> set ws. plain w \<Longrightarrow> path_clean (of_comps True ws) = of_comps True ws"
  by (simp add: path_clean_abs comps_of_comps)

text \<open>\<open>Clean\<close> is idempotent on rooted paths.\<close>

lemma path_clean_idem: "isAbs p \<Longrightarrow> path_clean (path_clean p) = path_clean p"
  by (simp add: path_clean_abs comps_of_comps comps_abs_plain)

lemma words_of_comps [simp]:
  assumes "\<forall>w \<in> set ws. plain w"
  shows "base_words (of_comps True ws) = ws" "targ_words (of_comps True ws) = ws"
proof -
  have ne: "joinWith ''/'' ws \<noteq> []" if "ws \<noteq> []"
    using that assms by (cases ws rule: remdups_adj.cases) (auto simp: plain_def)
  have "splitOn slash (joinWith ''/'' ws) = ws" if "ws \<noteq> []"
    using splitOn_join_plain [of ws] that assms by simp
  with ne show "base_words (of_comps True ws) = ws" "targ_words (of_comps True ws) = ws"
    by (cases "ws = []"; simp add: base_words_def targ_words_def of_comps_def)+
qed

lemma of_comps_inj:
  "\<forall>w \<in> set vs. plain w \<Longrightarrow> \<forall>w \<in> set ws. plain w \<Longrightarrow>
   of_comps True vs = of_comps True ws \<longleftrightarrow> vs = ws"
  by (metis words_of_comps(1))

lemma strip_common_prefix: "fst (strip_common bs ts) = [] \<longleftrightarrow> prefix bs ts"
  by (induction bs ts rule: strip_common.induct) auto

lemma strip_common_rest: "prefix bs ts \<Longrightarrow> snd (strip_common bs ts) = drop (length bs) ts"
  by (induction bs ts rule: strip_common.induct) auto

lemma strip_common_set:
  "set (fst (strip_common bs ts)) \<subseteq> set bs" "set (snd (strip_common bs ts)) \<subseteq> set ts"
  by (induction bs ts rule: strip_common.induct) auto

lemma joinWith_plain_no_dotdot:
  assumes "ts \<noteq> []" "\<forall>w \<in> set ts. plain w"
  shows "joinWith ''/'' ts \<noteq> ''..'' \<and> \<not> prefix ''../'' (joinWith ''/'' ts)"
proof -
  have split: "splitOn slash (joinWith ''/'' ts) = ts"
    using splitOn_join_plain [of ts] assms by simp
  have hd: "plain (hd ts)" using assms by (cases ts) auto
  have False if "joinWith ''/'' ts = ''..''"
    using split that hd by simp (metis list.sel(1) plain_simps(3))
  moreover have False if "prefix ''../'' (joinWith ''/'' ts)"
  proof -
    from that obtain r where "joinWith ''/'' ts = ''..'' @ slash # r"
      by (auto simp: prefix_def)
    then have "hd ts = ''..''" using split splitOn_cons_word [of slash "''..''" r]
      by simp (metis list.sel(1))
    then show False using hd by simp
  qed
  ultimately show ?thesis by blast
qed

text \<open>
  The containment test on cleaned absolute paths is the prefix order of their components: the code's
  string test has no false positive and no false negative.
\<close>

lemma within_of_comps:
  assumes "\<forall>w \<in> set bs. plain w" "\<forall>w \<in> set ts. plain w"
  shows "within (of_comps True bs) (of_comps True ts) \<longleftrightarrow> prefix bs ts"
proof (cases "bs = ts")
  case True
  then show ?thesis by (simp add: within_def)
next
  case False
  then have ne: "of_comps True ts \<noteq> of_comps True bs" using assms by (simp add: of_comps_inj)
  obtain b' t' where s: "strip_common bs ts = (b', t')" by (cases "strip_common bs ts")
  have rel: "path_rel (of_comps True bs) (of_comps True ts) =
      (case b' of [] \<Rightarrow> Some (joinWith ''/'' t')
       | b # b'' \<Rightarrow> if b = ''..'' \<and> t' \<noteq> [] then None
                   else Some (joinWith ''/'' (replicate (Suc (length b'')) ''..'' @ t')))"
    using ne assms by (simp add: path_rel_def s Let_def)
  show ?thesis
  proof (cases b')
    case Nil
    then have pre: "prefix bs ts" using strip_common_prefix [of bs ts] s by simp
    then have "t' = drop (length bs) ts" using strip_common_rest s by fastforce
    with pre False have "t' \<noteq> []" "\<forall>w \<in> set t'. plain w"
      using assms(2) by (auto simp: prefix_def)
    then show ?thesis
      using pre ne rel Nil joinWith_plain_no_dotdot [of t']
      by (simp add: within_def hasPrefix_def)
  next
    case (Cons b b'')
    then have np: "\<not> prefix bs ts" using strip_common_prefix [of bs ts] s by auto
    have "joinWith ''/'' (replicate (Suc (length b'')) ''..'' @ t') = ''..'' \<or>
          prefix ''../'' (joinWith ''/'' (replicate (Suc (length b'')) ''..'' @ t'))"
      by (cases "replicate (length b'') ''..'' @ t'") auto
    then show ?thesis
      using np ne rel Cons by (auto simp: within_def hasPrefix_def split: if_splits)
  qed
qed

lemma within_abs_clean:
  assumes "isAbs b" "isAbs t"
  shows "within (path_clean b) (path_clean t) \<longleftrightarrow> prefix (comps b) (comps t)"
  using assms by (simp add: path_clean_abs within_of_comps comps_abs_plain)

text \<open>Joining plain components to a cleaned absolute path appends them.\<close>

lemma clean_comps_plain_append:
  "\<forall>w \<in> set us. plain w \<Longrightarrow> clean_comps r out (us @ ws) = clean_comps r (rev us @ out) ws"
  by (induction us arbitrary: out) (auto simp: plain_def)

lemma path_join_plain:
  assumes "\<forall>w \<in> set bs. plain w" "\<forall>w \<in> set ws. plain w"
  shows "path_join (of_comps True bs) (if ws = [] then ''.'' else joinWith ''/'' ws) = of_comps True (bs @ ws)"
proof -
  let ?sub = "if ws = [] then ''.'' else joinWith ''/'' ws"
  have sub: "?sub \<noteq> []" "of_comps True bs \<noteq> []"
    using assms(2) by (cases ws rule: remdups_adj.cases; auto simp: plain_def of_comps_def)+
  have "splitOn slash ?sub = (if ws = [] then [''.''] else ws)"
    using splitOn_join_plain [of ws] assms(2) by simp
  then have "splitOn slash (of_comps True bs @ slash # ?sub) =
      [] # (if bs = [] then [[]] else bs) @ (if ws = [] then [''.''] else ws)"
    using assms(1) by (simp add: splitOn_append splitOn_of_comps)
  then have "comps (of_comps True bs @ slash # ?sub) = bs @ ws"
    using assms by (auto simp: comps_def of_comps_def clean_comps_plain_append clean_comps_plain_id)
  moreover have "isAbs (of_comps True bs @ slash # ?sub)" by (simp add: of_comps_def)
  ultimately show ?thesis using sub by (simp add: path_join_def path_clean_abs)
qed

end
