(* ===== verification/Manifest.thy ===== *)
theory Manifest
  imports Kube Go_Path
begin

text \<open>
  The package \<open>internal/manifest\<close>: recognizing Kubernetes manifests in a config tree, loading them,
  and the guard rails on what may be applied. The file system and the two YAML decoders are
  parameters: a tree is read through \<open>tree_fs\<close>, and a decoder gives the results of its successive
  \<open>Decode\<close> calls on a text (\<open>None\<close> is an error; the list ends where the stream does).
\<close>

section \<open>The file tree\<close>

datatype file_type = FDir | FSymlink | FRegular | FOther

text \<open>A call of the callback of \<open>WalkDir\<close>, in the order \<open>WalkDir\<close> makes them.\<close>

record walk_entry =
  wk_Path :: string
  wk_Err :: "error option"
  wk_Type :: file_type
  wk_Size :: "error + int"

record tree_fs =
  tf_EvalSymlinks :: "string \<Rightarrow> error + string"
  tf_Stat :: "string \<Rightarrow> error + bool \<times> int"
  tf_ReadFile :: "string \<Rightarrow> error + bytes"
  tf_Open :: "string \<Rightarrow> error + bytes"
  tf_Walk :: "string \<Rightarrow> walk_entry list"

record type_meta =
  tm_APIVersion :: string
  tm_Kind :: string

record yaml_lib =
  yl_TypeMetas :: "bytes \<Rightarrow> type_meta option list"
  yl_Objects :: "bytes \<Rightarrow> json option list"
  yl_GVK :: "json \<Rightarrow> gvk"
  yl_GroupVersion :: "gvk \<Rightarrow> string"

text \<open>The error of a fallible call, and its value.\<close>

definition relTo :: "string \<Rightarrow> string \<Rightarrow> string" where
  "relTo base target = (case path_rel base target of None \<Rightarrow> target | Some rel \<Rightarrow> rel)"

section \<open>Recognition\<close>

abbreviation ExternalSecretsGroup :: string where "ExternalSecretsGroup \<equiv> ''external-secrets.io''"
abbreviation ExternalSecretKind :: string where "ExternalSecretKind \<equiv> ''ExternalSecret''"

definition groupOf :: "string \<Rightarrow> string" where
  "groupOf v = (case indexByte v slash of Some i \<Rightarrow> take i v | None \<Rightarrow> [])"

fun any_document :: "(type_meta \<Rightarrow> bool) \<Rightarrow> type_meta option list \<Rightarrow> bool" where
  "any_document P [] = False"
| "any_document P (None # docs) = False"
| "any_document P (Some tm # docs) = (if P tm then True else any_document P docs)"

definition IsKubernetesManifest :: "yaml_lib \<Rightarrow> bytes \<Rightarrow> bool" where
  "IsKubernetesManifest yl data =
     any_document (\<lambda>tm. tm_APIVersion tm \<noteq> [] \<and> tm_Kind tm \<noteq> []) (yl_TypeMetas yl data)"

definition IsExternalSecret :: "yaml_lib \<Rightarrow> bytes \<Rightarrow> bool" where
  "IsExternalSecret yl data =
     any_document (\<lambda>tm. tm_Kind tm = ExternalSecretKind \<and> groupOf (tm_APIVersion tm) = ExternalSecretsGroup)
       (yl_TypeMetas yl data)"

definition yaml_ext :: "string \<Rightarrow> bool" where
  "yaml_ext p \<longleftrightarrow> toLower (path_ext p) \<in> {''.yaml'', ''.yml'', ''.json''}"

section \<open>Loading\<close>

record manifest_object =
  mo_U :: json
  mo_Source :: string

definition u_APIVersion :: "json \<Rightarrow> string" where
  "u_APIVersion u = (case nestedString u [''apiVersion''] of Some s \<Rightarrow> s | None \<Rightarrow> [])"

definition u_Name :: "json \<Rightarrow> string" where
  "u_Name u = (case nestedString u [''metadata'', ''name''] of Some s \<Rightarrow> s | None \<Rightarrow> [])"

definition u_Namespace :: "json \<Rightarrow> string" where
  "u_Namespace u = (case nestedString u [''metadata'', ''namespace''] of Some s \<Rightarrow> s | None \<Rightarrow> [])"

fun parse_documents :: "yaml_lib \<Rightarrow> json option list \<Rightarrow> json list" where
  "parse_documents yl [] = []"
| "parse_documents yl (None # docs) = []"
| "parse_documents yl (Some m # docs) =
     (if m = JObj [] \<or> m = JNull then parse_documents yl docs
      else if g_Kind (yl_GVK yl m) \<noteq> [] \<and> u_APIVersion m \<noteq> [] then m # parse_documents yl docs
      else parse_documents yl docs)"

definition parseFile :: "tree_fs \<Rightarrow> yaml_lib \<Rightarrow> string \<Rightarrow> error + json list" where
  "parseFile fs yl path =
     (case tf_Open fs path of
        Inl e \<Rightarrow> Inl (Wrapf (''opening '' @ quote path) e)
      | Inr data \<Rightarrow> Inr (parse_documents yl (yl_Objects yl data)))"

definition load_entry :: "tree_fs \<Rightarrow> yaml_lib \<Rightarrow> string \<Rightarrow> walk_entry \<Rightarrow> error + manifest_object list" where
  "load_entry fs yl base e =
     (case wk_Err e of
        Some err \<Rightarrow> Inl err
      | None \<Rightarrow>
          if wk_Path e = base \<or> wk_Type e = FDir then Inr []
          else if \<not> yaml_ext (wk_Path e) then Inr []
          else
            let escape = Plain (''symlink '' @ quote (relTo base (wk_Path e)) @ '' escapes the config path'');
                real = (if wk_Type e = FSymlink then
                          (case tf_EvalSymlinks fs (wk_Path e) of
                             Inl err \<Rightarrow> Inl escape
                           | Inr r \<Rightarrow> if within base r then Inr r else Inl escape)
                        else Inr (wk_Path e))
            in case real of
                 Inl err \<Rightarrow> Inl err
               | Inr path \<Rightarrow>
                   (case parseFile fs yl path of
                      Inl err \<Rightarrow> Inl err
                    | Inr objs \<Rightarrow>
                        Inr (map (\<lambda>u. \<lparr>mo_U = u, mo_Source = relTo base (wk_Path e)\<rparr>) objs)))"

fun load_entries :: "tree_fs \<Rightarrow> yaml_lib \<Rightarrow> string \<Rightarrow> walk_entry list \<Rightarrow> error + manifest_object list" where
  "load_entries fs yl base [] = Inr []"
| "load_entries fs yl base (e # es) =
     (case load_entry fs yl base e of
        Inl err \<Rightarrow> Inl err
      | Inr objs \<Rightarrow>
          (case load_entries fs yl base es of Inl err \<Rightarrow> Inl err | Inr rest \<Rightarrow> Inr (objs @ rest)))"

definition Load :: "tree_fs \<Rightarrow> yaml_lib \<Rightarrow> string \<Rightarrow> error + manifest_object list" where
  "Load fs yl root =
     (case tf_EvalSymlinks fs root of
        Inl e \<Rightarrow> Inl (Wrapf (''resolving config path '' @ quote root) e)
      | Inr base \<Rightarrow> load_entries fs yl base (tf_Walk fs base))"

section \<open>Guard rails\<close>

record guard =
  gd_Namespace :: string
  gd_StoreAllowList :: "string list"

text \<open>The store names and the generator flag of one entry of \<open>spec.data\<close> or \<open>spec.dataFrom\<close>.\<close>

definition entry_source :: "json \<Rightarrow> json option" where
  "entry_source e =
     (case e of
        JObj _ \<Rightarrow> (case jfield e ''sourceRef'' of Some (JObj kvs) \<Rightarrow> Some (JObj kvs) | _ \<Rightarrow> None)
      | _ \<Rightarrow> None)"

definition entry_stores :: "json \<Rightarrow> string list" where
  "entry_stores e =
     (case entry_source e of
        None \<Rightarrow> []
      | Some src \<Rightarrow>
          (case nestedString src [''storeRef'', ''name''] of
             Some name \<Rightarrow> if name \<noteq> [] then [name] else []
           | None \<Rightarrow> []))"

definition entry_generates :: "json \<Rightarrow> bool" where
  "entry_generates e =
     (case entry_source e of None \<Rightarrow> False | Some src \<Rightarrow> jfield src ''generatorRef'' \<noteq> None)"

definition spec_entries :: "json \<Rightarrow> string \<Rightarrow> json list" where
  "spec_entries u field = (case nestedSlice u [''spec'', field] of Some xs \<Rightarrow> xs | None \<Rightarrow> [])"

definition collectStoreRefs :: "json \<Rightarrow> string list \<times> bool" where
  "collectStoreRefs u =
     (let top = (case nestedString u [''spec'', ''secretStoreRef'', ''name''] of
                   Some n \<Rightarrow> if n \<noteq> [] then [n] else [] | None \<Rightarrow> []);
          es = spec_entries u ''data'' @ spec_entries u ''dataFrom''
      in (top @ concat (map entry_stores es), list_ex entry_generates es))"

definition Check :: "yaml_lib \<Rightarrow> guard \<Rightarrow> json \<Rightarrow> error option" where
  "Check yl g u =
     (let gvk = yl_GVK yl u; (stores, hasGenerator) = collectStoreRefs u
      in if g_Kind gvk \<noteq> ExternalSecretKind \<or> g_Group gvk \<noteq> ExternalSecretsGroup then
           Some (GuardErr GuardKindNotAllowed
             (''manifest '' @ yl_GroupVersion yl gvk @ ''/'' @ g_Kind gvk
               @ '' is not an allow-listed kind (only '' @ ExternalSecretKind @ ''.''
               @ ExternalSecretsGroup @ '' may be applied)''))
         else if u_Name u = [] then Some (GuardErr GuardNameMissing ''manifest has no metadata.name'')
         else if u_Namespace u \<noteq> [] \<and> u_Namespace u \<noteq> gd_Namespace g then
           Some (GuardErr GuardNamespaceViolation
             (''manifest '' @ quote (u_Name u) @ '' targets namespace '' @ quote (u_Namespace u)
               @ '', but must be in the ConfigSync namespace '' @ quote (gd_Namespace g)))
         else if gd_StoreAllowList g = [] then None
         else if hasGenerator then
           Some (GuardErr GuardStoreNotAllowed
             (''manifest '' @ quote (u_Name u)
               @ '' uses a generatorRef, which cannot be validated against the secret-store allow-list''))
         else if stores = [] then
           Some (GuardErr GuardStoreNotAllowed
             (''manifest '' @ quote (u_Name u) @ '' has no secretStoreRef to validate against the allow-list''))
         else case List.find (\<lambda>s. s \<notin> set (gd_StoreAllowList g)) stores of
                None \<Rightarrow> None
              | Some s \<Rightarrow>
                  Some (GuardErr GuardStoreNotAllowed
                    (''manifest '' @ quote (u_Name u) @ '' references secret store '' @ quote s
                      @ '' which is not in the operator allow-list'')))"

section \<open>What passes the guard\<close>

text \<open>The policy: an ExternalSecret with a name, of the ConfigSync's namespace, from allowed stores only.\<close>

definition from_allowed_stores :: "string list \<Rightarrow> json \<Rightarrow> bool" where
  "from_allowed_stores allow u \<longleftrightarrow>
     allow = [] \<or>
     (fst (collectStoreRefs u) \<noteq> [] \<and> \<not> snd (collectStoreRefs u) \<and>
      list_all (\<lambda>s. s \<in> set allow) (fst (collectStoreRefs u)))"

definition applicable :: "yaml_lib \<Rightarrow> guard \<Rightarrow> json \<Rightarrow> bool" where
  "applicable yl g u \<longleftrightarrow>
     g_Kind (yl_GVK yl u) = ExternalSecretKind \<and> g_Group (yl_GVK yl u) = ExternalSecretsGroup \<and>
     u_Name u \<noteq> [] \<and> (u_Namespace u = [] \<or> u_Namespace u = gd_Namespace g) \<and>
     from_allowed_stores (gd_StoreAllowList g) u"

lemma Check_applicable: "Check yl g u = None \<longleftrightarrow> applicable yl g u"
proof -
  obtain stores gen where c: "collectStoreRefs u = (stores, gen)" by (cases "collectStoreRefs u")
  have "List.find (\<lambda>s. s \<notin> set (gd_StoreAllowList g)) stores = None \<longleftrightarrow>
      list_all (\<lambda>s. s \<in> set (gd_StoreAllowList g)) stores"
    by (auto simp: find_None_iff list_all_iff)
  then have stores: "(case List.find (\<lambda>s. s \<notin> set (gd_StoreAllowList g)) stores of None \<Rightarrow> None | Some s \<Rightarrow> Some (E s)) = None
      \<longleftrightarrow> list_all (\<lambda>s. s \<in> set (gd_StoreAllowList g)) stores" for E :: "string \<Rightarrow> error"
    by (cases "List.find (\<lambda>s. s \<notin> set (gd_StoreAllowList g)) stores") simp_all
  have guard: "(if b then Some x else y) = None \<longleftrightarrow> \<not> b \<and> y = None" for b and x :: error and y by simp
  have last: "(if gd_StoreAllowList g = [] then None else x) = None \<longleftrightarrow> gd_StoreAllowList g = [] \<or> x = None"
    for x :: "error option" by simp
  show ?thesis
    unfolding Check_def applicable_def from_allowed_stores_def c Let_def prod.case fst_conv snd_conv guard last stores
    by blast
qed

lemma Check_reason: "Check yl g u = Some e \<Longrightarrow> \<exists>r. GuardReasonOf e = Some r"
  by (auto simp: Check_def Let_def guard_error.reason_mk split: if_splits prod.splits option.splits)

text \<open>A store that an entry names is checked, whatever the top-level store is.\<close>

lemma entry_store_checked:
  assumes "applicable yl g u" "gd_StoreAllowList g \<noteq> []"
    and "e \<in> set (spec_entries u ''data'') \<union> set (spec_entries u ''dataFrom'')" "s \<in> set (entry_stores e)"
  shows "s \<in> set (gd_StoreAllowList g)"
proof -
  have "s \<in> set (concat (map entry_stores (spec_entries u ''data'' @ spec_entries u ''dataFrom'')))"
    using assms(3,4) by auto
  then have "s \<in> set (fst (collectStoreRefs u))"
    unfolding collectStoreRefs_def Let_def fst_conv set_append by blast
  moreover have "list_all (\<lambda>s. s \<in> set (gd_StoreAllowList g)) (fst (collectStoreRefs u))"
    using assms(1,2) by (simp add: applicable_def from_allowed_stores_def)
  ultimately show ?thesis by (simp add: list_all_iff)
qed

section \<open>What is recognized and loaded\<close>

text \<open>Both decoders stop at the first document that does not decode.\<close>

lemma any_document_prefix:
  "any_document P docs \<longleftrightarrow> (\<exists>tm. Some tm \<in> set (takeWhile (\<lambda>d. d \<noteq> None) docs) \<and> P tm)"
  by (induction P docs rule: any_document.induct) auto

lemma parse_documents_prefix:
  "parse_documents yl docs =
     filter (\<lambda>m. m \<noteq> JObj [] \<and> m \<noteq> JNull \<and> g_Kind (yl_GVK yl m) \<noteq> [] \<and> u_APIVersion m \<noteq> [])
       (map the (takeWhile (\<lambda>d. d \<noteq> None) docs))"
  by (induction yl docs rule: parse_documents.induct) auto

lemma load_entries_mem:
  "load_entries fs yl base es = Inr objs \<Longrightarrow> ob \<in> set objs \<Longrightarrow>
   \<exists>e \<in> set es. \<exists>os. load_entry fs yl base e = Inr os \<and> ob \<in> set os"
proof (induction es arbitrary: objs)
  case (Cons e es)
  obtain os rest where r: "load_entry fs yl base e = Inr os" "load_entries fs yl base es = Inr rest" "objs = os @ rest"
    using Cons.prems(1) by (auto split: sum.splits)
  show ?case
  proof (cases "ob \<in> set os")
    case True
    then show ?thesis using r(1) by auto
  next
    case False
    then show ?thesis using Cons.IH [OF r(2)] Cons.prems(2) r(3) by auto
  qed
qed simp

text \<open>A loaded object comes from a YAML or JSON file, a symlink only if it stays within the tree.\<close>

lemma load_entry_spec:
  assumes "load_entry fs yl base e = Inr objs" "ob \<in> set objs"
  shows "wk_Type e \<noteq> FDir" "yaml_ext (wk_Path e)"
    "wk_Type e = FSymlink \<Longrightarrow> \<exists>r. tf_EvalSymlinks fs (wk_Path e) = Inr r \<and> within base r"
    "g_Kind (yl_GVK yl (mo_U ob)) \<noteq> []" "u_APIVersion (mo_U ob) \<noteq> []"
  using assms
  by (auto simp: load_entry_def parseFile_def Let_def parse_documents_prefix
      split: option.splits if_splits sum.splits)

end
