(* ===== verification/Resolvers.thy ===== *)
theory Resolvers
  imports Kube Manifest Secret_Policy Go_Sha256
begin

text \<open>
  The secret backends (\<open>internal/secret/native\<close>, \<open>eso\<close>, and the scripted one of the tests, \<open>fake\<close>).
  The locale \<open>resolver\<close> is the contract of \<open>secret.Resolver\<close> that the reconciler relies on: a
  resolution only reads the cluster, and does not depend on any secret value. All three backends
  are proved instances of it.
\<close>

section \<open>Shared helpers of the backends\<close>

definition tokenLen :: nat where "tokenLen = 16"

definition secretKeys :: "secret \<Rightarrow> string list" where
  "secretKeys s = sort (remdups (map fst (sec_Data s) @ map fst (sec_StringData s)))"

definition missingKeys :: "string list \<Rightarrow> string list \<Rightarrow> string list" where
  "missingKeys present required = filter (\<lambda>k. k \<notin> set present) required"

definition token_text :: "string \<Rightarrow> string list \<Rightarrow> string" where
  "token_text rv keys = rv @ [CHR 0x00] @ joinWith '','' keys"

definition versionToken :: "string \<Rightarrow> string list \<Rightarrow> string" where
  "versionToken resourceVersion keys = take tokenLen (sha256_hex (token_text resourceVersion keys))"

definition not_ready :: "string \<Rightarrow> string \<Rightarrow> resolution" where
  "not_ready reason msg =
     \<lparr>rs_Ready = False, rs_SecretName = [], rs_VersionToken = [], rs_Reason = reason, rs_Message = msg\<rparr>"

section \<open>The native backend\<close>

definition native_Resolve ::
  "'k client \<Rightarrow> string \<Rightarrow> secret_ref \<Rightarrow> ('k, error + resolution) act" where
  "native_Resolve cl ns ref = do {
     r \<leftarrow> reads (cl_GetSecret cl ns (r_SecretName ref));
     State_Monad.return
       (case r of
          Inl e \<Rightarrow>
            if isNotFound e then
              Inr (not_ready ReasonSecretNotFound (''native secret '' @ quote (r_SecretName ref) @ '' not found''))
            else Inl e
        | Inr s \<Rightarrow>
            let keys = secretKeys s; missing = missingKeys keys (r_RequiredKeys ref)
            in if missing \<noteq> [] then
                 Inr (not_ready ReasonKeyMissing
                   (''native secret '' @ quote (r_SecretName ref) @ '' missing required key(s): ''
                     @ joinWith '', '' missing))
               else Inr \<lparr>rs_Ready = True, rs_SecretName = r_SecretName ref,
                      rs_VersionToken = versionToken (sec_ResourceVersion s) keys,
                      rs_Reason = [], rs_Message = []\<rparr>)
   }"

section \<open>The External Secrets backend\<close>

definition candidateVersions :: "string list" where
  "candidateVersions = [''v1'', ''v1beta1'']"

definition es_gvk :: "string \<Rightarrow> gvk" where
  "es_gvk v = \<lparr>g_Group = ExternalSecretsGroup, g_Version = v, g_Kind = ExternalSecretKind\<rparr>"

text \<open>The object if there is one, and whether a candidate version is served; or an error.\<close>

fun get_versions ::
  "'k client \<Rightarrow> string list \<Rightarrow> string \<Rightarrow> string \<Rightarrow> ('k, error + kobject option \<times> bool) act" where
  "get_versions cl [] ns name = State_Monad.return (Inr (None, False))"
| "get_versions cl (v # vs) ns name = do {
     r \<leftarrow> reads (cl_GetObject cl (es_gvk v) ns name);
     case r of
       Inr ob \<Rightarrow> State_Monad.return (Inr (Some ob, True))
     | Inl e \<Rightarrow>
         if isNotFound e then State_Monad.return (Inr (None, True))
         else if isNoMatch e then get_versions cl vs ns name
         else State_Monad.return (Inl e)
   }"

definition getExternalSecret ::
  "'k client \<Rightarrow> string \<Rightarrow> string \<Rightarrow> ('k, error + kobject option \<times> bool) act" where
  "getExternalSecret cl ns name = get_versions cl candidateVersions ns name"

definition esReady :: "json \<Rightarrow> bool" where
  "esReady u =
     (case nestedSlice u [''status'', ''conditions''] of
        None \<Rightarrow> False
      | Some conds \<Rightarrow>
          list_ex (\<lambda>c. jfield c ''type'' = Some (JStr ''Ready'') \<and> jfield c ''status'' = Some (JStr ''True'')) conds)"

definition esTargetName :: "json \<Rightarrow> string \<Rightarrow> string" where
  "esTargetName u fallback =
     (case nestedString u [''spec'', ''target'', ''name''] of
        Some n \<Rightarrow> if n \<noteq> [] then n else fallback | None \<Rightarrow> fallback)"

definition eso_versionToken :: "json \<Rightarrow> string \<Rightarrow> string list \<Rightarrow> string" where
  "eso_versionToken es secretRV keys =
     (let rv = (case nestedString es [''status'', ''syncedResourceVersion''] of Some x \<Rightarrow> x | None \<Rightarrow> []);
          rv2 = (if rv = [] then secretRV else rv)
      in take tokenLen (sha256_hex (token_text rv2 keys)))"

text \<open>The package has its own copies of the native backend's helpers.\<close>

definition eso_secretKeys :: "secret \<Rightarrow> string list" where
  "eso_secretKeys s = sort (remdups (map fst (sec_Data s) @ map fst (sec_StringData s)))"

definition eso_missingKeys :: "string list \<Rightarrow> string list \<Rightarrow> string list" where
  "eso_missingKeys present required = (if required = [] then [] else filter (\<lambda>k. k \<notin> set present) required)"

lemma eso_copies [simp]: "eso_secretKeys = secretKeys" "eso_missingKeys = missingKeys"
  by (simp_all add: fun_eq_iff eso_secretKeys_def secretKeys_def eso_missingKeys_def missingKeys_def)

definition eso_target ::
  "'k client \<Rightarrow> string \<Rightarrow> secret_ref \<Rightarrow> json \<Rightarrow> ('k, error + resolution) act" where
  "eso_target cl ns ref es =
     (let targetName = esTargetName es (r_SecretName ref) in do {
        r \<leftarrow> reads (cl_GetSecret cl ns targetName);
        State_Monad.return
          (case r of
             Inl e \<Rightarrow>
               if isNotFound e then
                 Inr (not_ready ReasonSecretNotFound
                   (''ExternalSecret '' @ quote (r_SecretName ref) @ '' Ready but target secret ''
                     @ quote targetName @ '' not found''))
               else Inl e
           | Inr s \<Rightarrow>
               let keys = eso_secretKeys s; missing = eso_missingKeys keys (r_RequiredKeys ref)
               in if missing \<noteq> [] then
                    Inr (not_ready ReasonKeyMissing
                      (''target secret '' @ quote targetName @ '' missing required key(s): ''
                        @ joinWith '', '' missing))
                  else Inr \<lparr>rs_Ready = True, rs_SecretName = targetName,
                         rs_VersionToken = eso_versionToken es (sec_ResourceVersion s) keys,
                         rs_Reason = [], rs_Message = []\<rparr>)
      })"

definition eso_Resolve ::
  "'k client \<Rightarrow> string \<Rightarrow> secret_ref \<Rightarrow> ('k, error + resolution) act" where
  "eso_Resolve cl ns ref = do {
     g \<leftarrow> getExternalSecret cl ns (r_SecretName ref);
     case g of
       Inl e \<Rightarrow> State_Monad.return (Inl e)
     | Inr (es, served) \<Rightarrow>
         if \<not> served then
           State_Monad.return (Inr (not_ready ReasonBackendNotReady
             (''External Secrets Operator CRD ('' @ ExternalSecretsGroup @ ''/'' @ ExternalSecretKind
               @ '') is not served in this cluster'')))
         else (case es of
                 None \<Rightarrow> State_Monad.return (Inr (not_ready ReasonBackendNotReady
                   (''awaiting ExternalSecret '' @ quote (r_SecretName ref))))
               | Some ob \<Rightarrow>
                   if \<not> esReady (ko_Tree ob) then
                     State_Monad.return (Inr (not_ready ReasonBackendNotReady
                       (''ExternalSecret '' @ quote (r_SecretName ref) @ '' is not Ready'')))
                   else eso_target cl ns ref (ko_Tree ob))
   }"

section \<open>The scripted backend\<close>

record fake_resolver =
  fk_results :: "string \<rightharpoonup> resolution"
  fk_err :: "error option"

definition fake_New :: fake_resolver where
  "fake_New = \<lparr>fk_results = Map.empty, fk_err = None\<rparr>"

definition fake_Set :: "string \<Rightarrow> resolution \<Rightarrow> fake_resolver \<Rightarrow> fake_resolver" where
  "fake_Set name res r = r\<lparr>fk_results := (fk_results r)(name \<mapsto> res\<lparr>rs_SecretName := name\<rparr>)\<rparr>"

definition fake_SetReady :: "string \<Rightarrow> string \<Rightarrow> fake_resolver \<Rightarrow> fake_resolver" where
  "fake_SetReady name token =
     fake_Set name \<lparr>rs_Ready = True, rs_SecretName = [], rs_VersionToken = token, rs_Reason = [], rs_Message = []\<rparr>"

definition fake_SetError :: "error \<Rightarrow> fake_resolver \<Rightarrow> fake_resolver" where
  "fake_SetError e r = r\<lparr>fk_err := Some e\<rparr>"

definition fake_Resolve ::
  "fake_resolver \<Rightarrow> 'k client \<Rightarrow> string \<Rightarrow> secret_ref \<Rightarrow> ('k, error + resolution) act" where
  "fake_Resolve r cl ns ref =
     State_Monad.return
       (case fk_err r of
          Some e \<Rightarrow> Inl e
        | None \<Rightarrow>
            (case fk_results r (r_SecretName ref) of
               Some res \<Rightarrow> Inr res
             | None \<Rightarrow> Inr (not_ready ''SecretNotFound''
                        (''secret '' @ r_SecretName ref @ '' not found''))))"

section \<open>The contract\<close>

text \<open>A secret without its values, and a client that never shows one.\<close>

definition blank :: "secret \<Rightarrow> secret" where
  "blank s = s\<lparr>sec_Data := map (\<lambda>(k, v). (k, [])) (sec_Data s),
              sec_StringData := map (\<lambda>(k, v). (k, [])) (sec_StringData s)\<rparr>"

definition blind :: "'k client \<Rightarrow> 'k client" where
  "blind cl = cl\<lparr>cl_GetSecret := \<lambda>ns n k.
     (case cl_GetSecret cl ns n k of (r, k') \<Rightarrow> (map_sum id blank r, k'))\<rparr>"

locale resolver =
  fixes resolve :: "'k client \<Rightarrow> string \<Rightarrow> secret_ref \<Rightarrow> ('k, error + resolution) act"
  assumes value_blind: "resolve (blind cl) ns ref = resolve cl ns ref"
    and reads_only: "\<exists>k. snd (run_state (resolve cl ns ref) w) = w\<lparr>w_Cluster := k\<rparr>"
begin

text \<open>Two clusters that differ in secret values only give the same resolutions.\<close>

lemma same_metadata:
  assumes "blind cl = blind cl'"
  shows "resolve cl ns ref = resolve cl' ns ref"
  using assms value_blind by metis

lemma no_calls: "issues A (resolve cl ns ref)"
proof (rule issues_silent)
  fix w
  show "w_Calls (snd (run_state (resolve cl ns ref) w)) = w_Calls w"
    using reads_only [of cl ns ref w] by auto
qed

end

text \<open>A backend that looks at the cluster: it is ready only with a target secret that has every
  required key, and its token is a digest of fixed length.\<close>

locale live_resolver = resolver +
  assumes ready_token: "fst (run_state (resolve cl ns ref) w) = Inr res \<Longrightarrow> rs_Ready res \<Longrightarrow>
      \<exists>rv keys. rs_VersionToken res = versionToken rv keys \<and> set (r_RequiredKeys ref) \<subseteq> set keys"
    and not_ready_reason: "fst (run_state (resolve cl ns ref) w) = Inr res \<Longrightarrow> \<not> rs_Ready res \<Longrightarrow>
      rs_Reason res \<in> {ReasonSecretNotFound, ReasonKeyMissing, ReasonBackendNotReady}"
begin

lemma token_length: "fst (run_state (resolve cl ns ref) w) = Inr res \<Longrightarrow> rs_Ready res \<Longrightarrow>
   length (rs_VersionToken res) = tokenLen"
  using ready_token [of cl ns ref w res] by (auto simp: versionToken_def length_sha256_hex tokenLen_def)

end

lemma blank_simps [simp]:
  "sec_ResourceVersion (blank s) = sec_ResourceVersion s" "secretKeys (blank s) = secretKeys s"
  by (simp_all add: blank_def secretKeys_def comp_def case_prod_beta)

lemma blind_simps [simp]:
  "cl_GetObject (blind cl) = cl_GetObject cl"
  "cl_GetSecret (blind cl) ns n k = (map_sum id blank (fst (cl_GetSecret cl ns n k)), snd (cl_GetSecret cl ns n k))"
  by (simp_all add: blind_def split_beta)

lemma missingKeys_Nil: "missingKeys present required = [] \<longleftrightarrow> set required \<subseteq> set present"
  by (auto simp: missingKeys_def filter_empty_conv)

lemma state_eqI: "(\<And>w. run_state m w = run_state n w) \<Longrightarrow> m = n"
  by (cases m; cases n) (simp add: fun_eq_iff)

section \<open>The backends keep the contract\<close>

lemma native_shape:
  "run_state (native_Resolve cl ns ref) w =
     (case fst (cl_GetSecret cl ns (r_SecretName ref) (w_Cluster w)) of
        Inl e \<Rightarrow> if isNotFound e then
            Inr (not_ready ReasonSecretNotFound (''native secret '' @ quote (r_SecretName ref) @ '' not found''))
          else Inl e
      | Inr s \<Rightarrow>
          if missingKeys (secretKeys s) (r_RequiredKeys ref) \<noteq> [] then
            Inr (not_ready ReasonKeyMissing
              (''native secret '' @ quote (r_SecretName ref) @ '' missing required key(s): ''
                @ joinWith '', '' (missingKeys (secretKeys s) (r_RequiredKeys ref))))
          else Inr \<lparr>rs_Ready = True, rs_SecretName = r_SecretName ref,
                 rs_VersionToken = versionToken (sec_ResourceVersion s) (secretKeys s),
                 rs_Reason = [], rs_Message = []\<rparr>,
      w\<lparr>w_Cluster := snd (cl_GetSecret cl ns (r_SecretName ref) (w_Cluster w))\<rparr>)"
  unfolding native_Resolve_def Let_def by (simp add: run_simps)

interpretation native: live_resolver native_Resolve
proof
  fix cl :: "'a client" and ns ref
  show "native_Resolve (blind cl) ns ref = native_Resolve cl ns ref"
  proof (rule state_eqI)
    fix w
    show "run_state (native_Resolve (blind cl) ns ref) w = run_state (native_Resolve cl ns ref) w"
      by (cases "fst (cl_GetSecret cl ns (r_SecretName ref) (w_Cluster w))") (simp_all add: native_shape)
  qed
next
  fix cl :: "'a client" and ns ref w
  show "\<exists>k. snd (run_state (native_Resolve cl ns ref) w) = w\<lparr>w_Cluster := k\<rparr>"
    by (auto simp: native_shape)
next
  fix cl :: "'a client" and ns ref w res
  assume r: "fst (run_state (native_Resolve cl ns ref) w) = Inr res" "rs_Ready res"
  then obtain s where "rs_VersionToken res = versionToken (sec_ResourceVersion s) (secretKeys s)"
    "set (r_RequiredKeys ref) \<subseteq> set (secretKeys s)"
    by (auto simp: native_shape not_ready_def missingKeys_Nil split: sum.splits if_splits)
  then show "\<exists>rv keys. rs_VersionToken res = versionToken rv keys \<and> set (r_RequiredKeys ref) \<subseteq> set keys"
    by blast
next
  fix cl :: "'a client" and ns ref w res
  assume "fst (run_state (native_Resolve cl ns ref) w) = Inr res" "\<not> rs_Ready res"
  then show "rs_Reason res \<in> {ReasonSecretNotFound, ReasonKeyMissing, ReasonBackendNotReady}"
    by (auto simp: native_shape not_ready_def split: sum.splits if_splits)
qed

text \<open>Reading the ExternalSecret involves no secret.\<close>

lemma get_versions_blind: "get_versions (blind cl) vs ns name = get_versions cl vs ns name"
proof (induction vs)
  case (Cons v vs)
  show ?case unfolding get_versions.simps blind_simps Cons ..
qed simp

lemma get_versions_reads: "\<exists>k. snd (run_state (get_versions cl vs ns name) w) = w\<lparr>w_Cluster := k\<rparr>"
proof (induction vs arbitrary: w)
  case (Cons v vs)
  obtain k where "snd (run_state (get_versions cl vs ns name)
      (w\<lparr>w_Cluster := snd (cl_GetObject cl (es_gvk v) ns name (w_Cluster w))\<rparr>)) = w\<lparr>w_Cluster := k\<rparr>"
    using Cons [of "w\<lparr>w_Cluster := snd (cl_GetObject cl (es_gvk v) ns name (w_Cluster w))\<rparr>"] by auto
  then show ?case by (auto simp: run_simps split: sum.split)
next
  case Nil
  show ?case by (rule exI [of _ "w_Cluster w"]) simp
qed

lemma eso_target_shape:
  "run_state (eso_target cl ns ref es) w =
     (case fst (cl_GetSecret cl ns (esTargetName es (r_SecretName ref)) (w_Cluster w)) of
        Inl e \<Rightarrow> if isNotFound e then
            Inr (not_ready ReasonSecretNotFound
              (''ExternalSecret '' @ quote (r_SecretName ref) @ '' Ready but target secret ''
                @ quote (esTargetName es (r_SecretName ref)) @ '' not found''))
          else Inl e
      | Inr s \<Rightarrow>
          if missingKeys (secretKeys s) (r_RequiredKeys ref) \<noteq> [] then
            Inr (not_ready ReasonKeyMissing
              (''target secret '' @ quote (esTargetName es (r_SecretName ref)) @ '' missing required key(s): ''
                @ joinWith '', '' (missingKeys (secretKeys s) (r_RequiredKeys ref))))
          else Inr \<lparr>rs_Ready = True, rs_SecretName = esTargetName es (r_SecretName ref),
                 rs_VersionToken = eso_versionToken es (sec_ResourceVersion s) (secretKeys s),
                 rs_Reason = [], rs_Message = []\<rparr>,
      w\<lparr>w_Cluster := snd (cl_GetSecret cl ns (esTargetName es (r_SecretName ref)) (w_Cluster w))\<rparr>)"
  unfolding eso_target_def Let_def eso_copies by (simp add: run_simps)

lemma eso_target_blind: "eso_target (blind cl) ns ref es = eso_target cl ns ref es"
proof (rule state_eqI)
  fix w
  show "run_state (eso_target (blind cl) ns ref es) w = run_state (eso_target cl ns ref es) w"
    by (cases "fst (cl_GetSecret cl ns (esTargetName es (r_SecretName ref)) (w_Cluster w))")
       (simp_all add: eso_target_shape)
qed

lemma eso_versionToken_token: "\<exists>rv. eso_versionToken es srv keys = versionToken rv keys"
  by (auto simp: eso_versionToken_def versionToken_def Let_def)

text \<open>The result of the backend: an error, or not ready, or what the target secret gives.\<close>

lemma eso_Resolve_cases:
  obtains e w' where "run_state (eso_Resolve cl ns ref) w = (Inl e, w')" "\<exists>k. w' = w\<lparr>w_Cluster := k\<rparr>"
  | m w' where "run_state (eso_Resolve cl ns ref) w = (Inr (not_ready ReasonBackendNotReady m), w')"
      "\<exists>k. w' = w\<lparr>w_Cluster := k\<rparr>"
  | es w1 where "run_state (eso_Resolve cl ns ref) w = run_state (eso_target cl ns ref es) w1"
      "\<exists>k. w1 = w\<lparr>w_Cluster := k\<rparr>"
proof -
  obtain g w1 where g: "run_state (getExternalSecret cl ns (r_SecretName ref)) w = (g, w1)" by fastforce
  then have k: "\<exists>k. w1 = w\<lparr>w_Cluster := k\<rparr>"
    using get_versions_reads [of cl candidateVersions ns "r_SecretName ref" w] by (simp add: getExternalSecret_def)
  show thesis
  proof (cases g)
    case (Inl e)
    with g k that(1) show thesis by (simp add: eso_Resolve_def)
  next
    case (Inr r)
    obtain es served where r: "r = (es, served)" by (cases r)
    note step = g Inr r k eso_Resolve_def [of cl ns ref]
    consider "\<not> served" | "served" "es = None" | ob where "served" "es = Some ob" "\<not> esReady (ko_Tree ob)"
      | ob where "served" "es = Some ob" "esReady (ko_Tree ob)" by (cases es) auto
    then show thesis
    proof cases
      case 1
      with step show thesis by (intro that(2)) auto
    next
      case 2
      with step show thesis by (intro that(2)) auto
    next
      case (3 ob)
      with step show thesis by (intro that(2)) auto
    next
      case (4 ob)
      with step show thesis by (intro that(3)) auto
    qed
  qed
qed

interpretation eso: live_resolver eso_Resolve
proof
  fix cl :: "'a client" and ns ref
  show "eso_Resolve (blind cl) ns ref = eso_Resolve cl ns ref"
    unfolding eso_Resolve_def getExternalSecret_def get_versions_blind eso_target_blind ..
next
  fix cl :: "'a client" and ns ref w
  show "\<exists>k. snd (run_state (eso_Resolve cl ns ref) w) = w\<lparr>w_Cluster := k\<rparr>"
    by (rule eso_Resolve_cases [of cl ns ref w]) (auto simp: eso_target_shape)
next
  fix cl :: "'a client" and ns ref w res
  assume r: "fst (run_state (eso_Resolve cl ns ref) w) = Inr res" "rs_Ready res"
  show "\<exists>rv keys. rs_VersionToken res = versionToken rv keys \<and> set (r_RequiredKeys ref) \<subseteq> set keys"
  proof (rule eso_Resolve_cases [of cl ns ref w])
    fix es w1
    assume "run_state (eso_Resolve cl ns ref) w = run_state (eso_target cl ns ref es) w1"
    with r obtain s where "rs_VersionToken res = eso_versionToken es (sec_ResourceVersion s) (secretKeys s)"
      "set (r_RequiredKeys ref) \<subseteq> set (secretKeys s)"
      by (auto simp: eso_target_shape not_ready_def missingKeys_Nil split: sum.splits if_splits)
    then show ?thesis using eso_versionToken_token by metis
  qed (use r in \<open>auto simp: not_ready_def\<close>)
next
  fix cl :: "'a client" and ns ref w res
  assume r: "fst (run_state (eso_Resolve cl ns ref) w) = Inr res" "\<not> rs_Ready res"
  show "rs_Reason res \<in> {ReasonSecretNotFound, ReasonKeyMissing, ReasonBackendNotReady}"
    by (rule eso_Resolve_cases [of cl ns ref w])
       (use r in \<open>auto simp: not_ready_def eso_target_shape split: sum.splits if_splits\<close>)
qed

interpretation fake: resolver "fake_Resolve r"
proof
  fix cl :: "'a client" and ns ref w
  show "fake_Resolve r (blind cl) ns ref = fake_Resolve r cl ns ref" by (simp add: fake_Resolve_def)
  show "\<exists>k. snd (run_state (fake_Resolve r cl ns ref) w) = w\<lparr>w_Cluster := k\<rparr>"
    by (auto simp: fake_Resolve_def intro: exI [of _ "w_Cluster w"])
qed

section \<open>Tokens\<close>

text \<open>The digested text determines the resource version and the key set.\<close>

lemma joinWith_comma_inj:
  assumes "joinWith '','' ks = joinWith '','' ks'"
    and "\<forall>k \<in> set ks. k \<noteq> [] \<and> CHR '','' \<notin> set k" "\<forall>k \<in> set ks'. k \<noteq> [] \<and> CHR '','' \<notin> set k"
  shows "ks = ks'"
proof -
  have ne: "joinWith '','' xs = [] \<longleftrightarrow> xs = []" if "\<forall>k \<in> set xs. k \<noteq> []" for xs
    using that by (cases xs rule: remdups_adj.cases) auto
  show ?thesis
  proof (cases "ks = [] \<or> ks' = []")
    case True
    then show ?thesis using assms ne [of ks] ne [of ks'] by auto
  next
    case False
    have "splitOn (CHR '','') (joinWith '','' ks) = ks"
      by (rule splitOn_joinWith) (use False assms(2) in blast)+
    moreover have "splitOn (CHR '','') (joinWith '','' ks') = ks'"
      by (rule splitOn_joinWith) (use False assms(3) in blast)+
    ultimately    show ?thesis using assms(1) by metis
  qed
qed

lemma token_text_inj:
  assumes "token_text rv ks = token_text rv' ks'" "CHR 0x00 \<notin> set rv" "CHR 0x00 \<notin> set rv'"
    and "\<forall>k \<in> set ks. k \<noteq> [] \<and> CHR '','' \<notin> set k" "\<forall>k \<in> set ks'. k \<noteq> [] \<and> CHR '','' \<notin> set k"
  shows "rv = rv' \<and> ks = ks'"
proof -
  have tw: "takeWhile (\<lambda>c. c \<noteq> CHR 0x00) (token_text r k) = r" if "CHR 0x00 \<notin> set r" for r k
    using that by (induction r) (auto simp: token_text_def)
  have "rv = rv'" using tw [OF assms(2), of ks] tw [OF assms(3), of ks'] assms(1) by simp
  with assms(1) have "joinWith '','' ks = joinWith '','' ks'" by (simp add: token_text_def)
  with \<open>rv = rv'\<close> joinWith_comma_inj assms(4,5) show ?thesis by blast
qed

text \<open>
  When the ExternalSecret reports a synced revision, the target Secret's resource version is not in
  the token: a rotation of the Secret alone leaves it unchanged.
\<close>

lemma eso_token_ignores_rotation:
  "nestedString es [''status'', ''syncedResourceVersion''] = Some rv \<Longrightarrow> rv \<noteq> [] \<Longrightarrow>
   eso_versionToken es rv1 keys = eso_versionToken es rv2 keys"
  by (simp add: eso_versionToken_def Let_def)

end
