(* ===== verification/Wire.thy ===== *)
theory Wire
  imports Rollout
begin

text \<open>
  The package \<open>internal/wire\<close>: the Server-Side Apply request that merges Kohen's volume, mounts,
  environment entries and version stamp into a workload, and the request that retracts them. The
  applied object is the tree the code builds; the lemmas state which paths of it are set, so what
  the field manager can come to own.
\<close>

section \<open>Data\<close>

abbreviation FieldManager :: string where "FieldManager \<equiv> ''kohen''"
abbreviation VolumeName :: string where "VolumeName \<equiv> ''kohen-config''"

definition SecretVolumeName :: "string \<Rightarrow> string" where
  "SecretVolumeName refName = ''kohen-secret-'' @ refName"

record secret_file =
  wf_RefName :: string
  wf_SecretName :: string
  wf_MountPath :: string

record secret_env =
  we_EnvVar :: string
  we_SecretName :: string
  we_Key :: string

record wire_spec =
  ws_Kind :: string
  ws_Name :: string
  ws_Namespace :: string
  ws_Container :: string
  ws_MountPath :: string
  ws_ConfigMap :: string
  ws_ConfigSHA :: string
  ws_SecretFiles :: "secret_file list"
  ws_SecretEnv :: "secret_env list"

definition gvkFor :: "string \<Rightarrow> gvk option" where
  "gvkFor kind =
     (if kind = ''Deployment'' \<or> kind = ''StatefulSet'' then Some (apps_gvk kind) else None)"

section \<open>The target container\<close>

definition container_names :: "json list \<Rightarrow> string list" where
  "container_names cs =
     concat (map (\<lambda>c. case jfield c ''name'' of
                       Some (JStr n) \<Rightarrow> if n \<noteq> [] then [n] else []
                     | _ \<Rightarrow> []) cs)"

definition pick_container ::
  "string \<Rightarrow> string \<Rightarrow> string \<Rightarrow> json \<Rightarrow> error + string" where
  "pick_container kind name requested tree =
     (case nestedSlice tree [''spec'', ''template'', ''spec'', ''containers''] of
        None \<Rightarrow> Inl (WireErr WireContainerNotFound ''workload has no containers'' None)
      | Some [] \<Rightarrow> Inl (WireErr WireContainerNotFound ''workload has no containers'' None)
      | Some (c # cs) \<Rightarrow>
          (let names = container_names (c # cs)
           in if requested = [] then
                (case names of
                   [] \<Rightarrow> Inl (WireErr WireContainerNotFound ''workload has no named containers'' None)
                 | n # _ \<Rightarrow> Inr n)
              else if requested \<in> set names then Inr requested
              else Inl (WireErr WireContainerNotFound
                     (''container '' @ quote requested @ '' not found in '' @ kind @ '' '' @ quote name) None)))"

definition unsupported_kind :: "string \<Rightarrow> error" where
  "unsupported_kind kind = WireErr WireWireFailed (''unsupported workload kind '' @ kind) None"

definition ResolveContainer ::
  "'k client \<Rightarrow> string \<Rightarrow> string \<Rightarrow> string \<Rightarrow> string \<Rightarrow> ('k, error + string) act" where
  "ResolveContainer cl kind ns name requested =
     (case gvkFor kind of
        None \<Rightarrow> State_Monad.return (Inl (unsupported_kind kind))
      | Some g \<Rightarrow> do {
          r \<leftarrow> reads (cl_GetObject cl g ns name);
          State_Monad.return
            (case r of
               Inl e \<Rightarrow>
                 Inl (if isNotFound e
                      then WireErr WireWorkloadNotFound (kind @ '' '' @ quote name @ '' not found'') None
                      else WireErr WireWireFailed ''reading workload'' (Some e))
             | Inr u \<Rightarrow> pick_container kind name requested (ko_Tree u))
        })"

section \<open>The applied tree\<close>

definition secret_volume :: "secret_file \<Rightarrow> json" where
  "secret_volume f =
     JObj [(''name'', JStr (SecretVolumeName (wf_RefName f))),
           (''secret'', JObj [(''secretName'', JStr (wf_SecretName f))])]"

definition secret_mount :: "secret_file \<Rightarrow> json" where
  "secret_mount f =
     JObj [(''name'', JStr (SecretVolumeName (wf_RefName f))),
           (''mountPath'', JStr (wf_MountPath f)), (''readOnly'', JBool True)]"

definition secretEnvEntries :: "secret_env list \<Rightarrow> json list" where
  "secretEnvEntries envs =
     map (\<lambda>e. JObj [(''name'', JStr (we_EnvVar e)),
                    (''valueFrom'',
                      JObj [(''secretKeyRef'',
                        JObj [(''name'', JStr (we_SecretName e)), (''key'', JStr (we_Key e))])])]) envs"

definition wire_volumes :: "wire_spec \<Rightarrow> json list" where
  "wire_volumes s =
     JObj [(''name'', JStr VolumeName), (''configMap'', JObj [(''name'', JStr (ws_ConfigMap s))])]
     # map secret_volume (ws_SecretFiles s)"

definition wire_mounts :: "wire_spec \<Rightarrow> json list" where
  "wire_mounts s =
     JObj [(''name'', JStr VolumeName), (''mountPath'', JStr (ws_MountPath s))]
     # map secret_mount (ws_SecretFiles s)"

definition wire_container :: "wire_spec \<Rightarrow> string \<Rightarrow> json" where
  "wire_container s container =
     JObj ([(''name'', JStr container), (''volumeMounts'', JArr (wire_mounts s))]
       @ (if secretEnvEntries (ws_SecretEnv s) \<noteq> []
          then [(''env'', JArr (secretEnvEntries (ws_SecretEnv s)))] else []))"

definition wire_tree :: "wire_spec \<Rightarrow> string \<Rightarrow> json" where
  "wire_tree s container =
     JObj [(''spec'', JObj [(''template'',
       JObj ([(''spec'', JObj [(''volumes'', JArr (wire_volumes s)),
                              (''containers'', JArr [wire_container s container])])]
         @ (if ws_ConfigSHA s \<noteq> []
            then [(''metadata'', JObj [(''annotations'',
                     JObj [(AnnotationConfigSHA, JStr (ws_ConfigSHA s))])])] else [])))])]"

definition wire_apply :: "'k client \<Rightarrow> kobject \<Rightarrow> string \<Rightarrow> ('k, error option) act" where
  "wire_apply cl ob what = do {
     r \<leftarrow> k_Patch cl \<lparr>pa_Object = ob, pa_FieldOwner = FieldManager, pa_Force = False\<rparr>;
     State_Monad.return
       (case r of
          None \<Rightarrow> None
        | Some e \<Rightarrow>
            if isNotFound e then Some (WireErr WireWorkloadNotFound (what @ '': workload not found'') None)
            else if isConflict e then
              Some (WireErr WireApplyConflict (what @ '': field owned by another manager'') (Some e))
            else Some (WireErr WireWireFailed what (Some e)))
   }"

definition wire_base :: "gvk \<Rightarrow> string \<Rightarrow> string \<Rightarrow> kobject" where
  "wire_base g ns name = bare_object g ns name"

definition Wire :: "'k client \<Rightarrow> wire_spec \<Rightarrow> ('k, error option) act" where
  "Wire cl s =
     (case gvkFor (ws_Kind s) of
        None \<Rightarrow> State_Monad.return (Some (unsupported_kind (ws_Kind s)))
      | Some g \<Rightarrow> do {
          r \<leftarrow> ResolveContainer cl (ws_Kind s) (ws_Namespace s) (ws_Name s) (ws_Container s);
          case r of
            Inl e \<Rightarrow> State_Monad.return (Some e)
          | Inr container \<Rightarrow>
              wire_apply cl
                ((wire_base g (ws_Namespace s) (ws_Name s))\<lparr>ko_Payload := Tree (wire_tree s container)\<rparr>)
                ''wiring workload''
        })"

definition Unwire :: "'k client \<Rightarrow> string \<Rightarrow> string \<Rightarrow> string \<Rightarrow> ('k, error option) act" where
  "Unwire cl kind ns name =
     (case gvkFor kind of
        None \<Rightarrow> State_Monad.return (Some (unsupported_kind kind))
      | Some g \<Rightarrow> do {
          r \<leftarrow> reads (cl_GetObject cl g ns name);
          case r of
            Inl e \<Rightarrow>
              State_Monad.return
                (if isNotFound e then None
                 else Some (WireErr WireWireFailed ''reading workload for unwire'' (Some e)))
          | Inr existing \<Rightarrow> wire_apply cl (wire_base g ns name) ''unwiring workload''
        })"

section \<open>The picked container\<close>

lemma container_names_nonempty: "n \<in> set (container_names cs) \<Longrightarrow> n \<noteq> []"
  by (auto simp: container_names_def split: option.splits json.splits if_splits)

lemma pick_container_mem:
  assumes "pick_container kind name requested tree = Inr c"
  shows "\<exists>cs. nestedSlice tree [''spec'', ''template'', ''spec'', ''containers''] = Some cs \<and>
           c \<in> set (container_names cs) \<and> (requested \<noteq> [] \<longrightarrow> c = requested) \<and>
           (requested = [] \<longrightarrow> c = hd (container_names cs))"
  using assms unfolding pick_container_def
  by (auto simp: Let_def split: option.splits list.splits if_splits)

lemma pick_container_first:
  assumes "nestedSlice tree [''spec'', ''template'', ''spec'', ''containers''] = Some cs"
    "container_names cs = n # ns"
  shows "pick_container kind name [] tree = Inr n"
  using assms by (cases cs) (auto simp: pick_container_def container_names_def)

section \<open>What a request claims\<close>

text \<open>The paths an applied tree sets, with list entries named by their position.\<close>

fun json_keys :: "json \<Rightarrow> string list" where
  "json_keys (JObj kvs) = map fst kvs"
| "json_keys j = []"

text \<open>
  Only Kohen-owned fields: nothing but the pod template; in it only volumes and one container, and
  at most the version annotation; in the container only its name, its mounts and its env entries.
\<close>

definition owned_container :: "json \<Rightarrow> bool" where
  "owned_container c \<longleftrightarrow> set (json_keys c) \<subseteq> {''name'', ''volumeMounts'', ''env''}"

definition owned_only :: "json \<Rightarrow> bool" where
  "owned_only j \<longleftrightarrow>
     set (json_keys j) \<subseteq> {''spec''} \<and>
     (case nested j [''spec''] of None \<Rightarrow> True | Some sp \<Rightarrow> set (json_keys sp) \<subseteq> {''template''}) \<and>
     (case nested j [''spec'', ''template''] of None \<Rightarrow> True
      | Some t \<Rightarrow> set (json_keys t) \<subseteq> {''spec'', ''metadata''}) \<and>
     (case nested j [''spec'', ''template'', ''metadata''] of None \<Rightarrow> True
      | Some m \<Rightarrow> set (json_keys m) \<subseteq> {''annotations''}) \<and>
     (case nested j [''spec'', ''template'', ''metadata'', ''annotations''] of None \<Rightarrow> True
      | Some a \<Rightarrow> set (json_keys a) \<subseteq> {AnnotationConfigSHA}) \<and>
     (case nested j [''spec'', ''template'', ''spec''] of None \<Rightarrow> True
      | Some ps \<Rightarrow> set (json_keys ps) \<subseteq> {''volumes'', ''containers''}) \<and>
     (case nestedSlice j [''spec'', ''template'', ''spec'', ''containers''] of None \<Rightarrow> True
      | Some cs \<Rightarrow> length cs \<le> 1 \<and> list_all owned_container cs)"

lemma wire_tree_owned: "owned_only (wire_tree s c)"
  by (auto simp: owned_only_def wire_tree_def nestedSlice_def owned_container_def wire_container_def)

lemma empty_tree_owned: "owned_only (JObj [])"
  by (simp add: owned_only_def nestedSlice_def)

text \<open>A wiring request: by Kohen's manager, without force, of owned fields only.\<close>

fun wire_call :: "call \<Rightarrow> bool" where
  "wire_call (CPatch p) \<longleftrightarrow>
     pa_FieldOwner p = FieldManager \<and> \<not> pa_Force p \<and> owned_only (ko_Tree (pa_Object p))"
| "wire_call c \<longleftrightarrow> False"

text \<open>The stamp a request would set on the pod template, if any.\<close>

definition template_stamp :: "json \<Rightarrow> string option" where
  "template_stamp j = nestedString j [''spec'', ''template'', ''metadata'', ''annotations'', AnnotationConfigSHA]"

lemma template_stamp_wire_tree:
  "template_stamp (wire_tree s c) = (if ws_ConfigSHA s = [] then None else Some (ws_ConfigSHA s))"
  by (simp add: template_stamp_def nestedString_def wire_tree_def)

text \<open>A wiring request that stamps the pod template with nothing but \<open>v\<close>.\<close>

fun wire_call_stamping :: "string option \<Rightarrow> call \<Rightarrow> bool" where
  "wire_call_stamping v (CPatch p) \<longleftrightarrow>
     wire_call (CPatch p) \<and> template_stamp (ko_Tree (pa_Object p)) = v"
| "wire_call_stamping v c \<longleftrightarrow> False"

lemma wire_call_stamping_wire: "wire_call_stamping v c \<Longrightarrow> wire_call c"
  by (cases c) auto

lemma issues_wire_apply:
  "A (CPatch \<lparr>pa_Object = ob, pa_FieldOwner = FieldManager, pa_Force = False\<rparr>) \<Longrightarrow>
   issues A (wire_apply cl ob what)"
  unfolding wire_apply_def by (intro issue_rules)

lemma issues_ResolveContainer [issue_rules]: "issues A (ResolveContainer cl kind ns name req)"
  unfolding ResolveContainer_def by (intro issue_rules)

lemma issues_Wire [issue_rules]:
  "issues (wire_call_stamping (if ws_ConfigSHA s = [] then None else Some (ws_ConfigSHA s))) (Wire cl s)"
  unfolding Wire_def
  by (intro issue_rules issues_wire_apply)
     (simp add: ko_Tree_def wire_tree_owned template_stamp_wire_tree)

lemma issues_Unwire [issue_rules]: "issues (wire_call_stamping None) (Unwire cl kind ns name)"
  unfolding Unwire_def
  by (intro issue_rules issues_wire_apply)
     (simp add: ko_Tree_def wire_base_def bare_object_def empty_tree_owned template_stamp_def nestedString_def)

section \<open>Distinct merge keys\<close>

text \<open>The merge key of a list entry.\<close>

definition key_of :: "string \<Rightarrow> json \<Rightarrow> string option" where
  "key_of k j = (case jfield j k of Some (JStr s) \<Rightarrow> Some s | _ \<Rightarrow> None)"

lemma SecretVolumeName_inj: "SecretVolumeName a = SecretVolumeName b \<longleftrightarrow> a = b"
  by (simp add: SecretVolumeName_def)

lemma SecretVolumeName_not_config: "SecretVolumeName a \<noteq> VolumeName"
  by (simp add: SecretVolumeName_def)

lemma volume_names_distinct:
  assumes "distinct (map wf_RefName (ws_SecretFiles s))"
  shows "distinct (map (key_of ''name'') (wire_volumes s))"
proof -
  have key: "key_of ''name'' (secret_volume f) = Some (SecretVolumeName (wf_RefName f))" for f
    by (simp add: key_of_def secret_volume_def)
  have head: "key_of ''name'' (JObj [(''name'', JStr VolumeName), x]) = Some VolumeName" for x
    by (simp add: key_of_def)
  have "distinct (map (key_of ''name'' \<circ> secret_volume) (ws_SecretFiles s))"
    using assms by (auto simp: distinct_map inj_on_def key SecretVolumeName_inj)
  moreover have "Some VolumeName \<notin> (key_of ''name'' \<circ> secret_volume) ` set (ws_SecretFiles s)"
    by (auto simp: key SecretVolumeName_def)
  ultimately show ?thesis
    by (simp only: wire_volumes_def list.map(2) distinct.simps(2) head map_map list.set_map) simp
qed

lemma mounts_match_volumes:
  "map (key_of ''name'') (wire_mounts s) = map (key_of ''name'') (wire_volumes s)"
  by (simp add: wire_mounts_def wire_volumes_def key_of_def secret_mount_def secret_volume_def)

end
