(* ===== verification/Apply.thy ===== *)
theory Apply
  imports Kube
begin

text \<open>
  The package \<open>internal/apply\<close>: the engine for objects Kohen fully owns. \<open>Apply\<close> refuses to adopt
  an existing object that is not this ConfigSync's, stamps the ownership labels and the controller
  reference, and applies by Server-Side Apply; \<open>Prune\<close> deletes the owned objects that left the
  desired set.
\<close>

section \<open>Data\<close>

abbreviation ApplyFieldManager :: string where "ApplyFieldManager \<equiv> ''kohen''"
abbreviation ManagedByLabel :: string where "ManagedByLabel \<equiv> ''app.kubernetes.io/managed-by''"
abbreviation ManagedByValue :: string where "ManagedByValue \<equiv> ''kohen''"
abbreviation OwnerLabel :: string where "OwnerLabel \<equiv> ''kohen.dev/owner''"

text \<open>A map lookup with Go's zero value, and the Go type of an object as \<open>%T\<close> prints it.\<close>

definition label_of :: "kobject \<Rightarrow> string \<Rightarrow> string" where
  "label_of ob k = (case ko_Labels ob k of Some v \<Rightarrow> v | None \<Rightarrow> [])"

definition go_type_of :: "kobject \<Rightarrow> string" where
  "go_type_of ob =
     (case ko_Payload ob of ConfigMapData d b \<Rightarrow> ''*v1.ConfigMap'' | Tree j \<Rightarrow> ''*unstructured.Unstructured'')"

definition gvk_Empty :: "gvk \<Rightarrow> bool" where
  "gvk_Empty g \<longleftrightarrow> g_Group g = [] \<and> g_Version g = [] \<and> g_Kind g = []"

section \<open>Operations\<close>

definition ensureGVK :: "'k client \<Rightarrow> kobject \<Rightarrow> error + kobject" where
  "ensureGVK cl ob =
     (if \<not> gvk_Empty (ko_GVK ob) then Inr ob
      else case lib_ObjectKinds cl ob of
             Inl e \<Rightarrow> Inl e
           | Inr [] \<Rightarrow> Inl (Plain (''no registered kind for '' @ go_type_of ob))
           | Inr (g # _) \<Rightarrow> Inr (ob\<lparr>ko_GVK := g\<rparr>))"

definition ownedBy :: "kobject \<Rightarrow> config_sync \<Rightarrow> bool" where
  "ownedBy existing owner =
     (if label_of existing ManagedByLabel \<noteq> ManagedByValue
           \<or> label_of existing OwnerLabel \<noteq> cs_Name owner
      then False
      else case GetControllerOf existing of
             Some ctrl \<Rightarrow> if or_UID ctrl = cs_UID owner then True else cs_UID owner = []
           | None \<Rightarrow> cs_UID owner = [])"

definition own_labels :: "config_sync \<Rightarrow> kobject \<Rightarrow> kobject" where
  "own_labels owner ob =
     ob\<lparr>ko_Labels := (ko_Labels ob)(ManagedByLabel \<mapsto> ManagedByValue, OwnerLabel \<mapsto> cs_Name owner)\<rparr>"

definition apply_owned :: "'k client \<Rightarrow> config_sync \<Rightarrow> kobject \<Rightarrow> ('k, error option) act" where
  "apply_owned cl owner ob =
     (case lib_SetControllerReference cl owner (own_labels owner ob) of
        Inl e \<Rightarrow> State_Monad.return (Some (ApplyErr ApplyApplyFailed ''setting owner reference'' (Some e)))
      | Inr ob2 \<Rightarrow> do {
          r \<leftarrow> k_Patch cl \<lparr>pa_Object = ob2\<lparr>ko_ManagedFields := [], ko_ResourceVersion := []\<rparr>,
                          pa_FieldOwner = ApplyFieldManager, pa_Force = True\<rparr>;
          State_Monad.return
            (case r of
               None \<Rightarrow> None
             | Some e \<Rightarrow> Some (ApplyErr ApplyApplyFailed ''server-side apply'' (Some e)))
        })"

definition Apply :: "'k client \<Rightarrow> config_sync \<Rightarrow> kobject \<Rightarrow> ('k, error option) act" where
  "Apply cl owner ob0 =
     (case ensureGVK cl ob0 of
        Inl e \<Rightarrow> State_Monad.return (Some (ApplyErr ApplyApplyFailed ''resolving object kind'' (Some e)))
      | Inr ob \<Rightarrow> do {
          r \<leftarrow> reads (cl_GetObject cl (ko_GVK ob) (ko_Namespace ob) (ko_Name ob));
          case r of
            Inr existing \<Rightarrow>
              if \<not> ownedBy existing owner then
                State_Monad.return (Some (ApplyErr ApplyAlreadyExistsNotOwned
                  (g_Kind (ko_GVK ob) @ '' '' @ quote (ko_Name ob)
                    @ '' already exists and is not owned by Kohen; refusing to adopt'') None))
              else apply_owned cl owner ob
          | Inl e \<Rightarrow>
              if isNotFound e then apply_owned cl owner ob
              else State_Monad.return
                     (Some (ApplyErr ApplyApplyFailed ''checking existing object'' (Some e)))
        })"

fun prune_items :: "'k client \<Rightarrow> string list \<Rightarrow> kobject list \<Rightarrow> ('k, error option) act" where
  "prune_items cl keep [] = State_Monad.return None"
| "prune_items cl keep (ob # obs) =
     (if ko_Name ob \<in> set keep then prune_items cl keep obs
      else do {
        r \<leftarrow> k_Delete cl ob;
        case r of
          None \<Rightarrow> prune_items cl keep obs
        | Some e \<Rightarrow>
            if isNotFound e then prune_items cl keep obs
            else State_Monad.return
                   (Some (ApplyErr ApplyApplyFailed (''pruning '' @ ko_Name ob) (Some e)))
      })"

definition owner_selector :: "config_sync \<Rightarrow> (string \<times> string) list" where
  "owner_selector owner = [(ManagedByLabel, ManagedByValue), (OwnerLabel, cs_Name owner)]"

definition Prune :: "'k client \<Rightarrow> config_sync \<Rightarrow> gvk \<Rightarrow> string list \<Rightarrow> ('k, error option) act" where
  "Prune cl owner g keep = do {
     r \<leftarrow> reads (cl_ListObjects cl g (cs_Namespace owner) (owner_selector owner));
     case r of
       Inl e \<Rightarrow> State_Monad.return (Some (ApplyErr ApplyApplyFailed ''listing owned objects'' (Some e)))
     | Inr list \<Rightarrow>
         (case lib_ExtractList cl list of
            Inl e \<Rightarrow> State_Monad.return (Some (ApplyErr ApplyApplyFailed ''extracting list'' (Some e)))
          | Inr items \<Rightarrow> prune_items cl keep items)
   }"

definition PruneKind :: "'k client \<Rightarrow> config_sync \<Rightarrow> gvk \<Rightarrow> string list \<Rightarrow> ('k, error option) act" where
  "PruneKind cl owner g keep = do {
     r \<leftarrow> Prune cl owner g keep;
     State_Monad.return
       (case r of
          None \<Rightarrow> None
        | Some e \<Rightarrow> if isNoMatch e \<or> isNotFound e then None else Some e)
   }"

section \<open>Ownership\<close>

lemma ownedBy_controller:
  assumes "ownedBy existing owner" "cs_UID owner \<noteq> []"
  shows "\<exists>c. GetControllerOf existing = Some c \<and> or_Controller c \<and> or_UID c = cs_UID owner"
  using assms
  by (auto simp: ownedBy_def GetControllerOf_def split: if_splits option.splits dest: find_SomeD)

lemma ownedBy_labels:
  assumes "ownedBy existing owner"
  shows "label_of existing ManagedByLabel = ManagedByValue" "label_of existing OwnerLabel = cs_Name owner"
  using assms by (simp_all add: ownedBy_def split: if_splits)

text \<open>Two ConfigSyncs with UIDs of their own never both own an object.\<close>

lemma ownedBy_exclusive:
  assumes "ownedBy ob a" "ownedBy ob b" "cs_UID a \<noteq> []" "cs_UID b \<noteq> []"
  shows "cs_UID a = cs_UID b"
  using ownedBy_controller [OF assms(1,3)] ownedBy_controller [OF assms(2,4)] by auto

section \<open>What the engine issues\<close>

text \<open>
  The patch \<open>Apply\<close> may issue: by Kohen's manager, of an object whose kind, name and namespace are
  the given one's, that went through \<open>SetControllerReference\<close> with the ownership labels on.
\<close>

fun owned_patch :: "'k client \<Rightarrow> config_sync \<Rightarrow> kobject \<Rightarrow> call \<Rightarrow> bool" where
  "owned_patch cl owner ob (CPatch p) \<longleftrightarrow>
     pa_FieldOwner p = ApplyFieldManager \<and> pa_Force p \<and>
     ko_ManagedFields (pa_Object p) = [] \<and> ko_ResourceVersion (pa_Object p) = [] \<and>
     (case lib_SetControllerReference cl owner (own_labels owner ob) of
        Inl e \<Rightarrow> False
      | Inr o2 \<Rightarrow> pa_Object p = o2\<lparr>ko_ManagedFields := [], ko_ResourceVersion := []\<rparr>)"
| "owned_patch cl owner ob c \<longleftrightarrow> False"

lemma issues_apply_owned: "issues (owned_patch cl owner ob) (apply_owned cl owner ob)"
  unfolding apply_owned_def by (intro issue_rules) simp

fun is_patch :: "call \<Rightarrow> bool" where
  "is_patch (CPatch p) \<longleftrightarrow> True"
| "is_patch c \<longleftrightarrow> False"

fun is_delete :: "call \<Rightarrow> bool" where
  "is_delete (CDelete ob) \<longleftrightarrow> True"
| "is_delete c \<longleftrightarrow> False"

lemma owned_patch_is_patch: "owned_patch cl owner ob c \<Longrightarrow> is_patch c"
  by (cases c) auto

lemma issues_Apply [issue_rules]:
  "issues (\<lambda>c. \<exists>ob'. ensureGVK cl ob = Inr ob' \<and> owned_patch cl owner ob' c) (Apply cl owner ob)"
  unfolding Apply_def
  by (intro issue_rules issues_weaken [OF issues_apply_owned]) auto

text \<open>Refusing to adopt: the object is there, and not owned by this ConfigSync.\<close>

lemma Apply_refuses:
  assumes "ensureGVK cl ob = Inr ob'"
    and "cl_GetObject cl (ko_GVK ob') (ko_Namespace ob') (ko_Name ob') (w_Cluster w) = (Inr existing, k)"
    and "\<not> ownedBy existing owner"
  shows "run_state (Apply cl owner ob) w =
    (Some (ApplyErr ApplyAlreadyExistsNotOwned
       (g_Kind (ko_GVK ob') @ '' '' @ quote (ko_Name ob')
         @ '' already exists and is not owned by Kohen; refusing to adopt'') None),
     w\<lparr>w_Cluster := k\<rparr>)"
  using assms by (simp add: Apply_def run_simps)

text \<open>A pruning run deletes members of the list that are not kept, in the order of the list.\<close>

fun deletes_from :: "string list \<Rightarrow> kobject list \<Rightarrow> call \<Rightarrow> bool" where
  "deletes_from keep obs (CDelete ob) \<longleftrightarrow> ob \<in> set obs \<and> ko_Name ob \<notin> set keep"
| "deletes_from keep obs c \<longleftrightarrow> False"

lemma deletes_from_Cons: "deletes_from keep obs c \<Longrightarrow> deletes_from keep (ob # obs) c"
  by (cases c) auto

lemma issues_prune_items: "issues (deletes_from keep obs) (prune_items cl keep obs)"
proof (induction obs)
  case Nil
  then show ?case by (simp add: issue_rules)
next
  case (Cons ob obs)
  note IH = issues_weaken [OF Cons deletes_from_Cons]
  show ?case
    unfolding prune_items.simps by (intro issue_rules IH) simp_all
qed

text \<open>A successful run deletes exactly the members that are not kept.\<close>

lemma prune_items_complete:
  "run_state (prune_items cl keep obs) w = (None, w') \<Longrightarrow>
   w_Calls w' = w_Calls w @ map CDelete (filter (\<lambda>ob. ko_Name ob \<notin> set keep) obs)"
proof (induction obs arbitrary: w)
  case (Cons ob obs)
  show ?case
  proof (cases "ko_Name ob \<in> set keep")
    case True
    then show ?thesis using Cons by simp
  next
    case False
    obtain r k where d: "cl_Delete cl ob (w_Cluster w) = (r, k)"
      by (cases "cl_Delete cl ob (w_Cluster w)")
    let ?w = "w\<lparr>w_Cluster := k, w_Calls := w_Calls w @ [CDelete ob]\<rparr>"
    have "run_state (prune_items cl keep obs) ?w = (None, w')"
      using Cons.prems False d by (auto simp: run_simps split: option.splits if_splits)
    from Cons.IH [OF this] False show ?thesis by simp
  qed
qed simp

lemma issues_Prune [issue_rules]: "issues is_delete (Prune cl owner g keep)"
proof -
  have "deletes_from keep obs c \<Longrightarrow> is_delete c" for obs c
    by (cases c) auto
  then show ?thesis
    unfolding Prune_def by (intro issue_rules issues_weaken [OF issues_prune_items]) blast
qed

lemma issues_PruneKind [issue_rules]: "issues is_delete (PruneKind cl owner g keep)"
  unfolding PruneKind_def by (intro issue_rules)

text \<open>A cluster that does not serve the kind has nothing to prune.\<close>

lemma PruneKind_unserved:
  assumes "cl_ListObjects cl g (cs_Namespace owner) (owner_selector owner) (w_Cluster w) = (Inl e, k)"
    "isNoMatch e \<or> isNotFound e"
  shows "run_state (PruneKind cl owner g keep) w = (None, w\<lparr>w_Cluster := k\<rparr>)"
  using assms
  by (auto simp: PruneKind_def Prune_def run_simps isNoMatch_def isNotFound_def)

end
