(* ===== verification/Kube_Demo.thy ===== *)
theory Kube_Demo
  imports Kube
begin

text \<open>
  An in-memory cluster: an instance of the client on which the witnesses run the operator. Objects
  are stored by kind, namespace and name; an apply request replaces or adds the object; there are no
  conflicts. \<open>SetStatusCondition\<close> is implemented as its documentation describes it.
\<close>

record mem =
  m_Now :: time
  m_Objects :: "kobject list"
  m_Secrets :: "(string \<times> secret) list"
  m_Syncs :: "config_sync list"
  m_Deployments :: "(string \<times> deployment) list"

definition not_found :: error where
  "not_found = Api ApiNotFound ''not found''"

definition mem_matches :: "gvk \<Rightarrow> string \<Rightarrow> string \<Rightarrow> kobject \<Rightarrow> bool" where
  "mem_matches g ns n ob \<longleftrightarrow> g_Group (ko_GVK ob) = g_Group g \<and> g_Kind (ko_GVK ob) = g_Kind g
     \<and> ko_Namespace ob = ns \<and> ko_Name ob = n"

definition lookup :: "'a option \<Rightarrow> error + 'a" where
  "lookup x = (case x of None \<Rightarrow> Inl not_found | Some y \<Rightarrow> Inr y)"

definition mem_patch :: "patch \<Rightarrow> mem \<Rightarrow> error option \<times> mem" where
  "mem_patch p k =
     (let ob = pa_Object p
      in (None, k\<lparr>m_Objects := filter (\<lambda>x. \<not> mem_matches (ko_GVK ob) (ko_Namespace ob) (ko_Name ob) x) (m_Objects k) @ [ob]\<rparr>))"

definition mem_list :: "gvk \<Rightarrow> string \<Rightarrow> (string \<times> string) list \<Rightarrow> mem \<Rightarrow> kobject list" where
  "mem_list g ns sel k =
     filter (\<lambda>x. g_Kind (ko_GVK x) @ ''List'' = g_Kind g \<and> ko_Namespace x = ns
       \<and> list_all (\<lambda>(l, v). ko_Labels x l = Some v) sel) (m_Objects k)"

text \<open>The documented behaviour of \<open>meta.SetStatusCondition\<close>.\<close>

definition upsert_condition :: "time \<Rightarrow> condition \<Rightarrow> condition list \<Rightarrow> condition list" where
  "upsert_condition now c cs =
     (case List.find (\<lambda>x. c_Type x = c_Type c) cs of
        None \<Rightarrow> cs @ [c\<lparr>c_LastTransitionTime := (if c_LastTransitionTime c = 0 then now else c_LastTransitionTime c)\<rparr>]
      | Some old \<Rightarrow>
          map (\<lambda>x. if c_Type x = c_Type c
                   then c\<lparr>c_LastTransitionTime := (if c_Status old = c_Status c then c_LastTransitionTime old
                            else if c_LastTransitionTime c = 0 then now else c_LastTransitionTime c)\<rparr>
                   else x) cs)"

definition mem_client :: "mem client" where
  "mem_client = \<lparr>
     cl_Now = (\<lambda>k. (m_Now k, k)),
     cl_GetConfigSync = (\<lambda>ns n k. (lookup (List.find (\<lambda>c. cs_Namespace c = ns \<and> cs_Name c = n) (m_Syncs k)), k)),
     cl_ListConfigSyncs = (\<lambda>ns k. (Inr (filter (\<lambda>c. cs_Namespace c = ns) (m_Syncs k)), k)),
     cl_GetSecret = (\<lambda>ns n k. (lookup (map_of (m_Secrets k) n), k)),
     cl_GetDeployment = (\<lambda>ns n k. (lookup (map_of (m_Deployments k) n), k)),
     cl_GetStatefulSet = (\<lambda>ns n k. (Inl not_found, k)),
     cl_GetObject = (\<lambda>g ns n k. (lookup (List.find (mem_matches g ns n) (m_Objects k)), k)),
     cl_ListObjects = (\<lambda>g ns sel k. (Inr (mem_list g ns sel k), k)),
     cl_Patch = mem_patch,
     cl_Delete = (\<lambda>ob k. (None, k\<lparr>m_Objects :=
        filter (\<lambda>x. \<not> mem_matches (ko_GVK ob) (ko_Namespace ob) (ko_Name ob) x) (m_Objects k)\<rparr>)),
     cl_Update = (\<lambda>cs k. (None, k\<lparr>m_Syncs := cs # filter (\<lambda>c. cs_Name c \<noteq> cs_Name cs) (m_Syncs k)\<rparr>)),
     cl_StatusUpdate = (\<lambda>cs k. (None, k\<lparr>m_Syncs := cs # filter (\<lambda>c. cs_Name c \<noteq> cs_Name cs) (m_Syncs k)\<rparr>)),
     lib_SetControllerReference = (\<lambda>cs ob. Inr (ob\<lparr>ko_Owners :=
        [\<lparr>or_UID = cs_UID cs, or_Name = cs_Name cs, or_Controller = True\<rparr>]\<rparr>)),
     lib_SetStatusCondition = upsert_condition,
     lib_ObjectKinds = (\<lambda>ob. Inr [\<lparr>g_Group = [], g_Version = ''v1'', g_Kind = ''ConfigMap''\<rparr>]),
     lib_ExtractList = Inr,
     lib_MapOrder = (\<lambda>xs. xs),
     lib_ContainsFinalizer = (\<lambda>cs f. f \<in> set (cs_Finalizers cs)),
     lib_AddFinalizer = (\<lambda>cs f. if f \<in> set (cs_Finalizers cs) then cs else cs\<lparr>cs_Finalizers := cs_Finalizers cs @ [f]\<rparr>),
     lib_RemoveFinalizer = (\<lambda>cs f. cs\<lparr>cs_Finalizers := removeAll f (cs_Finalizers cs)\<rparr>)\<rparr>"

definition demo_spec :: config_sync_spec where
  "demo_spec = \<lparr>sp_Source = \<lparr>src_URL = ''https://g.io/a'', src_Ref = ''main'', src_AuthSecretRef = None\<rparr>,
     sp_Path = ''conf'', sp_WorkloadRef = \<lparr>wl_Kind = ''Deployment'', wl_Name = ''web''\<rparr>,
     sp_ConfigMapName = [], sp_Wiring = \<lparr>wi_Container = [], wi_MountPath = []\<rparr>,
     sp_Rollout = RolloutAuto, sp_SyncInterval = 0, sp_SecretRefs = []\<rparr>"

definition demo_sync :: config_sync where
  "demo_sync = \<lparr>cs_Namespace = ''prod'', cs_Name = ''web'', cs_UID = ''u1'', cs_Generation = 1,
     cs_CreationTimestamp = 5, cs_DeletionTimestamp = None, cs_Finalizers = [''kohen.dev/finalizer''],
     cs_Annotations = Map.empty, cs_Spec = demo_spec,
     cs_Status = \<lparr>st_ObservedGeneration = 0, st_SourceCommit = [], st_ConfigVersion = [],
       st_WorkloadVersion = [], st_RolloutInProgress = False, st_SecretRefs = [], st_Conditions = []\<rparr>\<rparr>"

definition configmap_gvk :: gvk where
  "configmap_gvk = \<lparr>g_Group = [], g_Version = ''v1'', g_Kind = ''ConfigMap''\<rparr>"

definition demo_tree :: "gvk \<Rightarrow> string \<Rightarrow> json \<Rightarrow> kobject" where
  "demo_tree g n t = \<lparr>ko_GVK = g, ko_Namespace = ''prod'', ko_Name = n, ko_UID = [], ko_Labels = Map.empty,
     ko_Annotations = Map.empty, ko_Owners = [], ko_ResourceVersion = [], ko_ManagedFields = [],
     ko_Payload = Tree t\<rparr>"

definition demo_secret :: secret where
  "demo_secret = \<lparr>sec_ResourceVersion = ''7'', sec_Labels = Map.empty,
     sec_Data = [(''password'', ''hunter2'')], sec_StringData = []\<rparr>"

definition demo_mem :: mem where
  "demo_mem = \<lparr>m_Now = 100, m_Objects = [], m_Secrets = [(''db'', demo_secret)], m_Syncs = [demo_sync],
     m_Deployments = []\<rparr>"

definition mem_world :: "mem \<Rightarrow> mem world" where
  "mem_world k = \<lparr>w_Cluster = k, w_CS = demo_sync, w_Redactor = redactor_New, w_Metrics = metrics_init,
     w_Events = [], w_Calls = []\<rparr>"

end
