(* ===== verification/Cluster_Properties.thy ===== *)
theory Cluster_Properties
  imports Resolvers Wire Apply Kube_Demo
begin

text \<open>
  Properties of the components that talk to the cluster: the secret backends, the guard rails on
  manifests, the apply engine and the wiring.
\<close>

section \<open>Witness data\<close>

definition demo_es :: kobject where
  "demo_es = demo_tree (es_gvk ''v1'') ''db'' (JObj [(''status'', JObj [(''conditions'', JArr
     [JObj [(''type'', JStr ''Ready''), (''status'', JStr ''True'')]])])])"

definition demo_want :: secret_ref where
  "demo_want = \<lparr>r_Name = ''db'', r_SecretName = ''db'', r_RequiredKeys = [''password'']\<rparr>"

section \<open>Secret backends\<close>

text \<open>C25: The resolutions of both live backends do not depend on any secret value: on a
  cluster that shows every secret with blank values they compute the same.\<close>

theorem backends_value_blind:
  "native_Resolve (blind cl) ns ref = native_Resolve cl ns ref \<and>
   eso_Resolve (blind cl) ns ref = eso_Resolve cl ns ref"
  by (simp only: native.value_blind eso.value_blind)

text \<open>The native backend reports ready exactly when the Secret is there with every required
  key; an absent Secret or key is a reason, and only an unexpected API error is an error.\<close>

theorem native_ready:
  assumes "cl_GetSecret cl ns (r_SecretName ref) (w_Cluster w) = (answer, k)"
  shows "(case fst (run_state (native_Resolve cl ns ref) w) of
      Inl e \<Rightarrow> answer = Inl e \<and> \<not> isNotFound e
    | Inr res \<Rightarrow>
        (rs_Ready res \<longleftrightarrow> (case answer of Inl _ \<Rightarrow> False
                         | Inr s \<Rightarrow> set (r_RequiredKeys ref) \<subseteq> set (secretKeys s))) \<and>
        (rs_Ready res \<or> rs_Reason res = (case answer of Inl _ \<Rightarrow> ReasonSecretNotFound | Inr _ \<Rightarrow> ReasonKeyMissing)))"
  using assms by (auto simp: native_shape not_ready_def missingKeys_Nil split: sum.split)

theorem native_ready_witness:
  "rs_Ready \<lparr>rs_Ready = True, rs_SecretName = ''db'', rs_VersionToken = versionToken ''7'' [''password''],
     rs_Reason = [], rs_Message = []\<rparr> \<longleftrightarrow> set (r_RequiredKeys demo_want) \<subseteq> set (secretKeys demo_secret)"
proof -
  have keys: "secretKeys demo_secret = [''password'']" by code_simp
  have get: "cl_GetSecret mem_client ''prod'' (r_SecretName demo_want) (w_Cluster (mem_world demo_mem)) =
      (Inr demo_secret, demo_mem)"
    by (simp add: mem_client_def demo_want_def mem_world_def demo_mem_def lookup_def)
  from native_ready [OF get] show ?thesis
    by (simp add: native_shape get keys missingKeys_Nil demo_want_def)
qed

text \<open>C33: The External Secrets backend reports ready only after it read an ExternalSecret whose Ready
  condition is true, and its target Secret with every required key, which is the Secret it names.\<close>

theorem eso_ready:
  assumes "run_state (eso_Resolve cl ns ref) w = (Inr res, w')" "rs_Ready res"
  shows "\<exists>v ob s k1 k2. v \<in> set candidateVersions \<and>
     fst (cl_GetObject cl (es_gvk v) ns (r_SecretName ref) k1) = Inr ob \<and> esReady (ko_Tree ob) \<and>
     rs_SecretName res = esTargetName (ko_Tree ob) (r_SecretName ref) \<and>
     fst (cl_GetSecret cl ns (rs_SecretName res) k2) = Inr s \<and>
     set (r_RequiredKeys ref) \<subseteq> set (secretKeys s)"
proof -
  have found: "\<exists>v k1. v \<in> set vs \<and> fst (cl_GetObject cl (es_gvk v) ns name k1) = Inr ob"
    if "run_state (get_versions cl vs ns name) w = (Inr (Some ob, b), w1)" for vs name ob b w w1
    using that
  proof (induction vs arbitrary: w)
    case (Cons v vs)
    show ?case
    proof (cases "fst (cl_GetObject cl (es_gvk v) ns name (w_Cluster w))")
      case (Inr ob')
      with Cons.prems show ?thesis by (intro exI [of _ v] exI [of _ "w_Cluster w"]) (simp add: run_simps)
    next
      case (Inl e)
      with Cons show ?thesis by (fastforce simp: run_simps split: if_splits)
    qed
  qed simp
  obtain g w1 where g: "run_state (getExternalSecret cl ns (r_SecretName ref)) w = (g, w1)" by fastforce
  have "\<exists>ob. g = Inr (Some ob, True) \<and> esReady (ko_Tree ob) \<and>
      run_state (eso_target cl ns ref (ko_Tree ob)) w1 = (Inr res, w')"
    using assms g by (auto simp: eso_Resolve_def not_ready_def split: sum.splits prod.splits option.splits if_splits)
  then obtain ob where ob: "g = Inr (Some ob, True)" "esReady (ko_Tree ob)"
    "run_state (eso_target cl ns ref (ko_Tree ob)) w1 = (Inr res, w')" by blast
  from found g ob(1) obtain v k1 where "v \<in> set candidateVersions"
    "fst (cl_GetObject cl (es_gvk v) ns (r_SecretName ref) k1) = Inr ob"
    unfolding getExternalSecret_def by blast
  moreover from ob(3) assms(2) obtain s where
    "fst (cl_GetSecret cl ns (esTargetName (ko_Tree ob) (r_SecretName ref)) (w_Cluster w1)) = Inr s"
    "rs_SecretName res = esTargetName (ko_Tree ob) (r_SecretName ref)"
    "set (r_RequiredKeys ref) \<subseteq> set (secretKeys s)"
    by (auto simp: eso_target_shape not_ready_def missingKeys_Nil split: sum.splits if_splits)
  ultimately show ?thesis using ob(2) by metis
qed

theorem eso_ready_witness:
  "esReady (ko_Tree demo_es) \<and> set (r_RequiredKeys demo_want) \<subseteq> set (secretKeys demo_secret)"
proof -
  let ?res = "\<lparr>rs_Ready = True, rs_SecretName = ''db'', rs_VersionToken = versionToken ''7'' [''password''],
     rs_Reason = [], rs_Message = []\<rparr>"
  let ?w = "mem_world (demo_mem\<lparr>m_Objects := [demo_es]\<rparr>)"
  have keys: "secretKeys demo_secret = [''password'']" by code_simp
  have rv: "sec_ResourceVersion demo_secret = ''7''" by (simp add: demo_secret_def)
  have run: "run_state (eso_Resolve mem_client ''prod'' demo_want) ?w = (Inr ?res, ?w)"
    by (simp add: eso_Resolve_def getExternalSecret_def candidateVersions_def run_simps mem_client_def
        demo_want_def mem_world_def demo_mem_def lookup_def mem_matches_def demo_es_def demo_tree_def es_gvk_def
        esReady_def nestedSlice_def ko_Tree_def eso_target_shape esTargetName_def nestedString_def keys
        missingKeys_def eso_versionToken_def versionToken_def rv)
  from eso_ready [OF run] show ?thesis
    by (auto simp: mem_client_def demo_want_def mem_world_def demo_mem_def lookup_def keys esReady_def
        nestedSlice_def ko_Tree_def demo_es_def demo_tree_def split: option.splits)
qed

section \<open>The apply engine\<close>

text \<open>C34: Applying an object that exists and is not owned by this ConfigSync (by labels, and by
  controller reference once the ConfigSync has a UID) fails with \<open>AlreadyExistsNotOwned\<close> and
  issues no call that changes the cluster.\<close>

theorem Apply_never_adopts:
  assumes "ensureGVK cl ob = Inr ob'"
    and "cl_GetObject cl (ko_GVK ob') (ko_Namespace ob') (ko_Name ob') (w_Cluster w) = (Inr existing, k)"
    and "cs_UID owner \<noteq> []"
    and "label_of existing ManagedByLabel \<noteq> ManagedByValue \<or> label_of existing OwnerLabel \<noteq> cs_Name owner \<or>
      \<not> (\<exists>c. GetControllerOf existing = Some c \<and> or_UID c = cs_UID owner)"
  shows "\<exists>e. run_state (Apply cl owner ob) w = (Some e, w\<lparr>w_Cluster := k\<rparr>) \<and>
    apply_ReasonOf e = Some ApplyAlreadyExistsNotOwned"
proof -
  have "\<not> ownedBy existing owner"
    using assms(3,4) ownedBy_controller ownedBy_labels by blast
  from Apply_refuses [OF assms(1,2) this] show ?thesis by simp
qed

definition demo_foreign :: kobject where
  "demo_foreign = demo_tree \<lparr>g_Group = [], g_Version = ''v1'', g_Kind = ''ConfigMap''\<rparr> ''web-config'' (JObj [])"

theorem Apply_never_adopts_witness:
  "\<exists>e. fst (run_state (Apply mem_client demo_sync demo_foreign)
        (mem_world (demo_mem\<lparr>m_Objects := [demo_foreign]\<rparr>))) = Some e \<and>
     apply_ReasonOf e = Some ApplyAlreadyExistsNotOwned"
proof -
  have "ensureGVK mem_client demo_foreign = Inr demo_foreign"
    by (simp add: ensureGVK_def gvk_Empty_def demo_foreign_def demo_tree_def)
  moreover have "cl_GetObject mem_client (ko_GVK demo_foreign) (ko_Namespace demo_foreign) (ko_Name demo_foreign)
      (demo_mem\<lparr>m_Objects := [demo_foreign]\<rparr>) = (Inr demo_foreign, demo_mem\<lparr>m_Objects := [demo_foreign]\<rparr>)"
    by (simp add: mem_client_def lookup_def mem_matches_def)
  moreover have "cs_UID demo_sync \<noteq> []" "label_of demo_foreign ManagedByLabel \<noteq> ManagedByValue"
    by (simp_all add: demo_sync_def label_of_def demo_foreign_def demo_tree_def)
  ultimately show ?thesis
    using Apply_never_adopts [of mem_client demo_foreign demo_foreign "mem_world (demo_mem\<lparr>m_Objects := [demo_foreign]\<rparr>)"]
    by (fastforce simp: mem_world_def)
qed

text \<open>C35: The only call that changes the cluster Apply may issue is a Server-Side Apply by
  Kohen's manager of the object with the ownership labels and the controller reference on it.\<close>

theorem Apply_stamps_ownership:
  "\<exists>calls. w_Calls (snd (run_state (Apply cl owner ob) w)) = w_Calls w @ calls \<and>
     list_all (\<lambda>c. \<exists>ob' o2. ensureGVK cl ob = Inr ob' \<and>
       lib_SetControllerReference cl owner
         (ob'\<lparr>ko_Labels := (ko_Labels ob')(ManagedByLabel \<mapsto> ManagedByValue, OwnerLabel \<mapsto> cs_Name owner)\<rparr>) = Inr o2 \<and>
       c = CPatch \<lparr>pa_Object = o2\<lparr>ko_ManagedFields := [], ko_ResourceVersion := []\<rparr>,
                   pa_FieldOwner = ApplyFieldManager, pa_Force = True\<rparr>) calls"
proof -
  have shape: "\<exists>o2. lib_SetControllerReference cl owner (own_labels owner ob') = Inr o2 \<and>
      c = CPatch \<lparr>pa_Object = o2\<lparr>ko_ManagedFields := [], ko_ResourceVersion := []\<rparr>,
                  pa_FieldOwner = ApplyFieldManager, pa_Force = True\<rparr>"
    if "owned_patch cl owner ob' c" for c ob'
    using that by (cases c) (auto split: sum.splits)
  obtain calls where "w_Calls (snd (run_state (Apply cl owner ob) w)) = w_Calls w @ calls"
    and own: "list_all (\<lambda>c. \<exists>ob'. ensureGVK cl ob = Inr ob' \<and> owned_patch cl owner ob' c) calls"
    using issuesE [OF issues_Apply] by blast
  moreover have "list_all (\<lambda>c. \<exists>ob' o2. ensureGVK cl ob = Inr ob' \<and>
       lib_SetControllerReference cl owner (own_labels owner ob') = Inr o2 \<and>
       c = CPatch \<lparr>pa_Object = o2\<lparr>ko_ManagedFields := [], ko_ResourceVersion := []\<rparr>,
                   pa_FieldOwner = ApplyFieldManager, pa_Force = True\<rparr>) calls"
  proof (rule list.pred_mono_strong [OF own])
    fix c
    assume "\<exists>ob'. ensureGVK cl ob = Inr ob' \<and> owned_patch cl owner ob' c"
    then obtain ob' where ob': "ensureGVK cl ob = Inr ob'" "owned_patch cl owner ob' c" by blast
    from shape [OF ob'(2)] obtain o2 where o2:
      "lib_SetControllerReference cl owner (own_labels owner ob') = Inr o2"
      "c = CPatch \<lparr>pa_Object = o2\<lparr>ko_ManagedFields := [], ko_ResourceVersion := []\<rparr>,
                  pa_FieldOwner = ApplyFieldManager, pa_Force = True\<rparr>" by blast
    show "\<exists>ob' o2. ensureGVK cl ob = Inr ob' \<and>
       lib_SetControllerReference cl owner (own_labels owner ob') = Inr o2 \<and>
       c = CPatch \<lparr>pa_Object = o2\<lparr>ko_ManagedFields := [], ko_ResourceVersion := []\<rparr>,
                   pa_FieldOwner = ApplyFieldManager, pa_Force = True\<rparr>"
      by (intro exI conjI) (rule ob'(1), rule o2(1), rule o2(2))
  qed
  ultimately show ?thesis unfolding own_labels_def by blast
qed

text \<open>C36: A pruning run that succeeds deleted exactly the listed objects of this owner that are not
  kept, in the order of the list; one that fails deleted only such objects.\<close>

theorem Prune_exact:
  assumes "cl_ListObjects cl g (cs_Namespace owner) (owner_selector owner) (w_Cluster w) = (Inr listed, k)"
    and "lib_ExtractList cl listed = Inr items"
    and "run_state (Prune cl owner g keep) w = (r, w')"
  shows "\<exists>calls. w_Calls w' = w_Calls w @ calls \<and> list_all (deletes_from keep items) calls \<and>
    (r = None \<longrightarrow> calls = map CDelete (filter (\<lambda>ob. ko_Name ob \<notin> set keep) items))"
proof -
  have run: "run_state (prune_items cl keep items) (w\<lparr>w_Cluster := k\<rparr>) = (r, w')"
    using assms by (simp add: Prune_def run_simps)
  obtain calls where "w_Calls w' = w_Calls w @ calls" "list_all (deletes_from keep items) calls"
    using issuesE [OF issues_prune_items, of cl keep items "w\<lparr>w_Cluster := k\<rparr>"] run by auto
  with prune_items_complete [of cl keep items "w\<lparr>w_Cluster := k\<rparr>" w'] run show ?thesis by auto
qed

abbreviation configmap_list :: gvk where
  "configmap_list \<equiv> \<lparr>g_Group = [], g_Version = ''v1'', g_Kind = ''ConfigMapList''\<rparr>"

definition demo_owned :: kobject where
  "demo_owned = own_labels demo_sync demo_foreign"

theorem Prune_exact_witness:
  "w_Calls (snd (run_state (Prune mem_client demo_sync configmap_list [''other''])
     (mem_world (demo_mem\<lparr>m_Objects := [demo_foreign, demo_owned]\<rparr>)))) = [CDelete demo_owned]"
proof -
  let ?w = "mem_world (demo_mem\<lparr>m_Objects := [demo_foreign, demo_owned]\<rparr>)"
  let ?run = "run_state (Prune mem_client demo_sync configmap_list [''other'']) ?w"
  have list: "cl_ListObjects mem_client configmap_list (cs_Namespace demo_sync) (owner_selector demo_sync) (w_Cluster ?w)
      = (Inr [demo_owned], w_Cluster ?w)"
    by (simp add: mem_client_def mem_list_def mem_world_def demo_owned_def own_labels_def demo_foreign_def
        demo_tree_def owner_selector_def demo_sync_def)
  have items: "lib_ExtractList mem_client [demo_owned] = Inr [demo_owned]" by (simp add: mem_client_def)
  have "fst ?run = None" "ko_Name demo_owned = ''web-config''"
    using list items
    by (simp_all add: Prune_def run_simps demo_owned_def own_labels_def demo_foreign_def demo_tree_def mem_client_def)
  moreover from this have "?run = (None, snd ?run)" by (metis prod.collapse)
  ultimately show ?thesis
    using Prune_exact [OF list items] by (fastforce simp: mem_world_def)
qed

section \<open>Wiring\<close>


text \<open>The volumes of a wiring request have distinct names when the references have, the
  config volume's among them, and every mount names its volume, in the same order.\<close>

theorem wire_merge_keys:
  assumes "distinct (map wf_RefName (ws_SecretFiles s))"
  shows "distinct (map (key_of ''name'') (wire_volumes s)) \<and>
    map (key_of ''name'') (wire_mounts s) = map (key_of ''name'') (wire_volumes s)"
  using volume_names_distinct [OF assms] mounts_match_volumes by blast

theorem wire_merge_keys_witness:
  "distinct (map (key_of ''name'') (wire_volumes \<lparr>ws_Kind = ''Deployment'', ws_Name = ''web'', ws_Namespace = ''prod'',
     ws_Container = [], ws_MountPath = ''/c'', ws_ConfigMap = ''web-config'', ws_ConfigSHA = [],
     ws_SecretFiles = [\<lparr>wf_RefName = ''db'', wf_SecretName = ''x'', wf_MountPath = ''/s''\<rparr>], ws_SecretEnv = []\<rparr>))"
  by (rule wire_merge_keys [THEN conjunct1]) simp

section \<open>Manifest guard rails\<close>


text \<open>When there is an allow-list, every store that a data or dataFrom entry of an accepted
  manifest names is on it: a permitted top-level store does not mask an override.\<close>

theorem no_store_masking:
  assumes "Check yl g u = None" "gd_StoreAllowList g \<noteq> []"
    and "ent \<in> set (spec_entries u ''data'') \<union> set (spec_entries u ''dataFrom'')" "s \<in> set (entry_stores ent)"
  shows "s \<in> set (gd_StoreAllowList g)"
  using assms Check_applicable entry_store_checked by blast

definition demo_entry :: json where
  "demo_entry = JObj [(''sourceRef'', JObj [(''storeRef'', JObj [(''name'', JStr ''vault'')])])]"

definition demo_manifest :: json where
  "demo_manifest = JObj [(''metadata'', JObj [(''name'', JStr ''db'')]),
     (''spec'', JObj [(''secretStoreRef'', JObj [(''name'', JStr ''vault'')]), (''data'', JArr [demo_entry])])]"

definition demo_guard :: guard where
  "demo_guard = \<lparr>gd_Namespace = ''prod'', gd_StoreAllowList = [''vault'']\<rparr>"

definition demo_docs :: yaml_lib where
  "demo_docs = \<lparr>yl_TypeMetas = (\<lambda>d. []), yl_Objects = (\<lambda>d. []), yl_GVK = (\<lambda>u. es_gvk ''v1''), yl_GroupVersion = g_Version\<rparr>"

theorem no_store_masking_witness:
  "''vault'' \<in> set (gd_StoreAllowList demo_guard)"
proof -
  have "Check demo_docs demo_guard demo_manifest = None" by code_simp
  moreover have "gd_StoreAllowList demo_guard \<noteq> []" "spec_entries demo_manifest ''data'' = [demo_entry]"
    "entry_stores demo_entry = [''vault'']" by code_simp+
  ultimately show ?thesis using no_store_masking [of demo_docs demo_guard demo_manifest demo_entry "''vault''"] by simp
qed

end
