(* ===== verification/Git_Cache.thy ===== *)
theory Git_Cache
  imports Url_Guard "HOL-Library.Multiset"
begin

text \<open>
  The fetch cache (\<open>internal/git/cache.go\<close>). The critical sections under the cache's mutex are
  functions on its state; the goroutines that run \<open>acquire\<close> and \<open>release\<close> are a multiset of program
  points, and a step relation interleaves their critical sections, their waits on the \<open>ready\<close>
  channel and their removals of directories. The invariant gives: a worktree somebody reads is on
  disk and belongs to one entry, and a worktree on disk is cached, in use, or about to be removed.
\<close>

section \<open>State\<close>

text \<open>A \<open>cacheEntry\<close> is a heap object (goroutines hold pointers to it, here its number).\<close>

record cacheEntry =
  ce_dir :: string
  ce_commit :: string
  ce_ready :: bool
  ce_err :: "error option"
  ce_refs :: int
  ce_lastUse :: time
  ce_dead :: bool

record fetchCache =
  fc_ttl :: duration
  fc_max :: int
  fc_entries :: "(string \<times> nat) list"
  fc_heap :: "nat \<Rightarrow> cacheEntry"
  fc_next :: nat
  fc_dirs :: "string list"

definition DefaultFetchCacheTTL :: duration where "DefaultFetchCacheTTL = 10 * minute"
definition DefaultFetchCacheMaxEntries :: int where "DefaultFetchCacheMaxEntries = 128"

definition no_entry :: cacheEntry where
  "no_entry = \<lparr>ce_dir = [], ce_commit = [], ce_ready = False, ce_err = None, ce_refs = 0,
     ce_lastUse = 0, ce_dead = True\<rparr>"

definition newFetchCache :: "duration \<Rightarrow> int \<Rightarrow> fetchCache" where
  "newFetchCache ttl cap =
     \<lparr>fc_ttl = (if ttl \<le> 0 then DefaultFetchCacheTTL else ttl),
      fc_max = (if cap \<le> 0 then DefaultFetchCacheMaxEntries else cap),
      fc_entries = [], fc_heap = (\<lambda>_. no_entry), fc_next = 0, fc_dirs = []\<rparr>"

definition upd :: "nat \<Rightarrow> (cacheEntry \<Rightarrow> cacheEntry) \<Rightarrow> fetchCache \<Rightarrow> fetchCache" where
  "upd i f fc = fc\<lparr>fc_heap := (fc_heap fc)(i := f (fc_heap fc i))\<rparr>"

section \<open>Critical sections\<close>

text \<open>Joining the entry of a key: one more reference.\<close>

definition join :: "nat \<Rightarrow> fetchCache \<Rightarrow> fetchCache" where
  "join i = upd i (\<lambda>e. e\<lparr>ce_refs := ce_refs e + 1\<rparr>)"

text \<open>A miss: a fresh directory (\<open>MkdirTemp\<close> gives one that is not on disk) and a new entry.\<close>

definition miss :: "string \<Rightarrow> string \<Rightarrow> time \<Rightarrow> fetchCache \<Rightarrow> fetchCache" where
  "miss key dir now fc =
     fc\<lparr>fc_entries := (key, fc_next fc) # fc_entries fc,
        fc_heap := (fc_heap fc)(fc_next fc :=
          \<lparr>ce_dir = dir, ce_commit = [], ce_ready = False, ce_err = None, ce_refs = 1,
           ce_lastUse = now, ce_dead = False\<rparr>),
        fc_next := fc_next fc + 1,
        fc_dirs := dir # fc_dirs fc\<rparr>"

definition release_entry :: "nat \<Rightarrow> time \<Rightarrow> fetchCache \<Rightarrow> fetchCache" where
  "release_entry i now = upd i (\<lambda>e. e\<lparr>ce_refs := ce_refs e - 1, ce_lastUse := now\<rparr>)"

text \<open>The directory the release removes once the mutex is free.\<close>

definition release_removes :: "nat \<Rightarrow> fetchCache \<Rightarrow> string list" where
  "release_removes i fc =
     (let e = fc_heap fc i in if ce_refs e - 1 \<le> 0 \<and> ce_dead e then [ce_dir e] else [])"

definition kill :: "string \<times> nat \<Rightarrow> fetchCache \<Rightarrow> fetchCache" where
  "kill kv fc = upd (snd kv) (\<lambda>e. e\<lparr>ce_dead := True\<rparr>)
     (fc\<lparr>fc_entries := filter (\<lambda>p. fst p \<noteq> fst kv) (fc_entries fc)\<rparr>)"

definition expired :: "time \<Rightarrow> fetchCache \<Rightarrow> string \<times> nat \<Rightarrow> bool" where
  "expired now fc kv \<longleftrightarrow>
     (let e = fc_heap fc (snd kv) in ce_refs e \<le> 0 \<and> fc_ttl fc < time_sub now (ce_lastUse e))"

text \<open>The first loop of \<open>evictLocked\<close>, over the entries in the order Go ranges over the map.\<close>

fun evict_expired :: "time \<Rightarrow> (string \<times> nat) list \<Rightarrow> fetchCache \<Rightarrow> string list \<times> fetchCache" where
  "evict_expired now [] fc = ([], fc)"
| "evict_expired now (kv # kvs) fc =
     (if expired now fc kv then
        (let (ds, fc') = evict_expired now kvs (kill kv fc)
         in (ce_dir (fc_heap fc (snd kv)) # ds, fc'))
      else evict_expired now kvs fc)"

text \<open>The least recently used idle entry, the first one of the order among equals.\<close>

fun pick_oldest :: "fetchCache \<Rightarrow> (string \<times> nat) option \<Rightarrow> (string \<times> nat) list \<Rightarrow> (string \<times> nat) option" where
  "pick_oldest fc best [] = best"
| "pick_oldest fc best (kv # kvs) =
     (if 0 < ce_refs (fc_heap fc (snd kv)) then pick_oldest fc best kvs
      else case best of
             None \<Rightarrow> pick_oldest fc (Some kv) kvs
           | Some b \<Rightarrow>
               if ce_lastUse (fc_heap fc (snd kv)) < ce_lastUse (fc_heap fc (snd b))
               then pick_oldest fc (Some kv) kvs else pick_oldest fc best kvs)"

text \<open>
  The second loop. Each round removes an entry, so as many rounds as there are entries are enough;
  \<open>ord n\<close> is the order in which round \<open>n\<close> ranges over the map.
\<close>

fun evict_cap ::
  "(nat \<Rightarrow> (string \<times> nat) list \<Rightarrow> (string \<times> nat) list) \<Rightarrow> nat \<Rightarrow> fetchCache \<Rightarrow> string list \<times> fetchCache" where
  "evict_cap ord 0 fc = ([], fc)"
| "evict_cap ord (Suc n) fc =
     (if int (length (fc_entries fc)) \<le> fc_max fc then ([], fc)
      else case pick_oldest fc None (ord n (fc_entries fc)) of
             None \<Rightarrow> ([], fc)
           | Some kv \<Rightarrow>
               let (ds, fc') = evict_cap ord n (kill kv fc)
               in (ce_dir (fc_heap fc (snd kv)) # ds, fc'))"

definition evictLocked ::
  "(nat \<Rightarrow> (string \<times> nat) list \<Rightarrow> (string \<times> nat) list) \<Rightarrow> time \<Rightarrow> fetchCache \<Rightarrow> string list \<times> fetchCache" where
  "evictLocked ord now fc =
     (let (ds, fc1) = evict_expired now (ord (length (fc_entries fc)) (fc_entries fc)) fc;
          (ds', fc2) = evict_cap ord (length (fc_entries fc1)) fc1
      in (ds @ ds', fc2))"

text \<open>The critical section after a clone, of the entry \<open>i\<close> of \<open>key\<close>.\<close>

definition clone_done ::
  "(nat \<Rightarrow> (string \<times> nat) list \<Rightarrow> (string \<times> nat) list) \<Rightarrow> time \<Rightarrow> string \<Rightarrow> nat \<Rightarrow> error + string
   \<Rightarrow> fetchCache \<Rightarrow> string list \<times> fetchCache" where
  "clone_done ord now key i r fc =
     (case r of
        Inl err \<Rightarrow> ([], kill (key, i) (upd i (\<lambda>e. e\<lparr>ce_err := Some err\<rparr>) fc))
      | Inr commit \<Rightarrow> evictLocked ord now (upd i (\<lambda>e. e\<lparr>ce_commit := commit\<rparr>) fc))"

definition close_ready :: "nat \<Rightarrow> fetchCache \<Rightarrow> fetchCache" where
  "close_ready i = upd i (\<lambda>e. e\<lparr>ce_ready := True\<rparr>)"

definition RemoveAll :: "string \<Rightarrow> fetchCache \<Rightarrow> fetchCache" where
  "RemoveAll d fc = fc\<lparr>fc_dirs := removeAll d (fc_dirs fc)\<rparr>"

section \<open>acquire and release, run alone\<close>

text \<open>
  The whole of \<open>acquire\<close> and \<open>release\<close> as one goroutine runs them when no other interferes. A hit on
  an entry that is not ready can then only end by cancellation. The result of \<open>acquire\<close> is the entry
  or the error, the directories it removed, in order, and the new cache.
\<close>

definition release :: "nat \<Rightarrow> time \<Rightarrow> fetchCache \<Rightarrow> fetchCache" where
  "release i now fc = fold RemoveAll (release_removes i fc) (release_entry i now fc)"

definition acquire ::
  "(nat \<Rightarrow> (string \<times> nat) list \<Rightarrow> (string \<times> nat) list) \<Rightarrow> time \<Rightarrow> string \<Rightarrow> error + string
   \<Rightarrow> (string \<Rightarrow> error + string) \<Rightarrow> fetchCache \<Rightarrow> (error + nat) \<times> string list \<times> fetchCache" where
  "acquire ord now key mkdir clone fc =
     (case map_of (fc_entries fc) key of
        Some i \<Rightarrow>
          let fc1 = join i fc; e = fc_heap fc1 i
          in if \<not> ce_ready e then
               (Inl (Plain ''context canceled''), release_removes i fc1, release i now fc1)
             else (case ce_err e of
                     Some err \<Rightarrow> (Inl err, release_removes i fc1, release i now fc1)
                   | None \<Rightarrow> (Inr i, [], fc1))
      | None \<Rightarrow>
          (case mkdir of
             Inl e \<Rightarrow> (Inl (git_wrapError GitFetchFailed e ''creating cache directory''), [], fc)
           | Inr dir \<Rightarrow>
               let i = fc_next fc; r = clone dir;
                   (ds, fc2) = clone_done ord now key i r (miss key dir now fc);
                   fc3 = fold RemoveAll ds (close_ready i fc2)
               in case r of
                    Inl err \<Rightarrow> (Inl err, ds @ release_removes i fc3, release i now fc3)
                  | Inr commit \<Rightarrow> (Inr i, ds, fc3)))"

section \<open>Goroutines\<close>

text \<open>
  Where a goroutine of \<open>acquire\<close> or \<open>release\<close> stands: waiting on the ready channel of an entry,
  cloning, about to close the channel, reading a worktree it acquired (until it calls \<open>release\<close>),
  about to release an entry without having read it, or about to remove directories. \<open>Closing\<close> and
  \<open>Removing\<close> carry the directories, and the latter what to do next.
\<close>

datatype goroutine =
    Waiting nat
  | Cloning string nat
  | Closing nat "string list" bool
  | Holding nat
  | Dropping nat
  | Removing "string list" "nat option" bool

text \<open>The entry a goroutine holds a reference to.\<close>

fun ref_of :: "goroutine \<Rightarrow> nat option" where
  "ref_of (Waiting i) = Some i"
| "ref_of (Cloning k i) = Some i"
| "ref_of (Closing i ds failed) = Some i"
| "ref_of (Holding i) = Some i"
| "ref_of (Dropping i) = Some i"
| "ref_of (Removing ds own failed) = own"

text \<open>The directories it is about to remove.\<close>

fun pending :: "goroutine \<Rightarrow> string list" where
  "pending (Closing i ds failed) = ds"
| "pending (Removing ds own failed) = ds"
| "pending g = []"

type_synonym cache_sys = "fetchCache \<times> goroutine multiset"

inductive cache_step :: "cache_sys \<Rightarrow> cache_sys \<Rightarrow> bool" where
  Hit: "map_of (fc_entries fc) key = Some i \<Longrightarrow>
    cache_step (fc, G) (join i fc, add_mset (Waiting i) G)"
| Miss: "map_of (fc_entries fc) key = None \<Longrightarrow> dir \<notin> set (fc_dirs fc) \<Longrightarrow>
    cache_step (fc, G) (miss key dir now fc, add_mset (Cloning key (fc_next fc)) G)"
| Ready: "ce_ready (fc_heap fc i) \<Longrightarrow> ce_err (fc_heap fc i) = None \<Longrightarrow>
    cache_step (fc, add_mset (Waiting i) G) (fc, add_mset (Holding i) G)"
| Ready_Failed: "ce_ready (fc_heap fc i) \<Longrightarrow> ce_err (fc_heap fc i) = Some e \<Longrightarrow>
    cache_step (fc, add_mset (Waiting i) G) (fc, add_mset (Dropping i) G)"
| Cancelled: "cache_step (fc, add_mset (Waiting i) G) (fc, add_mset (Dropping i) G)"
| Clone: "clone_done ord now key i r fc = (ds, fc') \<Longrightarrow> (\<And>n xs. mset (ord n xs) = mset xs) \<Longrightarrow>
    cache_step (fc, add_mset (Cloning key i) G) (fc', add_mset (Closing i ds (\<exists>e. r = Inl e)) G)"
| Close: "cache_step (fc, add_mset (Closing i ds failed) G)
    (close_ready i fc, add_mset (Removing ds (Some i) failed) G)"
| Remove: "cache_step (fc, add_mset (Removing (d # ds) own failed) G)
    (RemoveAll d fc, add_mset (Removing ds own failed) G)"
| Acquired: "cache_step (fc, add_mset (Removing [] (Some i) False) G) (fc, add_mset (Holding i) G)"
| Failed: "cache_step (fc, add_mset (Removing [] (Some i) True) G) (fc, add_mset (Dropping i) G)"
| Release: "cache_step (fc, add_mset (Holding i) G)
    (release_entry i now fc, add_mset (Removing (release_removes i fc) None False) G)"
| Drop: "cache_step (fc, add_mset (Dropping i) G)
    (release_entry i now fc, add_mset (Removing (release_removes i fc) None False) G)"
| Done: "cache_step (fc, add_mset (Removing [] None failed) G) (fc, G)"

inductive cache_reachable :: "cache_sys \<Rightarrow> bool" where
  Start: "cache_reachable (newFetchCache ttl cap, {#})"
| Step: "cache_reachable s \<Longrightarrow> cache_step s s' \<Longrightarrow> cache_reachable s'"

section \<open>The invariant of the cache\<close>

text \<open>An entry whose worktree must stay: still cached, or referenced.\<close>

definition kept :: "fetchCache \<Rightarrow> nat set" where
  "kept fc = {i. i < fc_next fc \<and> (\<not> ce_dead (fc_heap fc i) \<or> 0 < ce_refs (fc_heap fc i))}"

definition kept_dirs :: "fetchCache \<Rightarrow> string multiset" where
  "kept_dirs fc = image_mset (\<lambda>i. ce_dir (fc_heap fc i)) (mset_set (kept fc))"

text \<open>
  The cache is consistent with \<open>R i\<close> references to entry \<open>i\<close>, directories \<open>P\<close> about to be removed
  and clones \<open>C\<close> in progress: the map holds the entries that are not dead, once each; the counters
  count the references; the directories on disk are exactly those of the kept entries and those
  about to be removed, each once; and the entries being cloned are cached under their key.
\<close>

definition cache_ok ::
  "fetchCache \<Rightarrow> (nat \<Rightarrow> nat) \<Rightarrow> string multiset \<Rightarrow> (string \<times> nat) multiset \<Rightarrow> bool" where
  "cache_ok fc R P C \<longleftrightarrow>
     distinct (map fst (fc_entries fc)) \<and> distinct (map snd (fc_entries fc)) \<and>
     (\<forall>i. i \<in> snd ` set (fc_entries fc) \<longleftrightarrow> i < fc_next fc \<and> \<not> ce_dead (fc_heap fc i)) \<and>
     (\<forall>i. ce_refs (fc_heap fc i) = int (R i)) \<and>
     (\<forall>i \<ge> fc_next fc. fc_heap fc i = no_entry) \<and>
     distinct (fc_dirs fc) \<and> mset (fc_dirs fc) = kept_dirs fc + P \<and>
     C \<subseteq># mset (fc_entries fc) \<and> (\<forall>kv \<in># C. 0 < R (snd kv))"

lemma finite_kept [simp]: "finite (kept fc)"
  by (simp add: kept_def)

lemma upd_simps [simp]:
  "fc_ttl (upd i f fc) = fc_ttl fc" "fc_max (upd i f fc) = fc_max fc"
  "fc_entries (upd i f fc) = fc_entries fc" "fc_next (upd i f fc) = fc_next fc"
  "fc_dirs (upd i f fc) = fc_dirs fc" "fc_heap (upd i f fc) j = (if j = i then f (fc_heap fc i) else fc_heap fc j)"
  by (simp_all add: upd_def)

lemma kill_simps [simp]:
  "fc_ttl (kill kv fc) = fc_ttl fc" "fc_max (kill kv fc) = fc_max fc"
  "fc_entries (kill kv fc) = filter (\<lambda>p. fst p \<noteq> fst kv) (fc_entries fc)"
  "fc_next (kill kv fc) = fc_next fc" "fc_dirs (kill kv fc) = fc_dirs fc"
  "fc_heap (kill kv fc) j = (if j = snd kv then (fc_heap fc j)\<lparr>ce_dead := True\<rparr> else fc_heap fc j)"
  by (simp_all add: kill_def upd_def)

lemma kept_dirs_cong:
  "kept fc' = kept fc \<Longrightarrow> (\<And>i. ce_dir (fc_heap fc' i) = ce_dir (fc_heap fc i)) \<Longrightarrow> kept_dirs fc' = kept_dirs fc"
  by (simp add: kept_dirs_def)

lemma kept_dirs_remove:
  assumes "i \<in> kept fc" "kept fc' = kept fc - {i}" "\<And>i. ce_dir (fc_heap fc' i) = ce_dir (fc_heap fc i)"
  shows "kept_dirs fc = add_mset (ce_dir (fc_heap fc i)) (kept_dirs fc')"
proof -
  have m: "mset_set (kept fc) = add_mset i (mset_set (kept fc - {i}))"
    using assms(1) by (intro mset_set.remove) simp_all
  show ?thesis unfolding kept_dirs_def assms(2,3) m by (simp only: image_mset_add_mset)
qed

lemma cache_okD:
  assumes "cache_ok fc R P C"
  shows "distinct (map fst (fc_entries fc))" "distinct (map snd (fc_entries fc))"
    "i \<in> snd ` set (fc_entries fc) \<longleftrightarrow> i < fc_next fc \<and> \<not> ce_dead (fc_heap fc i)"
    "ce_refs (fc_heap fc i) = int (R i)" "fc_next fc \<le> i \<Longrightarrow> fc_heap fc i = no_entry"
    "distinct (fc_dirs fc)" "mset (fc_dirs fc) = kept_dirs fc + P"
    "C \<subseteq># mset (fc_entries fc)" "kv \<in># C \<Longrightarrow> 0 < R (snd kv)" "kv \<in># C \<Longrightarrow> kv \<in> set (fc_entries fc)"
  using assms unfolding cache_ok_def by (blast, blast, blast, blast, blast, blast, blast, blast, blast)
     (metis cache_ok_def assms mset_subset_eqD set_mset_mset)

lemma cache_okI:
  assumes "distinct (map fst (fc_entries fc))" "distinct (map snd (fc_entries fc))"
    "\<And>i. i \<in> snd ` set (fc_entries fc) \<longleftrightarrow> i < fc_next fc \<and> \<not> ce_dead (fc_heap fc i)"
    "\<And>i. ce_refs (fc_heap fc i) = int (R i)" "\<And>i. fc_next fc \<le> i \<Longrightarrow> fc_heap fc i = no_entry"
    "distinct (fc_dirs fc)" "mset (fc_dirs fc) = kept_dirs fc + P"
    "C \<subseteq># mset (fc_entries fc)" "\<And>kv. kv \<in># C \<Longrightarrow> 0 < R (snd kv)"
  shows "cache_ok fc R P C"
  using assms unfolding cache_ok_def by blast

lemma cache_ok_mem:
  assumes "cache_ok fc R P C" "kv \<in> set (fc_entries fc)"
  shows "snd kv < fc_next fc" "\<not> ce_dead (fc_heap fc (snd kv))"
  using cache_okD(3) [OF assms(1), of "snd kv"] assms(2) by auto

lemma cache_ok_key:
  assumes "cache_ok fc R P C" "p \<in> set (fc_entries fc)" "q \<in> set (fc_entries fc)"
  shows "fst p = fst q \<longleftrightarrow> p = q" "snd p = snd q \<longleftrightarrow> p = q"
  using cache_okD(1,2) [OF assms(1)] assms(2,3) by (metis distinct_map inj_onD)+

text \<open>Removing the entry of a key from the map leaves the others.\<close>

lemma filter_key:
  assumes "distinct (map fst es)" "distinct (map snd es)" "kv \<in> set es"
  shows "snd ` set (filter (\<lambda>p. fst p \<noteq> fst kv) es) = snd ` set es - {snd kv}"
proof -
  have "fst p = fst kv \<longleftrightarrow> snd p = snd kv" if "p \<in> set es" for p
    using assms that by (metis distinct_map inj_on_def)
  then show ?thesis using assms(3) by auto
qed

lemma distinct_map_filter_fst: "distinct (map f xs) \<Longrightarrow> distinct (map f (filter Q xs))"
  by (simp add: distinct_map_filter)

lemma kill_ok_map:
  assumes ok: "cache_ok fc R P C" and kv: "kv \<in> set (fc_entries fc)"
  shows "distinct (map fst (fc_entries (kill kv fc)))" "distinct (map snd (fc_entries (kill kv fc)))"
    "i \<in> snd ` set (fc_entries (kill kv fc)) \<longleftrightarrow>
       i < fc_next (kill kv fc) \<and> \<not> ce_dead (fc_heap (kill kv fc) i)"
    "ce_refs (fc_heap (kill kv fc) i) = int (R i)"
    "fc_next (kill kv fc) \<le> i \<Longrightarrow> fc_heap (kill kv fc) i = no_entry"
    "distinct (fc_dirs (kill kv fc))"
proof -
  show "distinct (map fst (fc_entries (kill kv fc)))" "distinct (map snd (fc_entries (kill kv fc)))"
    using cache_okD(1,2) [OF ok] by (simp_all add: distinct_map_filter)
  show "i \<in> snd ` set (fc_entries (kill kv fc)) \<longleftrightarrow>
       i < fc_next (kill kv fc) \<and> \<not> ce_dead (fc_heap (kill kv fc) i)"
    unfolding kill_simps filter_key [OF cache_okD(1,2) [OF ok] kv] using cache_okD(3) [OF ok, of i] by auto
  show "ce_refs (fc_heap (kill kv fc) i) = int (R i)" using cache_okD(4) [OF ok] by simp
  show "fc_next (kill kv fc) \<le> i \<Longrightarrow> fc_heap (kill kv fc) i = no_entry"
    using cache_ok_mem [OF ok kv] cache_okD(5) [OF ok, of i] by auto
  show "distinct (fc_dirs (kill kv fc))" using cache_okD(6) [OF ok] by simp
qed

lemma sub_add_mset: "kv \<notin># C \<Longrightarrow> C \<subseteq># add_mset kv M \<Longrightarrow> C \<subseteq># M"
  by (metis diff_single_trivial diff_single_trivial insert_subset_eq_iff multi_self_add_other_not_self
      mset_subset_eq_insertD subset_eq_diff_conv add_mset_add_single)

lemma kill_entries:
  assumes "cache_ok fc R P C" "kv \<in> set (fc_entries fc)"
  shows "mset (fc_entries fc) = add_mset kv (mset (fc_entries (kill kv fc)))"
proof -
  have "filter (\<lambda>p. fst p \<noteq> fst kv) (fc_entries fc) = filter (\<lambda>p. p \<noteq> kv) (fc_entries fc)"
    using cache_ok_key(1) [OF assms(1) _ assms(2)] by (intro filter_cong) auto
  also have "\<dots> = removeAll kv (fc_entries fc)" by (simp add: removeAll_filter_not_eq fun_eq_iff eq_commute)
  also have "mset \<dots> = mset (remove1 kv (fc_entries fc))"
    using cache_okD(1) [OF assms(1)] by (simp add: distinct_map distinct_remove1_removeAll)
  finally show ?thesis using assms(2) by simp
qed

text \<open>Evicting an idle entry hands its directory over for removal.\<close>

lemma kill_idle_ok:
  assumes ok: "cache_ok fc R P C" and kv: "kv \<in> set (fc_entries fc)" and idle: "R (snd kv) = 0"
  shows "cache_ok (kill kv fc) R (add_mset (ce_dir (fc_heap fc (snd kv))) P) C"
proof (rule cache_okI)
  note live = cache_ok_mem [OF ok kv] cache_okD(4) [OF ok, of "snd kv"]
  have "snd kv \<in> kept fc" "kept (kill kv fc) = kept fc - {snd kv}"
    using live idle by (auto simp: kept_def)
  then have "kept_dirs fc = add_mset (ce_dir (fc_heap fc (snd kv))) (kept_dirs (kill kv fc))"
    by (rule kept_dirs_remove) simp
  then show "mset (fc_dirs (kill kv fc)) =
      kept_dirs (kill kv fc) + add_mset (ce_dir (fc_heap fc (snd kv))) P"
    using cache_okD(7) [OF ok] by simp
  have "kv \<notin># C" using cache_okD(9) [OF ok, of kv] idle by auto
  then show "C \<subseteq># mset (fc_entries (kill kv fc))"
    using cache_okD(8) [OF ok] unfolding kill_entries [OF ok kv] by (rule sub_add_mset)
qed (use kill_ok_map [OF ok kv] cache_okD(9) [OF ok] in blast)+

text \<open>A failed clone takes its own entry out of the map; the entry stays kept, as it is referenced.\<close>

lemma kill_own_ok:
  assumes ok: "cache_ok fc R P (add_mset kv C)"
  shows "cache_ok (kill kv fc) R P C"
proof (rule cache_okI)
  have mem: "kv \<in> set (fc_entries fc)" "0 < R (snd kv)"
    using cache_okD(9,10) [OF ok, of kv] by simp_all
  have "kept (kill kv fc) = kept fc"
    using cache_okD(4) [OF ok, of "snd kv"] mem(2) by (auto simp: kept_def)
  then have "kept_dirs (kill kv fc) = kept_dirs fc" by (rule kept_dirs_cong) simp
  then show "mset (fc_dirs (kill kv fc)) = kept_dirs (kill kv fc) + P"
    using cache_okD(7) [OF ok] by simp
  show "C \<subseteq># mset (fc_entries (kill kv fc))"
    using cache_okD(8) [OF ok] unfolding kill_entries [OF ok mem(1)] mset_subset_eq_add_mset_cancel .
  show "0 < R (snd c)" if "c \<in># C" for c using cache_okD(9) [OF ok, of c] that by simp
  note k = kill_ok_map [OF ok mem(1)]
  show "distinct (map fst (fc_entries (kill kv fc)))" "distinct (map snd (fc_entries (kill kv fc)))"
    "distinct (fc_dirs (kill kv fc))" by (rule k)+
  show "i \<in> snd ` set (fc_entries (kill kv fc)) \<longleftrightarrow>
       i < fc_next (kill kv fc) \<and> \<not> ce_dead (fc_heap (kill kv fc) i)"
    "ce_refs (fc_heap (kill kv fc) i) = int (R i)" for i by (rule k)+
  show "fc_heap (kill kv fc) i = no_entry" if "fc_next (kill kv fc) \<le> i" for i using that by (rule k)
qed

text \<open>The other critical sections.\<close>

lemma ref_lt: "cache_ok fc R P C \<Longrightarrow> 0 < R i \<Longrightarrow> i < fc_next fc"
  using cache_okD(4,5) [of fc R P C i] by (fastforce simp: no_entry_def)

lemma upd_ok:
  assumes ok: "cache_ok fc R P C" and i: "0 < R i"
    and f: "\<And>e. ce_dir (f e) = ce_dir e \<and> ce_refs (f e) = ce_refs e \<and> ce_dead (f e) = ce_dead e"
  shows "cache_ok (upd i f fc) R P C"
proof (rule cache_okI)
  have "kept (upd i f fc) = kept fc" using f by (auto simp: kept_def)
  then have "kept_dirs (upd i f fc) = kept_dirs fc" by (rule kept_dirs_cong) (simp add: f)
  then show "mset (fc_dirs (upd i f fc)) = kept_dirs (upd i f fc) + P" using cache_okD(7) [OF ok] by simp
  show "fc_heap (upd i f fc) j = no_entry" if "fc_next (upd i f fc) \<le> j" for j
    using ref_lt [OF ok i] cache_okD(5) [OF ok, of j] that by auto
qed (use cache_okD [OF ok] in \<open>auto simp: f\<close>)

lemma join_ok:
  assumes ok: "cache_ok fc R P C" and i: "i \<in> snd ` set (fc_entries fc)"
  shows "cache_ok (join i fc) (R(i := Suc (R i))) P C"
proof (rule cache_okI)
  have live: "i < fc_next fc" "\<not> ce_dead (fc_heap fc i)" using cache_okD(3) [OF ok, of i] i by blast+
  have "kept (join i fc) = kept fc" using live by (auto simp: kept_def join_def)
  then have "kept_dirs (join i fc) = kept_dirs fc" by (rule kept_dirs_cong) (simp add: join_def)
  then show "mset (fc_dirs (join i fc)) = kept_dirs (join i fc) + P"
    using cache_okD(7) [OF ok] by (simp add: join_def)
  show "j \<in> snd ` set (fc_entries (join i fc)) \<longleftrightarrow> j < fc_next (join i fc) \<and> \<not> ce_dead (fc_heap (join i fc) j)" for j
    using cache_okD(3) [OF ok, of j] by (simp add: join_def)
  show "fc_heap (join i fc) j = no_entry" if "fc_next (join i fc) \<le> j" for j
    using live(1) cache_okD(5) [OF ok, of j] that by (auto simp: join_def)
qed (use cache_okD [OF ok] in \<open>auto simp: join_def\<close>)

lemma miss_ok:
  assumes ok: "cache_ok fc R P C" and key: "map_of (fc_entries fc) key = None" and dir: "dir \<notin> set (fc_dirs fc)"
  shows "cache_ok (miss key dir now fc) (R(fc_next fc := Suc 0)) P (add_mset (key, fc_next fc) C)"
proof (rule cache_okI)
  let ?n = "fc_next fc"
  have "kept (miss key dir now fc) = insert ?n (kept fc)" by (auto simp: kept_def miss_def less_Suc_eq)
  moreover have "?n \<notin> kept fc" by (simp add: kept_def)
  moreover from this have "image_mset (\<lambda>i. ce_dir (fc_heap (miss key dir now fc) i)) (mset_set (kept fc)) = kept_dirs fc"
    unfolding kept_dirs_def by (intro image_mset_cong) (auto simp: miss_def)
  ultimately have "kept_dirs (miss key dir now fc) = add_mset dir (kept_dirs fc)"
    by (simp add: kept_dirs_def miss_def)
  then show "mset (fc_dirs (miss key dir now fc)) = kept_dirs (miss key dir now fc) + P"
    using cache_okD(7) [OF ok] by (simp add: miss_def)
  have fresh: "?n \<notin> snd ` set (fc_entries fc)" using cache_okD(3) [OF ok, of ?n] by blast
  then show "j \<in> snd ` set (fc_entries (miss key dir now fc)) \<longleftrightarrow>
      j < fc_next (miss key dir now fc) \<and> \<not> ce_dead (fc_heap (miss key dir now fc) j)" for j
    using cache_okD(3) [OF ok, of j] by (auto simp: miss_def)
  show "distinct (map fst (fc_entries (miss key dir now fc)))"
    "distinct (map snd (fc_entries (miss key dir now fc)))"
    using cache_okD(1,2) [OF ok] key fresh by (simp_all add: miss_def map_of_eq_None_iff)
  have "R ?n = 0" using ref_lt [OF ok, of ?n] by fastforce
  then show "0 < (R(?n := Suc 0)) (snd kv)" if "kv \<in># add_mset (key, ?n) C" for kv
    using that cache_okD(9) [OF ok, of kv] by auto
qed (use cache_okD [OF ok] dir in \<open>auto simp: miss_def\<close>)

lemma release_ok:
  assumes ok: "cache_ok fc R P C" and i: "0 < R i"
    and C: "\<And>kv. kv \<in># C \<Longrightarrow> 0 < (R(i := R i - 1)) (snd kv)"
  shows "cache_ok (release_entry i now fc) (R(i := R i - 1)) (P + mset (release_removes i fc)) C"
proof (rule cache_okI)
  let ?fc = "release_entry i now fc"
  note r = cache_okD(4) [OF ok, of i] and lt = ref_lt [OF ok i]
  have same: "ce_dir (fc_heap ?fc j) = ce_dir (fc_heap fc j)" for j by (simp add: release_entry_def)
  have "kept_dirs fc = kept_dirs ?fc + mset (release_removes i fc)"
  proof (cases "ce_refs (fc_heap fc i) - 1 \<le> 0 \<and> ce_dead (fc_heap fc i)")
    case True
    have "i \<in> kept fc" "kept ?fc = kept fc - {i}"
      using True lt r i by (auto simp: kept_def release_entry_def)
    from kept_dirs_remove [OF this same] True show ?thesis by (simp add: release_removes_def Let_def)
  next
    case False
    then have "kept ?fc = kept fc" using lt r i by (auto simp: kept_def release_entry_def)
    from kept_dirs_cong [OF this same] False show ?thesis by (auto simp: release_removes_def Let_def)
  qed
  then show "mset (fc_dirs ?fc) = kept_dirs ?fc + (P + mset (release_removes i fc))"
    using cache_okD(7) [OF ok] by (simp add: release_entry_def)
  show "j \<in> snd ` set (fc_entries ?fc) \<longleftrightarrow> j < fc_next ?fc \<and> \<not> ce_dead (fc_heap ?fc j)" for j
    using cache_okD(3) [OF ok, of j] by (simp add: release_entry_def)
  show "fc_heap ?fc j = no_entry" if "fc_next ?fc \<le> j" for j
    using lt cache_okD(5) [OF ok, of j] that by (auto simp: release_entry_def)
  show "ce_refs (fc_heap ?fc j) = int ((R(i := R i - 1)) j)" for j
    using cache_okD(4) [OF ok, of j] i by (auto simp: release_entry_def of_nat_diff)
qed (use cache_okD [OF ok] C in \<open>auto simp: release_entry_def\<close>)

lemma RemoveAll_ok:
  assumes ok: "cache_ok fc R (add_mset d P) C"
  shows "cache_ok (RemoveAll d fc) R P C"
proof (rule cache_okI)
  have "kept_dirs (RemoveAll d fc) = kept_dirs fc"
    by (rule kept_dirs_cong) (simp_all add: kept_def RemoveAll_def)
  moreover have "mset (removeAll d (fc_dirs fc)) = mset (fc_dirs fc) - {#d#}"
    using cache_okD(6) [OF ok] by (metis distinct_remove1_removeAll mset_remove1)
  ultimately show "mset (fc_dirs (RemoveAll d fc)) = kept_dirs (RemoveAll d fc) + P"
    using cache_okD(7) [OF ok] by (simp add: RemoveAll_def)
  show "distinct (fc_dirs (RemoveAll d fc))"
    using cache_okD(6) [OF ok] by (simp add: RemoveAll_def distinct_removeAll)
qed (use cache_okD [OF ok] in \<open>auto simp: RemoveAll_def\<close>)

lemma forget_clone: "cache_ok fc R P (add_mset kv C) \<Longrightarrow> cache_ok fc R P C"
  unfolding cache_ok_def by (auto dest: mset_subset_eq_insertD subset_mset.less_imp_le)

section \<open>Eviction\<close>

text \<open>A nonempty idle entry: nobody holds a reference to it.\<close>

lemma idle_refs: "cache_ok fc R P C \<Longrightarrow> ce_refs (fc_heap fc i) \<le> 0 \<longleftrightarrow> R i = 0"
  using cache_okD(4) [of fc R P C i] by simp

lemma kill_other:
  assumes "cache_ok fc R P C" "kv \<in> set (fc_entries fc)" "p \<in> set (fc_entries fc)" "p \<noteq> kv"
  shows "p \<in> set (fc_entries (kill kv fc))" "expired now (kill kv fc) p = expired now fc p"
  using cache_ok_key [OF assms(1,3,2)] assms(3,4) by (simp_all add: expired_def)

lemma evict_expired_ok:
  assumes "evict_expired now kvs fc = (ds, fc')" "cache_ok fc R P C"
    "set kvs \<subseteq> set (fc_entries fc)" "distinct kvs"
  shows "cache_ok fc' R (P + mset ds) C"
  using assms
proof (induction now kvs fc arbitrary: ds P rule: evict_expired.induct)
  case (2 now kv kvs fc)
  show ?case
  proof (cases "expired now fc kv")
    case False
    then show ?thesis using 2 by simp
  next
    case True
    obtain ds' where ds': "evict_expired now kvs (kill kv fc) = (ds', fc')"
      "ds = ce_dir (fc_heap fc (snd kv)) # ds'"
      using 2(3) True by (auto split: prod.splits)
    have kv: "kv \<in> set (fc_entries fc)" using 2(5) by simp
    have "R (snd kv) = 0" using True idle_refs [OF 2(4)] by (simp add: expired_def Let_def)
    note ok = kill_idle_ok [OF 2(4) kv this]
    have "set kvs \<subseteq> set (fc_entries (kill kv fc))"
    proof
      fix p assume "p \<in> set kvs"
      with 2(5,6) have "p \<in> set (fc_entries fc)" "p \<noteq> kv" by auto
      then show "p \<in> set (fc_entries (kill kv fc))" by (rule kill_other(1) [OF 2(4) kv])
    qed
    moreover have "distinct kvs" using 2(6) by simp
    ultimately have "cache_ok fc' R (add_mset (ce_dir (fc_heap fc (snd kv))) P + mset ds') C"
      by (rule 2(1) [OF True ds'(1) ok])
    then show ?thesis by (simp add: ds'(2))
  qed
qed simp

text \<open>One step of the search: the entry is skipped, or it becomes the best, or the best stays.\<close>

lemma pick_oldest_step:
  "pick_oldest fc best (kv # kvs) = pick_oldest fc best kvs \<and>
     (0 < ce_refs (fc_heap fc (snd kv)) \<or>
       (\<exists>q. best = Some q \<and> ce_lastUse (fc_heap fc (snd q)) \<le> ce_lastUse (fc_heap fc (snd kv))))
   \<or> pick_oldest fc best (kv # kvs) = pick_oldest fc (Some kv) kvs \<and>
     ce_refs (fc_heap fc (snd kv)) \<le> 0 \<and>
     (\<forall>q. best = Some q \<longrightarrow> ce_lastUse (fc_heap fc (snd kv)) < ce_lastUse (fc_heap fc (snd q)))"
  by (cases best) simp_all

lemma pick_oldest_None:
  "pick_oldest fc best kvs = None \<Longrightarrow> best = None \<and> list_all (\<lambda>kv. 0 < ce_refs (fc_heap fc (snd kv))) kvs"
proof (induction kvs arbitrary: best)
  case (Cons kv kvs)
  from pick_oldest_step [of fc best kv kvs] show ?case
  proof (elim disjE conjE, goal_cases)
    case 1
    then show ?case using Cons.IH [of best] Cons.prems by simp
  next
    case 2
    then obtain q where "best = Some q" by blast
    moreover have "best = None" using Cons.IH [of best] Cons.prems 2(1) by simp
    ultimately show ?case by simp
  next
    case 3
    have "Some kv = None" using Cons.IH [of "Some kv"] Cons.prems 3(1) by simp
    then show ?case by simp
  qed
qed simp

lemma pick_oldest_Some:
  assumes "pick_oldest fc best kvs = Some x" "\<And>b. best = Some b \<Longrightarrow> ce_refs (fc_heap fc (snd b)) \<le> 0"
  shows "(x \<in> set kvs \<or> best = Some x) \<and> ce_refs (fc_heap fc (snd x)) \<le> 0 \<and>
    (\<forall>q. (q \<in> set kvs \<or> best = Some q) \<and> ce_refs (fc_heap fc (snd q)) \<le> 0 \<longrightarrow>
      ce_lastUse (fc_heap fc (snd x)) \<le> ce_lastUse (fc_heap fc (snd q)))"
  using assms
proof (induction kvs arbitrary: best)
  case Nil
  then show ?case by simp
next
  case (Cons kv kvs)
  from pick_oldest_step [of fc best kv kvs] show ?case
  proof (elim disjE conjE, goal_cases)
    case 1
    have "pick_oldest fc best kvs = Some x" using 1(1) Cons.prems(1) by simp
    note IH = Cons.IH [OF this Cons.prems(2)]
    have "q \<noteq> kv" if "ce_refs (fc_heap fc (snd q)) \<le> 0" for q using 1(2) that by auto
    with IH show ?case by (metis set_ConsD list.set_intros(2))
  next
    case 2
    have "pick_oldest fc best kvs = Some x" using 2(1) Cons.prems(1) by simp
    note IH = Cons.IH [OF this Cons.prems(2)]
    from 2(2) obtain q where q: "best = Some q"
      "ce_lastUse (fc_heap fc (snd q)) \<le> ce_lastUse (fc_heap fc (snd kv))" by blast
    have "ce_lastUse (fc_heap fc (snd x)) \<le> ce_lastUse (fc_heap fc (snd q))"
      using IH Cons.prems(2) [OF q(1)] q(1) by blast
    with q(2) have kv: "ce_lastUse (fc_heap fc (snd x)) \<le> ce_lastUse (fc_heap fc (snd kv))" by simp
    have "ce_lastUse (fc_heap fc (snd x)) \<le> ce_lastUse (fc_heap fc (snd r))"
      if "r \<in> set (kv # kvs) \<or> best = Some r" "ce_refs (fc_heap fc (snd r)) \<le> 0" for r
    proof (cases "r = kv")
      case True
      then show ?thesis using kv by simp
    next
      case False
      then have "r \<in> set kvs \<or> best = Some r" using that(1) by simp
      then show ?thesis using IH that(2) by blast
    qed
    with IH show ?case by (metis list.set_intros(2))
  next
    case 3
    have run: "pick_oldest fc (Some kv) kvs = Some x" using 3(1) Cons.prems(1) by simp
    have idle: "\<And>b. Some kv = Some b \<Longrightarrow> ce_refs (fc_heap fc (snd b)) \<le> 0" using 3(2) by simp
    note IH = Cons.IH [OF run idle]
    have x: "ce_lastUse (fc_heap fc (snd x)) \<le> ce_lastUse (fc_heap fc (snd kv))" using IH 3(2) by blast
    have "ce_lastUse (fc_heap fc (snd x)) \<le> ce_lastUse (fc_heap fc (snd q))"
      if "q \<in> set (kv # kvs) \<or> best = Some q" "ce_refs (fc_heap fc (snd q)) \<le> 0" for q
    proof (cases "q \<in> set kvs")
      case True
      then show ?thesis using IH that(2) by blast
    next
      case False
      then have "q = kv \<or> best = Some q" using that(1) by auto
      then show ?thesis using x 3(3) by (metis less_imp_le order_trans)
    qed
    with IH show ?case by auto
  qed
qed

lemma pick_oldest_facts:
  "pick_oldest fc None kvs = Some kv \<Longrightarrow> kv \<in> set kvs \<and> ce_refs (fc_heap fc (snd kv)) \<le> 0"
  "pick_oldest fc None kvs = None \<Longrightarrow> kv \<in> set kvs \<Longrightarrow> 0 < ce_refs (fc_heap fc (snd kv))"
  using pick_oldest_Some [of fc None kvs kv] pick_oldest_None [of fc None kvs]
  by (simp_all add: list_all_iff)

lemma evict_cap_ok:
  assumes "evict_cap ord n fc = (ds, fc')" "cache_ok fc R P C" "\<And>n xs. mset (ord n xs) = mset xs"
  shows "cache_ok fc' R (P + mset ds) C"
  using assms(1,2)
proof (induction n arbitrary: fc ds P)
  case (Suc n)
  show ?case
  proof (cases "int (length (fc_entries fc)) \<le> fc_max fc \<or> pick_oldest fc None (ord n (fc_entries fc)) = None")
    case True
    then show ?thesis using Suc(2,3) by (auto split: if_splits)
  next
    case False
    then obtain kv where kv: "pick_oldest fc None (ord n (fc_entries fc)) = Some kv" by auto
    then obtain ds' where ds': "evict_cap ord n (kill kv fc) = (ds', fc')"
      "ds = ce_dir (fc_heap fc (snd kv)) # ds'"
      using Suc(2) False by (auto split: prod.splits)
    have "set (ord n (fc_entries fc)) = set (fc_entries fc)" using assms(3) by (metis set_mset_mset)
    then have mem: "kv \<in> set (fc_entries fc)" using pick_oldest_facts(1) [OF kv] by simp
    have "R (snd kv) = 0" using pick_oldest_facts(1) [OF kv] idle_refs [OF Suc(3)] by simp
    from Suc(1) [OF ds'(1) kill_idle_ok [OF Suc(3) mem this]] show ?thesis by (simp add: ds'(2))
  qed
qed simp

lemma evictLocked_ok:
  assumes "evictLocked ord now fc = (ds, fc')" "cache_ok fc R P C" "\<And>n xs. mset (ord n xs) = mset xs"
  shows "cache_ok fc' R (P + mset ds) C"
proof -
  let ?kvs = "ord (length (fc_entries fc)) (fc_entries fc)"
  obtain ds1 fc1 ds2 where e: "evict_expired now ?kvs fc = (ds1, fc1)"
    "evict_cap ord (length (fc_entries fc1)) fc1 = (ds2, fc')" "ds = ds1 @ ds2"
    using assms(1) by (auto simp: evictLocked_def split: prod.splits)
  have "mset ?kvs = mset (fc_entries fc)" by (rule assms(3))
  then have kvs: "set ?kvs = set (fc_entries fc)" "distinct ?kvs"
    using cache_okD(1) [OF assms(2)] by (metis set_mset_mset, metis distinct_map mset_eq_imp_distinct_iff)
  from evict_cap_ok [OF e(2) evict_expired_ok [OF e(1) assms(2)] assms(3)] kvs e(3)
  show ?thesis by (simp add: ac_simps)
qed

text \<open>After an eviction the cache is within its cap, or every entry in it is in use.\<close>

definition within_cap :: "fetchCache \<Rightarrow> bool" where
  "within_cap fc \<longleftrightarrow>
     int (length (fc_entries fc)) \<le> fc_max fc \<or>
     list_all (\<lambda>kv. 0 < ce_refs (fc_heap fc (snd kv))) (fc_entries fc)"

lemma evict_cap_within:
  assumes "\<And>n xs. mset (ord n xs) = mset xs" "evict_cap ord n fc = (ds, fc')" "length (fc_entries fc) \<le> n"
  shows "within_cap fc'"
  using assms(2,3)
proof (induction n arbitrary: fc ds)
  case 0
  then show ?case by (simp add: within_cap_def)
next
  case (Suc n)
  have set: "set (ord n (fc_entries fc)) = set (fc_entries fc)" using assms(1) by (metis set_mset_mset)
  consider "int (length (fc_entries fc)) \<le> fc_max fc"
    | "\<not> int (length (fc_entries fc)) \<le> fc_max fc" "pick_oldest fc None (ord n (fc_entries fc)) = None"
    | kv where "\<not> int (length (fc_entries fc)) \<le> fc_max fc" "pick_oldest fc None (ord n (fc_entries fc)) = Some kv"
    by fastforce
  then show ?case
  proof cases
    case 1
    then show ?thesis using Suc(2) by (simp add: within_cap_def)
  next
    case 2
    then show ?thesis using Suc(2) pick_oldest_facts(2) [OF 2(2)] set by (auto simp: within_cap_def list_all_iff)
  next
    case 3
    then obtain ds' where ds': "evict_cap ord n (kill kv fc) = (ds', fc')"
      using Suc(2) by (auto split: prod.splits)
    have "kv \<in> set (fc_entries fc)" using pick_oldest_facts(1) [OF 3(2)] set by simp
    then have "length (filter (\<lambda>p. fst p \<noteq> fst kv) (fc_entries fc)) < length (fc_entries fc)"
      by (intro length_filter_less [of kv]) auto
    then show ?thesis using Suc(1) [OF ds'] Suc(3) by simp
  qed
qed

lemma evictLocked_within:
  assumes "\<And>n xs. mset (ord n xs) = mset xs" "evictLocked ord now fc = (ds, fc')"
  shows "within_cap fc'"
  using assms(2) evict_cap_within [OF assms(1)]
  by (fastforce simp: evictLocked_def split: prod.splits)

section \<open>The invariant of the system\<close>

definition refs_of :: "goroutine multiset \<Rightarrow> nat \<Rightarrow> nat" where
  "refs_of G i = size (filter_mset (\<lambda>g. ref_of g = Some i) G)"

definition pendings :: "goroutine multiset \<Rightarrow> string multiset" where
  "pendings G = (\<Sum>g\<in>#G. mset (pending g))"

fun cloning :: "goroutine \<Rightarrow> (string \<times> nat) multiset" where
  "cloning (Cloning k i) = {#(k, i)#}"
| "cloning g = {#}"

definition clones :: "goroutine multiset \<Rightarrow> (string \<times> nat) multiset" where
  "clones G = (\<Sum>g\<in>#G. cloning g)"

definition sys_ok :: "cache_sys \<Rightarrow> bool" where
  "sys_ok s \<longleftrightarrow> (case s of (fc, G) \<Rightarrow> cache_ok fc (refs_of G) (pendings G) (clones G))"

lemma sys_simps [simp]:
  "pendings (add_mset g G) = mset (pending g) + pendings G"
  "clones (add_mset g G) = cloning g + clones G"
  "refs_of (add_mset g G) i = (if ref_of g = Some i then Suc (refs_of G i) else refs_of G i)"
  by (simp_all add: pendings_def clones_def refs_of_def)

lemma refs_of_fun:
  "ref_of g = Some i \<Longrightarrow> refs_of (add_mset g G) = (refs_of G)(i := Suc (refs_of G i))"
  "ref_of g = None \<Longrightarrow> refs_of (add_mset g G) = refs_of G"
  by (simp_all add: fun_eq_iff)

lemma refs_of_swap: "ref_of g = ref_of h \<Longrightarrow> refs_of (add_mset g G) = refs_of (add_mset h G)"
  by (simp add: fun_eq_iff)

lemma clones_refs: "(k, i) \<in># clones G \<Longrightarrow> 0 < refs_of G i"
proof (induction G)
  case (add g G)
  then show ?case by (cases g) auto
qed (simp add: clones_def)

lemma clone_done_ok:
  assumes ok: "cache_ok fc R P (add_mset (key, i) C)" and run: "clone_done ord now key i r fc = (ds, fc')"
    and ord: "\<And>n xs. mset (ord n xs) = mset xs"
  shows "cache_ok fc' R (P + mset ds) C"
proof -
  have i: "0 < R i" using cache_okD(9) [OF ok, of "(key, i)"] by simp
  show ?thesis
  proof (cases r)
    case (Inl err)
    note up = upd_ok [OF ok i, where f = "\<lambda>e. e\<lparr>ce_err := Some err\<rparr>"]
    show ?thesis using kill_own_ok [OF up] run Inl by (simp add: clone_done_def)
  next
    case (Inr commit)
    note up = upd_ok [OF forget_clone [OF ok] i, where f = "\<lambda>e. e\<lparr>ce_commit := commit\<rparr>"]
    show ?thesis using evictLocked_ok [OF _ up ord] run Inr by (simp add: clone_done_def)
  qed
qed

lemma sys_release:
  assumes "sys_ok (fc, add_mset g G)" "ref_of g = Some i" "pending g = []" "cloning g = {#}"
  shows "sys_ok (release_entry i now fc, add_mset (Removing (release_removes i fc) None f) G)"
proof -
  have ok: "cache_ok fc ((refs_of G)(i := Suc (refs_of G i))) (pendings G) (clones G)"
    using assms by (simp add: sys_ok_def refs_of_fun)
  have "cache_ok (release_entry i now fc) (((refs_of G)(i := Suc (refs_of G i)))(i := refs_of G i))
      (pendings G + mset (release_removes i fc)) (clones G)"
    using release_ok [OF ok, of i now] clones_refs by fastforce
  then show ?thesis by (simp add: sys_ok_def refs_of_fun ac_simps)
qed

lemma cache_step_ok: "cache_step s s' \<Longrightarrow> sys_ok s \<Longrightarrow> sys_ok s'"
proof (induction rule: cache_step.induct)
  case (Hit fc key i G)
  then have "i \<in> snd ` set (fc_entries fc)" by (force dest: map_of_SomeD)
  with Hit show ?case using join_ok by (simp add: sys_ok_def refs_of_fun)
next
  case (Miss fc key dir G now)
  then have ok: "cache_ok fc (refs_of G) (pendings G) (clones G)" by (simp add: sys_ok_def)
  have "refs_of G (fc_next fc) = 0" using ref_lt [OF ok, of "fc_next fc"] by fastforce
  with miss_ok [OF ok Miss(1,2)] show ?case by (simp add: sys_ok_def refs_of_fun)
next
  case (Clone ord now key i r fc ds fc' G)
  then have "cache_ok fc (refs_of (add_mset (Cloning key i) G)) (pendings G) (add_mset (key, i) (clones G))"
    by (simp add: sys_ok_def)
  from clone_done_ok [OF this Clone(1,2)] show ?case
    using refs_of_swap [of "Cloning key i" "Closing i ds (\<exists>e. r = Inl e)" G]
    by (simp add: sys_ok_def ac_simps)
next
  case (Close fc i ds failed G)
  then have "cache_ok fc (refs_of (add_mset (Closing i ds failed) G)) (mset ds + pendings G) (clones G)"
    by (simp add: sys_ok_def)
  from upd_ok [OF this, of i "\<lambda>e. e\<lparr>ce_ready := True\<rparr>"] show ?case
    using refs_of_swap [of "Closing i ds failed" "Removing ds (Some i) failed" G]
    by (simp add: sys_ok_def close_ready_def)
next
  case (Remove fc d ds own failed G)
  then show ?case
    using RemoveAll_ok refs_of_swap [of "Removing (d # ds) own failed" "Removing ds own failed" G]
    by (simp add: sys_ok_def)
next
  case (Release fc i G now)
  then show ?case by (rule sys_release) simp_all
next
  case (Drop fc i G now)
  then show ?case by (rule sys_release) simp_all
qed (simp_all add: sys_ok_def refs_of_fun)

lemma newFetchCache_ok: "sys_ok (newFetchCache ttl cap, {#})"
  by (simp add: sys_ok_def cache_ok_def newFetchCache_def kept_dirs_def kept_def refs_of_def
      pendings_def clones_def no_entry_def)

lemma reachable_sys_ok: "cache_reachable s \<Longrightarrow> sys_ok s"
  by (induction rule: cache_reachable.induct) (auto intro: newFetchCache_ok cache_step_ok)

section \<open>What readers get\<close>

text \<open>The goroutine that clones an entry and opens its ready channel.\<close>

fun owns :: "goroutine \<Rightarrow> nat option" where
  "owns (Cloning k i) = Some i"
| "owns (Closing i ds failed) = Some i"
| "owns g = None"

fun outcome_ok :: "fetchCache \<Rightarrow> goroutine \<Rightarrow> bool" where
  "outcome_ok fc (Cloning k i) \<longleftrightarrow> \<not> ce_ready (fc_heap fc i) \<and> ce_err (fc_heap fc i) = None"
| "outcome_ok fc (Closing i ds failed) \<longleftrightarrow>
     \<not> ce_ready (fc_heap fc i) \<and> (failed \<longleftrightarrow> ce_err (fc_heap fc i) \<noteq> None)"
| "outcome_ok fc (Removing ds (Some i) failed) \<longleftrightarrow>
     ce_ready (fc_heap fc i) \<and> (failed \<longleftrightarrow> ce_err (fc_heap fc i) \<noteq> None)"
| "outcome_ok fc (Holding i) \<longleftrightarrow> ce_ready (fc_heap fc i) \<and> ce_err (fc_heap fc i) = None"
| "outcome_ok fc g \<longleftrightarrow> True"

definition outcomes_ok :: "cache_sys \<Rightarrow> bool" where
  "outcomes_ok s \<longleftrightarrow>
     (case s of (fc, G) \<Rightarrow>
        (\<forall>g \<in># G. outcome_ok fc g) \<and> (\<forall>i. size (filter_mset (\<lambda>g. owns g = Some i) G) \<le> 1))"

text \<open>Only the fields \<open>ready\<close> and \<open>err\<close> of the referenced entry matter.\<close>

lemma outcome_frame:
  "outcome_ok fc g \<Longrightarrow>
   (\<And>i. ref_of g = Some i \<Longrightarrow> ce_ready (fc_heap fc' i) = ce_ready (fc_heap fc i) \<and>
      ce_err (fc_heap fc' i) = ce_err (fc_heap fc i)) \<Longrightarrow> outcome_ok fc' g"
  by (induction fc g rule: outcome_ok.induct) auto

lemma outcomes_frame:
  assumes "\<forall>g \<in># G. outcome_ok fc g"
    "\<And>i. ce_ready (fc_heap fc' i) = ce_ready (fc_heap fc i)" "\<And>i. ce_err (fc_heap fc' i) = ce_err (fc_heap fc i)"
  shows "\<forall>g \<in># G. outcome_ok fc' g"
  using assms by (blast intro: outcome_frame)

lemma evict_expired_frame:
  "evict_expired now kvs fc = (ds, fc') \<Longrightarrow>
   ce_ready (fc_heap fc' i) = ce_ready (fc_heap fc i) \<and> ce_err (fc_heap fc' i) = ce_err (fc_heap fc i)"
  by (induction now kvs fc arbitrary: ds rule: evict_expired.induct) (auto split: if_splits prod.splits)

lemma evict_cap_frame:
  "evict_cap ord n fc = (ds, fc') \<Longrightarrow>
   ce_ready (fc_heap fc' i) = ce_ready (fc_heap fc i) \<and> ce_err (fc_heap fc' i) = ce_err (fc_heap fc i)"
proof (induction n arbitrary: fc ds)
  case (Suc n)
  then show ?case by (fastforce split: if_splits option.splits prod.splits)
qed simp

lemma evictLocked_frame:
  "evictLocked ord now fc = (ds, fc') \<Longrightarrow>
   ce_ready (fc_heap fc' i) = ce_ready (fc_heap fc i) \<and> ce_err (fc_heap fc' i) = ce_err (fc_heap fc i)"
  by (auto simp: evictLocked_def split: prod.splits dest!: evict_expired_frame [of _ _ _ _ _ i] evict_cap_frame [of _ _ _ _ _ i])

lemma clone_done_frame:
  "clone_done ord now key i r fc = (ds, fc') \<Longrightarrow>
   ce_ready (fc_heap fc' j) = ce_ready (fc_heap fc j) \<and>
   ce_err (fc_heap fc' j) = (case r of Inl e \<Rightarrow> if j = i then Some e else ce_err (fc_heap fc j)
                             | Inr c \<Rightarrow> ce_err (fc_heap fc j))"
  by (auto simp: clone_done_def split: sum.splits if_splits dest!: evictLocked_frame [of _ _ _ _ _ j])

lemma owns_ref: "owns g = Some i \<Longrightarrow> ref_of g = Some i"
  by (cases g) auto

lemma no_refs: "refs_of G i = 0 \<Longrightarrow> g \<in># G \<Longrightarrow> ref_of g \<noteq> Some i"
  by (auto simp: refs_of_def filter_mset_eq_conv)

lemma outcomes_okI:
  assumes "outcomes_ok (fc, add_mset g G)" "outcome_ok fc' h"
    "\<And>x. x \<in># G \<Longrightarrow> outcome_ok fc x \<Longrightarrow> outcome_ok fc' x" "owns h = owns g \<or> owns h = None"
  shows "outcomes_ok (fc', add_mset h G)"
proof -
  have "size (filter_mset (\<lambda>x. owns x = Some i) (add_mset h G)) \<le>
      size (filter_mset (\<lambda>x. owns x = Some i) (add_mset g G))" for i
    using assms(4) by (cases "owns h = Some i") auto
  then have "size (filter_mset (\<lambda>x. owns x = Some i) (add_mset h G)) \<le> 1" for i
    using assms(1) by (simp add: outcomes_ok_def del: filter_mset_add_mset) (meson order_trans)
  moreover have "\<forall>x \<in># add_mset h G. outcome_ok fc' x"
    using assms(1-3) by (simp add: outcomes_ok_def)
  ultimately show ?thesis by (simp add: outcomes_ok_def)
qed

lemma outcomes_ok_other:
  assumes "outcomes_ok (fc, add_mset g G)" "owns g = Some i" "x \<in># G"
  shows "outcome_ok fc x" "owns x \<noteq> Some i"
proof -
  show "outcome_ok fc x" using assms by (simp add: outcomes_ok_def)
  have "filter_mset (\<lambda>g. owns g = Some i) G = {#}"
    using assms(1,2) by (auto simp: outcomes_ok_def dest!: spec [of _ i])
  then show "owns x \<noteq> Some i" using assms(3) by (auto simp: filter_mset_eq_conv)
qed

text \<open>Nobody else depends on the outcome of an entry whose owner has not opened the channel.\<close>

lemma unready_other:
  assumes "outcome_ok fc x" "owns x \<noteq> Some i" "\<not> ce_ready (fc_heap fc i)"
    "\<And>j. j \<noteq> i \<Longrightarrow> ce_ready (fc_heap fc' j) = ce_ready (fc_heap fc j) \<and> ce_err (fc_heap fc' j) = ce_err (fc_heap fc j)"
  shows "outcome_ok fc' x"
  using assms by (induction fc x rule: outcome_ok.induct) (auto, metis+)

lemma outcome_step: "cache_step s s' \<Longrightarrow> sys_ok s \<Longrightarrow> outcomes_ok s \<Longrightarrow> outcomes_ok s'"
proof (induction rule: cache_step.induct)
  case (Hit fc key i G)
  then show ?case
    using outcomes_frame [of G fc "join i fc"] by (auto simp: outcomes_ok_def join_def)
next
  case (Miss fc key dir G now)
  then have ok: "cache_ok fc (refs_of G) (pendings G) (clones G)" by (simp add: sys_ok_def)
  let ?n = "fc_next fc"
  have "refs_of G ?n = 0" using ref_lt [OF ok, of ?n] by fastforce
  then have none: "ref_of g \<noteq> Some ?n" if "g \<in># G" for g using no_refs that by blast
  then have "filter_mset (\<lambda>g. owns g = Some ?n) G = {#}"
    using owns_ref by (fastforce simp: filter_mset_eq_conv)
  moreover have "outcome_ok (miss key dir now fc) g" if "g \<in># G" for g
    using that Miss(4) none [OF that]
    by (auto simp: outcomes_ok_def miss_def intro: outcome_frame [of fc])
  ultimately show ?case using Miss(4) by (auto simp: outcomes_ok_def miss_def)
next
  case (Clone ord now key i r fc ds fc' G)
  note frame = clone_done_frame [OF Clone(1)]
  have own: "outcome_ok fc (Cloning key i)" using Clone(4) by (simp add: outcomes_ok_def)
  show ?case
  proof (rule outcomes_okI [OF Clone(4)])
    show "outcome_ok fc' (Closing i ds (\<exists>e. r = Inl e))"
      using own frame [of i] by (auto split: sum.splits)
    show "outcome_ok fc' x" if "x \<in># G" "outcome_ok fc x" for x
      using unready_other [OF that(2) outcomes_ok_other(2) [OF Clone(4) _ that(1)], of i fc'] own frame
      by (auto split: sum.splits)
  qed simp
next
  case (Close fc i ds failed G)
  have own: "outcome_ok fc (Closing i ds failed)" using Close by (simp add: outcomes_ok_def)
  show ?case
  proof (rule outcomes_okI [OF Close(2)])
    show "outcome_ok (close_ready i fc) (Removing ds (Some i) failed)"
      using own by (simp add: close_ready_def)
    show "outcome_ok (close_ready i fc) x" if "x \<in># G" "outcome_ok fc x" for x
      using unready_other [OF that(2) outcomes_ok_other(2) [OF Close(2) _ that(1)], of i "close_ready i fc"] own
      by (auto simp: close_ready_def)
  qed simp
next
  case (Remove fc d ds own failed G)
  show ?case
    by (rule outcomes_okI [OF Remove(2)], use Remove(2) in \<open>cases own\<close>)
       (auto simp: outcomes_ok_def RemoveAll_def intro: outcome_frame [of fc])
next
  case (Release fc i G now)
  show ?case
    by (rule outcomes_okI [OF Release(2)]; (rule outcome_frame, assumption)?; simp add: release_entry_def)
next
  case (Drop fc i G now)
  show ?case
    by (rule outcomes_okI [OF Drop(2)]; (rule outcome_frame, assumption)?; simp add: release_entry_def)
qed (auto simp: outcomes_ok_def split: if_splits)

lemma reachable_outcomes: "cache_reachable s \<Longrightarrow> outcomes_ok s"
proof (induction rule: cache_reachable.induct)
  case (Start ttl cap)
  then show ?case by (simp add: outcomes_ok_def)
next
  case (Step s s')
  then show ?case using outcome_step reachable_sys_ok by blast
qed

section \<open>The sequential operations are runs of the system\<close>

abbreviation cache_run :: "cache_sys \<Rightarrow> cache_sys \<Rightarrow> bool" where
  "cache_run \<equiv> cache_step\<^sup>*\<^sup>*"

lemma run_step: "cache_step a b \<Longrightarrow> cache_run b c \<Longrightarrow> cache_run a c"
  by (rule converse_rtranclp_into_rtranclp)

lemma run_removals:
  "cache_run (fc, add_mset (Removing ds own f) G) (fold RemoveAll ds fc, add_mset (Removing [] own f) G)"
proof (induction ds arbitrary: fc)
  case (Cons d ds)
  from run_step [OF cache_step.Remove Cons [of "RemoveAll d fc"]] show ?case by simp
qed simp

lemma run_drop: "cache_run (fc, add_mset (Dropping i) G) (release i now fc, G)"
proof -
  let ?ds = "release_removes i fc"
  have "cache_step (fc, add_mset (Dropping i) G)
      (release_entry i now fc, add_mset (Removing ?ds None False) G)" by (rule cache_step.Drop)
  moreover have "cache_run (release_entry i now fc, add_mset (Removing ?ds None False) G)
      (release i now fc, add_mset (Removing [] None False) G)"
    using run_removals by (simp add: release_def)
  moreover have "cache_step (release i now fc, add_mset (Removing [] None False) G) (release i now fc, G)"
    by (rule cache_step.Done)
  ultimately show ?thesis by (meson rtranclp.rtrancl_into_rtrancl run_step)
qed

lemma run_release: "cache_run (fc, add_mset (Holding i) G) (release i now fc, G)"
proof -
  let ?ds = "release_removes i fc"
  have "cache_step (fc, add_mset (Holding i) G)
      (release_entry i now fc, add_mset (Removing ?ds None False) G)" by (rule cache_step.Release)
  moreover have "cache_run (release_entry i now fc, add_mset (Removing ?ds None False) G)
      (release i now fc, add_mset (Removing [] None False) G)"
    using run_removals by (simp add: release_def)
  moreover have "cache_step (release i now fc, add_mset (Removing [] None False) G) (release i now fc, G)"
    by (rule cache_step.Done)
  ultimately show ?thesis by (meson rtranclp.rtrancl_into_rtrancl run_step)
qed

text \<open>
  A call of \<open>acquire\<close> from a reachable state is a run of the system that ends with the goroutine
  holding the returned entry, or gone.
\<close>

lemma acquire_is_run:
  assumes "acquire ord now key mkdir clone fc = (res, ds, fc')" "\<And>n xs. mset (ord n xs) = mset xs"
    "\<And>dir. mkdir = Inr dir \<Longrightarrow> dir \<notin> set (fc_dirs fc)"
  shows "cache_run (fc, G) (fc', case res of Inr i \<Rightarrow> add_mset (Holding i) G | Inl e \<Rightarrow> G)"
proof (cases "map_of (fc_entries fc) key")
  case (Some i)
  have hit: "cache_step (fc, G) (join i fc, add_mset (Waiting i) G)" by (rule cache_step.Hit [OF Some])
  consider "\<not> ce_ready (fc_heap (join i fc) i)"
    | e where "ce_ready (fc_heap (join i fc) i)" "ce_err (fc_heap (join i fc) i) = Some e"
    | "ce_ready (fc_heap (join i fc) i)" "ce_err (fc_heap (join i fc) i) = None" by fastforce
  then show ?thesis
  proof cases
    case 1
    have "cache_run (fc, G) (release i now (join i fc), G)"
      using hit cache_step.Cancelled [of "join i fc" i G] run_drop [of "join i fc" i G now]
      by (meson converse_rtranclp_into_rtranclp)
    with 1 Some assms(1) show ?thesis by (auto simp: acquire_def Let_def)
  next
    case 2
    have "cache_run (fc, G) (release i now (join i fc), G)"
      using hit cache_step.Ready_Failed [OF 2, of G] run_drop [of "join i fc" i G now]
      by (meson converse_rtranclp_into_rtranclp)
    with 2 Some assms(1) show ?thesis by (auto simp: acquire_def Let_def)
  next
    case 3
    have "cache_run (fc, G) (join i fc, add_mset (Holding i) G)"
      using hit cache_step.Ready [OF 3, of G] by (meson converse_rtranclp_into_rtranclp rtranclp.rtrancl_refl)
    with 3 Some assms(1) show ?thesis by (auto simp: acquire_def Let_def)
  qed
next
  case None
  show ?thesis
  proof (cases mkdir)
    case (Inl e)
    with None assms(1) show ?thesis by (auto simp: acquire_def)
  next
    case (Inr dir)
    let ?i = "fc_next fc"
    obtain ds fc2 where cl: "clone_done ord now key ?i (clone dir) (miss key dir now fc) = (ds, fc2)"
      by fastforce
    let ?f = "\<exists>e. clone dir = Inl e"
    let ?fc3 = "fold RemoveAll ds (close_ready ?i fc2)"
    have run: "cache_run (fc, G) (?fc3, add_mset (Removing [] (Some ?i) ?f) G)"
      by (rule run_step [OF cache_step.Miss [OF None assms(3) [OF Inr]]],
          rule run_step [OF cache_step.Clone [OF cl assms(2)]],
          rule run_step [OF cache_step.Close], rule run_removals)
    show ?thesis
    proof (cases "clone dir")
      case (Inl e)
      with run have "cache_run (fc, G) (release ?i now ?fc3, G)"
        using cache_step.Failed [of ?fc3 ?i G] run_drop [of ?fc3 ?i G now]
        by simp
      with None Inr Inl cl assms(1) show ?thesis by (auto simp: acquire_def Let_def)
    next
      case (Inr c)
      with run have "cache_run (fc, G) (?fc3, add_mset (Holding ?i) G)"
        using cache_step.Acquired [of ?fc3 ?i G] by (simp add: rtranclp.rtrancl_into_rtrancl)
      with None Inr \<open>mkdir = Inr dir\<close> cl assms(1) show ?thesis by (auto simp: acquire_def Let_def)
    qed
  qed
qed

lemma run_sys_ok: "cache_run s s' \<Longrightarrow> sys_ok s \<Longrightarrow> sys_ok s'"
  by (induction rule: rtranclp_induct) (auto intro: cache_step_ok)

lemma run_reachable: "cache_run s s' \<Longrightarrow> cache_reachable s \<Longrightarrow> cache_reachable s'"
  by (induction rule: rtranclp_induct) (auto intro: cache_reachable.Step)

section \<open>Directories of referenced entries\<close>

lemma refs_pos: "g \<in># G \<Longrightarrow> ref_of g = Some i \<Longrightarrow> 0 < refs_of G i"
  by (metis no_refs gr0I)

lemma kept_dir_on_disk:
  assumes "cache_ok fc R P C" "0 < R i"
  shows "ce_dir (fc_heap fc i) \<in> set (fc_dirs fc)" "ce_dir (fc_heap fc i) \<notin># P"
proof -
  have "i \<in> kept fc" using ref_lt [OF assms] cache_okD(4) [OF assms(1), of i] assms(2) by (simp add: kept_def)
  then have mem: "ce_dir (fc_heap fc i) \<in># kept_dirs fc" by (simp add: kept_dirs_def)
  then show "ce_dir (fc_heap fc i) \<in> set (fc_dirs fc)"
    using cache_okD(7) [OF assms(1)] by (metis set_mset_mset union_iff)
  show "ce_dir (fc_heap fc i) \<notin># P"
  proof
    assume "ce_dir (fc_heap fc i) \<in># P"
    with mem have "2 \<le> count (mset (fc_dirs fc)) (ce_dir (fc_heap fc i))"
      unfolding cache_okD(7) [OF assms(1)] by (simp add: Suc_le_eq numeral_2_eq_2 add_strict_mono count_greater_zero_iff [symmetric] del: count_greater_zero_iff)
    then show False using cache_okD(6) [OF assms(1)] by (auto simp: distinct_count_atmost_1 split: if_splits)
  qed
qed

end
