(* ===== verification/Git_Source.thy ===== *)
theory Git_Source
  imports Git_Cache Go_Path
begin

text \<open>
  Fetching (\<open>internal/git/source.go\<close>, \<open>auth.go\<close>). The go-git library, the remote and the file
  system are the parameter \<open>git_env\<close>, one function per call over a state of any type. The world
  holds that state, the fetch cache, and the temporary files and directories the operator has
  created and not removed.
\<close>

section \<open>Data\<close>

abbreviation DefaultRef :: string where "DefaultRef \<equiv> ''main''"

record reference =
  rf_URL :: string
  rf_Ref :: string
  rf_Path :: string

definition withDefaults :: "reference \<Rightarrow> reference" where
  "withDefaults r = (if trimSpace (rf_Ref r) = [] then r\<lparr>rf_Ref := DefaultRef\<rparr> else r)"

record credential =
  cr_Username :: string
  cr_Password :: string
  cr_PrivateKey :: bytes
  cr_Passphrase :: string
  cr_KnownHosts :: bytes
  cr_InsecureSkipTLSVerify :: bool
  cr_InsecureIgnoreHostKey :: bool

text \<open>Signers and host-key callbacks are values of the ssh libraries, known by a name only.\<close>

datatype host_keys = InsecureHostKeys | KnownHostsFile string

datatype auth_method =
    BasicAuth string string
  | PublicKeys string host_keys

datatype worktree_cleanup = RemoveDir string | ReleaseEntry nat

record fetch_result =
  fr_Commit :: string
  fr_Dir :: string
  fr_WorktreeDir :: string
  fr_Cleanup :: worktree_cleanup

record resolvedRef =
  rr_name :: string
  rr_isCommit :: bool
  rr_hash :: string

record clone_options =
  co_URL :: string
  co_Auth :: "auth_method option"
  co_InsecureSkipTLS :: bool
  co_AllTags :: bool
  co_ReferenceName :: string
  co_SingleBranch :: bool
  co_Depth :: nat

record 'o git_env =
  ge_List :: "string \<Rightarrow> auth_method option \<Rightarrow> bool \<Rightarrow> 'o \<Rightarrow> (error + (string \<times> string) list) \<times> 'o"
  ge_Clone :: "string \<Rightarrow> clone_options \<Rightarrow> 'o \<Rightarrow> error option \<times> 'o"
  ge_ResolveRevision :: "string \<Rightarrow> string \<Rightarrow> 'o \<Rightarrow> (error + string) \<times> 'o"
  ge_Worktree :: "string \<Rightarrow> 'o \<Rightarrow> error option \<times> 'o"
  ge_Checkout :: "string \<Rightarrow> string \<Rightarrow> 'o \<Rightarrow> error option \<times> 'o"
  ge_Head :: "string \<Rightarrow> 'o \<Rightarrow> (error + string) \<times> 'o"
  ge_MkdirTemp :: "'o \<Rightarrow> (error + string) \<times> 'o"
  ge_RemoveAll :: "string \<Rightarrow> 'o \<Rightarrow> 'o"
  ge_Stat :: "string \<Rightarrow> 'o \<Rightarrow> (bool \<times> error) option \<times> 'o"
  ge_EvalSymlinks :: "string \<Rightarrow> 'o \<Rightarrow> (error + string) \<times> 'o"
  ge_NewPublicKeys :: "bytes \<Rightarrow> string \<Rightarrow> error + string"
  ge_CreateTemp :: "'o \<Rightarrow> (error + string) \<times> 'o"
  ge_WriteFile :: "string \<Rightarrow> bytes \<Rightarrow> 'o \<Rightarrow> error option \<times> 'o"
  ge_CloseFile :: "string \<Rightarrow> 'o \<Rightarrow> error option \<times> 'o"
  ge_RemoveFile :: "string \<Rightarrow> 'o \<Rightarrow> 'o"
  ge_KnownHostsNew :: "string \<Rightarrow> 'o \<Rightarrow> error option \<times> 'o"
  ge_Now :: "'o \<Rightarrow> time \<times> 'o"
  ge_MapOrder :: "nat \<Rightarrow> (string \<times> nat) list \<Rightarrow> (string \<times> nat) list"

record 'o git_world =
  gw_Os :: 'o
  gw_Cache :: fetchCache
  gw_Temp :: "string list"

type_synonym ('o, 'a) gact = "('o git_world, 'a) state"

section \<open>Actions\<close>

definition os :: "('o \<Rightarrow> 'a \<times> 'o) \<Rightarrow> ('o, 'a) gact" where
  "os f = State (\<lambda>w. let (a, s) = f (gw_Os w) in (a, w\<lparr>gw_Os := s\<rparr>))"

text \<open>Creating a temporary file or directory, and removing one (errors of a removal are ignored).\<close>

definition os_temp :: "('o \<Rightarrow> (error + string) \<times> 'o) \<Rightarrow> ('o, error + string) gact" where
  "os_temp f =
     State (\<lambda>w. let (r, s) = f (gw_Os w)
                in (r, w\<lparr>gw_Os := s,
                         gw_Temp := (case r of Inl e \<Rightarrow> gw_Temp w | Inr p \<Rightarrow> p # gw_Temp w)\<rparr>))"

definition os_remove :: "(string \<Rightarrow> 'o \<Rightarrow> 'o) \<Rightarrow> string \<Rightarrow> ('o, unit) gact" where
  "os_remove f p =
     State (\<lambda>w. ((), w\<lparr>gw_Os := f p (gw_Os w), gw_Temp := remove1 p (gw_Temp w)\<rparr>))"

lemma run_os:
  "run_state (os f) w = (fst (f (gw_Os w)), w\<lparr>gw_Os := snd (f (gw_Os w))\<rparr>)"
  "run_state (os_temp t) w =
     (fst (t (gw_Os w)),
      w\<lparr>gw_Os := snd (t (gw_Os w)),
        gw_Temp := (case fst (t (gw_Os w)) of Inl e \<Rightarrow> gw_Temp w | Inr p \<Rightarrow> p # gw_Temp w)\<rparr>)"
  "run_state (os_remove g p) w = ((), w\<lparr>gw_Os := g p (gw_Os w), gw_Temp := remove1 p (gw_Temp w)\<rparr>)"
  by (simp_all add: os_def os_temp_def os_remove_def split_beta)

section \<open>Credentials\<close>

text \<open>The cleanup that \<open>authMethod\<close> returns: the known_hosts file to remove, if there is one.\<close>

definition applyHostKeyPolicy ::
  "'o git_env \<Rightarrow> credential \<Rightarrow> ('o, error + host_keys \<times> string option) gact" where
  "applyHostKeyPolicy env c =
     (if cr_InsecureIgnoreHostKey c then State_Monad.return (Inr (InsecureHostKeys, None))
      else if cr_KnownHosts c = [] then
        State_Monad.return (Inl (git_newError GitAuthFailed
          (''ssh host-key verification is on by default but no known_hosts was provided ''
            @ ''(set known_hosts or opt in to insecure)'')))
      else do {
        r \<leftarrow> os_temp (ge_CreateTemp env);
        case r of
          Inl e \<Rightarrow> State_Monad.return (Inl (git_wrapError GitAuthFailed e ''creating known_hosts file''))
        | Inr f \<Rightarrow> do {
            w \<leftarrow> os (ge_WriteFile env f (cr_KnownHosts c));
            case w of
              Some e \<Rightarrow> do {
                _ \<leftarrow> os (ge_CloseFile env f);
                _ \<leftarrow> os_remove (ge_RemoveFile env) f;
                State_Monad.return (Inl (git_wrapError GitAuthFailed e ''writing known_hosts file''))
              }
            | None \<Rightarrow> do {
                cl \<leftarrow> os (ge_CloseFile env f);
                case cl of
                  Some e \<Rightarrow> do {
                    _ \<leftarrow> os_remove (ge_RemoveFile env) f;
                    State_Monad.return (Inl (git_wrapError GitAuthFailed e ''closing known_hosts file''))
                  }
                | None \<Rightarrow> do {
                    kh \<leftarrow> os (ge_KnownHostsNew env f);
                    case kh of
                      Some e \<Rightarrow> do {
                        _ \<leftarrow> os_remove (ge_RemoveFile env) f;
                        State_Monad.return (Inl (git_wrapError GitAuthFailed e ''loading known_hosts''))
                      }
                    | None \<Rightarrow> State_Monad.return (Inr (KnownHostsFile f, Some f))
                  }
              }
          }
      })"

definition authMethod ::
  "'o git_env \<Rightarrow> credential option \<Rightarrow> transportKind
   \<Rightarrow> ('o, error + auth_method option \<times> string option) gact" where
  "authMethod env cred kind =
     (case cred of
        None \<Rightarrow> State_Monad.return (Inr (None, None))
      | Some c \<Rightarrow>
          (case kind of
             transportHTTPS \<Rightarrow>
               State_Monad.return (Inr
                 (if cr_Password c = [] then None
                  else Some (BasicAuth (if cr_Username c = [] then ''kohen'' else cr_Username c) (cr_Password c)),
                  None))
           | transportSSH \<Rightarrow>
               if cr_PrivateKey c = [] then State_Monad.return (Inr (None, None))
               else (case ge_NewPublicKeys env (cr_PrivateKey c) (cr_Passphrase c) of
                       Inl e \<Rightarrow> State_Monad.return
                         (Inl (git_wrapError GitAuthFailed e ''parsing ssh private key''))
                     | Inr signer \<Rightarrow> do {
                         r \<leftarrow> applyHostKeyPolicy env c;
                         State_Monad.return
                           (case r of
                              Inl e \<Rightarrow> Inl e
                            | Inr (hk, cleanup) \<Rightarrow> Inr (Some (PublicKeys signer hk), cleanup))
                       })
           | transportLocal \<Rightarrow> State_Monad.return (Inr (None, None))))"

definition tlsInsecure :: "credential option \<Rightarrow> bool" where
  "tlsInsecure cred = (case cred of None \<Rightarrow> False | Some c \<Rightarrow> cr_InsecureSkipTLSVerify c)"

section \<open>Refs\<close>

definition looksLikeHash :: "string \<Rightarrow> bool" where
  "looksLikeHash s \<longleftrightarrow> 7 \<le> length s \<and> length s \<le> 40 \<and> list_all is_hex s"

definition classifyTransportError :: "error \<Rightarrow> string \<Rightarrow> error" where
  "classifyTransportError e action =
     (if transport_auth e then git_wrapError GitAuthFailed e action
      else git_wrapError GitFetchFailed e action)"

definition branch_name :: "string \<Rightarrow> string" where "branch_name r = ''refs/heads/'' @ r"
definition tag_name :: "string \<Rightarrow> string" where "tag_name r = ''refs/tags/'' @ r"

text \<open>The loop over the listed refs keeps the last hash of the branch and of the tag.\<close>

fun scan_refs :: "string \<Rightarrow> string \<Rightarrow> string \<times> string \<Rightarrow> (string \<times> string) list \<Rightarrow> string \<times> string" where
  "scan_refs branch tag hs [] = hs"
| "scan_refs branch tag (bh, th) ((name, hash) # rs) =
     scan_refs branch tag
       (if name = branch then (hash, th) else if name = tag then (bh, hash) else (bh, th)) rs"

definition classify_ref :: "string \<Rightarrow> (string \<times> string) list \<Rightarrow> error + resolvedRef" where
  "classify_ref ref refs =
     (let (bh, th) = scan_refs (branch_name ref) (tag_name ref) ([], []) refs
      in if bh \<noteq> [] then Inr \<lparr>rr_name = branch_name ref, rr_isCommit = False, rr_hash = bh\<rparr>
         else if th \<noteq> [] then Inr \<lparr>rr_name = tag_name ref, rr_isCommit = False, rr_hash = th\<rparr>
         else if looksLikeHash ref then
           Inr \<lparr>rr_name = [], rr_isCommit = True,
               rr_hash = (if length ref = 40 then toLower ref else [])\<rparr>
         else Inl (git_newError GitFetchFailed
           (''ref '' @ ref @ '' was not found (no matching branch, tag, or commit)'')))"

definition resolveRef ::
  "'o git_env \<Rightarrow> parsedURL \<Rightarrow> auth_method option \<Rightarrow> bool \<Rightarrow> string \<Rightarrow> ('o, error + resolvedRef) gact" where
  "resolveRef env p auth insecure ref = do {
     r \<leftarrow> os (ge_List env (pu_raw p) auth insecure);
     State_Monad.return
       (case r of
          Inl e \<Rightarrow> Inl (classifyTransportError e ''listing remote refs'')
        | Inr refs \<Rightarrow> classify_ref ref refs)
   }"

section \<open>Checkout\<close>

definition checkout ::
  "'o git_env \<Rightarrow> string \<Rightarrow> parsedURL \<Rightarrow> auth_method option \<Rightarrow> bool \<Rightarrow> string \<Rightarrow> resolvedRef
   \<Rightarrow> ('o, error + string) gact" where
  "checkout env dir p auth insecure ref rr =
     (if rr_isCommit rr then do {
        c \<leftarrow> os (ge_Clone env dir \<lparr>co_URL = pu_raw p, co_Auth = auth, co_InsecureSkipTLS = insecure,
               co_AllTags = True, co_ReferenceName = [], co_SingleBranch = False, co_Depth = 0\<rparr>);
        case c of
          Some e \<Rightarrow> State_Monad.return (Inl (classifyTransportError e ''cloning repository''))
        | None \<Rightarrow> do {
            h \<leftarrow> os (ge_ResolveRevision env dir ref);
            case h of
              Inl e \<Rightarrow> State_Monad.return (Inl (git_wrapError GitFetchFailed e (''resolving commit '' @ quote ref)))
            | Inr hash \<Rightarrow> do {
                wt \<leftarrow> os (ge_Worktree env dir);
                case wt of
                  Some e \<Rightarrow> State_Monad.return (Inl (git_wrapError GitFetchFailed e ''opening worktree''))
                | None \<Rightarrow> do {
                    co \<leftarrow> os (ge_Checkout env dir hash);
                    State_Monad.return
                      (case co of
                         Some e \<Rightarrow> Inl (git_wrapError GitFetchFailed e (''checking out commit '' @ quote ref))
                       | None \<Rightarrow> Inr hash)
                  }
              }
          }
      }
      else do {
        c \<leftarrow> os (ge_Clone env dir \<lparr>co_URL = pu_raw p, co_Auth = auth, co_InsecureSkipTLS = insecure,
               co_AllTags = False, co_ReferenceName = rr_name rr, co_SingleBranch = True,
               co_Depth = (if pu_kind p \<noteq> transportLocal then 1 else 0)\<rparr>);
        case c of
          Some e \<Rightarrow> State_Monad.return (Inl (classifyTransportError e ''cloning repository''))
        | None \<Rightarrow> do {
            h \<leftarrow> os (ge_Head env dir);
            State_Monad.return
              (case h of Inl e \<Rightarrow> Inl (git_wrapError GitFetchFailed e ''resolving HEAD'') | Inr hash \<Rightarrow> Inr hash)
          }
      })"

fun os_remove_all :: "'o git_env \<Rightarrow> string list \<Rightarrow> ('o, unit) gact" where
  "os_remove_all env [] = State_Monad.return ()"
| "os_remove_all env (d # ds) = do { _ \<leftarrow> os_remove (ge_RemoveAll env) d; os_remove_all env ds }"

definition the_cache :: "('o, fetchCache) gact" where
  "the_cache = State (\<lambda>w. (gw_Cache w, w))"

definition set_cache :: "fetchCache \<Rightarrow> ('o, unit) gact" where
  "set_cache fc = State (\<lambda>w. ((), w\<lparr>gw_Cache := fc\<rparr>))"

text \<open>
  \<open>acquire\<close> with the effects of its callbacks: the directory is created and the clone runs only when
  the key is not cached.
\<close>

definition acquire_worktree ::
  "'o git_env \<Rightarrow> string \<Rightarrow> (string \<Rightarrow> ('o, error + string) gact) \<Rightarrow> ('o, error + nat) gact" where
  "acquire_worktree env key clone = do {
     fc \<leftarrow> the_cache;
     now \<leftarrow> os (ge_Now env);
     mk \<leftarrow> (case map_of (fc_entries fc) key of
               Some i \<Rightarrow> State_Monad.return (Inr [])
             | None \<Rightarrow> os_temp (ge_MkdirTemp env));
     r \<leftarrow> (case (map_of (fc_entries fc) key, mk) of
               (None, Inr dir) \<Rightarrow> clone dir
             | _ \<Rightarrow> State_Monad.return (Inr []));
     let (res, ds, fc') = acquire (ge_MapOrder env) now key mk (\<lambda>_. r) fc;
     _ \<leftarrow> set_cache fc';
     _ \<leftarrow> os_remove_all env ds;
     State_Monad.return res
   }"

definition obtainWorktree ::
  "git_client \<Rightarrow> 'o git_env \<Rightarrow> parsedURL \<Rightarrow> auth_method option \<Rightarrow> bool \<Rightarrow> string \<Rightarrow> resolvedRef
   \<Rightarrow> ('o, error + string \<times> string \<times> worktree_cleanup) gact" where
  "obtainWorktree c env p auth insecure ref rr =
     (if gc_caching c \<and> rr_hash rr \<noteq> [] \<and> pu_kind p \<noteq> transportLocal then do {
        r \<leftarrow> acquire_worktree env (pu_raw p @ ''@'' @ rr_hash rr)
               (\<lambda>dir. checkout env dir p auth insecure ref rr);
        fc \<leftarrow> the_cache;
        State_Monad.return
          (case r of
             Inl e \<Rightarrow> Inl e
           | Inr i \<Rightarrow> Inr (ce_dir (fc_heap fc i), ce_commit (fc_heap fc i), ReleaseEntry i))
      }
      else do {
        d \<leftarrow> os_temp (ge_MkdirTemp env);
        case d of
          Inl e \<Rightarrow> State_Monad.return (Inl (git_wrapError GitFetchFailed e ''creating work directory''))
        | Inr dir \<Rightarrow> do {
            r \<leftarrow> checkout env dir p auth insecure ref rr;
            case r of
              Inl e \<Rightarrow> do { _ \<leftarrow> os_remove (ge_RemoveAll env) dir; State_Monad.return (Inl e) }
            | Inr commit \<Rightarrow> State_Monad.return (Inr (dir, commit, RemoveDir dir))
          }
      })"

text \<open>Calling the cleanup that a fetch returns.\<close>

definition run_cleanup :: "'o git_env \<Rightarrow> worktree_cleanup \<Rightarrow> ('o, unit) gact" where
  "run_cleanup env cu =
     (case cu of
        RemoveDir d \<Rightarrow> os_remove (ge_RemoveAll env) d
      | ReleaseEntry i \<Rightarrow> do {
          fc \<leftarrow> the_cache;
          now \<leftarrow> os (ge_Now env);
          _ \<leftarrow> set_cache (release i now fc);
          os_remove_all env (release_removes i fc)
        })"

section \<open>Paths\<close>

definition sanitizePath :: "string \<Rightarrow> error + string" where
  "sanitizePath p0 =
     (let p = trimSpace p0
      in if p = [] \<or> p = ''.'' \<or> p = ''/'' then Inr ''.''
         else let clean = trimPrefix (path_clean (''/'' @ p)) ''/''
              in if clean = [] then Inr ''.''
                 else if clean = ''..'' \<or> hasPrefix clean ''../'' then
                   Inl (git_newError GitPathNotFound (''path '' @ p @ '' escapes the repository''))
                 else Inr clean)"

definition verifyContained :: "'o git_env \<Rightarrow> string \<Rightarrow> string \<Rightarrow> ('o, error option) gact" where
  "verifyContained env worktree subDir = do {
     r \<leftarrow> os (ge_EvalSymlinks env worktree);
     case r of
       Inl e \<Rightarrow> State_Monad.return (Some (git_wrapError GitFetchFailed e ''resolving worktree''))
     | Inr resolvedRoot \<Rightarrow> do {
         r2 \<leftarrow> os (ge_EvalSymlinks env subDir);
         State_Monad.return
           (case r2 of
              Inl e \<Rightarrow> Some (git_wrapError GitPathNotFound e ''resolving subpath'')
            | Inr resolvedSub \<Rightarrow>
                if \<not> within resolvedRoot resolvedSub then
                  Some (git_newError GitPathNotFound
                    ''subpath resolves outside the repository (symlink escape rejected)'')
                else None)
       }
   }"

section \<open>Fetch\<close>

text \<open>The part of \<open>Fetch\<close> that reads the checked-out tree, once there is a worktree.\<close>

definition locate ::
  "'o git_env \<Rightarrow> string \<Rightarrow> string \<times> string \<times> worktree_cleanup \<Rightarrow> ('o, error + fetch_result) gact" where
  "locate env subPath wt =
     (case wt of (worktreeDir, commit, cleanup) \<Rightarrow>
        let subDir = path_join worktreeDir subPath
        in if \<not> within worktreeDir subDir then do {
             _ \<leftarrow> run_cleanup env cleanup;
             State_Monad.return (Inl (git_newError GitPathNotFound ''resolved subpath escapes the repository''))
           }
           else do {
             st \<leftarrow> os (ge_Stat env subDir);
             case st of
               Some (notExist, e) \<Rightarrow> do {
                 _ \<leftarrow> run_cleanup env cleanup;
                 State_Monad.return (Inl
                   (if notExist then git_newError GitPathNotFound
                      (''path '' @ subPath @ '' was not found at commit '' @ commit)
                    else git_wrapError GitFetchFailed e (''accessing subpath '' @ quote subPath)))
               }
             | None \<Rightarrow> do {
                 v \<leftarrow> verifyContained env worktreeDir subDir;
                 case v of
                   Some e \<Rightarrow> do { _ \<leftarrow> run_cleanup env cleanup; State_Monad.return (Inl e) }
                 | None \<Rightarrow> State_Monad.return
                     (Inr \<lparr>fr_Commit = commit, fr_Dir = subDir, fr_WorktreeDir = worktreeDir, fr_Cleanup = cleanup\<rparr>)
               }
           })"

definition fetch_resolved ::
  "git_client \<Rightarrow> 'o git_env \<Rightarrow> parsedURL \<Rightarrow> auth_method option \<Rightarrow> bool \<Rightarrow> string \<Rightarrow> string
   \<Rightarrow> ('o, error + fetch_result) gact" where
  "fetch_resolved c env p auth insecure ref subPath = do {
     rr \<leftarrow> resolveRef env p auth insecure ref;
     case rr of
       Inl e \<Rightarrow> State_Monad.return (Inl e)
     | Inr r \<Rightarrow> do {
         w \<leftarrow> obtainWorktree c env p auth insecure ref r;
         case w of
           Inl e \<Rightarrow> State_Monad.return (Inl e)
         | Inr wt \<Rightarrow> locate env subPath wt
       }
   }"

text \<open>The deferred removal of the known_hosts file runs on every path once it exists.\<close>

definition Fetch ::
  "git_client \<Rightarrow> 'o git_env \<Rightarrow> reference \<Rightarrow> credential option \<Rightarrow> ('o, error + fetch_result) gact" where
  "Fetch c env ref0 cred =
     (let ref = withDefaults ref0
      in case parseURL (rf_URL ref) (gc_allowLocalTransport c) of
           Inl e \<Rightarrow> State_Monad.return (Inl e)
         | Inr p \<Rightarrow>
             (case validate c p of
                Some e \<Rightarrow> State_Monad.return (Inl e)
              | None \<Rightarrow>
                  (case sanitizePath (rf_Path ref) of
                     Inl e \<Rightarrow> State_Monad.return (Inl e)
                   | Inr subPath \<Rightarrow> do {
                       a \<leftarrow> authMethod env cred (pu_kind p);
                       case a of
                         Inl e \<Rightarrow> State_Monad.return (Inl e)
                       | Inr (auth, kh) \<Rightarrow> do {
                           res \<leftarrow> fetch_resolved c env p auth (tlsInsecure cred) (rf_Ref ref) subPath;
                           _ \<leftarrow> (case kh of
                                    None \<Rightarrow> State_Monad.return ()
                                  | Some f \<Rightarrow> os_remove (ge_RemoveFile env) f);
                           State_Monad.return res
                         }
                     })))"

section \<open>Subpaths\<close>

text \<open>
  A sanitized path is the repository root or a clean relative path of plain components, and every
  path has one: the test for \<open>..\<close> never fires, because cleaning a rooted path has already clamped it.
\<close>

lemma sanitizePath_spec:
  obtains ws where "list_all plain ws"
    "sanitizePath p = Inr (if ws = [] then ''.'' else joinWith ''/'' ws)"
proof -
  let ?p = "trimSpace p" and ?ws = "comps (''/'' @ trimSpace p)"
  have plain: "\<forall>w \<in> set ?ws. plain w" using comps_abs_plain [of "''/'' @ ?p"] by auto
  have clean: "trimPrefix (path_clean (''/'' @ ?p)) ''/'' = joinWith ''/'' ?ws"
    by (simp add: path_clean_abs of_comps_def trimPrefix_def hasPrefix_def)
  show thesis
  proof (cases "?p = [] \<or> ?p = ''.'' \<or> ?p = ''/''")
    case True
    then show thesis using that [of "[]"] by (auto simp: sanitizePath_def Let_def)
  next
    case False
    then have *: "sanitizePath p =
        (if joinWith ''/'' ?ws = [] then Inr ''.''
         else if joinWith ''/'' ?ws = ''..'' \<or> hasPrefix (joinWith ''/'' ?ws) ''../'' then
           Inl (git_newError GitPathNotFound (''path '' @ ?p @ '' escapes the repository''))
         else Inr (joinWith ''/'' ?ws))"
      unfolding sanitizePath_def Let_def clean by simp
    show thesis
    proof (cases "?ws = []")
      case True
      with * show thesis using that [of "[]"] by simp
    next
      case False
      have "joinWith ''/'' ?ws \<noteq> []"
        using False plain by (cases ?ws rule: remdups_adj.cases) (auto simp: plain_def)
      with * False joinWith_plain_no_dotdot [OF False plain] plain show thesis
        using that [of ?ws] by (simp add: hasPrefix_def list_all_iff)
    qed
  qed
qed

text \<open>Joining it to a worktree appends its components, so the result lies within the worktree.\<close>

lemma join_sanitized_within:
  assumes "isAbs wt" "path_clean wt = wt" "sanitizePath p = Inr sub"
  shows "prefix (comps wt) (comps (path_join wt sub))" "within wt (path_join wt sub)"
proof -
  have bs: "wt = of_comps True (comps wt)" "\<forall>w \<in> set (comps wt). plain w"
    using path_clean_abs [OF assms(1)] assms(2) comps_abs_plain [OF assms(1)] by simp_all
  obtain ws where ws: "list_all plain ws" "sanitizePath p = Inr (if ws = [] then ''.'' else joinWith ''/'' ws)"
    by (rule sanitizePath_spec)
  then have sub: "sub = (if ws = [] then ''.'' else joinWith ''/'' ws)" "\<forall>w \<in> set ws. plain w"
    using assms(3) by (simp_all add: list_all_iff)
  have j: "path_join wt sub = of_comps True (comps wt @ ws)"
    unfolding sub(1) using path_join_plain [OF bs(2) sub(2)] bs(1) by simp
  show "prefix (comps wt) (comps (path_join wt sub))"
    unfolding j using bs(2) sub(2) by (subst comps_of_comps) auto
  have "within (of_comps True (comps wt)) (of_comps True (comps wt @ ws))"
    using bs(2) sub(2) by (subst within_of_comps) auto
  then show "within wt (path_join wt sub)" unfolding j using bs(1) by simp
qed

section \<open>Authentication\<close>

text \<open>An ssh method verifies host keys against a known_hosts file, unless the credential opts out.\<close>

lemma authMethod_host_keys:
  assumes "run_state (authMethod env cred kind) w = (Inr (Some (PublicKeys signer hk), kh), w')"
  shows "\<exists>c. cred = Some c \<and> kind = transportSSH \<and>
     (if cr_InsecureIgnoreHostKey c then hk = InsecureHostKeys
      else \<exists>f. hk = KnownHostsFile f \<and> kh = Some f \<and> cr_KnownHosts c \<noteq> [])"
  using assms
  by (auto simp: authMethod_def applyHostKeyPolicy_def run_os split: option.splits transportKind.splits
        sum.splits if_splits prod.splits)

lemma authMethod_temp:
  assumes "run_state (authMethod env cred kind) w = (r, w')"
  shows "gw_Cache w' = gw_Cache w"
    "gw_Temp w' = (case r of Inr (a, Some f) \<Rightarrow> f # gw_Temp w | _ \<Rightarrow> gw_Temp w)"
  using assms
  by (auto simp: authMethod_def applyHostKeyPolicy_def run_os split: option.splits transportKind.splits
        sum.splits if_splits prod.splits)

section \<open>The gate comes first\<close>

lemma Fetch_rejected:
  assumes "\<And>p. parseURL (rf_URL ref) (gc_allowLocalTransport c) = Inr p \<Longrightarrow> validate c p \<noteq> None"
  obtains e where "run_state (Fetch c env ref cred) w = (Inl e, w)"
proof (cases "parseURL (rf_URL ref) (gc_allowLocalTransport c)")
  case (Inl e)
  then show thesis using that [of e] by (simp add: Fetch_def withDefaults_def)
next
  case (Inr p)
  then obtain e where "validate c p = Some e" using assms by blast
  with Inr show thesis using that [of e] by (simp add: Fetch_def withDefaults_def)
qed

section \<open>Temporary directories\<close>

text \<open>
  The temporary files on disk are the directories of the cache and \<open>T\<close>, and the cache is consistent
  with the goroutines \<open>G\<close> that hold worktrees.
\<close>

definition temp_inv :: "string multiset \<Rightarrow> goroutine multiset \<Rightarrow> 'o git_world \<Rightarrow> bool" where
  "temp_inv T G w \<longleftrightarrow> sys_ok (gw_Cache w, G) \<and> mset (gw_Temp w) = mset (fc_dirs (gw_Cache w)) + T"

lemma temp_inv_cong:
  "gw_Cache w' = gw_Cache w \<Longrightarrow> gw_Temp w' = gw_Temp w \<Longrightarrow> temp_inv T G w' = temp_inv T G w"
  by (simp add: temp_inv_def)

lemma checkout_temp:
  assumes "run_state (checkout env dir p auth insecure ref rr) w = (r, w')"
  shows "gw_Cache w' = gw_Cache w" "gw_Temp w' = gw_Temp w"
  using assms
  by (auto simp: checkout_def run_os split: option.splits sum.splits if_splits)

lemma checkout_same:
  "run_state (checkout env dir p auth insecure ref rr) w = (r, w') \<Longrightarrow>
   gw_Cache w' = gw_Cache w \<and> gw_Temp w' = gw_Temp w"
  by (simp add: checkout_temp)

lemma fold_RemoveAll_ok:
  "cache_ok fc R (mset ds + P) C \<Longrightarrow>
   cache_ok (fold RemoveAll ds fc) R P C \<and> mset (fc_dirs fc) = mset (fc_dirs (fold RemoveAll ds fc)) + mset ds"
proof (induction ds arbitrary: fc)
  case (Cons d ds)
  then have ok: "cache_ok fc R (add_mset d (mset ds + P)) C" by simp
  have "d \<in># mset (fc_dirs fc)" using cache_okD(7) [OF ok] by simp
  moreover have "mset (removeAll d (fc_dirs fc)) = mset (fc_dirs fc) - {#d#}"
    using cache_okD(6) [OF ok] by (metis distinct_remove1_removeAll mset_remove1)
  ultimately have "mset (fc_dirs fc) = add_mset d (mset (fc_dirs (RemoveAll d fc)))"
    by (simp add: RemoveAll_def)
  with Cons.IH [OF RemoveAll_ok [OF ok]] show ?case by simp
qed simp

text \<open>What a call of \<open>acquire\<close> removes from disk it also removes from the cache's directories.\<close>

lemma evict_expired_dirs: "evict_expired now kvs fc = (ds, fc') \<Longrightarrow> fc_dirs fc' = fc_dirs fc"
  by (induction now kvs fc arbitrary: ds rule: evict_expired.induct) (auto split: if_splits prod.splits)

lemma evict_cap_dirs: "evict_cap ord n fc = (ds, fc') \<Longrightarrow> fc_dirs fc' = fc_dirs fc"
  by (induction n arbitrary: fc ds) (fastforce split: if_splits option.splits prod.splits)+

lemma clone_done_dirs: "clone_done ord now key i r fc = (ds, fc') \<Longrightarrow> fc_dirs fc' = fc_dirs fc"
  by (auto simp: clone_done_def evictLocked_def split: sum.splits prod.splits
        dest!: evict_expired_dirs evict_cap_dirs)

lemma release_dirs:
  assumes "sys_ok (fc, add_mset g G)" "ref_of g = Some i" "pending g = []" "cloning g = {#}"
  shows "mset (fc_dirs fc) = mset (fc_dirs (release i now fc)) + mset (release_removes i fc)"
proof -
  have "sys_ok (release_entry i now fc, add_mset (Removing (release_removes i fc) None False) G)"
    by (rule sys_release [OF assms])
  then have "mset (fc_dirs (release_entry i now fc)) =
      mset (fc_dirs (fold RemoveAll (release_removes i fc) (release_entry i now fc))) + mset (release_removes i fc)"
    using fold_RemoveAll_ok by (auto simp: sys_ok_def)
  then show ?thesis by (simp add: release_def release_entry_def)
qed

lemma acquire_dirs:
  assumes run: "acquire ord now key mkdir clone fc = (res, ds, fc')" and sys: "sys_ok (fc, G)"
    and ord: "\<And>n xs. mset (ord n xs) = mset xs" and fresh: "\<And>dir. mkdir = Inr dir \<Longrightarrow> dir \<notin> set (fc_dirs fc)"
  shows "mset (fc_dirs fc') + mset ds =
     mset (fc_dirs fc) + (case (map_of (fc_entries fc) key, mkdir) of (None, Inr dir) \<Rightarrow> {#dir#} | _ \<Rightarrow> {#})"
proof (cases "map_of (fc_entries fc) key")
  case (Some i)
  have "sys_ok (join i fc, add_mset (Waiting i) G)"
    by (rule cache_step_ok [OF cache_step.Hit [OF Some] sys])
  note rel = release_dirs [OF this, of i now]
  have "fc_dirs (join i fc) = fc_dirs fc" by (simp add: join_def)
  with rel run Some show ?thesis by (auto simp: acquire_def Let_def split: if_splits option.splits)
next
  case None
  show ?thesis
  proof (cases mkdir)
    case (Inl e)
    with None run show ?thesis by (auto simp: acquire_def)
  next
    case (Inr dir)
    let ?i = "fc_next fc"
    let ?f = "\<exists>e. clone dir = Inl e"
    obtain ds1 fc2 where cl: "clone_done ord now key ?i (clone dir) (miss key dir now fc) = (ds1, fc2)"
      by fastforce
    let ?fc3 = "fold RemoveAll ds1 (close_ready ?i fc2)"
    have "sys_ok (close_ready ?i fc2, add_mset (Removing ds1 (Some ?i) ?f) G)"
      by (intro cache_step_ok [OF cache_step.Close] cache_step_ok [OF cache_step.Clone [OF cl ord]]
          cache_step_ok [OF cache_step.Miss [OF None fresh [OF Inr]] sys])
    then have ok: "sys_ok (?fc3, add_mset (Removing [] (Some ?i) ?f) G)"
      "mset (fc_dirs (close_ready ?i fc2)) = mset (fc_dirs ?fc3) + mset ds1"
      using fold_RemoveAll_ok [of "close_ready ?i fc2" _ ds1] by (auto simp: sys_ok_def refs_of_fun)
    have dirs: "fc_dirs (close_ready ?i fc2) = dir # fc_dirs fc"
      using clone_done_dirs [OF cl] by (simp add: close_ready_def miss_def)
    show ?thesis
    proof (cases "clone dir")
      case (Inl e)
      then have "sys_ok (?fc3, add_mset (Dropping ?i) G)"
        using cache_step_ok [OF cache_step.Failed] ok(1) by simp
      note rel = release_dirs [OF this, of ?i now]
      have res: "ds = ds1 @ release_removes ?i ?fc3" "fc' = release ?i now ?fc3"
        using run None Inr cl Inl by (auto simp: acquire_def Let_def)
      show ?thesis using rel ok(2) dirs None Inr unfolding res by (simp add: ac_simps)
    next
      case (Inr c)
      then have "ds = ds1" "fc' = ?fc3" using run None \<open>mkdir = Inr dir\<close> cl by (auto simp: acquire_def Let_def)
      with ok(2) dirs None \<open>mkdir = Inr dir\<close> show ?thesis by simp
    qed
  qed
qed

lemma run_os_remove_all:
  "run_state (os_remove_all env ds) w =
     ((), w\<lparr>gw_Os := fold (ge_RemoveAll env) ds (gw_Os w), gw_Temp := fold remove1 ds (gw_Temp w)\<rparr>)"
  by (induction ds arbitrary: w) (simp_all add: run_os)

lemma mset_fold_remove1: "mset (fold remove1 ds xs) = mset xs - mset ds"
  by (induction ds arbitrary: xs) (simp_all add: diff_diff_add)

text \<open>What the caller owes: the directory to remove, or the reference to release.\<close>

fun owed_dirs :: "error + string \<times> string \<times> worktree_cleanup \<Rightarrow> string multiset" where
  "owed_dirs (Inr (d, c, RemoveDir d')) = {#d'#}"
| "owed_dirs r = {#}"

fun owed_refs :: "error + string \<times> string \<times> worktree_cleanup \<Rightarrow> goroutine multiset" where
  "owed_refs (Inr (d, c, ReleaseEntry i)) = {#Holding i#}"
| "owed_refs r = {#}"

definition env_ok :: "'o git_env \<Rightarrow> fetchCache \<Rightarrow> bool" where
  "env_ok env fc \<longleftrightarrow>
     (\<forall>n xs. mset (ge_MapOrder env n xs) = mset xs) \<and>
     (\<forall>s d. fst (ge_MkdirTemp env s) = Inr d \<longrightarrow> d \<notin> set (fc_dirs fc))"

lemma acquire_worktree_temp:
  assumes run: "run_state (acquire_worktree env key clone) w = (r, w')" and inv: "temp_inv T G w"
    and env: "env_ok env (gw_Cache w)"
    and clone: "\<And>dir w r w'. run_state (clone dir) w = (r, w') \<Longrightarrow>
        gw_Cache w' = gw_Cache w \<and> gw_Temp w' = gw_Temp w"
  shows "temp_inv T (G + (case r of Inl e \<Rightarrow> {#} | Inr i \<Rightarrow> {#Holding i#})) w'"
proof -
  let ?fc = "gw_Cache w"
  define mk where "mk = (case map_of (fc_entries ?fc) key of
      Some i \<Rightarrow> Inr [] | None \<Rightarrow> fst (ge_MkdirTemp env (snd (ge_Now env (gw_Os w)))))"
  define new where "new = (case (map_of (fc_entries ?fc) key, mk) of (None, Inr dir) \<Rightarrow> [dir] | _ \<Rightarrow> [])"
  obtain now cl ds fc' where
    acq: "acquire (ge_MapOrder env) now key mk (\<lambda>_. cl) ?fc = (r, ds, fc')" and
    w': "gw_Cache w' = fc'" "gw_Temp w' = fold remove1 ds (new @ gw_Temp w)"
  proof -
    from run show thesis
      by (auto dest!: clone simp: acquire_worktree_def the_cache_def set_cache_def run_os run_os_remove_all mk_def new_def
          split: option.splits sum.splits prod.splits intro: that)
  qed
  have sys: "sys_ok (?fc, G)" and temp: "mset (gw_Temp w) = mset (fc_dirs ?fc) + T"
    using inv by (simp_all add: temp_inv_def)
  have ord: "\<And>n xs. mset (ge_MapOrder env n xs) = mset xs" using env by (simp add: env_ok_def)
  show ?thesis
  proof (cases "map_of (fc_entries ?fc) key")
    case (Some i)
    then have mk_eq: "mk = Inr []" "new = []" by (simp_all add: mk_def new_def)
    have acq': "acquire (ge_MapOrder env) now key (Inl (Plain [])) (\<lambda>_. cl) ?fc = (r, ds, fc')"
      using acq Some by (simp add: acquire_def)
    have "mset (fc_dirs fc') + mset ds = mset (fc_dirs ?fc)"
      using acquire_dirs [OF acq' sys ord] Some by simp
    then have "mset (gw_Temp w') = mset (fc_dirs fc') + T"
      unfolding w' mk_eq mset_fold_remove1 by (simp add: temp) (metis add_diff_cancel_right' union_assoc union_commute)
    moreover have "sys_ok (fc', case r of Inr i \<Rightarrow> add_mset (Holding i) G | Inl e \<Rightarrow> G)"
      using run_sys_ok [OF acquire_is_run [OF acq' ord] sys] by simp
    ultimately show ?thesis using w' by (cases r) (simp_all add: temp_inv_def)
  next
    case None
    then have fresh: "\<And>dir. mk = Inr dir \<Longrightarrow> dir \<notin> set (fc_dirs ?fc)" "mset new = (case mk of Inr dir \<Rightarrow> {#dir#} | _ \<Rightarrow> {#})"
      using env by (auto simp: mk_def new_def env_ok_def split: sum.splits)
    have "mset (fc_dirs fc') + mset ds = mset (fc_dirs ?fc) + mset new"
      using acquire_dirs [OF acq sys ord fresh(1)] None fresh(2) by simp
    then have "mset (gw_Temp w') = mset (fc_dirs fc') + T"
      unfolding w' mset_fold_remove1 by (simp add: temp) (metis add_diff_cancel_right' union_assoc union_commute)
    moreover have "sys_ok (fc', case r of Inr i \<Rightarrow> add_mset (Holding i) G | Inl e \<Rightarrow> G)"
      using run_sys_ok [OF acquire_is_run [OF acq ord fresh(1)] sys] by simp
    ultimately show ?thesis using w' by (cases r) (simp_all add: temp_inv_def)
  qed
qed

lemma obtainWorktree_temp:
  assumes run: "run_state (obtainWorktree c env p auth insecure ref rr) w = (r, w')"
    and inv: "temp_inv T G w" and env: "env_ok env (gw_Cache w)"
  shows "temp_inv (T + owed_dirs r) (G + owed_refs r) w'"
proof (cases "gc_caching c \<and> rr_hash rr \<noteq> [] \<and> pu_kind p \<noteq> transportLocal")
  case True
  obtain r1 w1 where a: "run_state (acquire_worktree env (pu_raw p @ ''@'' @ rr_hash rr)
      (\<lambda>dir. checkout env dir p auth insecure ref rr)) w = (r1, w1)" by fastforce
  have "temp_inv T (G + (case r1 of Inl e \<Rightarrow> {#} | Inr i \<Rightarrow> {#Holding i#})) w1"
    by (rule acquire_worktree_temp [OF a inv env checkout_same])
  moreover have "w' = w1" "owed_dirs r = {#}" "owed_refs r = (case r1 of Inl e \<Rightarrow> {#} | Inr i \<Rightarrow> {#Holding i#})"
    using run a True by (auto simp: obtainWorktree_def the_cache_def split: sum.splits)
  ultimately show ?thesis by simp
next
  case False
  then show ?thesis
    using run inv
    by (auto simp: obtainWorktree_def run_os temp_inv_def split: sum.splits prod.splits dest!: checkout_same)
qed

fun cleanup_dirs :: "worktree_cleanup \<Rightarrow> string multiset" where
  "cleanup_dirs (RemoveDir d) = {#d#}"
| "cleanup_dirs (ReleaseEntry i) = {#}"

fun cleanup_refs :: "worktree_cleanup \<Rightarrow> goroutine multiset" where
  "cleanup_refs (RemoveDir d) = {#}"
| "cleanup_refs (ReleaseEntry i) = {#Holding i#}"

lemma owed_simps [simp]:
  "owed_dirs (Inr (d, c, cu)) = cleanup_dirs cu" "owed_refs (Inr (d, c, cu)) = cleanup_refs cu"
  by (cases cu; simp)+

lemma run_cleanup_temp:
  assumes "temp_inv (T + cleanup_dirs cu) (G + cleanup_refs cu) w"
  shows "temp_inv T G (snd (run_state (run_cleanup env cu) w))"
proof (cases cu)
  case (RemoveDir d)
  with assms show ?thesis by (simp add: run_cleanup_def run_os temp_inv_def)
next
  case (ReleaseEntry i)
  let ?fc = "gw_Cache w" and ?now = "fst (ge_Now env (gw_Os w))"
  have sys: "sys_ok (?fc, add_mset (Holding i) G)" and temp: "mset (gw_Temp w) = mset (fc_dirs ?fc) + T"
    using assms ReleaseEntry by (simp_all add: temp_inv_def)
  have "sys_ok (release i ?now ?fc, G)" by (rule run_sys_ok [OF run_release sys])
  moreover have "mset (gw_Temp w) - mset (release_removes i ?fc) = mset (fc_dirs (release i ?now ?fc)) + T"
    using release_dirs [OF sys, of i ?now] temp by simp
  ultimately show ?thesis
    using ReleaseEntry
    by (simp add: run_cleanup_def the_cache_def set_cache_def run_os run_os_remove_all temp_inv_def
        mset_fold_remove1)
qed

text \<open>What a result of \<open>Fetch\<close> obliges its caller to clean up.\<close>

definition result_dirs :: "error + fetch_result \<Rightarrow> string multiset" where
  "result_dirs r = (case r of Inl e \<Rightarrow> {#} | Inr f \<Rightarrow> cleanup_dirs (fr_Cleanup f))"

definition result_refs :: "error + fetch_result \<Rightarrow> goroutine multiset" where
  "result_refs r = (case r of Inl e \<Rightarrow> {#} | Inr f \<Rightarrow> cleanup_refs (fr_Cleanup f))"

lemma temp_inv_os [simp]: "temp_inv T G (w\<lparr>gw_Os := s\<rparr>) = temp_inv T G w"
  by (simp add: temp_inv_def)

lemma verifyContained_world:
  "run_state (verifyContained env a b) w = (r, w') \<Longrightarrow> \<exists>s. w' = w\<lparr>gw_Os := s\<rparr>"
  by (auto simp: verifyContained_def run_os split: sum.splits if_splits)

lemma locate_temp:
  assumes "temp_inv (T + cleanup_dirs cu) (G + cleanup_refs cu) w"
    and "run_state (locate env sub (wt, commit, cu)) w = (r, w')"
  shows "temp_inv (T + result_dirs r) (G + result_refs r) w'"
proof -
  have cleaned: "temp_inv T G w2" if "run_state (run_cleanup env cu) (w\<lparr>gw_Os := s\<rparr>) = (x, w2)" for x w2 s
    using run_cleanup_temp [of T cu G "w\<lparr>gw_Os := s\<rparr>" env] that assms(1) by simp
  have cleaned0: "temp_inv T G w2" if "run_state (run_cleanup env cu) w = (x, w2)" for x w2
    using run_cleanup_temp [of T cu G w env] that assms(1) by simp
  from assms show ?thesis
    by (auto simp: locate_def Let_def run_os result_dirs_def result_refs_def
        split: if_splits option.splits prod.splits dest!: verifyContained_world intro: cleaned cleaned0)
qed

lemma fetch_resolved_temp:
  assumes "temp_inv T G w" "env_ok env (gw_Cache w)"
    and "run_state (fetch_resolved c env p auth insecure ref sub) w = (r, w')"
  shows "temp_inv (T + result_dirs r) (G + result_refs r) w'"
proof -
  obtain rr w1 where rr: "run_state (resolveRef env p auth insecure ref) w = (rr, w1)" by fastforce
  then have w1: "temp_inv T G w1" "env_ok env (gw_Cache w1)"
    using assms(1,2) by (auto simp: resolveRef_def run_os)
  show ?thesis
  proof (cases rr)
    case (Inl e)
    with rr assms(3) w1 show ?thesis
      by (auto simp: fetch_resolved_def result_dirs_def result_refs_def)
  next
    case (Inr r0)
    obtain ow w2 where ow: "run_state (obtainWorktree c env p auth insecure ref r0) w1 = (ow, w2)" by fastforce
    note o = obtainWorktree_temp [OF ow w1]
    show ?thesis
    proof (cases ow)
      case (Inl e)
      with rr Inr ow assms(3) o show ?thesis
        by (auto simp: fetch_resolved_def result_dirs_def result_refs_def)
    next
      case (Inr wt)
      obtain d cm cu where wt: "wt = (d, cm, cu)" by (cases wt)
      show ?thesis
        by (rule locate_temp [of T cu G w2 env sub d cm])
           (use rr \<open>rr = Inr r0\<close> ow Inr wt assms(3) o in \<open>auto simp: fetch_resolved_def\<close>)
    qed
  qed
qed

lemma Fetch_temp:
  assumes inv: "temp_inv T G w" and env: "env_ok env (gw_Cache w)"
    and run: "run_state (Fetch c env ref cred) w = (r, w')"
  shows "temp_inv (T + result_dirs r) (G + result_refs r) w'"
proof (cases "\<exists>p sub. parseURL (rf_URL ref) (gc_allowLocalTransport c) = Inr p \<and> validate c p = None
    \<and> sanitizePath (rf_Path ref) = Inr sub")
  case False
  then have "w' = w" "\<exists>e. r = Inl e"
    using run by (auto simp: Fetch_def Let_def withDefaults_def split: sum.splits option.splits if_splits)
  with inv show ?thesis by (auto simp: result_dirs_def result_refs_def)
next
  case True
  then obtain p sub where p: "parseURL (rf_URL ref) (gc_allowLocalTransport c) = Inr p" "validate c p = None"
    "sanitizePath (rf_Path ref) = Inr sub" by blast
  have defaults: "rf_URL (withDefaults ref) = rf_URL ref" "rf_Path (withDefaults ref) = rf_Path ref"
    by (simp_all add: withDefaults_def)
  obtain a w1 where a: "run_state (authMethod env cred (pu_kind p)) w = (a, w1)" by fastforce
  note at = authMethod_temp [OF a]
  show ?thesis
  proof (cases a)
    case (Inl e)
    with a at run p inv show ?thesis
      by (auto simp: Fetch_def Let_def defaults result_dirs_def result_refs_def temp_inv_def)
  next
    case (Inr akh)
    obtain auth kh where akh: "akh = (auth, kh)" by (cases akh)
    let ?K = "case kh of None \<Rightarrow> {#} | Some f \<Rightarrow> {#f#}"
    have w1: "temp_inv (T + ?K) G w1" "env_ok env (gw_Cache w1)"
      using inv env at Inr akh by (auto simp: temp_inv_def split: option.splits)
    obtain r2 w2 where f: "run_state (fetch_resolved c env p auth (tlsInsecure cred) (rf_Ref (withDefaults ref)) sub) w1 = (r2, w2)"
      by fastforce
    note inv2 = fetch_resolved_temp [OF w1 f]
    have "r = r2" "w' = (case kh of None \<Rightarrow> w2 | Some k \<Rightarrow> snd (run_state (os_remove (ge_RemoveFile env) k) w2))"
      using run p a Inr akh f by (auto simp: Fetch_def Let_def defaults split: option.splits prod.splits)
    with inv2 show ?thesis by (cases kh) (simp_all add: temp_inv_def run_os)
  qed
qed

text \<open>A fetch that is not turned away at the gate is of a source that the gate admits.\<close>

lemma Fetch_admits:
  assumes "run_state (Fetch c env ref cred) w = (r, w')" "w' \<noteq> w \<or> r = Inr f"
    and "\<not> gc_allowLocalTransport c" "\<not> gc_allowLoopback c"
  shows "\<exists>p. parseURL (rf_URL ref) False = Inr p \<and> (pu_kind p = transportHTTPS \<or> pu_kind p = transportSSH) \<and>
     reachable (gc_resolver c) (pu_host p) \<and>
     (gc_allowList c = [] \<or> list_ex (entry_permits p) (gc_allowList c))"
proof -
  have "\<exists>p. parseURL (rf_URL ref) (gc_allowLocalTransport c) = Inr p \<and> validate c p = None"
  proof (rule ccontr)
    assume "\<nexists>p. parseURL (rf_URL ref) (gc_allowLocalTransport c) = Inr p \<and> validate c p = None"
    then obtain e where "run_state (Fetch c env ref cred) w = (Inl e, w)"
      by (metis Fetch_rejected)
    with assms(1,2) show False by simp
  qed
  then obtain p where p: "parseURL (rf_URL ref) False = Inr p" "validate c p = None"
    using assms(3) by auto
  moreover have "pu_kind p \<noteq> transportLocal" using parseURL_kind(1) [OF p(1)] by auto
  ultimately show ?thesis
    using parseURL_kind(1) [OF p(1)] validate_guards [OF p(2) _ assms(4)] by blast
qed

end
