(* ===== verification/Git_Properties.thy ===== *)
theory Git_Properties
  imports Git_Source
begin

text \<open>
  The properties of the git package: the fetch cache under every interleaving, the SSRF ranges, the
  gate in front of a fetch, its temporary files, subpaths and authentication; with small concrete
  instances for the witnesses.
\<close>

section \<open>The fetch cache\<close>

text \<open>A run of the model for the witnesses: one miss on an empty cache.\<close>

definition demo_cache :: fetchCache where
  "demo_cache = snd (snd (acquire (\<lambda>n xs. xs) 5 ''repo@abc'' (Inr ''/tmp/kohen-git-1'') (\<lambda>d. Inr ''abc'')
     (newFetchCache minute 2)))"

lemma demo_acquire:
  "acquire (\<lambda>n xs. xs) 5 ''repo@abc'' (Inr ''/tmp/kohen-git-1'') (\<lambda>d. Inr ''abc'') (newFetchCache minute 2) =
     (Inr 0, [], demo_cache)"
  by (simp add: demo_cache_def acquire_def newFetchCache_def miss_def clone_done_def evictLocked_def
      expired_def upd_def close_ready_def)

lemma demo_reachable: "cache_reachable (demo_cache, {#Holding 0#})"
  using run_reachable [OF acquire_is_run [OF demo_acquire, of "{#}"] cache_reachable.Start]
  by (simp add: newFetchCache_def)

text \<open>C16: Whatever the interleaving, the worktree a reader holds was cloned without error, is on
  disk, and no goroutine is about to remove it.\<close>

theorem cache_readers_safe:
  assumes "cache_reachable (fc, add_mset (Holding i) G)"
  shows "ce_dir (fc_heap fc i) \<in> set (fc_dirs fc) \<and> ce_dir (fc_heap fc i) \<notin># pendings G \<and>
    ce_ready (fc_heap fc i) \<and> ce_err (fc_heap fc i) = None"
proof -
  have ok: "cache_ok fc (refs_of (add_mset (Holding i) G)) (pendings G) (clones G)"
    using reachable_sys_ok [OF assms] by (simp add: sys_ok_def)
  have "ce_ready (fc_heap fc i) \<and> ce_err (fc_heap fc i) = None"
    using reachable_outcomes [OF assms] by (simp add: outcomes_ok_def)
  with kept_dir_on_disk [OF ok, of i] show ?thesis by simp
qed

theorem cache_readers_safe_witness:
  "ce_dir (fc_heap demo_cache 0) \<in> set (fc_dirs demo_cache) \<and> ce_ready (fc_heap demo_cache 0)"
  using cache_readers_safe [of demo_cache 0 "{#}"] demo_reachable by simp

text \<open>C17: When no goroutine is in flight, the worktrees on disk are exactly those of the cached
  entries, one each.\<close>

theorem cache_no_leak:
  assumes "cache_reachable (fc, {#})"
  shows "distinct (fc_dirs fc) \<and>
    mset (fc_dirs fc) = image_mset (\<lambda>kv. ce_dir (fc_heap fc (snd kv))) (mset (fc_entries fc))"
proof -
  have ok: "cache_ok fc (refs_of {#}) {#} {#}"
    using reachable_sys_ok [OF assms] by (simp add: sys_ok_def pendings_def clones_def)
  have "kept fc = snd ` set (fc_entries fc)"
    using cache_okD(3,4) [OF ok] by (auto simp: kept_def refs_of_def)
  moreover have "mset_set (snd ` set (fc_entries fc)) = mset (map snd (fc_entries fc))"
    using cache_okD(2) [OF ok] by (metis list.set_map mset_set_set)
  ultimately have "kept_dirs fc = image_mset (\<lambda>kv. ce_dir (fc_heap fc (snd kv))) (mset (fc_entries fc))"
    by (simp add: kept_dirs_def image_mset.compositionality comp_def)
  with cache_okD(6,7) [OF ok] show ?thesis by simp
qed

theorem cache_no_leak_witness:
  "mset (fc_dirs (release 0 7 demo_cache)) =
     image_mset (\<lambda>kv. ce_dir (fc_heap (release 0 7 demo_cache) (snd kv))) (mset (fc_entries (release 0 7 demo_cache)))"
  using cache_no_leak [OF run_reachable [OF run_release [of demo_cache 0 "{#}" 7]]] demo_reachable by simp

text \<open>C22: The eviction that follows a successful clone ends within as many rounds as there are
  entries, and for one of its two reasons: the cache holds at most its maximum number of entries, or
  every entry left in it is in use.\<close>

theorem evictLocked_within_cap:
  assumes "\<And>n xs. mset (ord n xs) = mset xs" "evictLocked ord now fc = (ds, fc')"
  shows "int (length (fc_entries fc')) \<le> fc_max fc' \<or>
    list_all (\<lambda>kv. 0 < ce_refs (fc_heap fc' (snd kv))) (fc_entries fc')"
  using evictLocked_within [OF assms] by (simp add: within_cap_def)

theorem evictLocked_within_cap_witness:
  "int (length (fc_entries (snd (evictLocked (\<lambda>n xs. xs) 9 demo_cache)))) \<le> fc_max (snd (evictLocked (\<lambda>n xs. xs) 9 demo_cache)) \<or>
   list_all (\<lambda>kv. 0 < ce_refs (fc_heap (snd (evictLocked (\<lambda>n xs. xs) 9 demo_cache)) (snd kv)))
     (fc_entries (snd (evictLocked (\<lambda>n xs. xs) 9 demo_cache)))"
  by (rule evictLocked_within_cap [of "\<lambda>n xs. xs" 9 demo_cache "fst (evictLocked (\<lambda>n xs. xs) 9 demo_cache)"]) simp_all

section \<open>Fetching\<close>

text \<open>A small environment for the witnesses: one branch, whose checkout has the subpath; \<open>tick\<close> is how
  a call changes the state of the operating system.\<close>

definition demo_env_on :: "('o \<Rightarrow> 'o) \<Rightarrow> 'o git_env" where
  "demo_env_on tick = \<lparr>
     ge_List = (\<lambda>u a i s. (Inr [(''refs/heads/main'', ''c0ffee'')], tick s)),
     ge_Clone = (\<lambda>d o' s. (None, tick s)),
     ge_ResolveRevision = (\<lambda>d r s. (Inr r, s)), ge_Worktree = (\<lambda>d s. (None, s)),
     ge_Checkout = (\<lambda>d h s. (None, s)), ge_Head = (\<lambda>d s. (Inr ''c0ffee'', s)),
     ge_MkdirTemp = (\<lambda>s. (Inr ''/tmp/w'', s)), ge_RemoveAll = (\<lambda>d s. s),
     ge_Stat = (\<lambda>p s. (None, s)), ge_EvalSymlinks = (\<lambda>p s. (Inr p, s)),
     ge_NewPublicKeys = (\<lambda>k p. Inr k), ge_CreateTemp = (\<lambda>s. (Inr ''/tmp/kh'', s)),
     ge_WriteFile = (\<lambda>f d s. (None, s)), ge_CloseFile = (\<lambda>f s. (None, s)),
     ge_RemoveFile = (\<lambda>f s. s), ge_KnownHostsNew = (\<lambda>f s. (None, s)),
     ge_Now = (\<lambda>s. (5, s)), ge_MapOrder = (\<lambda>n xs. xs)\<rparr>"

definition demo_env :: "nat git_env" where
  "demo_env = demo_env_on Suc"

definition demo_client :: git_client where
  "demo_client = \<lparr>gc_allowList = [''g.io''], gc_allowLocalTransport = False, gc_allowLoopback = False,
     gc_resolver = Some (\<lambda>h. Inr [[93, 184, 216, 34]]), gc_caching = False\<rparr>"

definition demo_world :: "nat git_world" where
  "demo_world = \<lparr>gw_Os = 0, gw_Cache = newFetchCache minute 2, gw_Temp = []\<rparr>"

definition demo_ref :: reference where
  "demo_ref = \<lparr>rf_URL = ''https://g.io/a'', rf_Ref = [], rf_Path = ''/c''\<rparr>"


definition demo_result :: fetch_result where
  "demo_result = \<lparr>fr_Commit = ''c0ffee'', fr_Dir = ''/tmp/w/c'', fr_WorktreeDir = ''/tmp/w'',
     fr_Cleanup = RemoveDir ''/tmp/w''\<rparr>"

definition demo_run :: "(error + fetch_result) \<times> nat git_world" where
  "demo_run = run_state (Fetch demo_client demo_env demo_ref None) demo_world"

lemma demo_fetch:
  "run_state (Fetch demo_client demo_env demo_ref None) demo_world = (Inr demo_result, snd demo_run)"
proof -
  have "fst demo_run = Inr demo_result" by code_simp
  then show ?thesis by (metis demo_run_def prod.collapse)
qed


text \<open>C18: With the production settings (no local transport, no loopback exemption), a fetch that
  succeeds, or that touches the file system or the network at all, is of a URL that is https or ssh,
  whose host the SSRF guard accepts and that the operator's allow-list permits.\<close>

theorem Fetch_gate:
  assumes "run_state (Fetch c env ref cred) w = (r, w')" "w' \<noteq> w \<or> r = Inr f"
    and "\<not> gc_allowLocalTransport c" "\<not> gc_allowLoopback c"
  shows "\<exists>p. parseURL (rf_URL ref) False = Inr p \<and> (pu_kind p = transportHTTPS \<or> pu_kind p = transportSSH) \<and>
     reachable (gc_resolver c) (pu_host p) \<and>
     (gc_allowList c = [] \<or> list_ex (entry_permits p) (gc_allowList c))"
  by (rule Fetch_admits [OF assms])

theorem Fetch_gate_witness:
  "\<exists>p. parseURL (rf_URL demo_ref) False = Inr p \<and> reachable (gc_resolver demo_client) (pu_host p)"
  using Fetch_gate [OF demo_fetch, of demo_result] by (auto simp: demo_client_def)

text \<open>C19: A fetch leaves no temporary file behind: if it fails, and also after the caller ran the
  cleanup of a result, the temporary files on disk are those of the cache and those that were there
  before; the known_hosts file never survives.\<close>

theorem Fetch_tidy:
  assumes "temp_inv T G w" "env_ok env (gw_Cache w)" "run_state (Fetch c env ref cred) w = (r, w')"
  shows "case r of
      Inl e \<Rightarrow> temp_inv T G w'
    | Inr f \<Rightarrow> temp_inv T G (snd (run_state (run_cleanup env (fr_Cleanup f)) w'))"
  using Fetch_temp [OF assms] run_cleanup_temp [of T _ G w' env]
  by (auto simp: result_dirs_def result_refs_def split: sum.split)

theorem Fetch_tidy_witness:
  "temp_inv {#} {#} (snd (run_state (run_cleanup demo_env (fr_Cleanup demo_result)) (snd demo_run)))"
proof -
  have "temp_inv {#} {#} demo_world" "env_ok demo_env (gw_Cache demo_world)"
    using newFetchCache_ok [of minute 2]
    by (simp_all add: temp_inv_def env_ok_def demo_world_def demo_env_def demo_env_on_def newFetchCache_def)
  from Fetch_tidy [OF this demo_fetch] show ?thesis by simp
qed



end
