(* ===== verification/Render.thy ===== *)
theory Render
  imports Manifest
begin

text \<open>
  The package \<open>internal/render\<close>: from a file tree to the data of a ConfigMap. The lemmas describe a
  successful rendering exactly: which files it holds, under which keys, with which contents, and
  that its sz is within the limit.
\<close>

section \<open>Options\<close>

abbreviation DefaultKeySeparator :: string where "DefaultKeySeparator \<equiv> ''__''"
definition ConfigMapHardLimitBytes :: int where "ConfigMapHardLimitBytes = 1048576"
definition DefaultSafetyMarginBytes :: int where "DefaultSafetyMarginBytes = 131072"
abbreviation reservedPrefix :: string where "reservedPrefix \<equiv> ''kohen.''"

record render_options =
  ro_KeySeparator :: string
  ro_MaxTotalBytes :: int
  ro_SafetyMarginBytes :: int

definition keySeparator :: "render_options \<Rightarrow> string" where
  "keySeparator o' = (if ro_KeySeparator o' = [] then DefaultKeySeparator else ro_KeySeparator o')"

definition effectiveLimit :: "render_options \<Rightarrow> int" where
  "effectiveLimit o' =
     (let mx = (if ro_MaxTotalBytes o' \<le> 0 then ConfigMapHardLimitBytes else ro_MaxTotalBytes o');
          margin = (if ro_SafetyMarginBytes o' = 0 then DefaultSafetyMarginBytes
                    else ro_SafetyMarginBytes o')
      in if mx \<le> margin then mx else mx - margin)"

record render_result =
  rr_Data :: "(string \<times> string) list"
  rr_BinaryData :: "(string \<times> bytes) list"
  rr_TotalBytes :: int

definition Keys :: "render_result \<Rightarrow> string list" where
  "Keys r = sort (map fst (rr_Data r) @ map fst (rr_BinaryData r))"

section \<open>Keys\<close>

definition maxKeyLen :: nat where "maxKeyLen = 253"

definition key_char :: "char \<Rightarrow> bool" where
  "key_char c \<longleftrightarrow> is_alpha c \<or> is_digit c \<or> c \<in> {CHR ''-'', CHR ''_'', CHR ''.''}"

fun bad_rune :: "string \<Rightarrow> string option" where
  "bad_rune [] = None"
| "bad_rune (c # s) = (if key_char c then bad_rune s else Some (quote_rune (c # s)))"

definition validateKey :: "string \<Rightarrow> error option" where
  "validateKey key =
     (if key = [] then Some (Plain ''key is empty'')
      else if maxKeyLen < length key then
        Some (Plain (''key length '' @ show_nat (length key) @ '' exceeds '' @ show_nat maxKeyLen))
      else if key = ''.'' \<or> key = ''..'' then
        Some (Plain (''key must not be '' @ quote ''.'' @ '' or '' @ quote ''..''))
      else case bad_rune key of
             None \<Rightarrow> None
           | Some r \<Rightarrow> Some (Plain (''invalid character '' @ r)))"

section \<open>Collection\<close>

record candidate =
  cd_key :: string
  cd_realPath :: string
  cd_size :: int

definition excluded :: "tree_fs \<Rightarrow> yaml_lib \<Rightarrow> string \<Rightarrow> string \<Rightarrow> bool" where
  "excluded fs yl path rel =
     (let name = path_base rel
      in if hasPrefix name reservedPrefix then True
         else if yaml_ext name then
           (case tf_ReadFile fs path of Inl e \<Rightarrow> False | Inr data \<Rightarrow> IsKubernetesManifest yl data)
         else False)"

text \<open>The state of the walk: the keys seen with their files, and the candidates so far.\<close>

type_synonym walk_state = "(string \<times> string) list \<times> candidate list"

definition consider_file ::
  "tree_fs \<Rightarrow> yaml_lib \<Rightarrow> string \<Rightarrow> string \<Rightarrow> string \<Rightarrow> int \<Rightarrow> walk_state \<Rightarrow> error + walk_state" where
  "consider_file fs yl base path sep sz st =
     (case path_rel base path of
        None \<Rightarrow> Inl (Wrapf (''computing relative path for '' @ quote path)
                   (Plain (''Rel: can'' @ [CHR 0x27] @ ''t make '' @ path @ '' relative to '' @ base)))
      | Some rel \<Rightarrow>
          let key = replaceByte slash sep rel
          in if rel = ''..'' \<or> hasPrefix rel ''../'' \<or> isAbs rel then
               Inl (RenderErr RenderTreeSafetyViolation
                 (''path '' @ quote rel @ '' escapes the config path''))
             else if excluded fs yl path rel then Inr st
             else case validateKey key of
                    Some e \<Rightarrow>
                      Inl (RenderErr RenderInvalidKey
                        (''file '' @ quote rel @ '' maps to invalid ConfigMap key '' @ quote key
                          @ '': '' @ err_text e))
                  | None \<Rightarrow>
                      (case map_of (fst st) key of
                         Some prev \<Rightarrow>
                           Inl (RenderErr RenderKeyConflict
                             (''files '' @ quote prev @ '' and '' @ quote rel
                               @ '' both map to ConfigMap key '' @ quote key
                               @ ''; rename one or change the key separator''))
                       | None \<Rightarrow>
                           Inr ((key, rel) # fst st,
                                snd st @ [\<lparr>cd_key = key, cd_realPath = path, cd_size = sz\<rparr>])))"

definition visit ::
  "tree_fs \<Rightarrow> yaml_lib \<Rightarrow> string \<Rightarrow> string \<Rightarrow> walk_entry \<Rightarrow> walk_state \<Rightarrow> error + walk_state" where
  "visit fs yl base sep e st =
     (case wk_Err e of
        Some err \<Rightarrow> Inl err
      | None \<Rightarrow>
          if wk_Path e = base then Inr st
          else case wk_Type e of
                 FSymlink \<Rightarrow>
                   (case tf_EvalSymlinks fs (wk_Path e) of
                      Inl err \<Rightarrow>
                        Inl (RenderErr RenderTreeSafetyViolation
                          (''symlink '' @ quote (relTo base (wk_Path e))
                            @ '' could not be resolved: '' @ err_text err))
                    | Inr resolved \<Rightarrow>
                        if \<not> within base resolved then
                          Inl (RenderErr RenderTreeSafetyViolation
                            (''symlink '' @ quote (relTo base (wk_Path e)) @ '' escapes the config path''))
                        else (case tf_Stat fs resolved of
                                Inl err \<Rightarrow> Inl (Wrapf (''stat symlink target '' @ quote resolved) err)
                              | Inr (isdir, sz) \<Rightarrow>
                                  if isdir then Inr st
                                  else consider_file fs yl base (wk_Path e) sep sz st))
               | FDir \<Rightarrow> Inr st
               | FOther \<Rightarrow> Inr st
               | FRegular \<Rightarrow>
                   (case wk_Size e of
                      Inl err \<Rightarrow> Inl err
                    | Inr sz \<Rightarrow> consider_file fs yl base (wk_Path e) sep sz st))"

fun visit_all ::
  "tree_fs \<Rightarrow> yaml_lib \<Rightarrow> string \<Rightarrow> string \<Rightarrow> walk_entry list \<Rightarrow> walk_state \<Rightarrow> error + walk_state" where
  "visit_all fs yl base sep [] st = Inr st"
| "visit_all fs yl base sep (e # es) st =
     (case visit fs yl base sep e st of
        Inl err \<Rightarrow> Inl err | Inr st' \<Rightarrow> visit_all fs yl base sep es st')"

definition collect :: "render_options \<Rightarrow> tree_fs \<Rightarrow> yaml_lib \<Rightarrow> string \<Rightarrow> error + candidate list" where
  "collect o' fs yl base =
     (case visit_all fs yl base (keySeparator o') (tf_Walk fs base) ([], []) of
        Inl e \<Rightarrow> Inl e | Inr (seen, out) \<Rightarrow> Inr out)"

section \<open>Rendering\<close>

definition EncodedLen :: "nat \<Rightarrow> nat" where
  "EncodedLen n = (n + 2) div 3 * 4"

definition add_file :: "string \<Rightarrow> bytes \<Rightarrow> render_result \<Rightarrow> render_result" where
  "add_file key content r =
     (if utf8_valid content then
        r\<lparr>rr_Data := rr_Data r @ [(key, content)],
          rr_TotalBytes := rr_TotalBytes r + int (length key + length content)\<rparr>
      else
        r\<lparr>rr_BinaryData := rr_BinaryData r @ [(key, content)],
          rr_TotalBytes := rr_TotalBytes r + int (length key + EncodedLen (length content))\<rparr>)"

fun read_all :: "tree_fs \<Rightarrow> candidate list \<Rightarrow> render_result \<Rightarrow> error + render_result" where
  "read_all fs [] r = Inr r"
| "read_all fs (c # cs) r =
     (case tf_ReadFile fs (cd_realPath c) of
        Inl e \<Rightarrow> Inl (Wrapf (''reading '' @ quote (cd_realPath c)) e)
      | Inr content \<Rightarrow> read_all fs cs (add_file (cd_key c) content r))"

definition Render :: "render_options \<Rightarrow> tree_fs \<Rightarrow> yaml_lib \<Rightarrow> string \<Rightarrow> error + render_result" where
  "Render o' fs yl root =
     (case tf_EvalSymlinks fs root of
        Inl e \<Rightarrow> Inl (Wrapf (''resolving config path '' @ quote root) e)
      | Inr base \<Rightarrow>
     (case tf_Stat fs base of
        Inl e \<Rightarrow> Inl (Wrapf (''stat config path '' @ quote root) e)
      | Inr (isdir, _) \<Rightarrow>
        if \<not> isdir then Inl (Plain (''config path '' @ quote root @ '' is not a directory''))
        else
     (case collect o' fs yl base of
        Inl e \<Rightarrow> Inl e
      | Inr candidates \<Rightarrow>
        let rawTotal = sum_list (map cd_size candidates)
        in if ConfigMapHardLimitBytes < rawTotal then
             Inl (RenderErr RenderOversize
               (''rendered config is '' @ show_int rawTotal
                 @ '' bytes which exceeds the ConfigMap limit of '' @ show_int ConfigMapHardLimitBytes
                 @ '' bytes; reduce the config or split the path''))
           else
     (case read_all fs candidates \<lparr>rr_Data = [], rr_BinaryData = [], rr_TotalBytes = 0\<rparr> of
        Inl e \<Rightarrow> Inl e
      | Inr result \<Rightarrow>
        if effectiveLimit o' < rr_TotalBytes result then
          Inl (RenderErr RenderOversize
            (''rendered config is '' @ show_int (rr_TotalBytes result)
              @ '' bytes which exceeds the safe ConfigMap limit of '' @ show_int (effectiveLimit o')
              @ '' bytes (hard limit '' @ show_int ConfigMapHardLimitBytes
              @ '', safety margin for metadata); reduce the config or split the path''))
        else Inr result))))"

section \<open>Valid keys\<close>

definition valid_key :: "string \<Rightarrow> bool" where
  "valid_key k \<longleftrightarrow> k \<noteq> [] \<and> length k \<le> 253 \<and> k \<noteq> ''.'' \<and> k \<noteq> ''..'' \<and> list_all key_char k"

lemma bad_rune_None: "bad_rune s = None \<longleftrightarrow> list_all key_char s"
  by (induction s) auto

lemma validateKey_None: "validateKey k = None \<longleftrightarrow> valid_key k"
  using bad_rune_None [of k]
  by (cases "bad_rune k") (simp_all add: validateKey_def valid_key_def maxKeyLen_def not_le)

section \<open>What is collected\<close>

text \<open>
  Whether an entry is a config file: a regular file, or a symlink that resolves within the tree to
  something that is not a directory; and the key it has then.
\<close>

definition config_file :: "tree_fs \<Rightarrow> yaml_lib \<Rightarrow> string \<Rightarrow> walk_entry \<Rightarrow> bool" where
  "config_file fs yl base e \<longleftrightarrow>
     wk_Path e \<noteq> base \<and>
     (wk_Type e = FRegular \<or>
      wk_Type e = FSymlink \<and>
        (case tf_EvalSymlinks fs (wk_Path e) of
           Inl _ \<Rightarrow> False
         | Inr t \<Rightarrow> within base t \<and> (case tf_Stat fs t of Inl _ \<Rightarrow> False | Inr (d, _) \<Rightarrow> \<not> d))) \<and>
     (case path_rel base (wk_Path e) of None \<Rightarrow> False | Some rel \<Rightarrow> \<not> excluded fs yl (wk_Path e) rel)"

definition key_for :: "string \<Rightarrow> string \<Rightarrow> string \<Rightarrow> string" where
  "key_for base sep path =
     (case path_rel base path of None \<Rightarrow> [] | Some rel \<Rightarrow> replaceByte slash sep rel)"

text \<open>The walk keeps its map of seen keys in step with the candidates.\<close>

definition walk_ok :: "walk_state \<Rightarrow> bool" where
  "walk_ok st \<longleftrightarrow>
     map fst (fst st) = rev (map cd_key (snd st)) \<and> distinct (map cd_key (snd st)) \<and>
     list_all (valid_key \<circ> cd_key) (snd st)"

lemma consider_cases:
  assumes "consider_file fs yl base path sep sz st = Inr st'"
  obtains rel where "path_rel base path = Some rel" "excluded fs yl path rel" "st' = st"
  | rel where "path_rel base path = Some rel" "\<not> excluded fs yl path rel"
      "valid_key (replaceByte slash sep rel)" "map_of (fst st) (replaceByte slash sep rel) = None"
      "st' = ((replaceByte slash sep rel, rel) # fst st,
              snd st @ [\<lparr>cd_key = replaceByte slash sep rel, cd_realPath = path, cd_size = sz\<rparr>])"
proof (cases "path_rel base path")
  case None
  then show thesis using assms by (simp add: consider_file_def)
next
  case (Some rel)
  show thesis
  proof (cases "excluded fs yl path rel")
    case True
    then show thesis using assms Some that(1) [OF Some] by (simp add: consider_file_def Let_def split: if_splits)
  next
    case False
    then show thesis
      using assms Some that(2) [OF Some False]
      by (simp add: consider_file_def Let_def validateKey_None split: if_splits option.splits)
  qed
qed

lemma consider_ok:
  assumes "consider_file fs yl base path sep sz st = Inr st'" "walk_ok st"
  shows "walk_ok st'"
  using assms(1)
proof (cases rule: consider_cases)
  case (2 rel)
  have keys: "fst ` set (fst st) = cd_key ` set (snd st)"
    using assms(2) by (metis list.set_map set_rev walk_ok_def)
  with 2 assms(2) show ?thesis by (auto simp: walk_ok_def map_of_eq_None_iff)
qed (use assms(2) in simp)

lemma visit_cases:
  assumes "visit fs yl base sep e st = Inr st'"
  obtains "st' = st" "\<not> config_file fs yl base e"
  | sz where "config_file fs yl base e" "consider_file fs yl base (wk_Path e) sep sz st = Inr st'"
      "wk_Type e = FRegular \<Longrightarrow> wk_Size e = Inr sz"
proof -
  note skipped = that(1) and taken = that(2)
  have take: thesis if "consider_file fs yl base (wk_Path e) sep sz st = Inr st'" "wk_Path e \<noteq> base"
    "wk_Type e = FRegular \<and> wk_Size e = Inr sz \<or>
     wk_Type e = FSymlink \<and> (\<exists>t. tf_EvalSymlinks fs (wk_Path e) = Inr t \<and> within base t \<and>
       tf_Stat fs t = Inr (False, sz))" for sz
    using that(1)
  proof (cases rule: consider_cases)
    case (1 rel)
    show thesis by (rule skipped [OF 1(3)]) (use 1 that in \<open>auto simp: config_file_def\<close>)
  next
    case (2 rel)
    have "config_file fs yl base e" using 2 that(2,3) by (auto simp: config_file_def)
    then show thesis by (rule taken [OF _ that(1)]) (use that(3) in auto)
  qed
  have no: thesis if "st' = st" "wk_Type e = FDir \<or> wk_Type e = FOther \<or> wk_Path e = base"
    by (rule skipped [OF that(1)]) (use that(2) in \<open>auto simp: config_file_def\<close>)
  have dir: thesis if "st' = st" "wk_Type e = FSymlink" "tf_EvalSymlinks fs (wk_Path e) = Inr t" "tf_Stat fs t = Inr (True, sz)" for t sz
    by (rule skipped [OF that(1)]) (use that in \<open>auto simp: config_file_def\<close>)
  show thesis
    using assms unfolding visit_def
    by (auto split: option.splits if_splits file_type.splits sum.splits prod.splits intro: take no dir)
qed

lemma visit_all_spec:
  assumes "visit_all fs yl base sep es st = Inr st'" "walk_ok st"
  shows "walk_ok st' \<and>
    map (\<lambda>c. (cd_key c, cd_realPath c)) (snd st') =
      map (\<lambda>c. (cd_key c, cd_realPath c)) (snd st) @
      map (\<lambda>e. (key_for base sep (wk_Path e), wk_Path e)) (filter (config_file fs yl base) es)"
  using assms
proof (induction es arbitrary: st)
  case (Cons e es)
  then obtain st1 where v: "visit fs yl base sep e st = Inr st1" "visit_all fs yl base sep es st1 = Inr st'"
    by (auto split: sum.splits)
  from v(1) show ?case
  proof (cases rule: visit_cases)
    case 1
    with Cons v(2) show ?thesis by auto
  next
    case (2 sz)
    have ok1: "walk_ok st1" by (rule consider_ok [OF 2(2) Cons.prems(2)])
    from 2(2) have "map (\<lambda>c. (cd_key c, cd_realPath c)) (snd st1) =
        map (\<lambda>c. (cd_key c, cd_realPath c)) (snd st) @ [(key_for base sep (wk_Path e), wk_Path e)]"
    proof (cases rule: consider_cases)
      case (1 rel)
      with 2(1) show ?thesis by (simp add: config_file_def)
    next
      case (2 rel)
      then show ?thesis by (simp add: key_for_def)
    qed
    with Cons.IH [OF v(2) ok1] 2(1) show ?thesis by simp
  qed
qed simp

section \<open>What is rendered\<close>

definition content_of :: "tree_fs \<Rightarrow> string \<Rightarrow> bytes" where
  "content_of fs p = (case tf_ReadFile fs p of Inr b \<Rightarrow> b | Inl _ \<Rightarrow> [])"

text \<open>The specification: the config files of the tree in walk order, with their keys and contents.\<close>

definition config_entries :: "render_options \<Rightarrow> tree_fs \<Rightarrow> yaml_lib \<Rightarrow> string \<Rightarrow> (string \<times> bytes) list" where
  "config_entries o' fs yl base =
     map (\<lambda>e. (key_for base (keySeparator o') (wk_Path e), content_of fs (wk_Path e)))
       (filter (config_file fs yl base) (tf_Walk fs base))"

definition serialized_size :: "string \<times> bytes \<Rightarrow> int" where
  "serialized_size kv =
     int (length (fst kv)
       + (if utf8_valid (snd kv) then length (snd kv) else EncodedLen (length (snd kv))))"

lemma add_file_simps:
  "rr_Data (add_file k b r) = rr_Data r @ filter (utf8_valid \<circ> snd) [(k, b)]"
  "rr_BinaryData (add_file k b r) = rr_BinaryData r @ filter (Not \<circ> utf8_valid \<circ> snd) [(k, b)]"
  "rr_TotalBytes (add_file k b r) = rr_TotalBytes r + serialized_size (k, b)"
  by (simp_all add: add_file_def serialized_size_def)

lemma read_all_spec:
  assumes "read_all fs cs r = Inr r'"
  defines "ps \<equiv> map (\<lambda>c. (cd_key c, content_of fs (cd_realPath c))) cs"
  shows "rr_Data r' = rr_Data r @ filter (utf8_valid \<circ> snd) ps \<and>
    rr_BinaryData r' = rr_BinaryData r @ filter (Not \<circ> utf8_valid \<circ> snd) ps \<and>
    rr_TotalBytes r' = rr_TotalBytes r + sum_list (map serialized_size ps) \<and>
    list_all (\<lambda>c. \<exists>b. tf_ReadFile fs (cd_realPath c) = Inr b) cs"
  using assms(1) unfolding ps_def
proof (induction cs arbitrary: r)
  case (Cons c cs)
  then obtain b where b: "tf_ReadFile fs (cd_realPath c) = Inr b"
    "read_all fs cs (add_file (cd_key c) b r) = Inr r'" by (auto split: sum.splits)
  then have "content_of fs (cd_realPath c) = b" by (simp add: content_of_def)
  with Cons.IH [OF b(2)] b(1) show ?case by (simp add: add_file_simps)
qed simp

lemma Render_Inr:
  assumes "Render o' fs yl root = Inr r"
  obtains base cands where "tf_EvalSymlinks fs root = Inr base" "collect o' fs yl base = Inr cands"
    "read_all fs cands \<lparr>rr_Data = [], rr_BinaryData = [], rr_TotalBytes = 0\<rparr> = Inr r"
    "rr_TotalBytes r \<le> effectiveLimit o'"
  using assms
  by (auto simp: Render_def Let_def not_less split: sum.splits prod.splits if_splits intro: that)

lemma Render_spec:
  assumes "Render o' fs yl root = Inr r"
  obtains base where "tf_EvalSymlinks fs root = Inr base"
    "rr_Data r = filter (utf8_valid \<circ> snd) (config_entries o' fs yl base)"
    "rr_BinaryData r = filter (Not \<circ> utf8_valid \<circ> snd) (config_entries o' fs yl base)"
    "rr_TotalBytes r = sum_list (map serialized_size (config_entries o' fs yl base))"
    "rr_TotalBytes r \<le> effectiveLimit o'"
    "distinct (map fst (config_entries o' fs yl base))"
    "list_all (valid_key \<circ> fst) (config_entries o' fs yl base)"
proof -
  obtain base cands where r: "tf_EvalSymlinks fs root = Inr base" "collect o' fs yl base = Inr cands"
    "read_all fs cands \<lparr>rr_Data = [], rr_BinaryData = [], rr_TotalBytes = 0\<rparr> = Inr r"
    "rr_TotalBytes r \<le> effectiveLimit o'"
    by (rule Render_Inr [OF assms])
  obtain seen where v: "visit_all fs yl base (keySeparator o') (tf_Walk fs base) ([], []) = Inr (seen, cands)"
    using r(2) by (auto simp: collect_def split: sum.splits prod.splits)
  have "walk_ok ([], [])" by (simp add: walk_ok_def)
  note spec = visit_all_spec [OF v this]
  let ?f = "\<lambda>(k, p). (k, content_of fs p)"
  have ps: "map (\<lambda>c. (cd_key c, content_of fs (cd_realPath c))) cands = config_entries o' fs yl base"
    using arg_cong [OF conjunct2 [OF spec], of "map ?f"] by (simp add: config_entries_def comp_def)
  have keys: "map cd_key cands = map fst (config_entries o' fs yl base)"
    unfolding ps [symmetric] by simp
  have "list_all (valid_key \<circ> cd_key) cands" "distinct (map cd_key cands)"
    using spec by (simp_all add: walk_ok_def)
  then have "distinct (map fst (config_entries o' fs yl base))"
    "list_all (valid_key \<circ> fst) (config_entries o' fs yl base)"
    unfolding keys [symmetric] ps [symmetric] by (simp_all add: list_all_iff comp_def)
  with r read_all_spec [OF r(3)] show thesis unfolding ps by (intro that) simp_all
qed

text \<open>Nothing reserved and no recognized manifest among the rendered files.\<close>

lemma config_file_not_reserved:
  assumes "config_file fs yl base e" "path_rel base (wk_Path e) = Some rel"
  shows "\<not> hasPrefix (path_base rel) reservedPrefix"
    "yaml_ext (path_base rel) \<Longrightarrow> tf_ReadFile fs (wk_Path e) = Inr data \<Longrightarrow> \<not> IsKubernetesManifest yl data"
  using assms by (auto simp: config_file_def excluded_def Let_def split: if_splits)

text \<open>The size check is a check of the ConfigMap's own limit.\<close>

lemma effectiveLimit_default:
  "effectiveLimit \<lparr>ro_KeySeparator = [], ro_MaxTotalBytes = 0, ro_SafetyMarginBytes = 0\<rparr> = 917504"
  by (simp add: effectiveLimit_def ConfigMapHardLimitBytes_def DefaultSafetyMarginBytes_def)

lemma effectiveLimit_le:
  "0 \<le> ro_SafetyMarginBytes o' \<Longrightarrow>
   effectiveLimit o' \<le> (if ro_MaxTotalBytes o' \<le> 0 then ConfigMapHardLimitBytes else ro_MaxTotalBytes o')"
  by (simp add: effectiveLimit_def Let_def DefaultSafetyMarginBytes_def)

text \<open>Base64 takes four bytes for every three, rounded up.\<close>

lemma EncodedLen_bounds: "3 * EncodedLen n \<ge> 4 * n" "3 * EncodedLen n \<le> 4 * n + 8"
  by (simp_all add: EncodedLen_def)

lemma Keys_sorted: "sorted (Keys r)" "set (Keys r) = fst ` set (rr_Data r) \<union> fst ` set (rr_BinaryData r)"
  by (simp_all add: Keys_def)

text \<open>
  Git's own directory is not excluded: when the configured path is the repository root, the files
  under \<open>.git\<close> of the checkout are config files with valid keys.
\<close>

lemma git_directory_rendered:
  "\<not> excluded fs yl path ''.git/HEAD''"
  "validateKey (replaceByte slash DefaultKeySeparator ''.git/HEAD'') = None"
proof -
  have "path_base ''.git/HEAD'' = ''HEAD''" "\<not> hasPrefix ''HEAD'' ''kohen.''" "\<not> yaml_ext ''HEAD''" by code_simp+
  then show "\<not> excluded fs yl path ''.git/HEAD''" by (simp add: excluded_def Let_def)
  show "validateKey (replaceByte slash DefaultKeySeparator ''.git/HEAD'') = None" by code_simp
qed

section \<open>Properties\<close>

text \<open>C23: A successful rendering holds exactly the config files of the tree (regular files and
  in-tree symlinks to files, neither reserved nor recognized manifests), verbatim, text under data
  and the rest under binaryData, under distinct keys that Kubernetes accepts, and its conservatively
  counted size is within the limit.\<close>

theorem Render_correct:
  assumes "Render o' fs yl root = Inr r"
  shows "\<exists>base. tf_EvalSymlinks fs root = Inr base \<and>
    rr_Data r = filter (utf8_valid \<circ> snd) (config_entries o' fs yl base) \<and>
    rr_BinaryData r = filter (Not \<circ> utf8_valid \<circ> snd) (config_entries o' fs yl base) \<and>
    distinct (map fst (config_entries o' fs yl base)) \<and>
    list_all (valid_key \<circ> fst) (config_entries o' fs yl base) \<and>
    rr_TotalBytes r = sum_list (map serialized_size (config_entries o' fs yl base)) \<and>
    rr_TotalBytes r \<le> effectiveLimit o'"
  by (rule Render_spec [OF assms]) blast

definition demo_fs :: tree_fs where
  "demo_fs = \<lparr>tf_EvalSymlinks = (\<lambda>p. Inr p), tf_Stat = (\<lambda>p. Inr (p = ''/w'', 3)),
     tf_ReadFile = (\<lambda>p. Inr ''a=1''), tf_Open = (\<lambda>p. Inr ''a=1''),
     tf_Walk = (\<lambda>p. [\<lparr>wk_Path = ''/w'', wk_Err = None, wk_Type = FDir, wk_Size = Inr 0\<rparr>,
                     \<lparr>wk_Path = ''/w/app/a.conf'', wk_Err = None, wk_Type = FRegular, wk_Size = Inr 3\<rparr>])\<rparr>"

definition demo_yaml :: yaml_lib where
  "demo_yaml = \<lparr>yl_TypeMetas = (\<lambda>d. []), yl_Objects = (\<lambda>d. []),
     yl_GVK = (\<lambda>j. \<lparr>g_Group = [], g_Version = [], g_Kind = []\<rparr>), yl_GroupVersion = (\<lambda>g. [])\<rparr>"

definition demo_options :: render_options where
  "demo_options = \<lparr>ro_KeySeparator = [], ro_MaxTotalBytes = 100, ro_SafetyMarginBytes = 10\<rparr>"

lemma demo_render:
  "Render demo_options demo_fs demo_yaml ''/w'' =
     Inr \<lparr>rr_Data = [(''app__a.conf'', ''a=1'')], rr_BinaryData = [], rr_TotalBytes = 14\<rparr>"
  by code_simp

theorem Render_correct_witness:
  "rr_TotalBytes \<lparr>rr_Data = [(''app__a.conf'', ''a=1'')], rr_BinaryData = [], rr_TotalBytes = 14\<rparr>
     \<le> effectiveLimit demo_options"
  using Render_correct [OF demo_render] by blast

end
