(* ===== verification/Config.thy ===== *)
theory Config
  imports Errors
begin

text \<open>
  The package \<open>internal/config\<close>: the operator-scoped configuration, its defaults and its loading.
  Reading the file and decoding YAML into the default configuration are parameters.
\<close>

record config =
  cf_SourceAllowList :: "string list"
  cf_SecretStoreAllowList :: "string list"
  cf_MaxDegradedDuration :: duration
  cf_AllowInsecureGitTLS :: bool

definition DefaultMaxDegradedDuration :: duration where
  "DefaultMaxDegradedDuration = 15 * minute"

definition config_Default :: config where
  "config_Default = \<lparr>cf_SourceAllowList = [], cf_SecretStoreAllowList = [],
     cf_MaxDegradedDuration = DefaultMaxDegradedDuration, cf_AllowInsecureGitTLS = False\<rparr>"

definition applyDefaults :: "config \<Rightarrow> config" where
  "applyDefaults c =
     (if cf_MaxDegradedDuration c \<le> 0 then c\<lparr>cf_MaxDegradedDuration := DefaultMaxDegradedDuration\<rparr> else c)"

definition config_validate :: "config \<Rightarrow> error option" where
  "config_validate c =
     (if cf_MaxDegradedDuration c \<le> 0 then Some (Plain ''maxDegradedDuration must be positive'') else None)"

definition config_Load ::
  "(string \<Rightarrow> error + bytes) \<Rightarrow> (bytes \<Rightarrow> config \<Rightarrow> error + config) \<Rightarrow> string \<Rightarrow> error + config" where
  "config_Load readFile unmarshal path =
     (let cfg = config_Default
      in if path = [] then Inr cfg
         else case readFile path of
                Inl e \<Rightarrow> Inl (Wrapf (''reading operator config '' @ quote path) e)
              | Inr data \<Rightarrow>
                  (case unmarshal data cfg of
                     Inl e \<Rightarrow> Inl (Wrapf (''parsing operator config '' @ quote path) e)
                   | Inr cfg1 \<Rightarrow>
                       let cfg2 = applyDefaults cfg1
                       in (case config_validate cfg2 of Some e \<Rightarrow> Inl e | None \<Rightarrow> Inr cfg2)))"

text \<open>After the defaults the validation cannot fail, so a file that reads and decodes loads.\<close>

lemma validate_applyDefaults: "config_validate (applyDefaults c) = None"
  by (simp add: config_validate_def applyDefaults_def DefaultMaxDegradedDuration_def minute_def second_def)

lemma applyDefaults_pos: "0 < cf_MaxDegradedDuration (applyDefaults c)"
  by (simp add: applyDefaults_def DefaultMaxDegradedDuration_def minute_def second_def)

lemma config_Load_cases:
  "config_Load rf um path =
     (if path = [] then Inr config_Default
      else case rf path of
             Inl e \<Rightarrow> Inl (Wrapf (''reading operator config '' @ quote path) e)
           | Inr data \<Rightarrow> (case um data config_Default of
                            Inl e \<Rightarrow> Inl (Wrapf (''parsing operator config '' @ quote path) e)
                          | Inr c \<Rightarrow> Inr (applyDefaults c)))"
  by (simp add: config_Load_def Let_def validate_applyDefaults split: sum.split)

lemma config_Load_pos: "config_Load rf um path = Inr c \<Longrightarrow> 0 < cf_MaxDegradedDuration c"
  by (auto simp: config_Load_cases applyDefaults_pos config_Default_def DefaultMaxDegradedDuration_def
      minute_def second_def split: if_splits sum.splits)

end
