(* ===== verification/Ctl_Helpers.thy ===== *)
theory Ctl_Helpers
  imports Resolvers Render Wire Apply Git_Source Config
begin

text \<open>
  The reconciler of \<open>internal/controller\<close>: its dependencies, and the helpers of \<open>helpers.go\<close> and of
  the end of \<open>configsync_controller.go\<close>. The git source and the renderer are interfaces of the
  source, so fields of the record; the file tree of a checkout is read through \<open>rc_Tree\<close>, and
  \<open>rc_Meta\<close> gives the metadata of an unstructured object as the accessors of the library do. A nil
  redactor, recorder or configuration is a case of the code and of the model.
\<close>

section \<open>The reconciler\<close>

record 'k reconciler =
  rc_Client :: "'k client"
  rc_HasRecorder :: bool
  rc_Fetch :: "reference \<Rightarrow> credential option \<Rightarrow> 'k \<Rightarrow> (error + fetch_result) \<times> 'k"
  rc_Cleanup :: "worktree_cleanup \<Rightarrow> 'k \<Rightarrow> error option \<times> 'k"
  rc_Render :: "string \<Rightarrow> 'k \<Rightarrow> (error + render_result) \<times> 'k"
  rc_Tree :: "'k \<Rightarrow> tree_fs"
  rc_Yaml :: yaml_lib
  rc_Meta :: "json \<Rightarrow> kobject"
  rc_HasRedactor :: bool
  rc_Config :: "config option"
  rc_Resolvers :: "string \<Rightarrow> (string \<Rightarrow> secret_ref \<Rightarrow> ('k, error + resolution) act) option"

section \<open>Conditions\<close>

definition setCondition ::
  "'k reconciler \<Rightarrow> string \<Rightarrow> condition_status \<Rightarrow> string \<Rightarrow> string \<Rightarrow> ('k, unit) act" where
  "setCondition r condType status reason msg = do {
     now \<leftarrow> reads (cl_Now (rc_Client r));
     modify_cs (\<lambda>cs. cs\<lparr>cs_Status := (cs_Status cs)\<lparr>st_Conditions :=
       lib_SetStatusCondition (rc_Client r) now
         \<lparr>c_Type = condType, c_Status = status, c_Reason = reason, c_Message = msg,
          c_ObservedGeneration = cs_Generation cs, c_LastTransitionTime = 0\<rparr>
         (st_Conditions (cs_Status cs))\<rparr>\<rparr>)
   }"

definition setReady ::
  "'k reconciler \<Rightarrow> condition_status \<Rightarrow> string \<Rightarrow> string \<Rightarrow> ('k, unit) act" where
  "setReady r status reason msg = setCondition r ConditionReady status reason msg"

definition findCondition :: "config_sync \<Rightarrow> string \<Rightarrow> condition option" where
  "findCondition cs condType = List.find (\<lambda>c. c_Type c = condType) (st_Conditions (cs_Status cs))"

definition conditionTrue :: "config_sync \<Rightarrow> string \<Rightarrow> bool" where
  "conditionTrue cs condType =
     (case List.find (\<lambda>c. c_Type c = condType) (st_Conditions (cs_Status cs)) of
        Some c \<Rightarrow> c_Status c = CondTrue
      | None \<Rightarrow> False)"

definition workloadWired :: "config_sync \<Rightarrow> bool" where
  "workloadWired cs = conditionTrue cs ConditionWorkloadWired"

definition conditionReason :: "config_sync \<Rightarrow> string \<Rightarrow> string" where
  "conditionReason cs condType = (case findCondition cs condType of Some c \<Rightarrow> c_Reason c | None \<Rightarrow> [])"

text \<open>Assignments to one field of the status.\<close>

definition set_status :: "(config_sync_status \<Rightarrow> config_sync_status) \<Rightarrow> ('k, unit) act" where
  "set_status f = modify_cs (\<lambda>cs. cs\<lparr>cs_Status := f (cs_Status cs)\<rparr>)"

section \<open>Redaction and events\<close>

definition redactMsg :: "'k reconciler \<Rightarrow> string \<Rightarrow> ('k, string) act" where
  "redactMsg r msg = (if rc_HasRedactor r then redacted msg else State_Monad.return msg)"

definition record_event :: "'k reconciler \<Rightarrow> event_type \<Rightarrow> string \<Rightarrow> string \<Rightarrow> ('k, unit) act" where
  "record_event r t reason msg =
     (if rc_HasRecorder r then do { m \<leftarrow> redactMsg r msg; emit t reason m } else State_Monad.return ())"

section \<open>Credentials\<close>

text \<open>\<open>string(sec.Data[k])\<close> is \<open>sec_value\<close>; the label map of a Secret has Go's zero value too.\<close>

definition credential_of :: "secret \<Rightarrow> credential" where
  "credential_of sec =
     \<lparr>cr_Username = sec_value sec ''username'',
      cr_Password = (if sec_value sec ''password'' = [] then sec_value sec ''token'' else sec_value sec ''password''),
      cr_PrivateKey = sec_value sec ''ssh-privatekey'', cr_Passphrase = sec_value sec ''ssh-passphrase'',
      cr_KnownHosts = sec_value sec ''known_hosts'',
      cr_InsecureSkipTLSVerify = False, cr_InsecureIgnoreHostKey = False\<rparr>"

definition insecure_opt_in :: "config option \<Rightarrow> secret \<Rightarrow> credential \<Rightarrow> credential" where
  "insecure_opt_in cfg sec c =
     (case cfg of
        Some f \<Rightarrow>
          if cf_AllowInsecureGitTLS f then
            c\<lparr>cr_InsecureSkipTLSVerify := sec_value sec ''insecure-skip-tls-verify'' = ''true'',
              cr_InsecureIgnoreHostKey := sec_value sec ''insecure-ignore-host-key'' = ''true''\<rparr>
          else c
      | None \<Rightarrow> c)"

definition redactor_add :: "'k reconciler \<Rightarrow> string list \<Rightarrow> ('k, unit) act" where
  "redactor_add r secrets =
     State (\<lambda>w. ((), w\<lparr>w_Redactor := redactor_Add (lib_MapOrder (rc_Client r)) secrets (w_Redactor w)\<rparr>))"

definition loadCredential :: "'k reconciler \<Rightarrow> ('k, error + credential option) act" where
  "loadCredential r = do {
     cs \<leftarrow> the_cs;
     case src_AuthSecretRef (sp_Source (cs_Spec cs)) of
       None \<Rightarrow> State_Monad.return (Inr None)
     | Some name \<Rightarrow> do {
         g \<leftarrow> reads (cl_GetSecret (rc_Client r) (cs_Namespace cs) name);
         case g of
           Inl e \<Rightarrow> State_Monad.return (Inl
             (if isNotFound e then Plain (''git credential secret '' @ quote name @ '' not found'')
              else Wrapf ''reading git credential secret'' e))
         | Inr sec \<Rightarrow>
             if sec_Labels sec LabelGitCredential \<noteq> Some ''true'' then
               State_Monad.return (Inl (Plain (''secret '' @ quote name @ '' is missing the required label ''
                 @ LabelGitCredential @ ''=true'')))
             else do {
               let cred = insecure_opt_in (rc_Config r) sec (credential_of sec);
               _ \<leftarrow> (if rc_HasRedactor r
                     then redactor_add r [cr_Password cred, cr_Passphrase cred, cr_PrivateKey cred]
                     else State_Monad.return ());
               State_Monad.return (Inr (Some cred))
             }
       }
   }"

section \<open>The target ConfigMap\<close>

definition buildConfigMap :: "config_sync \<Rightarrow> string \<Rightarrow> render_result \<Rightarrow> kobject" where
  "buildConfigMap cs name rendered =
     \<lparr>ko_GVK = \<lparr>g_Group = [], g_Version = [], g_Kind = []\<rparr>, ko_Namespace = cs_Namespace cs, ko_Name = name,
      ko_UID = [], ko_Labels = Map.empty, ko_Annotations = Map.empty, ko_Owners = [],
      ko_ResourceVersion = [], ko_ManagedFields = [],
      ko_Payload = ConfigMapData (rr_Data rendered) (rr_BinaryData rendered)\<rparr>"

section \<open>Condition reasons\<close>

definition gitConditionReason :: "error \<Rightarrow> string" where
  "gitConditionReason e = (case git_ReasonOf e of Some r \<Rightarrow> git_reason_text r | None \<Rightarrow> ReasonFetchFailed)"

definition renderConditionReason :: "error \<Rightarrow> string" where
  "renderConditionReason e = (case render_ReasonOf e of Some r \<Rightarrow> render_reason_text r | None \<Rightarrow> ReasonDegraded)"

definition wireConditionReason :: "error \<Rightarrow> string" where
  "wireConditionReason e = (case wire_ReasonOf e of Some r \<Rightarrow> wire_reason_text r | None \<Rightarrow> ReasonDegraded)"

definition applyConditionReason :: "error \<Rightarrow> string" where
  "applyConditionReason e = (case apply_ReasonOf e of Some r \<Rightarrow> apply_reason_text r | None \<Rightarrow> ReasonDegraded)"

definition knownWireReason :: "string \<Rightarrow> string" where
  "knownWireReason reason =
     (if reason \<in> {ReasonWorkloadNotFound, ReasonUnsupportedStrategy, ReasonApplyConflict,
                   ReasonSingletonViolation, ReasonDegraded}
      then reason else ''Other'')"

end
