(* ===== verification/Ctl_Manifests.thy ===== *)
theory Ctl_Manifests
  imports Ctl_Helpers
begin

text \<open>
  The apply-if-present engine (\<open>internal/controller/manifests.go\<close>): load the manifests of the config
  tree, check them all before applying any, apply them as owned objects, and prune those that left
  the tree.
\<close>

definition externalSecretPruneVersions :: "string list" where
  "externalSecretPruneVersions = [''v1'', ''v1beta1'']"

record manifestOutcome =
  mo_ok :: bool
  mo_terminal :: bool
  mo_err :: "error option"

text \<open>
  What the apply engine sees of an unstructured object: its kind, name and namespace, the other
  metadata as the accessors of the library give it (\<open>rc_Meta\<close>), and the object itself as a tree.
\<close>

definition object_of :: "'k reconciler \<Rightarrow> json \<Rightarrow> kobject" where
  "object_of r u =
     (rc_Meta r u)\<lparr>ko_GVK := yl_GVK (rc_Yaml r) u, ko_Namespace := u_Namespace u, ko_Name := u_Name u,
                   ko_Payload := Tree u\<rparr>"

definition storeAllowList :: "'k reconciler \<Rightarrow> string list" where
  "storeAllowList r = (case rc_Config r of None \<Rightarrow> [] | Some c \<Rightarrow> cf_SecretStoreAllowList c)"

definition guardConditionReason :: "error \<Rightarrow> string" where
  "guardConditionReason e =
     (case GuardReasonOf e of
        Some GuardKindNotAllowed \<Rightarrow> ReasonManifestKindNotAllowed
      | Some GuardNamespaceViolation \<Rightarrow> ReasonManifestNamespaceViolation
      | Some GuardStoreNotAllowed \<Rightarrow> ReasonStoreNotAllowed
      | _ \<Rightarrow> ReasonManifestInvalid)"

text \<open>The first manifest the guard refuses, with its error.\<close>

fun first_violation :: "yaml_lib \<Rightarrow> guard \<Rightarrow> manifest_object list \<Rightarrow> (error \<times> manifest_object) option" where
  "first_violation yl g [] = None"
| "first_violation yl g (ob # obs) =
     (case Check yl g (mo_U ob) of Some e \<Rightarrow> Some (e, ob) | None \<Rightarrow> first_violation yl g obs)"

definition in_namespace :: "config_sync \<Rightarrow> kobject \<Rightarrow> kobject" where
  "in_namespace cs ob = (if ko_Namespace ob = [] then ob\<lparr>ko_Namespace := cs_Namespace cs\<rparr> else ob)"

definition fail_manifests ::
  "'k reconciler \<Rightarrow> string \<Rightarrow> string \<Rightarrow> manifestOutcome \<Rightarrow> ('k, manifestOutcome) act" where
  "fail_manifests r reason msg out = do {
     m \<leftarrow> redactMsg r msg;
     _ \<leftarrow> setCondition r ConditionManifestsApplied CondFalse reason m;
     _ \<leftarrow> record_event r Warning reason msg;
     State_Monad.return out
   }"

text \<open>The loop that applies the objects: the names applied, or the outcome of the first failure.\<close>

fun apply_objects ::
  "'k reconciler \<Rightarrow> config_sync \<Rightarrow> manifest_object list \<Rightarrow> ('k, manifestOutcome + string list) act" where
  "apply_objects r cs [] = State_Monad.return (Inr [])"
| "apply_objects r cs (ob # obs) = do {
     let u = in_namespace cs (object_of r (mo_U ob));
     a \<leftarrow> Apply (rc_Client r) cs u;
     case a of
       Some e \<Rightarrow> do {
         out \<leftarrow> fail_manifests r ReasonManifestApplyFailed (err_text e)
           \<lparr>mo_ok = False, mo_terminal = (apply_ReasonOf e = Some ApplyAlreadyExistsNotOwned), mo_err = Some e\<rparr>;
         State_Monad.return (Inl out)
       }
     | None \<Rightarrow> do {
         rest \<leftarrow> apply_objects r cs obs;
         State_Monad.return (case rest of Inl out \<Rightarrow> Inl out | Inr names \<Rightarrow> Inr (ko_Name u # names))
       }
   }"

definition es_list_gvk :: "string \<Rightarrow> gvk" where
  "es_list_gvk v = \<lparr>g_Group = ExternalSecretsGroup, g_Version = v, g_Kind = ExternalSecretKind @ ''List''\<rparr>"

fun prune_manifests ::
  "'k reconciler \<Rightarrow> config_sync \<Rightarrow> string list \<Rightarrow> string list \<Rightarrow> ('k, error option) act" where
  "prune_manifests r cs keep [] = State_Monad.return None"
| "prune_manifests r cs keep (v # vs) = do {
     p \<leftarrow> PruneKind (rc_Client r) cs (es_list_gvk v) keep;
     case p of Some e \<Rightarrow> State_Monad.return (Some e) | None \<Rightarrow> prune_manifests r cs keep vs
   }"

definition applied_message :: "string list \<Rightarrow> string" where
  "applied_message applied =
     (if applied = [] then ''no secret manifests to apply''
      else ''applied '' @ show_nat (length applied) @ '' secret manifest(s): [''
        @ joinWith '' '' (sort applied) @ '']'')"

definition applyManifests :: "'k reconciler \<Rightarrow> string \<Rightarrow> ('k, manifestOutcome) act" where
  "applyManifests r dir = do {
     cs \<leftarrow> the_cs;
     l \<leftarrow> reads (\<lambda>k. (Load (rc_Tree r k) (rc_Yaml r) dir, k));
     case l of
       Inl e \<Rightarrow> fail_manifests r ReasonManifestInvalid (err_text e)
                  \<lparr>mo_ok = False, mo_terminal = True, mo_err = None\<rparr>
     | Inr objs \<Rightarrow>
         (case first_violation (rc_Yaml r) \<lparr>gd_Namespace = cs_Namespace cs, gd_StoreAllowList = storeAllowList r\<rparr> objs of
            Some (e, ob) \<Rightarrow>
              fail_manifests r (guardConditionReason e) (err_text e @ '' ('' @ mo_Source ob @ '')'')
                \<lparr>mo_ok = False, mo_terminal = True, mo_err = None\<rparr>
          | None \<Rightarrow> do {
              a \<leftarrow> apply_objects r cs objs;
              case a of
                Inl out \<Rightarrow> State_Monad.return out
              | Inr applied \<Rightarrow> do {
                  p \<leftarrow> prune_manifests r cs applied externalSecretPruneVersions;
                  case p of
                    Some e \<Rightarrow> fail_manifests r ReasonManifestApplyFailed (err_text e)
                                \<lparr>mo_ok = False, mo_terminal = False, mo_err = Some e\<rparr>
                  | None \<Rightarrow> do {
                      _ \<leftarrow> setCondition r ConditionManifestsApplied CondTrue ReasonSynced (applied_message applied);
                      State_Monad.return \<lparr>mo_ok = True, mo_terminal = False, mo_err = None\<rparr>
                    }
                }
            })
   }"

section \<open>Lemmas\<close>

lemma first_violation_None:
  "first_violation yl g obs = None \<longleftrightarrow> list_all (\<lambda>ob. applicable yl g (mo_U ob)) obs"
  by (induction obs) (auto simp: Check_applicable [symmetric] split: option.splits)

text \<open>A patch of an object of the list, with the ownership of the ConfigSync on it.\<close>

definition applies_one_of :: "'k reconciler \<Rightarrow> config_sync \<Rightarrow> manifest_object list \<Rightarrow> call \<Rightarrow> bool" where
  "applies_one_of r cs obs c \<longleftrightarrow>
     (\<exists>ob \<in> set obs. \<exists>ob'. ensureGVK (rc_Client r) (in_namespace cs (object_of r (mo_U ob))) = Inr ob'
        \<and> owned_patch (rc_Client r) cs ob' c)"

lemma issues_fail_manifests [issue_rules]: "issues A (fail_manifests r reason msg out)"
  unfolding fail_manifests_def setCondition_def redactMsg_def record_event_def by (intro issue_rules)

lemma issues_apply_objects: "issues (applies_one_of r cs obs) (apply_objects r cs obs)"
proof (induction obs)
  case Nil
  then show ?case by (simp add: issue_rules)
next
  case (Cons ob obs)
  have IH: "issues (applies_one_of r cs (ob # obs)) (apply_objects r cs obs)"
    by (rule issues_weaken [OF Cons]) (auto simp: applies_one_of_def)
  have one: "issues (applies_one_of r cs (ob # obs))
      (Apply (rc_Client r) cs (in_namespace cs (object_of r (mo_U ob))))"
    by (rule issues_weaken [OF issues_Apply]) (auto simp: applies_one_of_def)
  show ?case
    unfolding apply_objects.simps Let_def by (intro issue_rules one IH)
qed

lemma issues_prune_manifests [issue_rules]: "issues is_delete (prune_manifests r cs keep vs)"
  by (induction vs) (auto intro!: issue_rules)

text \<open>
  All or nothing: the engine applies objects only when every manifest of the tree passes the guard,
  and a manifest set with a violation changes nothing in the cluster.
\<close>

lemma applyManifests_calls_of:
  assumes prunes: "\<And>applied. issues D (prune_manifests r (w_CS w) applied externalSecretPruneVersions)"
  shows "\<exists>calls. w_Calls (snd (run_state (applyManifests r dir) w)) = w_Calls w @ calls \<and>
     (calls = [] \<or> (\<exists>objs. Load (rc_Tree r (w_Cluster w)) (rc_Yaml r) dir = Inr objs \<and>
        list_all (\<lambda>ob. applicable (rc_Yaml r)
          \<lparr>gd_Namespace = cs_Namespace (w_CS w), gd_StoreAllowList = storeAllowList r\<rparr> (mo_U ob)) objs \<and>
        list_all (\<lambda>c. D c \<or> applies_one_of r (w_CS w) objs c) calls))"
proof (cases "Load (rc_Tree r (w_Cluster w)) (rc_Yaml r) dir")
  case (Inl e)
  then have "run_state (applyManifests r dir) w =
      run_state (fail_manifests r ReasonManifestInvalid (err_text e)
        \<lparr>mo_ok = False, mo_terminal = True, mo_err = None\<rparr>) w"
    by (simp add: applyManifests_def run_simps)
  then show ?thesis using issues_nothing [OF issues_fail_manifests] by (intro exI [of _ "[]"]) simp
next
  case (Inr objs)
  let ?g = "\<lparr>gd_Namespace = cs_Namespace (w_CS w), gd_StoreAllowList = storeAllowList r\<rparr>"
  let ?B = "\<lambda>c. D c \<or> applies_one_of r (w_CS w) objs c"
  show ?thesis
  proof (cases "first_violation (rc_Yaml r) ?g objs")
    case (Some x)
    obtain e ob where x: "x = (e, ob)" by (cases x)
    have "run_state (applyManifests r dir) w =
        run_state (fail_manifests r (guardConditionReason e) (err_text e @ '' ('' @ mo_Source ob @ '')'')
          \<lparr>mo_ok = False, mo_terminal = True, mo_err = None\<rparr>) w"
      using Inr Some x by (simp add: applyManifests_def run_simps)
    then show ?thesis using issues_nothing [OF issues_fail_manifests] by (intro exI [of _ "[]"]) simp
  next
    case None
    define rest where "rest = (do {
       a \<leftarrow> apply_objects r (w_CS w) objs;
       case a of
         Inl out \<Rightarrow> State_Monad.return out
       | Inr applied \<Rightarrow> do {
           p \<leftarrow> prune_manifests r (w_CS w) applied externalSecretPruneVersions;
           case p of
             Some e \<Rightarrow> fail_manifests r ReasonManifestApplyFailed (err_text e)
                         \<lparr>mo_ok = False, mo_terminal = False, mo_err = Some e\<rparr>
           | None \<Rightarrow> do {
               _ \<leftarrow> setCondition r ConditionManifestsApplied CondTrue ReasonSynced (applied_message applied);
               State_Monad.return \<lparr>mo_ok = True, mo_terminal = False, mo_err = None\<rparr>
             }
         }
     })"
    have run: "run_state (applyManifests r dir) w = run_state rest w"
      using Inr None by (simp add: applyManifests_def run_simps rest_def)
    have "issues ?B (apply_objects r (w_CS w) objs)"
      by (rule issues_weaken [OF issues_apply_objects]) simp
    moreover have "issues ?B (prune_manifests r (w_CS w) applied externalSecretPruneVersions)" for applied
      by (rule issues_weaken [OF prunes]) simp
    moreover have "issues ?B (setCondition r t s reason m)" for t s reason m
      unfolding setCondition_def by (intro issue_rules)
    ultimately have "issues ?B rest"
      unfolding rest_def by (intro issue_rules)
    from issuesE [OF this, of w] obtain calls where
      "w_Calls (snd (run_state (applyManifests r dir) w)) = w_Calls w @ calls" "list_all ?B calls"
      unfolding run by blast
    moreover have "list_all (\<lambda>ob. applicable (rc_Yaml r) ?g (mo_U ob)) objs"
      using None by (simp add: first_violation_None)
    ultimately show ?thesis using Inr by blast
  qed
qed

lemmas applyManifests_calls = applyManifests_calls_of [OF issues_prune_manifests]

end
