(* ===== verification/Ctl_Secrets.thy ===== *)
theory Ctl_Secrets
  imports Ctl_Helpers
begin

text \<open>
  Secret resolution in the reconciler (\<open>internal/controller/secrets.go\<close>): the validation of a
  surface, the dispatch to a backend, the loop over \<open>spec.secretRefs\<close> that builds the evaluated
  references and the new status, the SecretsReady condition, and the surfaces handed to the wirer.
\<close>

section \<open>One reference\<close>

definition validateSurface :: "secret_reference \<Rightarrow> string \<times> string" where
  "validateSurface ref =
     (let s = sr_Surface ref
      in if sf_As s = SurfaceFile then
           (if sf_MountPath s = [] \<or> sf_EnvVar s \<noteq> [] \<or> sf_Key s \<noteq> [] then
              (ReasonInvalidSurface,
               ''secretRef '' @ quote (sr_Name ref) @ '': surface.as=file requires mountPath and no envVar/key'')
            else ([], []))
         else if sf_As s = SurfaceEnv then
           (if sf_EnvVar s = [] \<or> sf_Key s = [] \<or> sf_MountPath s \<noteq> [] then
              (ReasonInvalidSurface,
               ''secretRef '' @ quote (sr_Name ref) @ '': surface.as=env requires envVar and key and no mountPath'')
            else ([], []))
         else (ReasonInvalidSurface,
               ''secretRef '' @ quote (sr_Name ref) @ '': unknown surface.as '' @ quote (sf_As s)))"

definition requiredKeys :: "secret_reference \<Rightarrow> string list" where
  "requiredKeys ref =
     (if sf_As (sr_Surface ref) = SurfaceEnv \<and> sf_Key (sr_Surface ref) \<noteq> [] then [sf_Key (sr_Surface ref)] else [])"

definition resolveOne :: "'k reconciler \<Rightarrow> string \<Rightarrow> secret_reference \<Rightarrow> ('k, resolution) act" where
  "resolveOne r ns ref =
     (case validateSurface ref of (reason, msg) \<Rightarrow>
        if reason \<noteq> [] then State_Monad.return (not_ready reason msg)
        else case rc_Resolvers r (sr_Backend ref) of
               None \<Rightarrow> State_Monad.return (not_ready ReasonBackendNotReady
                 (''no resolver configured for backend '' @ quote (sr_Backend ref)))
             | Some resolve \<Rightarrow> do {
                 x \<leftarrow> resolve ns \<lparr>r_Name = sr_Name ref, r_SecretName = SecretName ref,
                                 r_RequiredKeys = requiredKeys ref\<rparr>;
                 case x of
                   Inl e \<Rightarrow> do {
                     m \<leftarrow> redactMsg r (err_text e);
                     State_Monad.return (not_ready ReasonBackendNotReady m)
                   }
                 | Inr res \<Rightarrow> State_Monad.return res
               })"

definition knownResolveReason :: "string \<Rightarrow> string" where
  "knownResolveReason reason =
     (if reason \<in> {ReasonSecretNotFound, ReasonKeyMissing, ReasonBackendNotReady, ReasonInvalidSurface}
      then reason else ''Other'')"

definition count_resolution :: "resolution \<Rightarrow> metrics \<Rightarrow> metrics" where
  "count_resolution res m =
     (if rs_Ready res then Inc (SecretResolveTotal ''success'') m
      else Inc (SecretResolveTotal
                 (if rs_Reason res = ReasonAwaitingFirstResolution \<or> rs_Reason res = ReasonBackendNotReady
                  then ''pending'' else ''error''))
             (Inc (SecretResolveErrors (knownResolveReason (rs_Reason res))) m))"

section \<open>All references\<close>

text \<open>The map \<open>priorEstablished\<close>: the last status of a name wins, and the zero value is false.\<close>

definition priorEstablished :: "secret_ref_status list \<Rightarrow> string \<Rightarrow> bool" where
  "priorEstablished sts name =
     (case List.find (\<lambda>s. ss_Name s = name) (rev sts) of Some s \<Rightarrow> ss_Established s | None \<Rightarrow> False)"

definition evaluated :: "secret_reference \<Rightarrow> bool \<Rightarrow> resolution \<Rightarrow> evaluated_ref" where
  "evaluated ref established res =
     \<lparr>ev_Name = sr_Name ref, ev_EnvSurfaced = (sf_As (sr_Surface ref) = SurfaceEnv),
      ev_RolloutOnRotate = ShouldRolloutOnRotate (sr_Surface ref), ev_Established = established,
      ev_Resolution = res\<rparr>"

definition ref_status :: "secret_reference \<Rightarrow> bool \<Rightarrow> resolution \<Rightarrow> secret_ref_status" where
  "ref_status ref established res =
     \<lparr>ss_Name = sr_Name ref, ss_Resolved = rs_Ready res, ss_Backend = sr_Backend ref,
      ss_Reason = (if rs_Ready res then [] else rs_Reason res), ss_Established = established\<rparr>"

fun resolve_refs ::
  "'k reconciler \<Rightarrow> string \<Rightarrow> (string \<Rightarrow> bool) \<Rightarrow> secret_reference list
   \<Rightarrow> ('k, (evaluated_ref \<times> secret_ref_status) list) act" where
  "resolve_refs r ns prior [] = State_Monad.return []"
| "resolve_refs r ns prior (ref # refs) = do {
     res \<leftarrow> resolveOne r ns ref;
     _ \<leftarrow> metric (count_resolution res);
     rest \<leftarrow> resolve_refs r ns prior refs;
     State_Monad.return
       ((evaluated ref (prior (sr_Name ref)) res, ref_status ref (prior (sr_Name ref)) res) # rest)
   }"

text \<open>When the current outage began: the last transition of the SecretsReady condition to False.\<close>

definition degraded_since :: "config_sync \<Rightarrow> time \<Rightarrow> time" where
  "degraded_since cs now =
     (case findCondition cs ConditionSecretsReady of
        Some c \<Rightarrow> if c_Status c = CondFalse then c_LastTransitionTime c else now
      | None \<Rightarrow> now)"

definition max_degraded :: "'k reconciler \<Rightarrow> duration" where
  "max_degraded r =
     (case rc_Config r of None \<Rightarrow> DefaultMaxDegradedDuration | Some c \<Rightarrow> cf_MaxDegradedDuration c)"

definition resolveSecrets :: "'k reconciler \<Rightarrow> time \<Rightarrow> ('k, decision) act" where
  "resolveSecrets r now = do {
     cs \<leftarrow> the_cs;
     let refs = sp_SecretRefs (cs_Spec cs);
     if refs = [] then do {
       _ \<leftarrow> set_status (\<lambda>st. st\<lparr>st_SecretRefs := []\<rparr>);
       let d = Evaluate [] 0 0 now;
       _ \<leftarrow> setCondition r ConditionSecretsReady CondTrue (d_Reason d) (d_Message d);
       State_Monad.return d
     }
     else do {
       let prior = priorEstablished (st_SecretRefs (cs_Status cs));
       let since = degraded_since cs now;
       out \<leftarrow> resolve_refs r (cs_Namespace cs) prior refs;
       _ \<leftarrow> set_status (\<lambda>st. st\<lparr>st_SecretRefs := map snd out\<rparr>);
       let d = Evaluate (map fst out) since (max_degraded r) now;
       m \<leftarrow> redactMsg r (d_Message d);
       _ \<leftarrow> setCondition r ConditionSecretsReady (if d_SecretsReady d then CondTrue else CondFalse) (d_Reason d) m;
       State_Monad.return d
     }
   }"

definition markSecretsEstablished :: "('k, unit) act" where
  "markSecretsEstablished =
     set_status (\<lambda>st. st\<lparr>st_SecretRefs := map (\<lambda>s. s\<lparr>ss_Established := True\<rparr>) (st_SecretRefs st)\<rparr>)"

section \<open>Surfaces for the wirer\<close>

definition secretSurfaces :: "config_sync \<Rightarrow> secret_file list \<times> secret_env list" where
  "secretSurfaces cs =
     (map (\<lambda>ref. \<lparr>wf_RefName = sr_Name ref, wf_SecretName = SecretName ref,
                  wf_MountPath = sf_MountPath (sr_Surface ref)\<rparr>)
        (filter (\<lambda>ref. sf_As (sr_Surface ref) = SurfaceFile) (sp_SecretRefs (cs_Spec cs))),
      map (\<lambda>ref. \<lparr>we_EnvVar = sf_EnvVar (sr_Surface ref), we_SecretName = SecretName ref,
                  we_Key = sf_Key (sr_Surface ref)\<rparr>)
        (filter (\<lambda>ref. sf_As (sr_Surface ref) = SurfaceEnv) (sp_SecretRefs (cs_Spec cs))))"

section \<open>Lemmas\<close>

lemma knownResolveReason_bounded:
  "knownResolveReason s \<in> {ReasonSecretNotFound, ReasonKeyMissing, ReasonBackendNotReady, ReasonInvalidSurface, ''Other''}"
  by (auto simp: knownResolveReason_def)

text \<open>A surface is valid exactly when its fields are those of its kind.\<close>

lemma validateSurface_valid:
  "fst (validateSurface ref) = [] \<longleftrightarrow>
     (sf_As (sr_Surface ref) = SurfaceFile \<and> sf_MountPath (sr_Surface ref) \<noteq> [] \<and>
      sf_EnvVar (sr_Surface ref) = [] \<and> sf_Key (sr_Surface ref) = []) \<or>
     (sf_As (sr_Surface ref) = SurfaceEnv \<and> sf_EnvVar (sr_Surface ref) \<noteq> [] \<and>
      sf_Key (sr_Surface ref) \<noteq> [] \<and> sf_MountPath (sr_Surface ref) = [])"
  by (auto simp: validateSurface_def Let_def)

text \<open>The loop keeps the references in order, and carries the establishment of each forward.\<close>

lemma resolve_refs_shape:
  "map (\<lambda>x. ev_Name (fst x)) (fst (run_state (resolve_refs r ns prior refs) w)) = map sr_Name refs"
  "map (\<lambda>x. ss_Name (snd x)) (fst (run_state (resolve_refs r ns prior refs) w)) = map sr_Name refs"
  "list_all (\<lambda>x. ev_Established (fst x) = prior (ev_Name (fst x)) \<and>
       ss_Established (snd x) = prior (ss_Name (snd x)) \<and>
       ss_Resolved (snd x) = rs_Ready (ev_Resolution (fst x)))
     (fst (run_state (resolve_refs r ns prior refs) w))"
  by (induction refs arbitrary: w)
     (auto simp: evaluated_def ref_status_def split_beta run_simps)

text \<open>Only a reference with a valid surface and a configured backend can be ready.\<close>

lemma resolveOne_ready:
  "rs_Ready (fst (run_state (resolveOne r ns ref) w)) \<Longrightarrow>
   fst (validateSurface ref) = [] \<and> (\<exists>f. rc_Resolvers r (sr_Backend ref) = Some f)"
  by (auto simp: resolveOne_def not_ready_def split: prod.splits if_splits option.splits)

text \<open>The reconciler's resolvers only read the cluster, as the contract of a resolver says.\<close>

definition resolvers_read_only :: "'k reconciler \<Rightarrow> bool" where
  "resolvers_read_only r \<longleftrightarrow>
     (\<forall>b f ns ref w. rc_Resolvers r b = Some f \<longrightarrow>
        (\<exists>k. snd (run_state (f ns ref) w) = w\<lparr>w_Cluster := k\<rparr>))"

lemma read_only_resolver:
  assumes "resolvers_read_only r" "rc_Resolvers r b = Some f"
  shows "\<exists>k. snd (run_state (f ns ref) w) = w\<lparr>w_Cluster := k\<rparr>"
  using assms by (simp add: resolvers_read_only_def)

lemma issues_resolver:
  assumes "resolvers_read_only r" "rc_Resolvers r b = Some f"
  shows "issues A (f ns ref)"
proof (rule issues_silent)
  fix w
  show "w_Calls (snd (run_state (f ns ref) w)) = w_Calls w"
    using read_only_resolver [OF assms, of ns ref w] by auto
qed

lemma issues_redactMsg [issue_rules]: "issues A (redactMsg r m)"
  unfolding redactMsg_def by (intro issue_rules)

lemma issues_setCondition [issue_rules]: "issues A (setCondition r t s reason m)"
  unfolding setCondition_def by (intro issue_rules)

lemma issues_set_status [issue_rules]: "issues A (set_status f)"
  unfolding set_status_def by (intro issue_rules)

lemma issues_record_event [issue_rules]: "issues A (record_event r t reason m)"
  unfolding record_event_def by (intro issue_rules)

lemma issues_setReady [issue_rules]: "issues A (setReady r s reason m)"
  unfolding setReady_def by (intro issue_rules)

lemma issues_resolveOne:
  assumes "resolvers_read_only r"
  shows "issues A (resolveOne r ns ref)"
  unfolding resolveOne_def
  by (intro issue_rules issues_resolver [OF assms])

lemma issues_resolve_refs:
  assumes "resolvers_read_only r"
  shows "issues A (resolve_refs r ns prior refs)"
proof (induction refs)
  case (Cons ref refs)
  show ?case
    unfolding resolve_refs.simps by (intro issue_rules issues_resolveOne [OF assms] Cons)
qed (simp add: issue_rules)

lemma issues_resolveSecrets:
  assumes "resolvers_read_only r"
  shows "issues A (resolveSecrets r now)"
  unfolding resolveSecrets_def Let_def by (intro issue_rules issues_resolve_refs [OF assms])

end
