(* ===== verification/Ctl_Workload.thy ===== *)
theory Ctl_Workload
  imports Ctl_Secrets
begin

text \<open>
  Wiring and stamping the workload (\<open>wireAndStamp\<close>, \<open>inspectWorkload\<close> and \<open>rolloutProgress\<close> of
  \<open>configsync_controller.go\<close>).
\<close>

text \<open>A lookup in the pod template's annotations, with Go's zero value.\<close>

definition stamp_of :: "(string \<rightharpoonup> string) \<Rightarrow> string" where
  "stamp_of annotations = (case annotations AnnotationConfigSHA of Some v \<Rightarrow> v | None \<Rightarrow> [])"

text \<open>The current stamp, or the reason and message of the refusal.\<close>

definition inspectWorkload ::
  "'k client \<Rightarrow> string \<Rightarrow> string \<Rightarrow> string \<Rightarrow> bool \<Rightarrow> ('k, string \<times> string + string) act" where
  "inspectWorkload cl kind ns name podTemplateRollout =
     (if kind = ''StatefulSet'' then do {
        g \<leftarrow> reads (cl_GetStatefulSet cl ns name);
        State_Monad.return
          (case g of
             Inl e \<Rightarrow> Inl (if isNotFound e
                          then (ReasonWorkloadNotFound, ''StatefulSet '' @ quote name @ '' not found'')
                          else (ReasonDegraded, err_text e))
           | Inr ss \<Rightarrow>
               if podTemplateRollout \<and> \<not> fst (StatefulSetSupported ss)
               then Inl (ReasonUnsupportedStrategy, snd (StatefulSetSupported ss))
               else Inr (stamp_of (ss_TemplateAnnotations ss)))
      }
      else if kind = ''Deployment'' then do {
        g \<leftarrow> reads (cl_GetDeployment cl ns name);
        State_Monad.return
          (case g of
             Inl e \<Rightarrow> Inl (if isNotFound e
                          then (ReasonWorkloadNotFound, ''Deployment '' @ quote name @ '' not found'')
                          else (ReasonDegraded, err_text e))
           | Inr dp \<Rightarrow>
               if podTemplateRollout \<and> \<not> fst (DeploymentSupported dp)
               then Inl (ReasonUnsupportedStrategy, snd (DeploymentSupported dp))
               else Inr (stamp_of (dp_TemplateAnnotations dp)))
      }
      else State_Monad.return (Inl (ReasonUnsupportedStrategy, ''unsupported workload kind '' @ kind)))"

definition rolloutProgress :: "'k client \<Rightarrow> string \<Rightarrow> string \<Rightarrow> string \<Rightarrow> ('k, progress) act" where
  "rolloutProgress cl kind ns name =
     (if kind = ''StatefulSet'' then do {
        g \<leftarrow> reads (cl_GetStatefulSet cl ns name);
        State_Monad.return (case g of Inl e \<Rightarrow> rollingOut ''re-reading workload'' | Inr ss \<Rightarrow> StatefulSetProgress ss)
      }
      else do {
        g \<leftarrow> reads (cl_GetDeployment cl ns name);
        State_Monad.return (case g of Inl e \<Rightarrow> rollingOut ''re-reading workload'' | Inr dp \<Rightarrow> DeploymentProgress dp)
      })"

definition set_rolling :: "bool \<Rightarrow> ('k, unit) act" where
  "set_rolling b = set_status (\<lambda>st. st\<lparr>st_RolloutInProgress := b\<rparr>)"

text \<open>A workload that cannot be wired: the condition, the status, the metric and the event.\<close>

definition wire_failed :: "'k reconciler \<Rightarrow> string \<Rightarrow> string \<Rightarrow> ('k, bool) act" where
  "wire_failed r reason msg = do {
     m \<leftarrow> redactMsg r msg;
     _ \<leftarrow> setCondition r ConditionWorkloadWired CondFalse reason m;
     _ \<leftarrow> set_rolling False;
     _ \<leftarrow> metric (Inc (WireErrors (knownWireReason reason)));
     _ \<leftarrow> record_event r Warning reason msg;
     State_Monad.return False
   }"

definition rollout_failed :: "'k reconciler \<Rightarrow> error \<Rightarrow> ('k, bool) act" where
  "rollout_failed r e = do {
     m \<leftarrow> redactMsg r (err_text e);
     _ \<leftarrow> setCondition r ConditionRolloutComplete CondFalse ReasonDegraded m;
     _ \<leftarrow> set_rolling False;
     State_Monad.return False
   }"

text \<open>The end of both rollout paths: read the progress and report it.\<close>

definition report_progress :: "'k reconciler \<Rightarrow> string \<Rightarrow> string \<Rightarrow> string \<Rightarrow> ('k, bool) act" where
  "report_progress r kind ns name = do {
     p \<leftarrow> rolloutProgress (rc_Client r) kind ns name;
     _ \<leftarrow> setCondition r ConditionRolloutComplete (if pr_Complete p then CondTrue else CondFalse)
           (pr_Reason p) (pr_Message p);
     _ \<leftarrow> set_rolling (\<not> pr_Complete p);
     _ \<leftarrow> (if pr_Reason p = ReasonProgressDeadlineExceeded then metric (Inc ProgressDeadlineExceededTotal)
           else State_Monad.return ());
     State_Monad.return (pr_Complete p)
   }"

definition wire_request :: "config_sync \<Rightarrow> string \<Rightarrow> wire_spec" where
  "wire_request cs cmName =
     \<lparr>ws_Kind = wl_Kind (sp_WorkloadRef (cs_Spec cs)), ws_Name = wl_Name (sp_WorkloadRef (cs_Spec cs)),
      ws_Namespace = cs_Namespace cs, ws_Container = wi_Container (sp_Wiring (cs_Spec cs)),
      ws_MountPath = (if wi_MountPath (sp_Wiring (cs_Spec cs)) = [] then ''/etc/kohen/config''
                      else wi_MountPath (sp_Wiring (cs_Spec cs))),
      ws_ConfigMap = cmName, ws_ConfigSHA = [],
      ws_SecretFiles = fst (secretSurfaces cs), ws_SecretEnv = snd (secretSurfaces cs)\<rparr>"

text \<open>\<open>rollout: none\<close>: wire the mounts, and stamp the workload object when its stamp differs.\<close>

definition wire_no_rollout :: "'k reconciler \<Rightarrow> config_sync \<Rightarrow> string \<Rightarrow> string \<Rightarrow> ('k, bool) act" where
  "wire_no_rollout r cs cmName version =
     (let cl = rc_Client r; kind = wl_Kind (sp_WorkloadRef (cs_Spec cs)); ns = cs_Namespace cs;
          name = wl_Name (sp_WorkloadRef (cs_Spec cs))
      in do {
        x \<leftarrow> Wire cl (wire_request cs cmName);
        case x of
          Some e \<Rightarrow> wire_failed r (wireConditionReason e) (err_text e)
        | None \<Rightarrow> do {
            _ \<leftarrow> setCondition r ConditionWorkloadWired CondTrue ReasonSynced ''owned fields merged'';
            st \<leftarrow> ObjectStamp cl kind ns name;
            case st of
              Inl e \<Rightarrow> rollout_failed r e
            | Inr objStamp \<Rightarrow> do {
                f \<leftarrow> (if objStamp \<noteq> version then do {
                        y \<leftarrow> StampNoRestart cl kind ns name version;
                        case y of
                          Some e \<Rightarrow> State_Monad.return (Some e)
                        | None \<Rightarrow> do {
                            _ \<leftarrow> record_event r Normal ''Stamped''
                                  (''config version '' @ version @ '' stamped (rollout: none)'');
                            State_Monad.return None
                          }
                      }
                      else do { _ \<leftarrow> metric (Inc RolloutsSkipped); State_Monad.return None });
                case f of
                  Some e \<Rightarrow> rollout_failed r e
                | None \<Rightarrow> do {
                    _ \<leftarrow> set_status (\<lambda>st. st\<lparr>st_WorkloadVersion := version\<rparr>);
                    _ \<leftarrow> set_rolling False;
                    _ \<leftarrow> setCondition r ConditionRolloutComplete CondTrue ReasonSynced ''rollout disabled (none)'';
                    State_Monad.return True
                  }
              }
          }
      })"

text \<open>\<open>rollout: auto\<close>: no write when the stamp matches, otherwise wire with the stamp.\<close>

definition wire_rollout :: "'k reconciler \<Rightarrow> config_sync \<Rightarrow> string \<Rightarrow> string \<Rightarrow> string \<Rightarrow> ('k, bool) act" where
  "wire_rollout r cs cmName version currentStamp =
     (let cl = rc_Client r; kind = wl_Kind (sp_WorkloadRef (cs_Spec cs)); ns = cs_Namespace cs;
          name = wl_Name (sp_WorkloadRef (cs_Spec cs))
      in if currentStamp = version then do {
           _ \<leftarrow> metric (Inc RolloutsSkipped);
           _ \<leftarrow> setCondition r ConditionWorkloadWired CondTrue ReasonSynced ''owned fields merged'';
           _ \<leftarrow> set_status (\<lambda>st. st\<lparr>st_WorkloadVersion := version\<rparr>);
           report_progress r kind ns name
         }
         else do {
           x \<leftarrow> Wire cl ((wire_request cs cmName)\<lparr>ws_ConfigSHA := version\<rparr>);
           case x of
             Some e \<Rightarrow> wire_failed r (wireConditionReason e) (err_text e)
           | None \<Rightarrow> do {
               _ \<leftarrow> setCondition r ConditionWorkloadWired CondTrue ReasonSynced ''owned fields merged'';
               _ \<leftarrow> set_status (\<lambda>st. st\<lparr>st_WorkloadVersion := version\<rparr>);
               _ \<leftarrow> metric (Inc RolloutsTriggered);
               _ \<leftarrow> record_event r Normal ''RolloutTriggered'' (''config version '' @ version @ '' stamped'');
               report_progress r kind ns name
             }
         })"

definition wireAndStamp :: "'k reconciler \<Rightarrow> string \<Rightarrow> string \<Rightarrow> ('k, bool) act" where
  "wireAndStamp r cmName version = do {
     cs \<leftarrow> the_cs;
     i \<leftarrow> inspectWorkload (rc_Client r) (wl_Kind (sp_WorkloadRef (cs_Spec cs))) (cs_Namespace cs)
           (wl_Name (sp_WorkloadRef (cs_Spec cs))) (sp_Rollout (cs_Spec cs) \<noteq> RolloutNone);
     case i of
       Inl (reason, msg) \<Rightarrow> wire_failed r reason msg
     | Inr currentStamp \<Rightarrow>
         if sp_Rollout (cs_Spec cs) = RolloutNone then wire_no_rollout r cs cmName version
         else wire_rollout r cs cmName version currentStamp
   }"

section \<open>Lemmas\<close>

lemma issues_reading_steps [issue_rules]:
  "issues A (inspectWorkload cl kind ns name b)" "issues A (rolloutProgress cl kind ns name)"
  "issues A (set_rolling c)"
  unfolding inspectWorkload_def rolloutProgress_def set_rolling_def by (intro issue_rules)+

lemma issues_reporting_steps [issue_rules]:
  "issues A (wire_failed r reason msg)" "issues A (rollout_failed r e)"
  "issues A (report_progress r kind ns name)"
  unfolding wire_failed_def rollout_failed_def report_progress_def by (intro issue_rules)+

text \<open>
  What wiring may write: without a rollout, requests that stamp no pod template, and the object
  stamp; with one, requests that stamp the pod template with the version, none if it already has it.
\<close>

lemma issues_wire_no_rollout:
  "issues (\<lambda>c. wire_call_stamping None c \<or> stamp_call c) (wire_no_rollout r cs cmName version)"
proof -
  have w: "issues (\<lambda>c. wire_call_stamping None c \<or> stamp_call c) (Wire (rc_Client r) (wire_request cs cmName))"
    by (rule issues_weaken [OF issues_Wire]) (simp add: wire_request_def)
  have s: "issues (\<lambda>c. wire_call_stamping None c \<or> stamp_call c) (StampNoRestart cl kind ns name v)"
    for cl kind ns name v
    by (rule issues_weaken [OF issues_stamps(1)]) simp
  show ?thesis unfolding wire_no_rollout_def Let_def by (intro issue_rules w s)
qed

lemma issues_wire_rollout:
  "issues (\<lambda>c. currentStamp \<noteq> version \<and> wire_call_stamping (if version = [] then None else Some version) c)
     (wire_rollout r cs cmName version currentStamp)"
proof (cases "currentStamp = version")
  case True
  then show ?thesis unfolding wire_rollout_def Let_def by simp (intro issue_rules)
next
  case False
  have w: "issues (\<lambda>c. currentStamp \<noteq> version \<and> wire_call_stamping (if version = [] then None else Some version) c)
      (Wire (rc_Client r) ((wire_request cs cmName)\<lparr>ws_ConfigSHA := version\<rparr>))"
    by (rule issues_weaken [OF issues_Wire]) (simp add: False split: if_splits)
  show ?thesis unfolding wire_rollout_def Let_def by (intro issue_rules w)
qed

lemma inspect_cs: "w_CS (snd (run_state (inspectWorkload cl kind ns name b) w)) = w_CS w"
  by (simp add: inspectWorkload_def run_simps)

lemma inspect_calls: "w_Calls (snd (run_state (inspectWorkload cl kind ns name b) w)) = w_Calls w"
  by (simp add: inspectWorkload_def run_simps)

text \<open>The writes of \<open>wireAndStamp\<close>, by rollout mode.\<close>

definition stamps_allowed :: "config_sync \<Rightarrow> string \<Rightarrow> call \<Rightarrow> bool" where
  "stamps_allowed cs version c \<longleftrightarrow>
     (if sp_Rollout (cs_Spec cs) = RolloutNone then wire_call_stamping None c \<or> stamp_call c
      else wire_call_stamping (if version = [] then None else Some version) c)"

lemma wireAndStamp_calls:
  "\<exists>calls. w_Calls (snd (run_state (wireAndStamp r cmName version) w)) = w_Calls w @ calls \<and>
     list_all (stamps_allowed (w_CS w) version) calls \<and>
     (sp_Rollout (cs_Spec (w_CS w)) = RolloutNone \<or> calls = [] \<or>
      fst (run_state (inspectWorkload (rc_Client r) (wl_Kind (sp_WorkloadRef (cs_Spec (w_CS w))))
         (cs_Namespace (w_CS w)) (wl_Name (sp_WorkloadRef (cs_Spec (w_CS w)))) True) w) \<noteq> Inr version)"
proof -
  let ?cs = "w_CS w"
  let ?ins = "inspectWorkload (rc_Client r) (wl_Kind (sp_WorkloadRef (cs_Spec ?cs))) (cs_Namespace ?cs)
       (wl_Name (sp_WorkloadRef (cs_Spec ?cs))) (sp_Rollout (cs_Spec ?cs) \<noteq> RolloutNone)"
  obtain i w1 where i: "run_state ?ins w = (i, w1)" by (cases "run_state ?ins w")
  then have w1: "w_Calls w1 = w_Calls w" using inspect_calls by (metis snd_conv)
  have run: "run_state (wireAndStamp r cmName version) w =
     run_state (case i of
         Inl (reason, msg) \<Rightarrow> wire_failed r reason msg
       | Inr st \<Rightarrow> if sp_Rollout (cs_Spec ?cs) = RolloutNone then wire_no_rollout r ?cs cmName version
                  else wire_rollout r ?cs cmName version st) w1"
    using i by (simp add: wireAndStamp_def run_acts)
  show ?thesis
  proof (cases i)
    case (Inl x)
    obtain reason msg where x: "x = (reason, msg)" by (cases x)
    have "w_Calls (snd (run_state (wire_failed r reason msg) w1)) = w_Calls w"
      using issues_nothing [OF issues_reporting_steps(1)] w1 by metis
    with run Inl x show ?thesis by simp
  next
    case (Inr st)
    show ?thesis
    proof (cases "sp_Rollout (cs_Spec ?cs) = RolloutNone")
      case True
      from issuesE [OF issues_wire_no_rollout, of r ?cs cmName version w1] obtain calls where c:
        "w_Calls (snd (run_state (wire_no_rollout r ?cs cmName version) w1)) = w_Calls w1 @ calls"
        "list_all (\<lambda>c. wire_call_stamping None c \<or> stamp_call c) calls" by blast
      have "list_all (stamps_allowed ?cs version) calls"
        by (rule list.pred_mono_strong [OF c(2)]) (simp add: stamps_allowed_def True)
      moreover have "w_Calls (snd (run_state (wireAndStamp r cmName version) w)) = w_Calls w @ calls"
        using c(1) run Inr True w1 by simp
      ultimately show ?thesis using True by (intro exI [of _ calls]) simp
    next
      case False
      then have stamp: "fst (run_state (inspectWorkload (rc_Client r) (wl_Kind (sp_WorkloadRef (cs_Spec ?cs)))
         (cs_Namespace ?cs) (wl_Name (sp_WorkloadRef (cs_Spec ?cs))) True) w) = Inr st"
        using i Inr by simp
      from issuesE [OF issues_wire_rollout [of st version r ?cs cmName], of w1] obtain calls where c:
        "w_Calls (snd (run_state (wire_rollout r ?cs cmName version st) w1)) = w_Calls w1 @ calls"
        "list_all (\<lambda>c. st \<noteq> version \<and> wire_call_stamping (if version = [] then None else Some version) c) calls"
        by blast
      then have "list_all (stamps_allowed ?cs version) calls" "calls = [] \<or> st \<noteq> version"
        using False by (auto simp: stamps_allowed_def list_all_iff neq_Nil_conv)
      moreover have "w_Calls (snd (run_state (wireAndStamp r cmName version) w)) = w_Calls w @ calls"
        using c(1) run Inr False w1 by simp
      ultimately show ?thesis using stamp by (intro exI [of _ calls]) simp
    qed
  qed
qed

end
