(* ===== verification/Controller.thy ===== *)
theory Controller
  imports Ctl_Manifests Ctl_Workload
begin

text \<open>
  The reconciler's handlers (\<open>internal/controller/configsync_controller.go\<close>): the claim of a workload,
  finalization, the sync pipeline, \<open>Reconcile\<close> itself, the mapping of watched objects to requests, and
  the production set-up. The deferred clean-up of the checkout runs after every path of the pipeline
  that follows a successful fetch.
\<close>

section \<open>The claim of a workload\<close>

text \<open>The seniority of a ConfigSync: its creation time, then its name.\<close>

datatype seniority = Seniority (sen_Time: time) (sen_Name: string)

instantiation seniority :: linorder
begin

definition less_seniority :: "seniority \<Rightarrow> seniority \<Rightarrow> bool" where
  "less_seniority a b \<longleftrightarrow> sen_Time a < sen_Time b \<or> sen_Time a = sen_Time b \<and> sen_Name a < sen_Name b"

definition less_eq_seniority :: "seniority \<Rightarrow> seniority \<Rightarrow> bool" where
  "less_eq_seniority a b \<longleftrightarrow> sen_Time a < sen_Time b \<or> sen_Time a = sen_Time b \<and> sen_Name a \<le> sen_Name b"

instance
  by standard (auto simp: less_seniority_def less_eq_seniority_def intro: seniority.expand)

end

definition winsOver :: "config_sync \<Rightarrow> config_sync \<Rightarrow> bool" where
  "winsOver a b =
     (if cs_CreationTimestamp a = cs_CreationTimestamp b then cs_Name a < cs_Name b
      else cs_CreationTimestamp a < cs_CreationTimestamp b)"

definition seniority_of :: "config_sync \<Rightarrow> seniority" where
  "seniority_of cs = Seniority (cs_CreationTimestamp cs) (cs_Name cs)"

lemma winsOver_seniority: "winsOver a b \<longleftrightarrow> seniority_of a < seniority_of b"
  by (simp add: winsOver_def seniority_of_def less_seniority_def)

text \<open>The first other live ConfigSync of the list that targets the same workload and wins.\<close>

definition rival :: "config_sync \<Rightarrow> config_sync \<Rightarrow> bool" where
  "rival cs other \<longleftrightarrow>
     \<not> (cs_Name other = cs_Name cs \<or> \<not> not_deleting other) \<and>
     sp_WorkloadRef (cs_Spec other) = sp_WorkloadRef (cs_Spec cs) \<and> winsOver other cs"

definition singletonConflict :: "'k reconciler \<Rightarrow> ('k, string option) act" where
  "singletonConflict r = do {
     cs \<leftarrow> the_cs;
     l \<leftarrow> reads (cl_ListConfigSyncs (rc_Client r) (cs_Namespace cs));
     State_Monad.return
       (case l of Inl e \<Rightarrow> None | Inr items \<Rightarrow> map_option cs_Name (List.find (rival cs) items))
   }"

section \<open>Readiness\<close>

definition gate_conditions :: "string list" where
  "gate_conditions = [ConditionFetched, ConditionRendered, ConditionManifestsApplied, ConditionSecretsReady,
     ConditionWorkloadWired]"

definition computeReady :: "'k reconciler \<Rightarrow> ('k, unit) act" where
  "computeReady r = do {
     cs \<leftarrow> the_cs;
     case List.find (\<lambda>t. \<not> conditionTrue cs t) gate_conditions of
       Some t \<Rightarrow> setReady r CondFalse ReasonDegraded (t @ '' is not satisfied'')
     | None \<Rightarrow>
         if \<not> conditionTrue cs ConditionRolloutComplete then
           (if conditionReason cs ConditionRolloutComplete = ReasonProgressDeadlineExceeded
            then setReady r CondFalse ReasonDegraded ''rollout progress deadline exceeded''
            else setReady r CondFalse ReasonProgressing ''rollout in progress'')
         else setReady r CondTrue ReasonSynced
                (''config version '' @ st_ConfigVersion (cs_Status cs) @ '' applied and rolled out'')
   }"

definition recordReconcileResult :: "('k, unit) act" where
  "recordReconcileResult = do {
     cs \<leftarrow> the_cs;
     let (result, degraded) =
       (case findCondition cs ConditionReady of
          Some c \<Rightarrow> if c_Status c = CondTrue then (''synced'', 0)
                    else if c_Reason c = ReasonProgressing then (''progressing'', 0)
                    else (''degraded'', 1)
        | None \<Rightarrow> (''degraded'', 1 :: nat));
     _ \<leftarrow> metric (Inc (ReconcileTotal result));
     metric (SetDegraded (cs_Namespace cs) (cs_Name cs) degraded)
   }"

section \<open>Finalization\<close>

definition FinalizerName :: string where
  "FinalizerName = ''kohen.dev/finalizer''"

definition progressingRequeue :: duration where
  "progressingRequeue = 10 * second"

record ctrl_result =
  cr_Requeue :: bool
  cr_RequeueAfter :: duration

definition no_requeue :: ctrl_result where "no_requeue = \<lparr>cr_Requeue = False, cr_RequeueAfter = 0\<rparr>"
definition requeue_now :: ctrl_result where "requeue_now = \<lparr>cr_Requeue = True, cr_RequeueAfter = 0\<rparr>"

definition requeue_after :: "duration \<Rightarrow> ctrl_result" where
  "requeue_after d = \<lparr>cr_Requeue = False, cr_RequeueAfter = d\<rparr>"

definition ConfigMapListGVK :: gvk where
  "ConfigMapListGVK = \<lparr>g_Group = [], g_Version = ''v1'', g_Kind = ''ConfigMapList''\<rparr>"

text \<open>Retract the workload's fields and the object stamp.\<close>

definition unwire_workload :: "'k reconciler \<Rightarrow> config_sync \<Rightarrow> ('k, error option) act" where
  "unwire_workload r cs =
     (let kind = wl_Kind (sp_WorkloadRef (cs_Spec cs)); ns = cs_Namespace cs;
          name = wl_Name (sp_WorkloadRef (cs_Spec cs))
      in do {
        u \<leftarrow> Unwire (rc_Client r) kind ns name;
        case u of
          Some e \<Rightarrow> State_Monad.return (Some e)
        | None \<Rightarrow> do {
            c \<leftarrow> ClearStamp (rc_Client r) kind ns name;
            case c of
              Some e \<Rightarrow> State_Monad.return (Some e)
            | None \<Rightarrow> do {
                _ \<leftarrow> record_event r Normal ''Unwired'' ''retracted owned workload fields and stamps'';
                State_Monad.return None
              }
          }
      })"

text \<open>Prune the owned ConfigMaps, then the applied manifests.\<close>

definition prune_all :: "'k reconciler \<Rightarrow> config_sync \<Rightarrow> ('k, error option) act" where
  "prune_all r cs = do {
     p \<leftarrow> Prune (rc_Client r) cs ConfigMapListGVK [];
     case p of
       Some e \<Rightarrow> State_Monad.return (Some e)
     | None \<Rightarrow> do {
         _ \<leftarrow> record_event r Normal ''Pruned'' ''removed owned ConfigMaps'';
         prune_manifests r cs [] externalSecretPruneVersions
       }
   }"

definition finalize :: "'k reconciler \<Rightarrow> ('k, ctrl_result \<times> error option) act" where
  "finalize r = do {
     cs \<leftarrow> the_cs;
     if \<not> lib_ContainsFinalizer (rc_Client r) cs FinalizerName then State_Monad.return (no_requeue, None)
     else do {
       conflict \<leftarrow> singletonConflict r;
       u \<leftarrow> (case conflict of None \<Rightarrow> unwire_workload r cs | Some other \<Rightarrow> State_Monad.return None);
       case u of
         Some e \<Rightarrow> State_Monad.return (no_requeue, Some e)
       | None \<Rightarrow> do {
           p \<leftarrow> prune_all r cs;
           case p of
             Some e \<Rightarrow> State_Monad.return (no_requeue, Some e)
           | None \<Rightarrow> do {
               _ \<leftarrow> metric (ClearConfigSync (cs_Namespace cs) (cs_Name cs));
               _ \<leftarrow> modify_cs (\<lambda>c. lib_RemoveFinalizer (rc_Client r) c FinalizerName);
               cs' \<leftarrow> the_cs;
               x \<leftarrow> k_Update (rc_Client r) cs';
               State_Monad.return (no_requeue, x)
             }
         }
     }
   }"

section \<open>The pipeline\<close>

text \<open>Secrets that are not ready: keep last-good, and look again soon.\<close>

definition hold_rollout :: "'k reconciler \<Rightarrow> decision \<Rightarrow> string \<Rightarrow> ('k, ctrl_result \<times> error option) act" where
  "hold_rollout r d prior = do {
     _ \<leftarrow> (if d_MaxDegradedExceeded d \<and> prior \<noteq> ReasonMaxDegradedExceeded
           then metric (Inc MaxDegradedExceededTotal) else State_Monad.return ());
     _ \<leftarrow> set_rolling False;
     m \<leftarrow> redactMsg r (d_Message d);
     _ \<leftarrow> setReady r CondFalse (d_ReadyReason d) m;
     State_Monad.return (requeue_after progressingRequeue, None)
   }"

text \<open>From resolved manifests to the end: secrets, version, wiring, readiness.\<close>

definition sync_secrets ::
  "'k reconciler \<Rightarrow> ctrl_result \<Rightarrow> fetch_result \<Rightarrow> string \<Rightarrow> ('k, ctrl_result \<times> error option) act" where
  "sync_secrets r steady res cmName = do {
     now \<leftarrow> reads (cl_Now (rc_Client r));
     cs0 \<leftarrow> the_cs;
     let prior = conditionReason cs0 ConditionSecretsReady;
     d \<leftarrow> resolveSecrets r now;
     cs1 \<leftarrow> the_cs;
     let new = conditionReason cs1 ConditionSecretsReady;
     _ \<leftarrow> (if new \<noteq> prior then record_event r (if d_AllReady d then Normal else Warning) new (d_Message d)
           else State_Monad.return ());
     if \<not> d_AllReady d then hold_rollout r d prior
     else do {
       let version = VersionWithSecrets (fr_Commit res) (d_EnvTokens d);
       _ \<leftarrow> set_status (\<lambda>st. st\<lparr>st_ConfigVersion := version\<rparr>);
       _ \<leftarrow> metric (SetConfigVersion (cs_Namespace cs1) (cs_Name cs1) version);
       complete \<leftarrow> wireAndStamp r cmName version;
       cs2 \<leftarrow> the_cs;
       _ \<leftarrow> (if workloadWired cs2 then markSecretsEstablished else State_Monad.return ());
       _ \<leftarrow> computeReady r;
       cs3 \<leftarrow> the_cs;
       State_Monad.return
         (if \<not> complete \<and> workloadWired cs3 then requeue_after progressingRequeue else steady, None)
     }
   }"

text \<open>Apply the ConfigMap, prune the stale ones, and apply the manifests.\<close>

definition sync_apply ::
  "'k reconciler \<Rightarrow> ctrl_result \<Rightarrow> fetch_result \<Rightarrow> render_result \<Rightarrow> ('k, ctrl_result \<times> error option) act" where
  "sync_apply r steady res rendered = do {
     cs \<leftarrow> the_cs;
     let cmName = ConfigMapName (cs_Spec cs);
     a \<leftarrow> Apply (rc_Client r) cs (buildConfigMap cs cmName rendered);
     case a of
       Some e \<Rightarrow> do {
         let reason = applyConditionReason e;
         _ \<leftarrow> metric (Inc (ApplyTotal ''error''));
         m \<leftarrow> redactMsg r (err_text e);
         _ \<leftarrow> setReady r CondFalse ReasonDegraded m;
         _ \<leftarrow> record_event r Warning reason (err_text e);
         State_Monad.return
           (if reason = apply_reason_text ApplyAlreadyExistsNotOwned then (steady, None) else (no_requeue, Some e))
       }
     | None \<Rightarrow> do {
         _ \<leftarrow> metric (Inc (ApplyTotal ''success''));
         p \<leftarrow> Prune (rc_Client r) cs ConfigMapListGVK [cmName];
         case p of
           Some e \<Rightarrow> do {
             _ \<leftarrow> metric (Inc (PruneTotal ''error''));
             m \<leftarrow> redactMsg r (err_text e);
             _ \<leftarrow> setReady r CondFalse ReasonDegraded m;
             _ \<leftarrow> record_event r Warning ''PruneFailed'' (err_text e);
             State_Monad.return (no_requeue, Some e)
           }
         | None \<Rightarrow> do {
             _ \<leftarrow> metric (Inc (PruneTotal ''success''));
             out \<leftarrow> applyManifests r (fr_Dir res);
             if \<not> mo_ok out then do {
               _ \<leftarrow> setReady r CondFalse ReasonDegraded ''secret manifest apply failed, serving last-good'';
               State_Monad.return (if mo_terminal out then (steady, None) else (no_requeue, mo_err out))
             }
             else sync_secrets r steady res cmName
           }
       }
   }"

text \<open>What happens with a checkout: render it, then apply.\<close>

definition sync_checkout ::
  "'k reconciler \<Rightarrow> ctrl_result \<Rightarrow> fetch_result \<Rightarrow> ('k, ctrl_result \<times> error option) act" where
  "sync_checkout r steady res = do {
     _ \<leftarrow> set_status (\<lambda>st. st\<lparr>st_SourceCommit := fr_Commit res\<rparr>);
     _ \<leftarrow> setCondition r ConditionFetched CondTrue ReasonSynced (''fetched commit '' @ ShortCommit (fr_Commit res));
     x \<leftarrow> reads (rc_Render r (fr_Dir res));
     case x of
       Inl e \<Rightarrow> do {
         let reason = renderConditionReason e;
         _ \<leftarrow> metric (Inc (RenderErrors reason));
         m \<leftarrow> redactMsg r (err_text e);
         _ \<leftarrow> setCondition r ConditionRendered CondFalse reason m;
         _ \<leftarrow> setReady r CondFalse ReasonDegraded ''render failed, serving last-good'';
         _ \<leftarrow> record_event r Warning reason (err_text e);
         State_Monad.return (steady, None)
       }
     | Inr rendered \<Rightarrow> do {
         _ \<leftarrow> setCondition r ConditionRendered CondTrue ReasonSynced
               (''rendered '' @ show_nat (length (rr_Data rendered) + length (rr_BinaryData rendered)) @ '' keys (''
                 @ show_int (rr_TotalBytes rendered) @ '' bytes)'');
         sync_apply r steady res rendered
       }
   }"

text \<open>The git reference that the specification names.\<close>

definition source_reference :: "config_sync \<Rightarrow> reference" where
  "source_reference cs =
     \<lparr>rf_URL = src_URL (sp_Source (cs_Spec cs)), rf_Ref = src_Ref (sp_Source (cs_Spec cs)), rf_Path = sp_Path (cs_Spec cs)\<rparr>"

text \<open>The fetch, with its duration observed whether it succeeds or not.\<close>

definition timed_fetch ::
  "'k reconciler \<Rightarrow> config_sync \<Rightarrow> credential option \<Rightarrow> ('k, error + fetch_result) act" where
  "timed_fetch r cs cred = do {
     fetchStart \<leftarrow> reads (cl_Now (rc_Client r));
     f \<leftarrow> reads (rc_Fetch r (source_reference cs) cred);
     now \<leftarrow> reads (cl_Now (rc_Client r));
     _ \<leftarrow> metric (Observe FetchDuration (now - fetchStart));
     State_Monad.return f
   }"

lemma run_timed_fetch:
  "run_state (timed_fetch r cs cred) w =
     (let (f, k) = rc_Fetch r (source_reference cs) cred (snd (cl_Now (rc_Client r) (w_Cluster w)))
      in (f, w\<lparr>w_Cluster := snd (cl_Now (rc_Client r) k), w_Metrics := Observe FetchDuration
           (fst (cl_Now (rc_Client r) k) - fst (cl_Now (rc_Client r) (w_Cluster w))) (w_Metrics w)\<rparr>))"
  by (simp add: timed_fetch_def run_simps split_beta)

text \<open>The sync once the workload is claimed: credentials, fetch, checkout and its clean-up.\<close>

definition after_claim ::
  "'k reconciler \<Rightarrow> config_sync \<Rightarrow> ctrl_result \<Rightarrow> ('k, ctrl_result \<times> error option) act" where
  "after_claim r cs steady = do {
     c \<leftarrow> loadCredential r;
     case c of
       Inl e \<Rightarrow> do {
         _ \<leftarrow> metric (Inc (FetchErrors ReasonAuthFailed));
         m \<leftarrow> redactMsg r (err_text e);
         _ \<leftarrow> setCondition r ConditionFetched CondFalse ReasonAuthFailed m;
         _ \<leftarrow> setReady r CondFalse ReasonDegraded ''credential error'';
         _ \<leftarrow> record_event r Warning ReasonAuthFailed (err_text e);
         State_Monad.return (no_requeue, Some e)
       }
     | Inr cred \<Rightarrow> do {
         f \<leftarrow> timed_fetch r cs cred;
         case f of
           Inl e \<Rightarrow> do {
             let reason = gitConditionReason e;
             _ \<leftarrow> metric (Inc (FetchErrors reason));
             m \<leftarrow> redactMsg r (err_text e);
             _ \<leftarrow> setCondition r ConditionFetched CondFalse reason m;
             _ \<leftarrow> setReady r CondFalse ReasonDegraded ''fetch failed, serving last-good'';
             _ \<leftarrow> record_event r Warning reason (err_text e);
             State_Monad.return (no_requeue, Some e)
           }
         | Inr res \<Rightarrow> do {
             out \<leftarrow> sync_checkout r steady res;
             _ \<leftarrow> writes (CCleanup (fr_WorktreeDir res)) (rc_Cleanup r (fr_Cleanup res));
             State_Monad.return out
           }
       }
   }"

definition claim_lost ::
  "'k reconciler \<Rightarrow> config_sync \<Rightarrow> ctrl_result \<Rightarrow> string \<Rightarrow> ('k, ctrl_result \<times> error option) act" where
  "claim_lost r cs steady other =
     (let msg = ''workload '' @ wl_Kind (sp_WorkloadRef (cs_Spec cs)) @ ''/''
           @ wl_Name (sp_WorkloadRef (cs_Spec cs)) @ '' is already targeted by ConfigSync '' @ quote other
      in do {
        _ \<leftarrow> setCondition r ConditionWorkloadWired CondFalse ReasonSingletonViolation msg;
        _ \<leftarrow> setReady r CondFalse ReasonDegraded msg;
        _ \<leftarrow> record_event r Warning ReasonSingletonViolation msg;
        State_Monad.return (steady, None)
      })"

definition sync ::
  "'k reconciler \<Rightarrow> ('k, ctrl_result \<times> error option) act" where
  "sync r = do {
     _ \<leftarrow> modify_cs (\<lambda>cs. cs\<lparr>cs_Status := (cs_Status cs)\<lparr>st_ObservedGeneration := cs_Generation cs\<rparr>\<rparr>);
     cs \<leftarrow> the_cs;
     let steady = requeue_after (SyncInterval (cs_Spec cs));
     conflict \<leftarrow> singletonConflict r;
     case conflict of
       Some other \<Rightarrow> claim_lost r cs steady other
     | None \<Rightarrow> after_claim r cs steady
   }"

section \<open>Reconcile\<close>

definition reconcile_object :: "'k reconciler \<Rightarrow> string \<Rightarrow> string \<Rightarrow> ('k, ctrl_result \<times> error option) act" where
  "reconcile_object r ns name = do {
     g \<leftarrow> reads (cl_GetConfigSync (rc_Client r) ns name);
     case g of
       Inl e \<Rightarrow> State_Monad.return (no_requeue, if isNotFound e then None else Some e)
     | Inr cs \<Rightarrow> do {
         _ \<leftarrow> modify_cs (\<lambda>_. cs);
         if \<not> not_deleting cs then finalize r
         else if \<not> lib_ContainsFinalizer (rc_Client r) cs FinalizerName then do {
           _ \<leftarrow> modify_cs (\<lambda>c. lib_AddFinalizer (rc_Client r) c FinalizerName);
           cs' \<leftarrow> the_cs;
           u \<leftarrow> k_Update (rc_Client r) cs';
           State_Monad.return (case u of Some e \<Rightarrow> (no_requeue, Some e) | None \<Rightarrow> (requeue_now, None))
         }
         else if cs_Annotations cs AnnotationSyncNow \<noteq> None then do {
           _ \<leftarrow> modify_cs (\<lambda>c. c\<lparr>cs_Annotations := (cs_Annotations c)(AnnotationSyncNow := None)\<rparr>);
           cs' \<leftarrow> the_cs;
           u \<leftarrow> k_Update (rc_Client r) cs';
           case u of
             Some e \<Rightarrow> State_Monad.return (no_requeue, Some e)
           | None \<Rightarrow> do {
               _ \<leftarrow> record_event r Normal ''SyncNow'' ''processed force-sync annotation'';
               State_Monad.return (requeue_now, None)
             }
         }
         else do {
           out \<leftarrow> sync r;
           _ \<leftarrow> recordReconcileResult;
           cs' \<leftarrow> the_cs;
           u \<leftarrow> k_StatusUpdate (rc_Client r) cs';
           State_Monad.return
             (case u of
                Some e \<Rightarrow> if isConflict e then (requeue_now, None) else (no_requeue, Some e)
              | None \<Rightarrow> out)
         }
       }
   }"

text \<open>The duration is observed on every return path, by a deferred call.\<close>

definition Reconcile :: "'k reconciler \<Rightarrow> string \<Rightarrow> string \<Rightarrow> ('k, ctrl_result \<times> error option) act" where
  "Reconcile r ns name = do {
     start \<leftarrow> reads (cl_Now (rc_Client r));
     out \<leftarrow> reconcile_object r ns name;
     now \<leftarrow> reads (cl_Now (rc_Client r));
     _ \<leftarrow> metric (Observe ReconcileDuration (now - start));
     State_Monad.return out
   }"

lemma run_Reconcile:
  "run_state (Reconcile r ns name) w =
     (let (out, v) = run_state (reconcile_object r ns name) (w\<lparr>w_Cluster := snd (cl_Now (rc_Client r) (w_Cluster w))\<rparr>)
      in (out, v\<lparr>w_Cluster := snd (cl_Now (rc_Client r) (w_Cluster v)), w_Metrics := Observe ReconcileDuration
           (fst (cl_Now (rc_Client r) (w_Cluster v)) - fst (cl_Now (rc_Client r) (w_Cluster w))) (w_Metrics v)\<rparr>))"
  by (simp add: Reconcile_def run_simps split_beta)

section \<open>Watches\<close>

definition references :: "config_sync \<Rightarrow> string \<Rightarrow> bool" where
  "references cs name \<longleftrightarrow>
     src_AuthSecretRef (sp_Source (cs_Spec cs)) = Some name \<or>
     list_ex (\<lambda>ref. SecretName ref = name) (sp_SecretRefs (cs_Spec cs))"

definition mapSecret :: "'k client \<Rightarrow> string \<Rightarrow> string \<Rightarrow> ('k, (string \<times> string) list) act" where
  "mapSecret cl ns name = do {
     l \<leftarrow> reads (cl_ListConfigSyncs cl ns);
     State_Monad.return
       (case l of
          Inl e \<Rightarrow> []
        | Inr items \<Rightarrow> map (\<lambda>cs. (cs_Namespace cs, cs_Name cs)) (filter (\<lambda>cs. references cs name) items))
   }"

definition mapWorkload :: "'k client \<Rightarrow> string \<Rightarrow> string \<Rightarrow> string \<Rightarrow> ('k, (string \<times> string) list) act" where
  "mapWorkload cl kind ns name = do {
     l \<leftarrow> reads (cl_ListConfigSyncs cl ns);
     State_Monad.return
       (case l of
          Inl e \<Rightarrow> []
        | Inr items \<Rightarrow> map (\<lambda>cs. (cs_Namespace cs, cs_Name cs))
            (filter (\<lambda>cs. wl_Kind (sp_WorkloadRef (cs_Spec cs)) = kind
               \<and> wl_Name (sp_WorkloadRef (cs_Spec cs)) = name) items))
   }"

end
