(* ===== verification/Ctl_Setup.thy ===== *)
theory Ctl_Setup
  imports Controller
begin

text \<open>
  The production wiring: \<open>git.NewClient\<close> and \<open>SetupWithManager\<close>, which fills the dependencies that
  were not injected. The platform is what the process runs on: the git and file system environment
  over the cluster state, where the fetch cache and the temporary files live in it, and the system
  resolver. The renderer and the fetcher become functions on that state.
\<close>

section \<open>The git client\<close>

record options =
  op_AllowList :: "string list"
  op_AllowLocalTransport :: bool
  op_AllowLoopback :: bool
  op_Resolver :: "resolver option"
  op_CacheTTL :: duration
  op_CacheMaxEntries :: int

definition NewClient :: "options \<Rightarrow> git_client \<times> fetchCache option" where
  "NewClient o' =
     (\<lparr>gc_allowList = op_AllowList o', gc_allowLocalTransport = op_AllowLocalTransport o',
       gc_allowLoopback = op_AllowLoopback o', gc_resolver = op_Resolver o', gc_caching = (op_CacheTTL o' > 0)\<rparr>,
      if op_CacheTTL o' > 0 then Some (newFetchCache (op_CacheTTL o') (op_CacheMaxEntries o')) else None)"

record 'k platform =
  pf_Git :: "'k git_env"
  pf_GetCache :: "'k \<Rightarrow> fetchCache"
  pf_PutCache :: "fetchCache \<Rightarrow> 'k \<Rightarrow> 'k"
  pf_GetTemp :: "'k \<Rightarrow> string list"
  pf_PutTemp :: "string list \<Rightarrow> 'k \<Rightarrow> 'k"
  pf_DefaultResolver :: resolver
  pf_Tree :: "'k \<Rightarrow> tree_fs"
  pf_Yaml :: yaml_lib
  pf_Meta :: "json \<Rightarrow> kobject"
  pf_Remove :: "string \<Rightarrow> 'k \<Rightarrow> error option \<times> 'k"

text \<open>A git operation on the state of the platform.\<close>

definition on_platform :: "'k platform \<Rightarrow> ('k, 'a) gact \<Rightarrow> 'k \<Rightarrow> 'a \<times> 'k" where
  "on_platform pf m k =
     (case run_state m \<lparr>gw_Os = k, gw_Cache = pf_GetCache pf k, gw_Temp = pf_GetTemp pf k\<rparr> of
        (x, gw) \<Rightarrow> (x, pf_PutTemp pf (gw_Temp gw) (pf_PutCache pf (gw_Cache gw) (gw_Os gw))))"

text \<open>The clean-up closures of \<open>obtainWorktree\<close>: releasing an entry never fails, removing may.\<close>

definition platform_cleanup :: "'k platform \<Rightarrow> worktree_cleanup \<Rightarrow> 'k \<Rightarrow> error option \<times> 'k" where
  "platform_cleanup pf cu k =
     (case cu of
        RemoveDir d \<Rightarrow>
          (case pf_Remove pf d k of (e, k') \<Rightarrow> (e, pf_PutTemp pf (remove1 d (pf_GetTemp pf k')) k'))
      | ReleaseEntry i \<Rightarrow>
          (case on_platform pf (run_cleanup (pf_Git pf) (ReleaseEntry i)) k of (_, k') \<Rightarrow> (None, k')))"

section \<open>SetupWithManager\<close>

text \<open>What may be injected before the set-up; the rest gets its default.\<close>

record 'k injected =
  in_Config :: "config option"
  in_Redactor :: "redactor option"
  in_Renderer :: "(string \<Rightarrow> 'k \<Rightarrow> (error + render_result) \<times> 'k) option"
  in_Resolvers :: "(string \<Rightarrow> (string \<Rightarrow> secret_ref \<Rightarrow> ('k, error + resolution) act) option) option"
  in_Fetcher :: "((reference \<Rightarrow> credential option \<Rightarrow> 'k \<Rightarrow> (error + fetch_result) \<times> 'k)
    \<times> (worktree_cleanup \<Rightarrow> 'k \<Rightarrow> error option \<times> 'k)) option"
  in_HasRecorder :: bool

definition default_render_options :: render_options where
  "default_render_options = \<lparr>ro_KeySeparator = [], ro_MaxTotalBytes = 0, ro_SafetyMarginBytes = 0\<rparr>"

definition default_resolvers ::
  "'k client \<Rightarrow> string \<Rightarrow> (string \<Rightarrow> secret_ref \<Rightarrow> ('k, error + resolution) act) option" where
  "default_resolvers reader =
     [BackendNativeSecret \<mapsto> native_Resolve reader, BackendExternalSecret \<mapsto> eso_Resolve reader]"

definition default_git_options :: "'k platform \<Rightarrow> config \<Rightarrow> options" where
  "default_git_options pf c =
     \<lparr>op_AllowList = cf_SourceAllowList c, op_AllowLocalTransport = False, op_AllowLoopback = False,
      op_Resolver = Some (pf_DefaultResolver pf), op_CacheTTL = DefaultFetchCacheTTL, op_CacheMaxEntries = 0\<rparr>"

text \<open>
  The reconciler after the set-up, and the redactor it starts with. \<open>reader\<close> is the manager's uncached
  API reader, \<open>cl\<close> its client.
\<close>

definition SetupWithManager ::
  "'k platform \<Rightarrow> 'k client \<Rightarrow> 'k client \<Rightarrow> 'k injected \<Rightarrow> 'k reconciler \<times> redactor" where
  "SetupWithManager pf cl reader i =
     (let cfg = (case in_Config i of None \<Rightarrow> config_Default | Some c \<Rightarrow> c);
          git = fst (NewClient (default_git_options pf cfg))
      in (\<lparr>rc_Client = cl, rc_HasRecorder = in_HasRecorder i,
           rc_Fetch = (case in_Fetcher i of
                         None \<Rightarrow> (\<lambda>ref cred. on_platform pf (Fetch git (pf_Git pf) ref cred))
                       | Some f \<Rightarrow> fst f),
           rc_Cleanup = (case in_Fetcher i of None \<Rightarrow> platform_cleanup pf | Some f \<Rightarrow> snd f),
           rc_Render = (case in_Renderer i of
                          None \<Rightarrow> (\<lambda>dir k. (Render default_render_options (pf_Tree pf k) (pf_Yaml pf) dir, k))
                        | Some f \<Rightarrow> f),
           rc_Tree = pf_Tree pf, rc_Yaml = pf_Yaml pf, rc_Meta = pf_Meta pf, rc_HasRedactor = True,
           rc_Config = Some cfg,
           rc_Resolvers = (case in_Resolvers i of None \<Rightarrow> default_resolvers reader | Some f \<Rightarrow> f)\<rparr>,
          case in_Redactor i of None \<Rightarrow> redactor_New | Some rd \<Rightarrow> rd))"

section \<open>The production reconciler\<close>

text \<open>Nothing injected but the configuration, the redactor and the recorder, as \<open>main\<close> does.\<close>

definition production :: "'k platform \<Rightarrow> 'k client \<Rightarrow> 'k client \<Rightarrow> config \<Rightarrow> 'k reconciler" where
  "production pf cl reader c =
     fst (SetupWithManager pf cl reader \<lparr>in_Config = Some c, in_Redactor = Some redactor_New, in_Renderer = None,
            in_Resolvers = None, in_Fetcher = None, in_HasRecorder = True\<rparr>)"

lemma production_simps [simp]:
  "rc_Client (production pf cl reader c) = cl" "rc_HasRecorder (production pf cl reader c)"
  "rc_HasRedactor (production pf cl reader c)" "rc_Config (production pf cl reader c) = Some c"
  "rc_Resolvers (production pf cl reader c) = default_resolvers reader"
  "rc_Fetch (production pf cl reader c) ref cred =
     on_platform pf (Fetch (fst (NewClient (default_git_options pf c))) (pf_Git pf) ref cred)"
  "rc_Render (production pf cl reader c) dir k = (Render default_render_options (pf_Tree pf k) (pf_Yaml pf) dir, k)"
  by (simp_all add: production_def SetupWithManager_def Let_def)

lemma production_client:
  "gc_allowList (fst (NewClient (default_git_options pf c))) = cf_SourceAllowList c"
  "\<not> gc_allowLocalTransport (fst (NewClient (default_git_options pf c)))"
  "\<not> gc_allowLoopback (fst (NewClient (default_git_options pf c)))"
  "gc_resolver (fst (NewClient (default_git_options pf c))) = Some (pf_DefaultResolver pf)"
  "gc_caching (fst (NewClient (default_git_options pf c)))"
  by (simp_all add: NewClient_def default_git_options_def DefaultFetchCacheTTL_def minute_def second_def)

text \<open>The default resolvers meet the contract, by the interpretations of the two backends.\<close>

lemma production_resolvers: "resolvers_read_only (production pf cl reader c)"
  unfolding resolvers_read_only_def
proof (intro allI impI)
  fix b f ns ref w
  assume "rc_Resolvers (production pf cl reader c) b = Some f"
  then have "f = native_Resolve reader \<or> f = eso_Resolve reader"
    by (simp add: default_resolvers_def split: if_splits)
  then show "\<exists>k. snd (run_state (f ns ref) w) = w\<lparr>w_Cluster := k\<rparr>"
    using native.reads_only eso.reads_only by blast
qed

end
