(* ===== verification/Ctl_Main.thy ===== *)
theory Ctl_Main
  imports Ctl_Setup
begin

text \<open>
  The process (\<open>cmd/operator/main.go\<close>): its command line, by the rules of Go's \<open>flag\<close> package, the options
  of the manager, the steps of the start with the exit code of each failure, and the watches that
  \<open>SetupWithManager\<close> registers. The flags that zap and controller-runtime add to the command line, the
  manager, and how a ConfigMap names its owner are parameters.
\<close>

section \<open>The command line\<close>

record main_flags =
  mf_metricsAddr :: string
  mf_probeAddr :: string
  mf_enableLeader :: bool
  mf_leaderNamespace :: string
  mf_configPath :: string

definition default_flags :: main_flags where
  "default_flags = \<lparr>mf_metricsAddr = '':8080'', mf_probeAddr = '':8081'', mf_enableLeader = False,
     mf_leaderNamespace = [], mf_configPath = []\<rparr>"

text \<open>The variable that a string flag sets.\<close>

definition string_flag :: "string \<Rightarrow> (string \<Rightarrow> main_flags \<Rightarrow> main_flags) option" where
  "string_flag name =
     (if name = ''metrics-bind-address'' then Some (\<lambda>v fl. fl\<lparr>mf_metricsAddr := v\<rparr>)
      else if name = ''health-probe-bind-address'' then Some (\<lambda>v fl. fl\<lparr>mf_probeAddr := v\<rparr>)
      else if name = ''leader-election-namespace'' then Some (\<lambda>v fl. fl\<lparr>mf_leaderNamespace := v\<rparr>)
      else if name = ''config'' then Some (\<lambda>v fl. fl\<lparr>mf_configPath := v\<rparr>)
      else None)"

text \<open>\<open>strconv.ParseBool\<close>.\<close>

definition parse_bool :: "string \<Rightarrow> bool option" where
  "parse_bool v =
     (if v \<in> {''1'', ''t'', ''T'', ''true'', ''TRUE'', ''True''} then Some True
      else if v \<in> {''0'', ''f'', ''F'', ''false'', ''FALSE'', ''False''} then Some False
      else None)"

text \<open>An argument: the end of the flags, bad syntax, or a flag with the value after its equals sign.\<close>

datatype argument = NotAFlag | BadSyntax | Flag string "string option"

text \<open>The name up to the first equals sign that is not its first character, and what follows it.\<close>

definition split_value :: "string \<Rightarrow> string \<times> string option" where
  "split_value s =
     (let name = take 1 s @ takeWhile (\<lambda>c. c \<noteq> CHR ''='') (drop 1 s); rest = drop (length name) s
      in (name, if rest = [] then None else Some (tl rest)))"

definition classify :: "string \<Rightarrow> argument" where
  "classify s =
     (if length s < 2 \<or> hd s \<noteq> CHR ''-'' then NotAFlag
      else if s = ''--'' then NotAFlag
      else let name = (if s ! 1 = CHR ''-'' then drop 2 s else drop 1 s)
           in if name = [] \<or> hd name = CHR ''-'' \<or> hd name = CHR ''='' then BadSyntax
              else case split_value name of (n, v) \<Rightarrow> Flag n v)"

datatype flag_error = HelpRequested | Usage

text \<open>A flag of a library: whether it is boolean, and the values it accepts.\<close>

type_synonym library_flags = "string \<Rightarrow> (bool \<times> (string \<Rightarrow> bool)) option"

text \<open>What a flag does with its value: nothing is known of the library's variables.\<close>

definition flag_of :: "library_flags \<Rightarrow> string \<Rightarrow> (bool \<times> (string \<Rightarrow> main_flags \<Rightarrow> main_flags option)) option" where
  "flag_of lib name =
     (if name = ''leader-elect''
      then Some (True, \<lambda>v fl. map_option (\<lambda>b. fl\<lparr>mf_enableLeader := b\<rparr>) (parse_bool v))
      else case string_flag name of
             Some f \<Rightarrow> Some (False, \<lambda>v fl. Some (f v fl))
           | None \<Rightarrow> map_option (\<lambda>(b, accepts). (b, \<lambda>v fl. if accepts v then Some fl else None)) (lib name))"

function parse_flags :: "library_flags \<Rightarrow> main_flags \<Rightarrow> string list \<Rightarrow> flag_error + main_flags" where
  "parse_flags lib fl [] = Inr fl"
| "parse_flags lib fl (s # args) =
     (case classify s of
        NotAFlag \<Rightarrow> Inr fl
      | BadSyntax \<Rightarrow> Inl Usage
      | Flag name v \<Rightarrow>
          (case flag_of lib name of
             None \<Rightarrow> Inl (if name = ''help'' \<or> name = ''h'' then HelpRequested else Usage)
           | Some (isBool, put) \<Rightarrow>
               (case (if isBool then Some ((case v of Some x \<Rightarrow> x | None \<Rightarrow> ''true''), args)
                      else case v of
                             Some x \<Rightarrow> Some (x, args)
                           | None \<Rightarrow> (case args of [] \<Rightarrow> None | x # rest \<Rightarrow> Some (x, rest))) of
                  None \<Rightarrow> Inl Usage
                | Some (x, rest) \<Rightarrow>
                    (case put x fl of None \<Rightarrow> Inl Usage | Some fl' \<Rightarrow> parse_flags lib fl' rest))))"
  by pat_completeness auto

termination
  by (relation "measure (\<lambda>(lib, fl, args). length args)") (auto split: if_splits option.splits list.splits)

section \<open>The options of the manager\<close>

text \<open>No namespaces means all of them. The cache holds no Secret without the label.\<close>

record manager_options =
  mg_MetricsAddr :: string
  mg_ProbeAddr :: string
  mg_LeaderElection :: bool
  mg_LeaderElectionID :: string
  mg_LeaderElectionNamespace :: string
  mg_SecretLabels :: "(string \<times> string) list"
  mg_DefaultNamespaces :: "string list"

definition managerOptions :: "main_flags \<Rightarrow> (string \<Rightarrow> string) \<Rightarrow> manager_options" where
  "managerOptions fl getenv =
     (let ns = getenv ''WATCH_NAMESPACE''
      in \<lparr>mg_MetricsAddr = mf_metricsAddr fl, mg_ProbeAddr = mf_probeAddr fl, mg_LeaderElection = mf_enableLeader fl,
          mg_LeaderElectionID = ''kohen-operator.kohen.dev'', mg_LeaderElectionNamespace = mf_leaderNamespace fl,
          mg_SecretLabels = [(LabelGitCredential, ''true'')],
          mg_DefaultNamespaces = (if ns \<noteq> [] then [ns] else [])\<rparr>)"

section \<open>Watches\<close>

datatype watch = ForConfigSync | OwnsConfigMap | WatchWorkload string | WatchSecret

definition watches :: "watch list" where
  "watches = [ForConfigSync, OwnsConfigMap, WatchWorkload ''Deployment'', WatchWorkload ''StatefulSet'', WatchSecret]"

datatype event_source =
    SyncChanged string string
  | ConfigMapChanged kobject
  | WorkloadChanged string string string
  | SecretChanged string string

text \<open>The requests of one watch; \<open>owner\<close> gives those of the controller reference of a ConfigMap.\<close>

fun enqueue ::
  "'k client \<Rightarrow> (kobject \<Rightarrow> (string \<times> string) list) \<Rightarrow> event_source \<Rightarrow> watch \<Rightarrow> ('k, (string \<times> string) list) act" where
  "enqueue cl owner (SyncChanged ns name) ForConfigSync = State_Monad.return [(ns, name)]"
| "enqueue cl owner (ConfigMapChanged ob) OwnsConfigMap = State_Monad.return (owner ob)"
| "enqueue cl owner (WorkloadChanged kind ns name) (WatchWorkload kind') =
     (if kind = kind' then mapWorkload cl kind ns name else State_Monad.return [])"
| "enqueue cl owner (SecretChanged ns name) WatchSecret = mapSecret cl ns name"
| "enqueue cl owner e w = State_Monad.return []"

primrec enqueue_all ::
  "'k client \<Rightarrow> (kobject \<Rightarrow> (string \<times> string) list) \<Rightarrow> event_source \<Rightarrow> watch list \<Rightarrow> ('k, (string \<times> string) list) act" where
  "enqueue_all cl owner e [] = State_Monad.return []"
| "enqueue_all cl owner e (w # ws) = do {
     a \<leftarrow> enqueue cl owner e w;
     b \<leftarrow> enqueue_all cl owner e ws;
     State_Monad.return (a @ b)
   }"

section \<open>main\<close>

record 'k manager =
  mn_Client :: "'k client"
  mn_APIReader :: "'k client"
  mn_Platform :: "'k platform"
  mn_Complete :: "'k reconciler \<Rightarrow> watch list \<Rightarrow> error option"
  mn_AddHealthz :: "error option"
  mn_AddReadyz :: "error option"
  mn_Start :: "error option"

text \<open>What the process runs in. \<open>ho_RestConfig\<close> is the failure of \<open>GetConfigOrDie\<close>.\<close>

record 'k host =
  ho_Args :: "string list"
  ho_Getenv :: "string \<Rightarrow> string"
  ho_ReadFile :: "string \<Rightarrow> error + bytes"
  ho_Unmarshal :: "bytes \<Rightarrow> config \<Rightarrow> error + config"
  ho_Flags :: library_flags
  ho_RestConfig :: "error option"
  ho_NewManager :: "manager_options \<Rightarrow> error + 'k manager"

text \<open>The process exits before it serves, with a code and the log message of the failure, or serves
  until the manager stops, and exits then.\<close>

datatype 'k process =
    Exited nat string
  | Served "'k reconciler" redactor manager_options nat

text \<open>The steps of the start once there is a manager, each with its failure.\<close>

definition serve :: "'k manager \<Rightarrow> manager_options \<Rightarrow> config \<Rightarrow> 'k process" where
  "serve mgr opts cfg =
     (let (rec, redactor) = SetupWithManager (mn_Platform mgr) (mn_Client mgr) (mn_APIReader mgr)
            \<lparr>in_Config = Some cfg, in_Redactor = Some redactor_New, in_Renderer = None, in_Resolvers = None,
             in_Fetcher = None, in_HasRecorder = True\<rparr>
      in if mn_Complete mgr rec watches \<noteq> None then Exited 1 ''setting up ConfigSync controller''
         else if mn_AddHealthz mgr \<noteq> None then Exited 1 ''adding healthz check''
         else if mn_AddReadyz mgr \<noteq> None then Exited 1 ''adding readyz check''
         else Served rec redactor opts (if mn_Start mgr = None then 0 else 1))"

definition main :: "'k host \<Rightarrow> 'k process" where
  "main h =
     (case parse_flags (ho_Flags h) default_flags (ho_Args h) of
        Inl HelpRequested \<Rightarrow> Exited 0 []
      | Inl Usage \<Rightarrow> Exited 2 []
      | Inr fl \<Rightarrow>
          (case config_Load (ho_ReadFile h) (ho_Unmarshal h) (mf_configPath fl) of
             Inl e \<Rightarrow> Exited 1 ''loading operator config''
           | Inr cfg \<Rightarrow>
               let opts = managerOptions fl (ho_Getenv h)
               in if ho_RestConfig h \<noteq> None then Exited 1 ''unable to get kubeconfig''
                  else case ho_NewManager h opts of
                         Inl e \<Rightarrow> Exited 1 ''creating manager''
                       | Inr mgr \<Rightarrow> serve mgr opts cfg))"

section \<open>Lemmas\<close>

text \<open>A flag written with an equals sign is read as it was written, whatever its value contains.\<close>

lemma split_value_equals:
  assumes "name \<noteq> []" "CHR ''='' \<notin> set name"
  shows "split_value (name @ CHR ''='' # v) = (name, Some v)"
proof -
  obtain c cs where name: "name = c # cs" using assms(1) by (cases name) auto
  then have "takeWhile (\<lambda>c. c \<noteq> CHR ''='') (cs @ CHR ''='' # v) = cs"
    using assms(2) by (induction cs arbitrary: name c) auto
  then show ?thesis by (simp add: split_value_def name Let_def)
qed

lemma classify_equals:
  assumes "name \<noteq> []" "CHR ''='' \<notin> set name" "hd name \<noteq> CHR ''-''"
  shows "classify (''--'' @ name @ ''='' @ v) = Flag name (Some v)"
proof -
  have "hd name \<noteq> CHR ''=''" using assms(1,2) by (cases name) auto
  then show ?thesis
    using assms split_value_equals [OF assms(1,2), of v] by (simp add: classify_def Let_def)
qed

definition equals_flag :: "string \<Rightarrow> string \<Rightarrow> string" where
  "equals_flag name v = ''--'' @ name @ ''='' @ v"

lemma parse_equals_flag:
  assumes "name \<noteq> []" "CHR ''='' \<notin> set name" "hd name \<noteq> CHR ''-''" "flag_of lib name = Some (b, put)"
  shows "parse_flags lib fl (equals_flag name v # args) =
     (case put v fl of None \<Rightarrow> Inl Usage | Some fl' \<Rightarrow> parse_flags lib fl' args)"
  using assms classify_equals [OF assms(1-3), of v] by (cases b) (simp_all add: equals_flag_def)

text \<open>A command line with every option, as the chart writes it.\<close>

definition command_line :: "main_flags \<Rightarrow> string list" where
  "command_line fl =
     [equals_flag ''config'' (mf_configPath fl), equals_flag ''metrics-bind-address'' (mf_metricsAddr fl),
      equals_flag ''health-probe-bind-address'' (mf_probeAddr fl)] @
     (if mf_enableLeader fl then [''--leader-elect''] else []) @
     [equals_flag ''leader-election-namespace'' (mf_leaderNamespace fl)]"

lemma parse_leader_elect:
  "parse_flags lib fl (''--leader-elect'' # args) = parse_flags lib (fl\<lparr>mf_enableLeader := True\<rparr>) args"
proof -
  have "classify ''--leader-elect'' = Flag ''leader-elect'' None" by code_simp
  then show ?thesis by (simp add: flag_of_def parse_bool_def)
qed

lemma parse_string_flag:
  assumes "name \<noteq> []" "CHR ''='' \<notin> set name" "hd name \<noteq> CHR ''-''" "name \<noteq> ''leader-elect''" "string_flag name = Some f"
  shows "parse_flags lib fl (equals_flag name v # args) = parse_flags lib (f v fl) args"
  using parse_equals_flag [OF assms(1-3), of lib False "\<lambda>v fl. Some (f v fl)"] assms(4,5)
  by (simp add: flag_of_def del: parse_flags.simps(2))

lemmas parse_string_flags =
  parse_string_flag [of "''config''" "\<lambda>v fl. fl\<lparr>mf_configPath := v\<rparr>"]
  parse_string_flag [of "''metrics-bind-address''" "\<lambda>v fl. fl\<lparr>mf_metricsAddr := v\<rparr>"]
  parse_string_flag [of "''health-probe-bind-address''" "\<lambda>v fl. fl\<lparr>mf_probeAddr := v\<rparr>"]
  parse_string_flag [of "''leader-election-namespace''" "\<lambda>v fl. fl\<lparr>mf_leaderNamespace := v\<rparr>"]

lemma parse_command_line: "parse_flags lib default_flags (command_line fl) = Inr fl"
proof -
  note step = parse_string_flags parse_leader_elect
  show ?thesis
    by (cases "mf_enableLeader fl") (simp_all add: command_line_def step string_flag_def default_flags_def del: parse_flags.simps(2))
qed

text \<open>The requests of an event are those of the one watch for its kind of object.\<close>

lemma enqueue_watches:
  "fst (run_state (enqueue_all cl owner (WorkloadChanged kind ns name) watches) w) =
     (if kind = ''Deployment'' \<or> kind = ''StatefulSet'' then fst (run_state (mapWorkload cl kind ns name) w) else [])"
  "fst (run_state (enqueue_all cl owner (SecretChanged ns name) watches) w) = fst (run_state (mapSecret cl ns name) w)"
  "fst (run_state (enqueue_all cl owner (SyncChanged ns name) watches) w) = [(ns, name)]"
  "fst (run_state (enqueue_all cl owner (ConfigMapChanged ob) watches) w) = owner ob"
  by (auto simp: watches_def split_beta)

lemma enqueue_all_reads: "w_Calls (snd (run_state (enqueue_all cl owner e ws) w)) = w_Calls w"
proof (induction ws arbitrary: w)
  case (Cons x ws)
  have "w_Calls (snd (run_state (enqueue cl owner e x) v)) = w_Calls v" for v
    by (cases "(cl, owner, e, x)" rule: enqueue.cases) (simp_all add: mapWorkload_def mapSecret_def run_acts run_reads split_beta)
  with Cons show ?case by (simp add: split_beta)
qed simp

text \<open>The set-up of \<open>main\<close> builds the production reconciler.\<close>

lemma serve_production:
  "serve mgr opts cfg =
     (let r = production (mn_Platform mgr) (mn_Client mgr) (mn_APIReader mgr) cfg
      in if mn_Complete mgr r watches \<noteq> None then Exited 1 ''setting up ConfigSync controller''
         else if mn_AddHealthz mgr \<noteq> None then Exited 1 ''adding healthz check''
         else if mn_AddReadyz mgr \<noteq> None then Exited 1 ''adding readyz check''
         else Served r redactor_New opts (if mn_Start mgr = None then 0 else 1))"
  by (simp add: serve_def production_def SetupWithManager_def Let_def)

text \<open>Only a process whose start succeeded serves, and then with the production reconciler.\<close>

lemma main_Served:
  assumes "main h = Served r rd opts code"
  shows "\<exists>fl cfg mgr. parse_flags (ho_Flags h) default_flags (ho_Args h) = Inr fl \<and>
     config_Load (ho_ReadFile h) (ho_Unmarshal h) (mf_configPath fl) = Inr cfg \<and>
     opts = managerOptions fl (ho_Getenv h) \<and> ho_NewManager h opts = Inr mgr \<and>
     r = production (mn_Platform mgr) (mn_Client mgr) (mn_APIReader mgr) cfg \<and>
     mn_Complete mgr r watches = None \<and> mn_AddHealthz mgr = None \<and> mn_AddReadyz mgr = None"
  using assms
  by (auto simp: main_def serve_production Let_def
      split: sum.splits flag_error.splits if_splits prod.splits)

end
