(* ===== verification/Ctl_Calls.thy ===== *)
theory Ctl_Calls
  imports Controller
begin

text \<open>
  What the handlers of the reconciler may write: the calls of each stage of the pipeline, and of a
  whole sync.
\<close>

section \<open>The stages of the pipeline\<close>

text \<open>The identity and the specification of the ConfigSync do not change during the pipeline.\<close>

definition same_sync :: "config_sync \<Rightarrow> config_sync \<Rightarrow> bool" where
  "same_sync cs cs' \<longleftrightarrow> cs_Spec cs' = cs_Spec cs \<and> cs_UID cs' = cs_UID cs \<and> cs_Name cs' = cs_Name cs \<and>
     cs_Namespace cs' = cs_Namespace cs \<and> cs_Generation cs' = cs_Generation cs \<and>
     cs_Annotations cs' = cs_Annotations cs \<and> cs_Finalizers cs' = cs_Finalizers cs"

abbreviation keeps_sync :: "config_sync \<Rightarrow> ('k, 'a) act \<Rightarrow> bool" where
  "keeps_sync cs m \<equiv> keeps_pred (\<lambda>w. same_sync cs (w_CS w)) m"

lemma keeps_sync_acts [keeps]:
  "keeps_sync cs (reads f)" "keeps_sync cs (writes c g)" "keeps_sync cs (metric h)" "keeps_sync cs the_cs"
  "keeps_sync cs (redacted m)" "keeps_sync cs (emit t rs m)" "keeps_sync cs (set_status st)"
  "keeps_sync cs (redactor_add r ss)" "keeps_sync cs (k_Patch cl p)" "keeps_sync cs (k_Delete cl ob)"
  by (rule keeps_predI; simp add: run_simps set_status_def redactor_add_def same_sync_def)+

lemma keeps_sync_helpers [keeps]:
  "keeps_sync cs (setCondition r t s reason msg)" "keeps_sync cs (setReady r s reason msg)"
  "keeps_sync cs (redactMsg r msg)" "keeps_sync cs (record_event r et reason msg)"
  "keeps_sync cs (set_rolling b)" "keeps_sync cs markSecretsEstablished"
proof -
  show "keeps_sync cs (setCondition r t s reason msg)" for t s reason msg
    by (rule keeps_predI) (simp add: setCondition_def run_simps same_sync_def)
  then show "keeps_sync cs (setReady r s reason msg)" by (simp add: setReady_def)
  show m: "keeps_sync cs (redactMsg r msg)" for msg
    unfolding redactMsg_def by (intro keeps)
  show "keeps_sync cs (record_event r et reason msg)"
    unfolding record_event_def by (intro keeps m)
  show "keeps_sync cs (set_rolling b)" "keeps_sync cs markSecretsEstablished"
    unfolding set_rolling_def markSecretsEstablished_def by (intro keeps)+
qed

lemma keeps_sync_engine [keeps]:
  "keeps_sync cs (Apply cl owner ob)" "keeps_sync cs (Prune cl owner g keep)"
  "keeps_sync cs (PruneKind cl owner g keep)" "keeps_sync cs (Wire cl s)"
  "keeps_sync cs (StampNoRestart cl kind ns name v)" "keeps_sync cs (ObjectStamp cl kind ns name)"
proof -
  have items: "keeps_sync cs (prune_items cl keep obs)" for obs
    by (induction obs) (auto intro!: keeps)
  show "keeps_sync cs (Apply cl owner ob)"
    unfolding Apply_def apply_owned_def by (intro keeps)
  show p: "keeps_sync cs (Prune cl owner g keep)"
    unfolding Prune_def by (intro keeps items)
  show "keeps_sync cs (PruneKind cl owner g keep)"
    unfolding PruneKind_def by (intro keeps p)
  show "keeps_sync cs (Wire cl s)"
    unfolding Wire_def ResolveContainer_def wire_apply_def by (intro keeps)
  show "keeps_sync cs (StampNoRestart cl kind ns name v)" "keeps_sync cs (ObjectStamp cl kind ns name)"
    unfolding StampNoRestart_def ObjectStamp_def by (intro keeps)+
qed

section \<open>Calls made on behalf of one ConfigSync\<close>

text \<open>
  \<open>acts_for A cs m\<close>: started with the ConfigSync \<open>cs\<close> (up to its status), \<open>m\<close> ends with it, and issues
  only calls that satisfy \<open>A\<close>. What \<open>m\<close> reads of the ConfigSync is then known in the rest of it.
\<close>

definition acts_for :: "(call \<Rightarrow> bool) \<Rightarrow> config_sync \<Rightarrow> ('k, 'a) act \<Rightarrow> bool" where
  "acts_for A cs m \<longleftrightarrow>
     (\<forall>w. same_sync cs (w_CS w) \<longrightarrow> same_sync cs (w_CS (snd (run_state m w))) \<and>
        (\<exists>calls. w_Calls (snd (run_state m w)) = w_Calls w @ calls \<and> list_all A calls))"

named_theorems acts \<open>introduction rules for the calls of an action on behalf of a ConfigSync\<close>

lemma acts_forD:
  assumes "acts_for A cs m" "same_sync cs (w_CS w)"
  shows "same_sync cs (w_CS (snd (run_state m w)))"
    "\<exists>calls. w_Calls (snd (run_state m w)) = w_Calls w @ calls \<and> list_all A calls"
  using assms unfolding acts_for_def by blast+

lemma acts_leaf: "issues A m \<Longrightarrow> keeps_sync cs m \<Longrightarrow> acts_for A cs m"
  unfolding acts_for_def issues_def keeps_pred_def by blast

lemma acts_weaken: "acts_for A cs m \<Longrightarrow> (\<And>c. A c \<Longrightarrow> B c) \<Longrightarrow> acts_for B cs m"
  unfolding acts_for_def by (metis list_all_iff)

lemma acts_bind [acts]:
  fixes m :: "('k, 'a) act"
  assumes "acts_for A cs m" "\<And>x. acts_for A cs (f x)"
  shows "acts_for A cs (State_Monad.bind m f)"
  unfolding acts_for_def
proof (intro allI impI)
  fix w :: "'k world"
  assume w: "same_sync cs (w_CS w)"
  obtain x w1 where m: "run_state m w = (x, w1)" by (cases "run_state m w")
  obtain cs1 where 1: "w_Calls w1 = w_Calls w @ cs1" "list_all A cs1" and w1: "same_sync cs (w_CS w1)"
    using acts_forD [OF assms(1) w] m by auto
  obtain cs2 where 2: "w_Calls (snd (run_state (f x) w1)) = w_Calls w1 @ cs2" "list_all A cs2"
    "same_sync cs (w_CS (snd (run_state (f x) w1)))"
    using acts_forD [OF assms(2) w1, of x] by blast
  show "same_sync cs (w_CS (snd (run_state (m \<bind> f) w))) \<and>
      (\<exists>calls. w_Calls (snd (run_state (m \<bind> f) w)) = w_Calls w @ calls \<and> list_all A calls)"
    using 1 2 m by (intro conjI exI [of _ "cs1 @ cs2"]) simp_all
qed

lemma acts_the_cs [acts]:
  assumes "\<And>cs'. same_sync cs cs' \<Longrightarrow> acts_for A cs (f cs')"
  shows "acts_for A cs (State_Monad.bind the_cs f)"
  using assms unfolding acts_for_def by (simp add: run_acts)

lemma acts_cases [acts]:
  "(b \<Longrightarrow> acts_for A cs m) \<Longrightarrow> (\<not> b \<Longrightarrow> acts_for A cs n) \<Longrightarrow> acts_for A cs (if b then m else n)"
  "acts_for A cs p \<Longrightarrow> (\<And>y. acts_for A cs (f y)) \<Longrightarrow> acts_for A cs (case x of None \<Rightarrow> p | Some y \<Rightarrow> f y)"
  "(\<And>e. acts_for A cs (g e)) \<Longrightarrow> (\<And>y. acts_for A cs (h y)) \<Longrightarrow>
   acts_for A cs (case z of Inl e \<Rightarrow> g e | Inr y \<Rightarrow> h y)"
  "acts_for A cs (q v) \<Longrightarrow> acts_for A cs (let y = v in q y)"
  by (auto split: option.split sum.split)

lemma acts_silent [acts]:
  "acts_for A cs (State_Monad.return x)" "acts_for A cs (reads f)" "acts_for A cs (metric h)"
  "acts_for A cs (set_status st)" "acts_for A cs (set_rolling c)" "acts_for A cs markSecretsEstablished"
  "acts_for A cs (redactMsg r msg)" "acts_for A cs (record_event r et reason msg)"
  "acts_for A cs (setCondition r t s reason msg)" "acts_for A cs (setReady r s reason msg)"
  by (rule acts_leaf; (intro issue_rules keeps)?;
      (simp add: markSecretsEstablished_def issue_rules)?)+

section \<open>The pipeline's calls\<close>

text \<open>
  A call of the pipeline: the owned apply of an object, a deletion, or a workload request that the
  rollout mode of the specification allows.
\<close>

definition pipeline_call :: "'k reconciler \<Rightarrow> config_sync \<Rightarrow> call \<Rightarrow> bool" where
  "pipeline_call r cs c \<longleftrightarrow>
     is_delete c \<or> (\<exists>version. stamps_allowed cs version c) \<or>
     (\<exists>cs' ob. same_sync cs cs' \<and> owned_patch (rc_Client r) cs' ob c)"

lemma stamps_allowed_same: "same_sync cs cs' \<Longrightarrow> stamps_allowed cs' v c \<longleftrightarrow> stamps_allowed cs v c"
  by (simp add: stamps_allowed_def same_sync_def)

lemma keeps_sync_stages [keeps]:
  "keeps_sync cs (inspectWorkload cl kind ns name b)" "keeps_sync cs (rolloutProgress cl kind ns name)"
  "keeps_sync cs (wire_failed r reason msg)" "keeps_sync cs (rollout_failed r e)"
  "keeps_sync cs (fail_manifests r reason msg out)"
  unfolding inspectWorkload_def rolloutProgress_def wire_failed_def rollout_failed_def fail_manifests_def
  by (intro keeps)+

lemma keeps_sync_wiring [keeps]:
  "keeps_sync cs (report_progress r kind ns name)" "keeps_sync cs (wire_no_rollout r c cmName version)"
  "keeps_sync cs (wire_rollout r c cmName version st)"
  unfolding report_progress_def wire_no_rollout_def wire_rollout_def Let_def by (intro keeps)+

lemma keeps_sync_wireAndStamp [keeps]: "keeps_sync cs (wireAndStamp r cmName version)"
  unfolding wireAndStamp_def by (intro keeps)

lemma keeps_sync_computeReady [keeps]: "keeps_sync cs (computeReady r)"
  unfolding computeReady_def by (intro keeps)

lemma keeps_sync_resolveSecrets:
  fixes r :: "'k reconciler"
  assumes "resolvers_read_only r"
  shows "keeps_sync cs (resolveSecrets r now)"
proof -
  have "keeps_sync cs (f ns ref)" if rf: "rc_Resolvers r b = Some f" for b f ns ref
  proof (rule keeps_predI)
    fix w :: "'k world"
    assume "same_sync cs (w_CS w)"
    moreover obtain k where "snd (run_state (f ns ref) w) = w\<lparr>w_Cluster := k\<rparr>"
      using read_only_resolver [OF assms rf] by blast
    ultimately show "same_sync cs (w_CS (snd (run_state (f ns ref) w)))" by simp
  qed
  then have one: "keeps_sync cs (resolveOne r ns ref)" for ns ref
    unfolding resolveOne_def by (intro keeps)
  have "keeps_sync cs (resolve_refs r ns prior refs)" for ns prior refs
    by (induction refs) (auto intro!: keeps one)
  then show ?thesis unfolding resolveSecrets_def Let_def by (intro keeps)
qed

lemma keeps_sync_applyManifests [keeps]: "keeps_sync cs (applyManifests r dir)"
proof -
  have objs: "keeps_sync cs (apply_objects r c obs)" for c obs
    by (induction obs) (auto intro!: keeps simp: Let_def)
  have prunes: "keeps_sync cs (prune_manifests r c keep vs)" for c keep vs
    by (induction vs) (auto intro!: keeps)
  show ?thesis unfolding applyManifests_def by (intro keeps objs prunes)
qed

lemma acts_wireAndStamp:
  fixes r :: "'k reconciler"
  shows "acts_for (pipeline_call r cs) cs (wireAndStamp r cmName version)"
  unfolding acts_for_def
proof (intro allI impI conjI)
  fix w :: "'k world"
  assume w: "same_sync cs (w_CS w)"
  show "same_sync cs (w_CS (snd (run_state (wireAndStamp r cmName version) w)))"
    using keeps_predD [OF keeps_sync_wireAndStamp w] .
  obtain calls where c: "w_Calls (snd (run_state (wireAndStamp r cmName version) w)) = w_Calls w @ calls"
    "list_all (stamps_allowed (w_CS w) version) calls"
    using wireAndStamp_calls by blast
  have "list_all (pipeline_call r cs) calls"
    by (rule list.pred_mono_strong [OF c(2)]) (auto simp: pipeline_call_def stamps_allowed_same [OF w])
  with c(1) show "\<exists>calls. w_Calls (snd (run_state (wireAndStamp r cmName version) w)) = w_Calls w @ calls
      \<and> list_all (pipeline_call r cs) calls" by blast
qed

lemma acts_applyManifests:
  fixes r :: "'k reconciler"
  shows "acts_for (pipeline_call r cs) cs (applyManifests r dir)"
  unfolding acts_for_def
proof (intro allI impI conjI)
  fix w :: "'k world"
  assume w: "same_sync cs (w_CS w)"
  show "same_sync cs (w_CS (snd (run_state (applyManifests r dir) w)))"
    using keeps_predD [OF keeps_sync_applyManifests w] .
  obtain calls where c: "w_Calls (snd (run_state (applyManifests r dir) w)) = w_Calls w @ calls"
    "calls = [] \<or> (\<exists>objs. list_all (\<lambda>c. is_delete c \<or> applies_one_of r (w_CS w) objs c) calls)"
    using applyManifests_calls [of r dir w] by blast
  have "pipeline_call r cs x" if "is_delete x \<or> applies_one_of r (w_CS w) objs x" for x objs
    using that w unfolding pipeline_call_def applies_one_of_def by blast
  then have "list_all (pipeline_call r cs) calls"
    using c(2) by (auto simp: list_all_iff)
  with c(1) show "\<exists>calls. w_Calls (snd (run_state (applyManifests r dir) w)) = w_Calls w @ calls
      \<and> list_all (pipeline_call r cs) calls" by blast
qed

lemma acts_computeReady: "acts_for A cs (computeReady r)"
  unfolding computeReady_def by (intro acts)

lemma acts_sync_secrets:
  assumes "resolvers_read_only r"
  shows "acts_for (pipeline_call r cs) cs (sync_secrets r steady res cmName)"
proof -
  have res: "acts_for (pipeline_call r cs) cs (resolveSecrets r now)" for now
    by (rule acts_leaf [OF issues_resolveSecrets [OF assms] keeps_sync_resolveSecrets [OF assms]])
  show ?thesis
    unfolding sync_secrets_def hold_rollout_def Let_def
    by (intro acts res acts_wireAndStamp acts_computeReady)
qed

lemma acts_sync_apply:
  assumes "resolvers_read_only r"
  shows "acts_for (pipeline_call r cs) cs (sync_apply r steady res rendered)"
proof -
  have app: "acts_for (pipeline_call r cs) cs (Apply (rc_Client r) cs' ob)" if "same_sync cs cs'" for cs' ob
  proof (rule acts_leaf [OF issues_weaken [OF issues_Apply] keeps_sync_engine(1)])
    fix c
    assume "\<exists>ob'. ensureGVK (rc_Client r) ob = Inr ob' \<and> owned_patch (rc_Client r) cs' ob' c"
    then show "pipeline_call r cs c" using that unfolding pipeline_call_def by blast
  qed
  have pr: "acts_for (pipeline_call r cs) cs (Prune (rc_Client r) cs' g keep)" for cs' g keep
    by (rule acts_leaf [OF issues_weaken [OF issues_Prune] keeps_sync_engine(2)]) (simp add: pipeline_call_def)
  show ?thesis
    unfolding sync_apply_def Let_def
    by (intro acts app pr acts_applyManifests acts_sync_secrets [OF assms])
qed

text \<open>What a read returned is known in the rest.\<close>

lemma acts_reads:
  fixes f :: "'k \<Rightarrow> 'a \<times> 'k"
  assumes "\<And>k. acts_for A cs (g (fst (f k)))"
  shows "acts_for A cs (State_Monad.bind (reads f) g)"
  unfolding acts_for_def
proof (intro allI impI)
  fix w :: "'k world"
  assume "same_sync cs (w_CS w)"
  then have "same_sync cs (w_CS (w\<lparr>w_Cluster := snd (f (w_Cluster w))\<rparr>))" by simp
  from acts_forD [OF assms this, of "w_Cluster w"]
  show "same_sync cs (w_CS (snd (run_state (reads f \<bind> g) w))) \<and>
      (\<exists>calls. w_Calls (snd (run_state (reads f \<bind> g) w)) = w_Calls w @ calls \<and> list_all A calls)"
    by (simp add: run_simps)
qed

text \<open>Nothing is written from a checkout that does not render.\<close>

lemma acts_sync_checkout:
  assumes "resolvers_read_only r"
  shows "acts_for (\<lambda>c. pipeline_call r cs c \<and> (\<exists>k rendered. fst (rc_Render r (fr_Dir res) k) = Inr rendered)) cs
    (sync_checkout r steady res)"
proof -
  let ?A = "\<lambda>c. pipeline_call r cs c \<and> (\<exists>k rendered. fst (rc_Render r (fr_Dir res) k) = Inr rendered)"
  define rest where "rest = (\<lambda>x. case x of
       Inl e \<Rightarrow> do {
         let reason = renderConditionReason e;
         _ \<leftarrow> metric (Inc (RenderErrors reason));
         m \<leftarrow> redactMsg r (err_text e);
         _ \<leftarrow> setCondition r ConditionRendered CondFalse reason m;
         _ \<leftarrow> setReady r CondFalse ReasonDegraded ''render failed, serving last-good'';
         _ \<leftarrow> record_event r Warning reason (err_text e);
         State_Monad.return (steady, None)
       }
     | Inr rendered \<Rightarrow> do {
         _ \<leftarrow> setCondition r ConditionRendered CondTrue ReasonSynced
               (''rendered '' @ show_nat (length (rr_Data rendered) + length (rr_BinaryData rendered)) @ '' keys (''
                 @ show_int (rr_TotalBytes rendered) @ '' bytes)'');
         sync_apply r steady res rendered
       })"
  have "acts_for ?A cs (rest (fst (rc_Render r (fr_Dir res) k)))" for k
  proof (cases "fst (rc_Render r (fr_Dir res) k)")
    case (Inl e)
    then show ?thesis unfolding rest_def Inl sum.case Let_def by (intro acts)
  next
    case (Inr rendered)
    have app: "acts_for ?A cs (sync_apply r steady res rendered)"
      by (rule acts_weaken [OF acts_sync_apply [OF assms]]) (use Inr in blast)
    show ?thesis unfolding rest_def Inr sum.case by (intro acts app)
  qed
  then show ?thesis
    unfolding sync_checkout_def rest_def [symmetric] by (intro acts acts_reads)
qed

lemma acts_loadCredential: "acts_for A cs (loadCredential r)"
proof -
  have "acts_for A cs (redactor_add r ss)" for ss
    by (rule acts_leaf) (rule issues_silent, simp add: redactor_add_def, intro keeps)
  then show ?thesis unfolding loadCredential_def Let_def by (intro acts)
qed

lemma run_singletonConflict:
  "run_state (singletonConflict r) w =
     (case fst (cl_ListConfigSyncs (rc_Client r) (cs_Namespace (w_CS w)) (w_Cluster w)) of
        Inl e \<Rightarrow> None
      | Inr items \<Rightarrow> map_option cs_Name (List.find (rival (w_CS w)) items),
      w\<lparr>w_Cluster := snd (cl_ListConfigSyncs (rc_Client r) (cs_Namespace (w_CS w)) (w_Cluster w))\<rparr>)"
  by (simp add: singletonConflict_def run_simps)

lemma acts_singletonConflict [acts]: "acts_for A cs (singletonConflict r)"
  unfolding acts_for_def by (simp add: run_singletonConflict same_sync_def)

section \<open>The whole pipeline\<close>

text \<open>
  The calls of one sync: none at all, or those of a checkout followed by its clean-up; none but the
  clean-up when the tree does not render.
\<close>

definition sync_calls_ok :: "'k reconciler \<Rightarrow> config_sync \<Rightarrow> call list \<Rightarrow> bool" where
  "sync_calls_ok r cs calls \<longleftrightarrow>
     calls = [] \<or>
     (\<exists>body res cred k v. same_sync cs (w_CS v) \<and> fst (run_state (loadCredential r) v) = Inr cred \<and>
        fst (rc_Fetch r (source_reference cs) cred k) = Inr res \<and>
        calls = body @ [CCleanup (fr_WorktreeDir res)] \<and> list_all (pipeline_call r cs) body \<and>
        (body = [] \<or> (\<exists>k rendered. fst (rc_Render r (fr_Dir res) k) = Inr rendered)))"

lemma source_reference_same: "same_sync cs cs' \<Longrightarrow> source_reference cs' = source_reference cs"
  by (simp add: source_reference_def same_sync_def)

lemma checkout_calls:
  assumes "resolvers_read_only r" "same_sync cs (w_CS w)" "fst (rc_Fetch r (source_reference cs) cred k) = Inr res"
    and "same_sync cs (w_CS v)" "fst (run_state (loadCredential r) v) = Inr cred"
  shows "\<exists>calls. w_Calls (snd (run_state (do {
      out \<leftarrow> sync_checkout r steady res;
      _ \<leftarrow> writes (CCleanup (fr_WorktreeDir res)) (rc_Cleanup r (fr_Cleanup res));
      State_Monad.return out }) w)) = w_Calls w @ calls \<and> sync_calls_ok r cs calls"
proof -
  obtain o' w1 where o': "run_state (sync_checkout r steady res) w = (o', w1)"
    by (cases "run_state (sync_checkout r steady res) w")
  obtain body where b: "w_Calls w1 = w_Calls w @ body"
    "list_all (\<lambda>c. pipeline_call r cs c \<and> (\<exists>k rendered. fst (rc_Render r (fr_Dir res) k) = Inr rendered)) body"
    using acts_forD(2) [OF acts_sync_checkout [OF assms(1)] assms(2), of steady res] o' by auto
  have "sync_calls_ok r cs (body @ [CCleanup (fr_WorktreeDir res)])"
    unfolding sync_calls_ok_def
  proof (rule disjI2, intro exI conjI)
    show "list_all (pipeline_call r cs) body" by (rule list.pred_mono_strong [OF b(2)]) simp
    show "body = [] \<or> (\<exists>k rendered. fst (rc_Render r (fr_Dir res) k) = Inr rendered)"
      using b(2) by (cases body) auto
  qed (rule assms(4), rule assms(5), rule assms(3), rule refl)
  with b(1) o' show ?thesis by (intro exI [of _ "body @ [CCleanup (fr_WorktreeDir res)]"]) (simp add: run_simps)
qed

lemma after_claim_calls:
  fixes r :: "'k reconciler"
  assumes ro: "resolvers_read_only r" and same: "same_sync cs cs'" "w_CS w = cs'"
  shows "\<exists>calls. w_Calls (snd (run_state (after_claim r cs' steady) w)) = w_Calls w @ calls \<and> sync_calls_ok r cs calls"
proof -
  have silent: "\<exists>calls. w_Calls (snd (run_state m v)) = w_Calls v @ calls \<and> sync_calls_ok r cs calls"
    if "acts_for (\<lambda>_. False) cs m" "same_sync cs (w_CS v)" for m :: "('k, ctrl_result \<times> error option) act" and v
    using acts_forD(2) [OF that] by (auto simp: sync_calls_ok_def list_all_iff)
  obtain c w1 where c: "run_state (loadCredential r) w = (c, w1)" by (cases "run_state (loadCredential r) w")
  have "same_sync cs (w_CS w)" using same by simp
  from acts_forD [OF acts_loadCredential [of "\<lambda>_. False"] this, of r]
  have w1: "same_sync cs (w_CS w1)" "w_Calls w1 = w_Calls w" using c by (auto simp: list_all_iff)
  show ?thesis
  proof (cases c)
    case (Inl e)
    show ?thesis
      using silent [OF _ w1(1), of "do {
         _ \<leftarrow> metric (Inc (FetchErrors ReasonAuthFailed));
         m \<leftarrow> redactMsg r (err_text e);
         _ \<leftarrow> setCondition r ConditionFetched CondFalse ReasonAuthFailed m;
         _ \<leftarrow> setReady r CondFalse ReasonDegraded ''credential error'';
         _ \<leftarrow> record_event r Warning ReasonAuthFailed (err_text e);
         State_Monad.return (no_requeue, Some e) }"] c Inl w1(2)
      by (simp add: after_claim_def acts)
  next
    case (Inr cred)
    let ?k = "snd (cl_Now (rc_Client r) (w_Cluster w1))"
    obtain f w2 where f: "run_state (timed_fetch r cs' cred) w1 = (f, w2)" by (cases "run_state (timed_fetch r cs' cred) w1")
    then have w2: "same_sync cs (w_CS w2)" "w_Calls w2 = w_Calls w1"
      and fetched: "f = fst (rc_Fetch r (source_reference cs') cred ?k)"
      using w1 by (auto simp: run_timed_fetch split: prod.splits)
    show ?thesis
    proof (cases f)
      case Inl2: (Inl e)
      show ?thesis
        using silent [OF _ w2(1), of "do {
             let reason = gitConditionReason e;
             _ \<leftarrow> metric (Inc (FetchErrors reason));
             m \<leftarrow> redactMsg r (err_text e);
             _ \<leftarrow> setCondition r ConditionFetched CondFalse reason m;
             _ \<leftarrow> setReady r CondFalse ReasonDegraded ''fetch failed, serving last-good'';
             _ \<leftarrow> record_event r Warning reason (err_text e);
             State_Monad.return (no_requeue, Some e) }"] c f Inr Inl2 w1(2) w2(2)
        by (simp add: after_claim_def acts Let_def)
    next
      case Inr2: (Inr res)
      have "fst (rc_Fetch r (source_reference cs) cred ?k) = Inr res"
        using Inr2 fetched source_reference_same [OF same(1)] by simp
      from checkout_calls [OF ro w2(1) this, of w steady] show ?thesis
        using c f Inr Inr2 w1(2) w2(2) same by (simp add: after_claim_def)
    qed
  qed
qed

lemma sync_calls:
  fixes r :: "'k reconciler"
  assumes ro: "resolvers_read_only r"
  shows "\<exists>calls. w_Calls (snd (run_state (sync r) w)) = w_Calls w @ calls \<and> sync_calls_ok r (w_CS w) calls \<and>
     (calls = [] \<or> fst (run_state (singletonConflict r) w) = None)"
proof -
  let ?cs = "(w_CS w)\<lparr>cs_Status := (cs_Status (w_CS w))\<lparr>st_ObservedGeneration := cs_Generation (w_CS w)\<rparr>\<rparr>"
  define steady where "steady = requeue_after (SyncInterval (cs_Spec ?cs))"
  have same: "same_sync (w_CS w) ?cs" by (simp add: same_sync_def)
  obtain conflict w2 where c: "run_state (singletonConflict r) (w\<lparr>w_CS := ?cs\<rparr>) = (conflict, w2)"
    by (cases "run_state (singletonConflict r) (w\<lparr>w_CS := ?cs\<rparr>)")
  have w2: "w_CS w2 = ?cs" "w_Calls w2 = w_Calls w" using c by (auto simp: run_singletonConflict)
  have rival: "rival ?cs = rival (w_CS w)" by (simp add: rival_def winsOver_def fun_eq_iff)
  have conflict: "fst (run_state (singletonConflict r) w) = conflict"
    using c by (auto simp: run_singletonConflict rival cong: sum.case_cong)
  define tail where "tail = (case conflict of Some other \<Rightarrow> claim_lost r ?cs steady other | None \<Rightarrow> after_claim r ?cs steady)"
  have run: "run_state (sync r) w = run_state tail w2"
    by (cases conflict) (simp_all add: sync_def run_acts c tail_def steady_def Let_def)
  show ?thesis
  proof (cases conflict)
    case (Some other)
    have "acts_for (\<lambda>_. False) (w_CS w) (claim_lost r ?cs steady other)"
      unfolding claim_lost_def Let_def by (intro acts)
    from acts_forD(2) [OF this, of w2] w2 same show ?thesis
      unfolding run tail_def Some option.case by (auto simp: sync_calls_ok_def list_all_iff)
  next
    case None
    then show ?thesis
      unfolding run tail_def using after_claim_calls [OF ro same w2(1), of steady] w2(2) conflict by simp
  qed
qed

end
