(* ===== verification/Ctl_Ready.thy ===== *)
theory Ctl_Ready
  imports Ctl_Calls
begin

text \<open>
  Readiness. The Ready condition that a sync leaves is never better than the conditions it
  summarizes, on every path. The library function \<open>SetStatusCondition\<close> enters by its documented
  behaviour, \<open>condition_law\<close>.
\<close>

section \<open>Conditions\<close>

text \<open>Setting a condition replaces the condition of its type, its time aside, and no other.\<close>

definition condition_law :: "'k client \<Rightarrow> bool" where
  "condition_law cl \<longleftrightarrow>
     (\<forall>now c cs.
        (\<exists>l. List.find (\<lambda>x. c_Type x = c_Type c) (lib_SetStatusCondition cl now c cs) =
             Some (c\<lparr>c_LastTransitionTime := l\<rparr>)) \<and>
        (\<forall>t. t \<noteq> c_Type c \<longrightarrow> List.find (\<lambda>x. c_Type x = t) (lib_SetStatusCondition cl now c cs) =
                               List.find (\<lambda>x. c_Type x = t) cs))"

lemma condition_lawD:
  assumes "condition_law cl"
  shows "\<exists>l. List.find (\<lambda>x. c_Type x = c_Type c) (lib_SetStatusCondition cl now c cs) = Some (c\<lparr>c_LastTransitionTime := l\<rparr>)"
    "t \<noteq> c_Type c \<Longrightarrow>
     List.find (\<lambda>x. c_Type x = t) (lib_SetStatusCondition cl now c cs) = List.find (\<lambda>x. c_Type x = t) cs"
  using assms unfolding condition_law_def by blast+

text \<open>The world after setting a condition.\<close>

lemma setCondition_conditions:
  assumes "condition_law (rc_Client r)" "run_state (setCondition r t st reason msg) w = (u, w')"
  shows "conditionTrue (w_CS w') t' = (if t' = t then st = CondTrue else conditionTrue (w_CS w) t')"
    "conditionReason (w_CS w') t' = (if t' = t then reason else conditionReason (w_CS w) t')"
proof -
  define c where "c = \<lparr>c_Type = t, c_Status = st, c_Reason = reason, c_Message = msg,
     c_ObservedGeneration = cs_Generation (w_CS w), c_LastTransitionTime = 0\<rparr>"
  have t: "c_Type c = t" by (simp add: c_def)
  define now where "now = fst (cl_Now (rc_Client r) (w_Cluster w))"
  have w': "st_Conditions (cs_Status (w_CS w')) =
      lib_SetStatusCondition (rc_Client r) now c (st_Conditions (cs_Status (w_CS w)))"
    using assms(2) by (auto simp: setCondition_def run_simps c_def now_def)
  obtain l where l: "List.find (\<lambda>x. c_Type x = t) (st_Conditions (cs_Status (w_CS w'))) = Some (c\<lparr>c_LastTransitionTime := l\<rparr>)"
    using condition_lawD(1) [OF assms(1), of c] unfolding w' t by blast
  have other: "List.find (\<lambda>x. c_Type x = t') (st_Conditions (cs_Status (w_CS w'))) =
      List.find (\<lambda>x. c_Type x = t') (st_Conditions (cs_Status (w_CS w)))" if "t' \<noteq> t"
    using condition_lawD(2) [OF assms(1), of t' c] that unfolding w' t by blast
  show "conditionTrue (w_CS w') t' = (if t' = t then st = CondTrue else conditionTrue (w_CS w) t')"
    "conditionReason (w_CS w') t' = (if t' = t then reason else conditionReason (w_CS w) t')"
    using l other by (auto simp: conditionTrue_def conditionReason_def findCondition_def c_def)
qed

section \<open>Ready is sound\<close>

definition all_conditions :: "string list" where
  "all_conditions = gate_conditions @ [ConditionRolloutComplete]"

definition ready_sound :: "config_sync \<Rightarrow> bool" where
  "ready_sound cs \<longleftrightarrow> \<not> conditionTrue cs ConditionReady \<or> list_all (conditionTrue cs) all_conditions"

text \<open>\<open>establishes Q m\<close>: wherever it starts, \<open>m\<close> ends with a ConfigSync that satisfies \<open>Q\<close>.\<close>

definition establishes :: "(config_sync \<Rightarrow> bool) \<Rightarrow> ('k, 'a) act \<Rightarrow> bool" where
  "establishes Q m \<longleftrightarrow> (\<forall>w. Q (w_CS (snd (run_state m w))))"

lemma establishes_later:
  "(\<And>x. establishes Q (f x)) \<Longrightarrow> establishes Q (State_Monad.bind m f)"
  by (simp add: establishes_def split_beta)

lemma establishes_now:
  "establishes Q m \<Longrightarrow> (\<And>x. keeps_pred (\<lambda>w. Q (w_CS w)) (f x)) \<Longrightarrow> establishes Q (State_Monad.bind m f)"
  by (simp add: establishes_def keeps_pred_def split_beta)

lemma establishes_cases:
  "(b \<Longrightarrow> establishes Q m) \<Longrightarrow> (\<not> b \<Longrightarrow> establishes Q n) \<Longrightarrow> establishes Q (if b then m else n)"
  "establishes Q p \<Longrightarrow> (\<And>y. establishes Q (g y)) \<Longrightarrow> establishes Q (case x of None \<Rightarrow> p | Some y \<Rightarrow> g y)"
  "(\<And>e. establishes Q (h e)) \<Longrightarrow> (\<And>y. establishes Q (h' y)) \<Longrightarrow>
   establishes Q (case z of Inl e \<Rightarrow> h e | Inr y \<Rightarrow> h' y)"
  "establishes Q (q v) \<Longrightarrow> establishes Q (let y = v in q y)"
  by (auto split: option.split sum.split)

text \<open>Steps after the verdict that leave the ConfigSync alone.\<close>

lemma keeps_cs_acts [keeps]:
  "keeps_pred (\<lambda>w. Q (w_CS w)) (reads f)" "keeps_pred (\<lambda>w. Q (w_CS w)) (writes c g)"
  "keeps_pred (\<lambda>w. Q (w_CS w)) (metric h)" "keeps_pred (\<lambda>w. Q (w_CS w)) the_cs"
  "keeps_pred (\<lambda>w. Q (w_CS w)) (redactMsg r m)" "keeps_pred (\<lambda>w. Q (w_CS w)) (record_event r t reason m)"
  by (rule keeps_predI; simp add: run_simps redactMsg_def record_event_def)+

lemma not_ready_sound:
  assumes "condition_law (rc_Client r)" "status \<noteq> CondTrue"
  shows "establishes ready_sound (setReady r status reason msg)"
  unfolding establishes_def
proof
  fix w
  obtain u w' where s: "run_state (setCondition r ConditionReady status reason msg) w = (u, w')"
    by (cases "run_state (setCondition r ConditionReady status reason msg) w")
  have "\<not> conditionTrue (w_CS w') ConditionReady"
    using setCondition_conditions(1) [OF assms(1) s, of ConditionReady] assms(2) by simp
  with s show "ready_sound (w_CS (snd (run_state (setReady r status reason msg) w)))"
    by (simp add: setReady_def ready_sound_def)
qed

lemma all_conditions_not_Ready: "ConditionReady \<notin> set all_conditions"
  by (simp add: all_conditions_def gate_conditions_def)

lemma setReady_others:
  assumes "condition_law (rc_Client r)" "run_state (setReady r status reason msg) w = (u, w')"
  shows "list_all (conditionTrue (w_CS w')) all_conditions \<longleftrightarrow> list_all (conditionTrue (w_CS w)) all_conditions"
    "conditionTrue (w_CS w') ConditionReady \<longleftrightarrow> status = CondTrue"
proof -
  note s = setCondition_conditions(1) [OF assms(1) assms(2) [unfolded setReady_def]]
  show "conditionTrue (w_CS w') ConditionReady \<longleftrightarrow> status = CondTrue" by (simp add: s)
  show "list_all (conditionTrue (w_CS w')) all_conditions \<longleftrightarrow> list_all (conditionTrue (w_CS w)) all_conditions"
    using all_conditions_not_Ready by (auto simp: list_all_iff s)
qed

text \<open>\<open>computeReady\<close> sets Ready exactly when all six conditions are true.\<close>

lemma computeReady_exact:
  assumes law: "condition_law (rc_Client r)" and run: "run_state (computeReady r) w = (u, w')"
  shows "conditionTrue (w_CS w') ConditionReady \<longleftrightarrow> list_all (conditionTrue (w_CS w)) all_conditions"
    "list_all (conditionTrue (w_CS w')) all_conditions \<longleftrightarrow> list_all (conditionTrue (w_CS w)) all_conditions"
proof -
  let ?cs = "w_CS w"
  have "\<exists>status reason msg. run_state (setReady r status reason msg) w = (u, w') \<and>
      (status = CondTrue \<longleftrightarrow> list_all (conditionTrue ?cs) all_conditions)"
  proof (cases "List.find (\<lambda>t. \<not> conditionTrue ?cs t) gate_conditions")
    case (Some t)
    then have "\<not> list_all (conditionTrue ?cs) all_conditions"
      by (auto simp: all_conditions_def list_all_iff dest!: find_SomeD)
    with Some run show ?thesis by (force simp: computeReady_def run_acts)
  next
    case None
    then have "list_all (conditionTrue ?cs) all_conditions \<longleftrightarrow> conditionTrue ?cs ConditionRolloutComplete"
      by (auto simp: all_conditions_def list_all_iff find_None_iff)
    with None run show ?thesis
      by (cases "conditionTrue ?cs ConditionRolloutComplete")
         (force simp: computeReady_def run_acts split: if_splits)+
  qed
  then obtain status reason msg where s: "run_state (setReady r status reason msg) w = (u, w')"
    "status = CondTrue \<longleftrightarrow> list_all (conditionTrue ?cs) all_conditions" by blast
  from setReady_others [OF law s(1)] s(2)
  show "conditionTrue (w_CS w') ConditionReady \<longleftrightarrow> list_all (conditionTrue ?cs) all_conditions"
    "list_all (conditionTrue (w_CS w')) all_conditions \<longleftrightarrow> list_all (conditionTrue ?cs) all_conditions"
    by simp_all
qed

lemma computeReady_sound: "condition_law (rc_Client r) \<Longrightarrow> establishes ready_sound (computeReady r)"
  unfolding establishes_def ready_sound_def by (metis computeReady_exact prod.collapse)

section \<open>Every path of the sync\<close>

text \<open>A verdict of not ready, and what follows it.\<close>

lemma not_ready_then:
  assumes "condition_law (rc_Client r)" "\<And>x. keeps_pred (\<lambda>w. ready_sound (w_CS w)) (f x)"
  shows "establishes ready_sound (State_Monad.bind (setReady r CondFalse reason msg) f)"
  by (rule establishes_now [OF not_ready_sound [OF assms(1)] assms(2)]) simp

lemma sync_secrets_sound:
  assumes "condition_law (rc_Client r)"
  shows "establishes ready_sound (sync_secrets r steady res cmName)"
  unfolding sync_secrets_def hold_rollout_def Let_def
  by (intro establishes_cases not_ready_then [OF assms] establishes_now [OF computeReady_sound [OF assms]]
        keeps establishes_later)

lemma sync_apply_sound:
  assumes "condition_law (rc_Client r)"
  shows "establishes ready_sound (sync_apply r steady res rendered)"
  unfolding sync_apply_def Let_def
  by (intro establishes_cases not_ready_then [OF assms] sync_secrets_sound [OF assms] keeps establishes_later)

lemma sync_checkout_sound:
  assumes "condition_law (rc_Client r)"
  shows "establishes ready_sound (sync_checkout r steady res)"
  unfolding sync_checkout_def Let_def
  by (intro establishes_cases not_ready_then [OF assms] sync_apply_sound [OF assms] keeps establishes_later)

lemma after_claim_sound:
  assumes "condition_law (rc_Client r)"
  shows "establishes ready_sound (after_claim r cs steady)"
  unfolding after_claim_def timed_fetch_def Let_def
  by (intro establishes_cases not_ready_then [OF assms]
        establishes_now [OF sync_checkout_sound [OF assms]] keeps establishes_later)

lemma claim_lost_sound:
  assumes "condition_law (rc_Client r)"
  shows "establishes ready_sound (claim_lost r cs steady other)"
  unfolding claim_lost_def Let_def
  by (intro not_ready_then [OF assms] keeps establishes_later)

lemma sync_sound:
  assumes "condition_law (rc_Client r)"
  shows "establishes ready_sound (sync r)"
  unfolding sync_def Let_def
  by (intro establishes_cases claim_lost_sound [OF assms] after_claim_sound [OF assms] establishes_later)

end
