(* ===== verification/Ctl_Demo.thy ===== *)
theory Ctl_Demo
  imports Ctl_Ready Ctl_Setup Kube_Demo
begin

text \<open>
  The concrete reconciler on which the witnesses of the controller's properties run, and the rules
  by which the simplifier evaluates it: an action is unfolded only where it is run, on a state that
  is already a value, and no branch is entered before its condition is decided.
\<close>

section \<open>Witness data\<close>

text \<open>The in-memory cluster keeps the law of conditions.\<close>

lemma find_append: "List.find P (xs @ ys) = (case List.find P xs of None \<Rightarrow> List.find P ys | Some x \<Rightarrow> Some x)"
  by (induction xs) auto

lemma mem_condition_law: "condition_law mem_client"
  unfolding condition_law_def
proof (intro allI conjI impI)
  fix now t and c :: condition and cs
  have lib: "lib_SetStatusCondition mem_client = upsert_condition" by (simp add: mem_client_def)
  define f where "f = (\<lambda>l x. if c_Type x = c_Type c then c\<lparr>c_LastTransitionTime := l\<rparr> else x)"
  have "(\<lambda>x. c_Type x = s) \<circ> f l = (\<lambda>x. c_Type x = s)" for l s by (auto simp: f_def fun_eq_iff)
  then have m: "List.find (\<lambda>x. c_Type x = s) (map (f l) cs) = map_option (f l) (List.find (\<lambda>x. c_Type x = s) cs)" for l s
    by (simp add: find_map_type)
  define l where "l = (case List.find (\<lambda>x. c_Type x = c_Type c) cs of
      Some old \<Rightarrow> if c_Status old = c_Status c then c_LastTransitionTime old
                  else if c_LastTransitionTime c = 0 then now else c_LastTransitionTime c
    | None \<Rightarrow> if c_LastTransitionTime c = 0 then now else c_LastTransitionTime c)"
  have l: "upsert_condition now c cs =
      (if List.find (\<lambda>x. c_Type x = c_Type c) cs = None then cs @ [c\<lparr>c_LastTransitionTime := l\<rparr>] else map (f l) cs)"
    by (simp add: upsert_condition_def l_def f_def split: option.split)
  show "\<exists>l. List.find (\<lambda>x. c_Type x = c_Type c) (lib_SetStatusCondition mem_client now c cs) =
      Some (c\<lparr>c_LastTransitionTime := l\<rparr>)"
  proof (cases "List.find (\<lambda>x. c_Type x = c_Type c) cs")
    case None
    then show ?thesis unfolding lib l by (intro exI [of _ l]) (simp add: find_append)
  next
    case (Some old)
    then have "f l old = c\<lparr>c_LastTransitionTime := l\<rparr>" by (auto simp: f_def dest: find_SomeD)
    with Some show ?thesis unfolding lib l by (intro exI [of _ l]) (simp add: m)
  qed
  assume "t \<noteq> c_Type c"
  then show "List.find (\<lambda>x. c_Type x = t) (lib_SetStatusCondition mem_client now c cs) = List.find (\<lambda>x. c_Type x = t) cs"
  proof (cases "List.find (\<lambda>x. c_Type x = t) cs")
    case None
    with \<open>t \<noteq> c_Type c\<close> show ?thesis unfolding lib l by (simp add: find_append m)
  next
    case (Some x)
    then have "f l x = x" using \<open>t \<noteq> c_Type c\<close> by (auto simp: f_def dest: find_SomeD)
    with Some show ?thesis unfolding lib l by (simp add: find_append m)
  qed
qed

definition demo_checkout :: fetch_result where
  "demo_checkout = \<lparr>fr_Commit = ''0123456789abcdef'', fr_Dir = ''/tmp/w/conf'', fr_WorktreeDir = ''/tmp/w'',
     fr_Cleanup = RemoveDir ''/tmp/w''\<rparr>"

definition demo_empty_fs :: tree_fs where
  "demo_empty_fs = \<lparr>tf_EvalSymlinks = Inr, tf_Stat = (\<lambda>p. Inr (True, 0)), tf_ReadFile = (\<lambda>p. Inl not_found),
     tf_Open = (\<lambda>p. Inl not_found), tf_Walk = (\<lambda>p. [])\<rparr>"

definition demo_yl :: yaml_lib where
  "demo_yl = \<lparr>yl_TypeMetas = (\<lambda>d. []), yl_Objects = (\<lambda>d. []), yl_GVK = (\<lambda>u. configmap_gvk), yl_GroupVersion = g_Version\<rparr>"

text \<open>A reconciler over the in-memory cluster whose checkout is empty, with no resolver.\<close>

definition demo_reconciler :: "mem reconciler" where
  "demo_reconciler = \<lparr>rc_Client = mem_client, rc_HasRecorder = True, rc_Fetch = (\<lambda>ref cred k. (Inr demo_checkout, k)),
     rc_Cleanup = (\<lambda>c k. (None, k)),
     rc_Render = (\<lambda>d k. (Inr \<lparr>rr_Data = [(''a'', ''b'')], rr_BinaryData = [], rr_TotalBytes = 2\<rparr>, k)),
     rc_Tree = (\<lambda>k. demo_empty_fs), rc_Yaml = demo_yl,
     rc_Meta = demo_tree configmap_gvk [], rc_HasRedactor = True, rc_Config = None,
     rc_Resolvers = (\<lambda>b. None)\<rparr>"

lemma demo_reconciler_facts:
  "condition_law (rc_Client demo_reconciler)" "resolvers_read_only demo_reconciler"
  by (simp_all add: demo_reconciler_def mem_condition_law resolvers_read_only_def)

text \<open>A Deployment that runs the version of the checkout, and the world in which a sync finds it.\<close>

definition demo_deployment :: deployment where
  "demo_deployment = \<lparr>dp_Generation = 1, dp_Replicas = None, dp_StrategyType = [],
     dp_TemplateAnnotations = [AnnotationConfigSHA \<mapsto> ''git:0123456789ab''], dp_Conditions = [],
     dp_ObservedGeneration = 1, dp_UpdatedReplicas = 1, dp_StatusReplicas = 1, dp_AvailableReplicas = 1\<rparr>"

definition demo_start :: "mem world" where
  "demo_start = mem_world (demo_mem\<lparr>m_Deployments := [(''web'', demo_deployment)]\<rparr>)"

definition demo_end :: "(ctrl_result \<times> error option) \<times> mem world" where
  "demo_end = run_state (sync demo_reconciler) demo_start"

lemma demo_sync_run: "run_state (sync demo_reconciler) demo_start = (fst demo_end, snd demo_end)"
  by (simp add: demo_end_def)

text \<open>The same world with a secret reference whose backend is not configured.\<close>

definition demo_secret_ref :: secret_reference where
  "demo_secret_ref = \<lparr>sr_Name = ''db'', sr_Backend = BackendNativeSecret, sr_ExternalSecret = None, sr_NativeSecret = Some ''db'',
     sr_Surface = \<lparr>sf_As = SurfaceFile, sf_MountPath = ''/run/db'', sf_EnvVar = [], sf_Key = [],
       sf_RolloutOnRotate = None\<rparr>\<rparr>"

definition demo_gated :: "mem world" where
  "demo_gated = demo_start\<lparr>w_CS := demo_sync\<lparr>cs_Spec := demo_spec\<lparr>sp_SecretRefs := [demo_secret_ref]\<rparr>\<rparr>\<rparr>"

section \<open>Evaluation\<close>

lemma run_weak: "s = s' \<Longrightarrow> run_state m s = run_state m s'"
  by simp

lemma run_unfold: "m = m' \<Longrightarrow> run_state m s = run_state m' s"
  by simp

lemma run_branches:
  "run_state (if b then m else n) s = (if b then run_state m s else run_state n s)"
  "run_state (case o' of None \<Rightarrow> m | Some x \<Rightarrow> f x) s = (case o' of None \<Rightarrow> run_state m s | Some x \<Rightarrow> run_state (f x) s)"
  "run_state (case e of Inl a \<Rightarrow> g a | Inr b \<Rightarrow> h b) s = (case e of Inl a \<Rightarrow> run_state (g a) s | Inr b \<Rightarrow> run_state (h b) s)"
  "run_state (case p of (a, b) \<Rightarrow> q a b) s = (case p of (a, b) \<Rightarrow> run_state (q a b) s)"
  "run_state (Let x l) s = run_state (l x) s"
  by (auto split: option.split sum.split prod.split simp: Let_def)

lemmas run_defs = setCondition_def setReady_def set_status_def redactMsg_def record_event_def redactor_add_def
  loadCredential_def fail_manifests_def apply_objects.simps prune_manifests.simps applyManifests_def
  Apply_def apply_owned_def Prune_def PruneKind_def prune_items.simps resolveSecrets_def markSecretsEstablished_def
  resolve_refs.simps inspectWorkload_def rolloutProgress_def set_rolling_def report_progress_def wire_no_rollout_def
  wire_rollout_def wireAndStamp_def singletonConflict_def computeReady_def hold_rollout_def sync_secrets_def
  sync_apply_def sync_checkout_def timed_fetch_def after_claim_def claim_lost_def sync_def k_Patch_def

lemmas demo_eval = run_defs [THEN run_unfold]

lemma demo_load: "Load demo_empty_fs demo_yl d = Inr []"
  by code_simp

lemma demo_stage:
  "DeploymentProgress demo_deployment = rolledOut"
  "VersionWithSecrets ''0123456789abcdef'' [] = ''git:0123456789ab''"
  "dp_StrategyType demo_deployment = []"
  "stamp_of (dp_TemplateAnnotations demo_deployment) = ''git:0123456789ab''"
  "Evaluate [] 0 0 n = \<lparr>d_AllReady = True, d_SecretsReady = True, d_Reason = ReasonSynced,
        d_Message = ''no secret references'', d_ReadyReason = ReasonSynced,
        d_MaxDegradedExceeded = False, d_EnvTokens = []\<rparr>"
  by code_simp+

lemma demo_reconciler_sel:
  "rc_Client demo_reconciler = mem_client" "rc_HasRecorder demo_reconciler" "rc_HasRedactor demo_reconciler"
  "rc_Fetch demo_reconciler ref cred k = (Inr demo_checkout, k)" "rc_Cleanup demo_reconciler c k = (None, k)"
  "rc_Render demo_reconciler d k = (Inr \<lparr>rr_Data = [(''a'', ''b'')], rr_BinaryData = [], rr_TotalBytes = 2\<rparr>, k)"
  "rc_Tree demo_reconciler k = demo_empty_fs" "rc_Yaml demo_reconciler = demo_yl" "rc_Config demo_reconciler = None"
  by (simp_all add: demo_reconciler_def)

lemma mem_client_sel:
  "cl_Now mem_client k = (m_Now k, k)"
  "cl_ListConfigSyncs mem_client ns k = (Inr (filter (\<lambda>c. cs_Namespace c = ns) (m_Syncs k)), k)"
  "cl_GetDeployment mem_client ns n k = (lookup (map_of (m_Deployments k) n), k)"
  "cl_GetObject mem_client g ns n k = (lookup (List.find (mem_matches g ns n) (m_Objects k)), k)"
  "cl_ListObjects mem_client g ns sel k = (Inr (mem_list g ns sel k), k)"
  "cl_Patch mem_client = mem_patch"
  "lib_SetControllerReference mem_client cs ob = Inr (ob\<lparr>ko_Owners :=
        [\<lparr>or_UID = cs_UID cs, or_Name = cs_Name cs, or_Controller = True\<rparr>]\<rparr>)"
  "lib_SetStatusCondition mem_client = upsert_condition"
  "lib_ObjectKinds mem_client ob = Inr [\<lparr>g_Group = [], g_Version = ''v1'', g_Kind = ''ConfigMap''\<rparr>]"
  "lib_ExtractList mem_client = Inr"
  by (simp_all add: mem_client_def)

lemmas demo_data = demo_reconciler_sel mem_client_sel
     demo_start_def mem_world_def demo_mem_def demo_sync_def demo_spec_def demo_checkout_def lookup_def rival_def
     ConfigMapName_def buildConfigMap_def ensureGVK_def own_labels_def upsert_condition_def mem_list_def mem_patch_def mem_matches_def
     gvk_Empty_def owner_selector_def ConfigMapListGVK_def externalSecretPruneVersions_def es_list_gvk_def not_found_def isNotFound_def
     DeploymentSupported_def conditionTrue_def conditionReason_def findCondition_def workloadWired_def gate_conditions_def
     rolledOut_def storeAllowList_def

lemmas demo_congs = run_weak prod.case_cong_weak option.case_cong_weak sum.case_cong_weak list.case_cong_weak if_weak_cong

lemma demo_sync_ready: "conditionTrue (w_CS (snd demo_end)) ConditionReady"
  by (simp add: demo_end_def demo_eval run_branches run_simps demo_data demo_load demo_stage cong: demo_congs)

lemma demo_gated_waits: "\<not> d_AllReady (fst (run_state (resolveSecrets demo_reconciler 100) demo_gated))"
  by code_simp

end
