(* ===== verification/Ctl_Finalize.thy ===== *)
theory Ctl_Finalize
  imports Ctl_Calls
begin

text \<open>
  The finalizer as a clean-up followed by the drop of the finalizer, and what the clean-up may write.
\<close>

definition cleanup :: "'k reconciler \<Rightarrow> config_sync \<Rightarrow> ('k, error option) act" where
  "cleanup r cs = do {
     conflict \<leftarrow> singletonConflict r;
     u \<leftarrow> (case conflict of None \<Rightarrow> unwire_workload r cs | Some other \<Rightarrow> State_Monad.return None);
     case u of Some e \<Rightarrow> State_Monad.return (Some e) | None \<Rightarrow> prune_all r cs
   }"

text \<open>The ConfigSync in memory is left alone by the clean-up.\<close>

abbreviation holds_sync :: "config_sync \<Rightarrow> ('k, 'a) act \<Rightarrow> bool" where
  "holds_sync cs m \<equiv> keeps_pred (\<lambda>w. w_CS w = cs) m"

lemma holds_sync_acts [keeps]:
  "holds_sync cs (reads f)" "holds_sync cs (writes c g)" "holds_sync cs (metric h)" "holds_sync cs the_cs"
  "holds_sync cs (redacted m)" "holds_sync cs (emit t rs m)" "holds_sync cs (k_Patch cl p)"
  "holds_sync cs (k_Delete cl ob)"
  by (rule keeps_predI; simp add: run_simps)+

lemma holds_sync_prunes:
  "holds_sync c (Prune cl owner g kp)" "holds_sync c (prune_manifests r cs kp vs)"
proof -
  have items: "holds_sync c (prune_items cl kp obs)" for cl kp obs
    by (induction obs) (auto intro!: keeps)
  show p: "holds_sync c (Prune cl owner g kp)" for cl owner g kp
    unfolding Prune_def by (intro keeps items)
  have "holds_sync c (PruneKind cl owner g kp)" for cl owner g kp
    unfolding PruneKind_def by (intro keeps p)
  then show "holds_sync c (prune_manifests r cs kp vs)"
    by (induction vs) (auto intro!: keeps)
qed

lemma holds_sync_cleanup:
  "holds_sync c (unwire_workload r cs)" "holds_sync c (prune_all r cs)" "holds_sync c (singletonConflict r)"
proof -
  have ev: "holds_sync c (record_event r t reason msg)" for t reason msg
    unfolding record_event_def redactMsg_def by (intro keeps)
  have wire: "holds_sync c (Unwire cl kind ns name)" "holds_sync c (ClearStamp cl kind ns name)" for cl kind ns name
    unfolding Unwire_def ClearStamp_def ResolveContainer_def wire_apply_def by (intro keeps)+
  show "holds_sync c (unwire_workload r cs)"
    unfolding unwire_workload_def Let_def by (intro keeps ev wire)
  show "holds_sync c (prune_all r cs)"
    unfolding prune_all_def by (intro keeps ev holds_sync_prunes)
  show "holds_sync c (singletonConflict r)"
    unfolding singletonConflict_def by (intro keeps)
qed

text \<open>The requests that retract what the workload carries of Kohen.\<close>

definition retracts :: "call \<Rightarrow> bool" where
  "retracts c \<longleftrightarrow> wire_call_stamping None c \<or> stamp_call c"

lemma issues_unwire: "issues retracts (unwire_workload r cs)"
proof -
  have "issues retracts (Unwire cl kind ns name)" "issues retracts (ClearStamp cl kind ns name)" for cl kind ns name
    by (rule issues_weaken [OF issues_Unwire], simp add: retracts_def)
       (rule issues_weaken [OF issues_stamps(2)], simp add: retracts_def)
  then show ?thesis unfolding unwire_workload_def Let_def by (intro issue_rules)
qed

lemma issues_prunes: "issues is_delete (prune_all r cs)"
proof -
  have p: "issues is_delete (Prune cl owner g kp)" for cl and owner g kp
    by (rule issues_weaken [OF issues_Prune]) simp
  have "issues is_delete (PruneKind cl owner g kp)" for cl owner g kp
    unfolding PruneKind_def by (intro issue_rules p)
  then have "issues is_delete (prune_manifests r cs kp vs)" for kp vs
    by (induction vs) (auto intro!: issue_rules)
  then show ?thesis unfolding prune_all_def by (intro issue_rules p)
qed

text \<open>A rival keeps the workload: then nothing of it is retracted.\<close>

lemma cleanup_calls:
  assumes "run_state (singletonConflict r) w = (conflict, w1)"
  shows "\<exists>calls. w_Calls (snd (run_state (cleanup r cs) w)) = w_Calls w @ calls \<and>
     list_all (\<lambda>c. is_delete c \<or> (conflict = None \<and> retracts c)) calls"
proof -
  let ?A = "\<lambda>c. is_delete c \<or> (conflict = None \<and> retracts c)"
  have "issues ?A (unwire_workload r cs)" if "conflict = None"
    by (rule issues_weaken [OF issues_unwire]) (simp add: that)
  moreover have "issues ?A (prune_all r cs)"
    by (rule issues_weaken [OF issues_prunes]) simp
  ultimately have "issues ?A (do {
     u \<leftarrow> (case conflict of None \<Rightarrow> unwire_workload r cs | Some other \<Rightarrow> State_Monad.return None);
     case u of Some e \<Rightarrow> State_Monad.return (Some e) | None \<Rightarrow> prune_all r cs })"
    by (intro issue_rules)
  from issuesE [OF this, of w1] obtain calls where
    "w_Calls (snd (run_state (do {
       u \<leftarrow> (case conflict of None \<Rightarrow> unwire_workload r cs | Some other \<Rightarrow> State_Monad.return None);
       case u of Some e \<Rightarrow> State_Monad.return (Some e) | None \<Rightarrow> prune_all r cs }) w1)) = w_Calls w1 @ calls"
    "list_all ?A calls" .
  moreover have "w_Calls w1 = w_Calls w"
    using assms by (auto simp: run_singletonConflict)
  ultimately show ?thesis
    unfolding cleanup_def using assms by (intro exI [of _ calls]) simp
qed

text \<open>A listing that fails counts as no rival: the clean-up then retracts the workload's fields.\<close>

lemma list_error_no_conflict:
  "fst (cl_ListConfigSyncs (rc_Client r) (cs_Namespace (w_CS w)) (w_Cluster w)) = Inl e \<Longrightarrow>
   fst (run_state (singletonConflict r) w) = None"
  by (simp add: run_singletonConflict)

lemma finalize_cleanup:
  "run_state (finalize r) w =
     (if \<not> lib_ContainsFinalizer (rc_Client r) (w_CS w) FinalizerName then ((no_requeue, None), w)
      else case run_state (cleanup r (w_CS w)) w of
        (Some e, w1) \<Rightarrow> ((no_requeue, Some e), w1)
      | (None, w1) \<Rightarrow> run_state (do {
             _ \<leftarrow> metric (ClearConfigSync (cs_Namespace (w_CS w)) (cs_Name (w_CS w)));
             _ \<leftarrow> modify_cs (\<lambda>c. lib_RemoveFinalizer (rc_Client r) c FinalizerName);
             cs' \<leftarrow> the_cs;
             x \<leftarrow> k_Update (rc_Client r) cs';
             State_Monad.return (no_requeue, x) }) w1)"
  by (auto simp: finalize_def cleanup_def run_acts split: prod.splits option.splits)

lemma finalize_calls:
  assumes "lib_ContainsFinalizer (rc_Client r) (w_CS w) FinalizerName"
    and "run_state (singletonConflict r) w = (conflict, w1)"
    and "run_state (finalize r) w = ((res, err), w')"
  shows "\<exists>steps. w_Calls w' = w_Calls w @ steps @
       (case fst (run_state (cleanup r (w_CS w)) w) of
          None \<Rightarrow> [CUpdate (lib_RemoveFinalizer (rc_Client r) (w_CS w) FinalizerName)] | Some e \<Rightarrow> []) \<and>
     list_all (\<lambda>c. is_delete c \<or> (conflict = None \<and> retracts c)) steps"
    "fst (run_state (cleanup r (w_CS w)) w) = Some e \<Longrightarrow> err = Some e"
proof -
  obtain x w2 where c: "run_state (cleanup r (w_CS w)) w = (x, w2)" by (cases "run_state (cleanup r (w_CS w)) w")
  have "holds_sync (w_CS w) (cleanup r (w_CS w))"
    unfolding cleanup_def by (intro keeps holds_sync_cleanup)
  from keeps_predD [OF this refl] c have w2: "w_CS w2 = w_CS w" by simp
  obtain steps where s: "w_Calls w2 = w_Calls w @ steps"
    "list_all (\<lambda>c. is_delete c \<or> (conflict = None \<and> retracts c)) steps"
    using cleanup_calls [OF assms(2), of "w_CS w"] c by auto
  show "\<exists>steps. w_Calls w' = w_Calls w @ steps @
       (case fst (run_state (cleanup r (w_CS w)) w) of
          None \<Rightarrow> [CUpdate (lib_RemoveFinalizer (rc_Client r) (w_CS w) FinalizerName)] | Some e \<Rightarrow> []) \<and>
     list_all (\<lambda>c. is_delete c \<or> (conflict = None \<and> retracts c)) steps"
    using assms(1,3) c w2 s
    by (intro exI [of _ steps]) (auto simp: finalize_cleanup run_simps split: option.splits)
  show "fst (run_state (cleanup r (w_CS w)) w) = Some e \<Longrightarrow> err = Some e"
    using assms(1,3) c by (simp add: finalize_cleanup)
qed

end
