(* ===== verification/Ctl_Outcome.thy ===== *)
theory Ctl_Outcome
  imports Controller
begin

text \<open>
  What the handlers return. \<open>returns P m\<close>: whatever the state, the result of \<open>m\<close> satisfies \<open>P\<close>. With
  it, no path of a sync drops the ConfigSync out of the work queue.
\<close>

definition returns :: "('a \<Rightarrow> bool) \<Rightarrow> ('s, 'a) state \<Rightarrow> bool" where
  "returns P m \<longleftrightarrow> (\<forall>s. P (fst (run_state m s)))"

named_theorems return_rules \<open>introduction rules for the result of an action\<close>

lemma returns_return [return_rules]: "P x \<Longrightarrow> returns P (State_Monad.return x)"
  by (simp add: returns_def)

lemma returns_bind [return_rules]:
  assumes "\<And>x. returns P (f x)"
  shows "returns P (State_Monad.bind m f)"
  using assms by (simp add: returns_def split_beta)

lemma returns_bind_of:
  assumes "returns Q m" "\<And>x. Q x \<Longrightarrow> returns P (f x)"
  shows "returns P (State_Monad.bind m f)"
  using assms by (simp add: returns_def split_beta)

lemma returns_cases [return_rules]:
  "(b \<Longrightarrow> returns P m) \<Longrightarrow> (\<not> b \<Longrightarrow> returns P n) \<Longrightarrow> returns P (if b then m else n)"
  "(x = None \<Longrightarrow> returns P m) \<Longrightarrow> (\<And>y. x = Some y \<Longrightarrow> returns P (f y)) \<Longrightarrow>
   returns P (case x of None \<Rightarrow> m | Some y \<Rightarrow> f y)"
  "(\<And>e. z = Inl e \<Longrightarrow> returns P (g e)) \<Longrightarrow> (\<And>y. z = Inr y \<Longrightarrow> returns P (h y)) \<Longrightarrow>
   returns P (case z of Inl e \<Rightarrow> g e | Inr y \<Rightarrow> h y)"
  "(\<And>a b. p = (a, b) \<Longrightarrow> returns P (q a b)) \<Longrightarrow> returns P (case p of (a, b) \<Rightarrow> q a b)"
  "returns P (l v) \<Longrightarrow> returns P (let y = v in l y)"
  by (auto split: option.split sum.split prod.split)

section \<open>The manifest engine\<close>

text \<open>A failure that is not terminal carries the error that the queue backs off on.\<close>

definition outcome_ok :: "manifestOutcome \<Rightarrow> bool" where
  "outcome_ok out \<longleftrightarrow> mo_ok out \<or> mo_terminal out \<or> mo_err out \<noteq> None"

lemma returns_fail_manifests [return_rules]: "P out \<Longrightarrow> returns P (fail_manifests r reason msg out)"
  unfolding fail_manifests_def by (intro return_rules)

lemma returns_apply_objects:
  "returns (\<lambda>x. case x of Inl out \<Rightarrow> outcome_ok out | Inr names \<Rightarrow> True) (apply_objects r cs obs)"
proof (induction obs)
  case (Cons ob obs)
  let ?P = "\<lambda>x :: manifestOutcome + string list. case x of Inl out \<Rightarrow> outcome_ok out | Inr names \<Rightarrow> True"
  have fail: "returns ?P (do {
         out \<leftarrow> fail_manifests r ReasonManifestApplyFailed (err_text e)
           \<lparr>mo_ok = False, mo_terminal = (apply_ReasonOf e = Some ApplyAlreadyExistsNotOwned), mo_err = Some e\<rparr>;
         State_Monad.return (Inl out) })" for e
    by (rule returns_bind_of [where Q = outcome_ok], rule returns_fail_manifests)
       (simp_all add: outcome_ok_def returns_return)
  have rest: "returns ?P (do {
            rest \<leftarrow> apply_objects r cs obs;
            State_Monad.return (case rest of Inl out \<Rightarrow> Inl out | Inr names \<Rightarrow> Inr (n # names)) })" for n
    by (rule returns_bind_of [OF Cons.IH], rule returns_return) (simp split: sum.splits)
  show ?case unfolding apply_objects.simps by (intro return_rules fail rest)
qed (simp add: return_rules)

lemma returns_applyManifests: "returns outcome_ok (applyManifests r dir)"
  unfolding applyManifests_def
  by (intro return_rules returns_bind_of [OF returns_apply_objects]) (simp_all add: outcome_ok_def)

section \<open>The pipeline\<close>

text \<open>The queue sees the ConfigSync again: an error, an immediate requeue or a timed one.\<close>

definition comes_back :: "ctrl_result \<times> error option \<Rightarrow> bool" where
  "comes_back out \<longleftrightarrow> snd out \<noteq> None \<or> cr_Requeue (fst out) \<or> 0 < cr_RequeueAfter (fst out)"

lemma comes_back_simps [simp]:
  "comes_back (res, Some e)" "comes_back (requeue_now, err)" "0 < d \<Longrightarrow> comes_back (requeue_after d, err)"
  "comes_back (requeue_after progressingRequeue, err)"
  by (simp_all add: comes_back_def requeue_now_def requeue_after_def progressingRequeue_def second_def)

lemma returns_sync_apply:
  assumes "comes_back (steady, None)"
  shows "returns comes_back (sync_apply r steady res rendered)"
proof -
  have secrets: "returns comes_back (sync_secrets r steady res cmName)" for cmName
    unfolding sync_secrets_def hold_rollout_def Let_def by (intro return_rules) (simp_all add: assms)
  show ?thesis
    unfolding sync_apply_def Let_def
    by (intro return_rules returns_bind_of [OF returns_applyManifests] secrets)
       (auto simp: assms outcome_ok_def)
qed

lemma returns_sync: "returns comes_back (sync r)"
proof -
  have checkout: "returns comes_back (sync_checkout r steady res)" if "comes_back (steady, None)" for steady res
    unfolding sync_checkout_def Let_def
    by (intro return_rules returns_sync_apply that)
  have claim: "returns comes_back (after_claim r cs steady)" if "comes_back (steady, None)" for cs steady
  proof -
    have body: "returns comes_back (do {
             out \<leftarrow> sync_checkout r steady res;
             _ \<leftarrow> writes (CCleanup (fr_WorktreeDir res)) (rc_Cleanup r (fr_Cleanup res));
             State_Monad.return out })" for res
      by (rule returns_bind_of [OF checkout [OF that]], intro return_rules)
    show ?thesis unfolding after_claim_def Let_def by (intro return_rules body) simp_all
  qed
  have steady: "comes_back (requeue_after (SyncInterval s), None)" for s by (simp add: SyncInterval_pos)
  show ?thesis
    unfolding sync_def claim_lost_def Let_def by (intro return_rules claim steady)
qed

text \<open>A live ConfigSync that is read comes back from every reconcile.\<close>

lemma reconcile_object_comes_back:
  "case fst (cl_GetConfigSync (rc_Client r) ns name (w_Cluster w)) of
     Inl e \<Rightarrow> fst (run_state (reconcile_object r ns name) w) = (no_requeue, if isNotFound e then None else Some e)
   | Inr cs \<Rightarrow> if not_deleting cs then comes_back (fst (run_state (reconcile_object r ns name) w)) else True"
proof (cases "fst (cl_GetConfigSync (rc_Client r) ns name (w_Cluster w))")
  case (Inl e)
  then show ?thesis by (simp add: reconcile_object_def run_reads)
next
  case (Inr cs)
  show ?thesis
  proof (cases "not_deleting cs")
    case live: True
    have "returns comes_back (if \<not> lib_ContainsFinalizer (rc_Client r) cs FinalizerName then do {
           _ \<leftarrow> modify_cs (\<lambda>c. lib_AddFinalizer (rc_Client r) c FinalizerName);
           cs' \<leftarrow> the_cs;
           u \<leftarrow> k_Update (rc_Client r) cs';
           State_Monad.return (case u of Some e \<Rightarrow> (no_requeue, Some e) | None \<Rightarrow> (requeue_now, None))
         }
         else if cs_Annotations cs AnnotationSyncNow \<noteq> None then do {
           _ \<leftarrow> modify_cs (\<lambda>c. c\<lparr>cs_Annotations := (cs_Annotations c)(AnnotationSyncNow := None)\<rparr>);
           cs' \<leftarrow> the_cs;
           u \<leftarrow> k_Update (rc_Client r) cs';
           case u of
             Some e \<Rightarrow> State_Monad.return (no_requeue, Some e)
           | None \<Rightarrow> do {
               _ \<leftarrow> record_event r Normal ''SyncNow'' ''processed force-sync annotation'';
               State_Monad.return (requeue_now, None)
             }
         }
         else do {
           out \<leftarrow> sync r;
           _ \<leftarrow> recordReconcileResult;
           cs' \<leftarrow> the_cs;
           u \<leftarrow> k_StatusUpdate (rc_Client r) cs';
           State_Monad.return
             (case u of
                Some e \<Rightarrow> if isConflict e then (requeue_now, None) else (no_requeue, Some e)
              | None \<Rightarrow> out)
         })"
      by (intro return_rules returns_bind_of [OF returns_sync]) (simp_all split: option.split)
    with Inr live show ?thesis
      unfolding returns_def reconcile_object_def by (simp add: run_reads run_acts split_beta)
  qed (use Inr in simp)
qed

lemma Reconcile_comes_back:
  "case fst (cl_GetConfigSync (rc_Client r) ns name (snd (cl_Now (rc_Client r) (w_Cluster w)))) of
     Inl e \<Rightarrow> fst (run_state (Reconcile r ns name) w) = (no_requeue, if isNotFound e then None else Some e)
   | Inr cs \<Rightarrow> if not_deleting cs then comes_back (fst (run_state (Reconcile r ns name) w)) else True"
  using reconcile_object_comes_back [of r ns name "w\<lparr>w_Cluster := snd (cl_Now (rc_Client r) (w_Cluster w))\<rparr>"]
  by (auto simp: run_Reconcile split_beta split: sum.splits)

end
