(* ===== verification/Ctl_Invariant.thy ===== *)
theory Ctl_Invariant
  imports Ctl_Outcome Ctl_Ready Ctl_Setup
begin

text \<open>
  One walk through the reconciler for every invariant of its state. The vocabulary of what it reports
  is fixed first: the reasons that a condition of each type may have, and the series of the labelled
  counters. The locale \<open>handler_invariant\<close> is then the contract of an invariant: each primitive step
  keeps it, conditions being set and counters counted within the vocabulary. It follows that \<open>Reconcile\<close>
  keeps it. The instances are that no event carries a secret, that the metrics stay within their series
  and that the status is well typed.
\<close>

section \<open>The vocabulary of the reports\<close>

text \<open>The reasons of each type of condition.\<close>

definition allowed_reasons :: "string \<Rightarrow> string list" where
  "allowed_reasons t =
     (if t = ConditionReady then [ReasonSynced, ReasonProgressing, ReasonDegraded]
      else if t = ConditionFetched then
        [ReasonSynced, ReasonFetchFailed, ReasonAuthFailed, ''SourceNotAllowed'', ''PathNotFound'']
      else if t = ConditionRendered then
        [ReasonSynced, ''Oversize'', ''TreeSafetyViolation'', ''InvalidKey'', ''KeyConflict'', ReasonDegraded]
      else if t = ConditionManifestsApplied then
        [ReasonSynced, ReasonManifestKindNotAllowed, ReasonManifestNamespaceViolation, ReasonStoreNotAllowed,
         ReasonManifestInvalid, ReasonManifestApplyFailed]
      else if t = ConditionSecretsReady then
        [ReasonSynced, ReasonAwaitingFirstResolution, ReasonDegradedServingLastGood, ReasonMaxDegradedExceeded]
      else if t = ConditionWorkloadWired then
        [ReasonSynced, ReasonWorkloadNotFound, ReasonUnsupportedStrategy, ReasonApplyConflict,
         ReasonSingletonViolation, ReasonDegraded, ''ContainerNotFound'', ''WireFailed'']
      else if t = ConditionRolloutComplete then
        [ReasonSynced, ReasonRollingOut, ReasonProgressDeadlineExceeded, ReasonDegraded]
      else [])"

text \<open>A condition is true exactly when its reason is Synced, and never unknown.\<close>

definition cond_ok :: "string \<Rightarrow> condition_status \<Rightarrow> string \<Rightarrow> bool" where
  "cond_ok t st reason \<longleftrightarrow>
     reason \<in> set (allowed_reasons t) \<and> st = (if reason = ReasonSynced then CondTrue else CondFalse)"

text \<open>Every series that a counter may have.\<close>

definition counter_series :: "counter list" where
  "counter_series =
     map ReconcileTotal [''synced'', ''progressing'', ''degraded''] @
     map FetchErrors [ReasonFetchFailed, ReasonAuthFailed, ''SourceNotAllowed'', ''PathNotFound''] @
     map RenderErrors [''Oversize'', ''TreeSafetyViolation'', ''InvalidKey'', ''KeyConflict'', ReasonDegraded] @
     map SecretResolveErrors
       [ReasonSecretNotFound, ReasonKeyMissing, ReasonBackendNotReady, ReasonInvalidSurface, ''Other''] @
     map SecretResolveTotal [''success'', ''error'', ''pending''] @
     map WireErrors [ReasonWorkloadNotFound, ReasonUnsupportedStrategy, ReasonApplyConflict,
       ReasonSingletonViolation, ReasonDegraded, ''Other''] @
     map ApplyTotal [''success'', ''error''] @ map PruneTotal [''success'', ''error''] @
     [RolloutsTriggered, RolloutsSkipped, MaxDegradedExceededTotal, ProgressDeadlineExceededTotal]"

text \<open>The steps that change the metrics.\<close>

inductive metric_step_ok :: "(metrics \<Rightarrow> metrics) \<Rightarrow> bool" where
  count: "c \<in> set counter_series \<Longrightarrow> metric_step_ok (Inc c)"
| observe: "metric_step_ok (Observe h d)"
| degraded: "metric_step_ok (SetDegraded ns name v)"
| version: "metric_step_ok (SetConfigVersion ns name version)"
| clear: "metric_step_ok (ClearConfigSync ns name)"
| compose: "metric_step_ok f \<Longrightarrow> metric_step_ok g \<Longrightarrow> metric_step_ok (\<lambda>m. f (g m))"

lemma reason_ranges:
  "gitConditionReason e \<in> set [ReasonFetchFailed, ReasonAuthFailed, ''SourceNotAllowed'', ''PathNotFound'']"
  "renderConditionReason e \<in>
     set [''Oversize'', ''TreeSafetyViolation'', ''InvalidKey'', ''KeyConflict'', ReasonDegraded]"
  "wireConditionReason e \<in>
     set [ReasonWorkloadNotFound, ''ContainerNotFound'', ReasonApplyConflict, ''WireFailed'', ReasonDegraded]"
proof -
  have "git_reason_text g \<in> set [ReasonFetchFailed, ReasonAuthFailed, ''SourceNotAllowed'', ''PathNotFound'']" for g
    by (cases g) simp_all
  then show "gitConditionReason e \<in> set [ReasonFetchFailed, ReasonAuthFailed, ''SourceNotAllowed'', ''PathNotFound'']"
    by (fastforce simp: gitConditionReason_def split: option.split)
  have "render_reason_text g \<in> set [''Oversize'', ''TreeSafetyViolation'', ''InvalidKey'', ''KeyConflict'']" for g
    by (cases g) simp_all
  then show "renderConditionReason e \<in>
      set [''Oversize'', ''TreeSafetyViolation'', ''InvalidKey'', ''KeyConflict'', ReasonDegraded]"
    by (fastforce simp: renderConditionReason_def split: option.split)
  have "wire_reason_text g \<in> set [ReasonWorkloadNotFound, ''ContainerNotFound'', ReasonApplyConflict, ''WireFailed'']" for g
    by (cases g) simp_all
  then show "wireConditionReason e \<in>
      set [ReasonWorkloadNotFound, ''ContainerNotFound'', ReasonApplyConflict, ''WireFailed'', ReasonDegraded]"
    by (fastforce simp: wireConditionReason_def split: option.split)
qed

lemma counters_counted:
  "FetchErrors (gitConditionReason e) \<in> set counter_series" "RenderErrors (renderConditionReason e) \<in> set counter_series"
  "WireErrors (knownWireReason s) \<in> set counter_series" "SecretResolveErrors (knownResolveReason s) \<in> set counter_series"
  using reason_ranges [of e] by (auto simp: counter_series_def knownWireReason_def knownResolveReason_def)

lemma count_resolution_ok: "metric_step_ok (count_resolution res)"
proof (cases "rs_Ready res")
  case True
  then have "count_resolution res = Inc (SecretResolveTotal ''success'')" by (simp add: fun_eq_iff count_resolution_def)
  then show ?thesis by (simp add: metric_step_ok.count counter_series_def)
next
  case False
  define c where "c = SecretResolveTotal
     (if rs_Reason res = ReasonAwaitingFirstResolution \<or> rs_Reason res = ReasonBackendNotReady then ''pending'' else ''error'')"
  have "count_resolution res = (\<lambda>m. Inc c (Inc (SecretResolveErrors (knownResolveReason (rs_Reason res))) m))"
    using False by (simp add: fun_eq_iff count_resolution_def c_def)
  moreover have "c \<in> set counter_series" by (simp add: c_def counter_series_def)
  ultimately show ?thesis by (simp add: metric_step_ok.intros counters_counted)
qed

text \<open>The reasons that are computed.\<close>

lemma cond_ok_reasons:
  "cond_ok ConditionFetched CondFalse (gitConditionReason e)"
  "cond_ok ConditionRendered CondFalse (renderConditionReason e)"
  "cond_ok ConditionWorkloadWired CondFalse (wireConditionReason e)"
  "cond_ok ConditionManifestsApplied CondFalse (guardConditionReason e)"
  using reason_ranges [of e]
  by (auto simp: cond_ok_def allowed_reasons_def guardConditionReason_def split: option.split guard_reason.split)

lemma inspect_reasons:
  "returns (\<lambda>x. case x of Inl (reason, msg) \<Rightarrow> cond_ok ConditionWorkloadWired CondFalse reason | Inr s \<Rightarrow> True)
     (inspectWorkload cl kind ns name b)"
  unfolding inspectWorkload_def
  by (intro return_rules) (auto simp: cond_ok_def allowed_reasons_def split: sum.split)

definition progress_ok :: "progress \<Rightarrow> bool" where
  "progress_ok p \<longleftrightarrow> cond_ok ConditionRolloutComplete (if pr_Complete p then CondTrue else CondFalse) (pr_Reason p)"

lemma progress_reasons: "returns progress_ok (rolloutProgress cl kind ns name)"
proof -
  have "progress_ok (rollingOut m)" "progress_ok rolledOut" for m
    by (simp_all add: progress_ok_def cond_ok_def allowed_reasons_def rollingOut_def rolledOut_def)
  moreover from this have "progress_ok (DeploymentProgress d)" "progress_ok (StatefulSetProgress s)" for d s
    by (simp_all add: DeploymentProgress_def StatefulSetProgress_def Let_def split: option.split)
       (simp add: progress_ok_def cond_ok_def allowed_reasons_def)
  ultimately show ?thesis
    unfolding rolloutProgress_def by (intro return_rules) (simp_all split: sum.split)
qed

definition decision_ok :: "decision \<Rightarrow> bool" where
  "decision_ok d \<longleftrightarrow> cond_ok ConditionSecretsReady (if d_SecretsReady d then CondTrue else CondFalse) (d_Reason d) \<and>
     (d_AllReady d \<longleftrightarrow> d_SecretsReady d) \<and> (\<not> d_AllReady d \<longrightarrow> cond_ok ConditionReady CondFalse (d_ReadyReason d))"

lemma Evaluate_decision: "decision_ok (Evaluate refs since bound now)"
  by (simp add: Evaluate_def decision_ok_def cond_ok_def allowed_reasons_def Let_def)

lemma resolveSecrets_decision: "returns decision_ok (resolveSecrets r now)"
  unfolding resolveSecrets_def Let_def by (intro return_rules) (simp_all add: Evaluate_decision)

lemma keeps_bind_of:
  assumes "keeps_pred P m" "returns Q m" "\<And>x. Q x \<Longrightarrow> keeps_pred P (f x)"
  shows "keeps_pred P (State_Monad.bind m f)"
  using assms by (simp add: keeps_pred_def returns_def split_beta)

section \<open>The contract of an invariant\<close>

locale handler_invariant =
  fixes P :: "'k world \<Rightarrow> bool" and r :: "'k reconciler"
  assumes inv_cluster: "P w \<Longrightarrow> P (w\<lparr>w_Cluster := k\<rparr>)"
    and inv_call: "\<forall>cs. c \<noteq> CStatusUpdate cs \<Longrightarrow> P w \<Longrightarrow> P (w\<lparr>w_Calls := w_Calls w @ [c]\<rparr>)"
    and inv_report: "P w \<Longrightarrow> P (w\<lparr>w_Calls := w_Calls w @ [CStatusUpdate (w_CS w)]\<rparr>)"
    and inv_measure: "metric_step_ok m \<Longrightarrow> P w \<Longrightarrow> P (w\<lparr>w_Metrics := m (w_Metrics w)\<rparr>)"
    and inv_condition: "cond_ok t st reason \<Longrightarrow> keeps_pred P (setCondition r t st reason msg)"
    and inv_status: "(\<And>s. st_Conditions (f s) = st_Conditions s) \<Longrightarrow> keeps_pred P (set_status f)"
    and inv_event: "keeps_pred P (record_event r et reason msg)"
    and inv_register: "keeps_pred P (redactor_add r secrets)"
    and inv_resolver: "rc_Resolvers r b = Some resolve \<Longrightarrow> keeps_pred P (resolve ns ref)"
    and inv_loaded: "fst (cl_GetConfigSync (rc_Client r) ns name k) = Inr cs \<Longrightarrow> P w \<Longrightarrow> P (w\<lparr>w_CS := cs\<rparr>)"
    and inv_finalizers: "P w \<Longrightarrow> P (w\<lparr>w_CS := lib_AddFinalizer (rc_Client r) (w_CS w) fin\<rparr>)"
      "P w \<Longrightarrow> P (w\<lparr>w_CS := lib_RemoveFinalizer (rc_Client r) (w_CS w) fin\<rparr>)"
    and inv_annotations: "P w \<Longrightarrow> P (w\<lparr>w_CS := (w_CS w)\<lparr>cs_Annotations := (cs_Annotations (w_CS w))(a := None)\<rparr>\<rparr>)"
begin

lemma inv_reads: "keeps_pred P (reads g)"
  by (rule keeps_predI) (simp add: run_reads inv_cluster)

lemma inv_writes:
  assumes "\<forall>cs. c \<noteq> CStatusUpdate cs"
  shows "keeps_pred P (writes c g)"
proof (rule keeps_predI)
  fix w
  assume "P w"
  from inv_call [OF assms inv_cluster [OF this, of "snd (g (w_Cluster w))"]]
  show "P (snd (run_state (writes c g) w))" by (simp add: run_writes)
qed

lemma inv_metric: "metric_step_ok m \<Longrightarrow> keeps_pred P (metric m)"
  by (rule keeps_predI) (simp add: run_acts inv_measure)

lemma inv_the_cs: "keeps_pred P the_cs"
  by (rule keeps_predI) (simp add: run_acts)

lemma inv_redact: "keeps_pred P (redactMsg r msg)"
  by (rule keeps_predI) (simp add: redactMsg_def run_acts)

lemma inv_k:
  "keeps_pred P (k_Patch cl p)" "keeps_pred P (k_Delete cl ob)" "keeps_pred P (k_Update cl cs)"
  by (simp_all add: k_Patch_def k_Delete_def k_Update_def inv_writes)

lemma inv_ready: "cond_ok ConditionReady st reason \<Longrightarrow> keeps_pred P (setReady r st reason msg)"
  by (simp add: setReady_def inv_condition)

lemma inv_inc: "c \<in> set counter_series \<Longrightarrow> keeps_pred P (metric (Inc c))"
  by (rule inv_metric, rule metric_step_ok.count)

lemmas inv_leaves = inv_reads inv_the_cs inv_k inv_event inv_redact inv_register inv_inc

lemma inv_rolling: "keeps_pred P (set_rolling b)"
  unfolding set_rolling_def by (rule inv_status) simp

lemma inv_established: "keeps_pred P markSecretsEstablished"
  unfolding markSecretsEstablished_def by (rule inv_status) simp

text \<open>The engines that write objects.\<close>

lemma inv_prunes: "keeps_pred P (Prune cl owner g kp)" "keeps_pred P (PruneKind cl owner g kp)"
  "keeps_pred P (prune_manifests r cs kp vs)"
proof -
  have items: "keeps_pred P (prune_items cl kp obs)" for cl kp obs
    by (induction obs) (auto intro!: keeps inv_leaves)
  show prune: "keeps_pred P (Prune cl owner g kp)" for cl owner g kp
    unfolding Prune_def by (intro keeps inv_leaves items)
  show kind: "keeps_pred P (PruneKind cl owner g kp)" for cl owner g kp
    unfolding PruneKind_def by (intro keeps inv_leaves prune)
  show "keeps_pred P (prune_manifests r cs kp vs)"
    by (induction vs) (auto intro!: keeps kind)
qed

lemma inv_engine:
  "keeps_pred P (Apply cl owner ob)" "keeps_pred P (Wire cl s)" "keeps_pred P (Unwire cl kind ns name)"
  "keeps_pred P (ClearStamp cl kind ns name)" "keeps_pred P (StampNoRestart cl kind ns name v)"
  "keeps_pred P (ObjectStamp cl kind ns name)" "keeps_pred P (singletonConflict r)"
  "keeps_pred P (inspectWorkload cl kind ns name b)" "keeps_pred P (rolloutProgress cl kind ns name)"
  unfolding Apply_def apply_owned_def Wire_def Unwire_def ResolveContainer_def wire_apply_def ClearStamp_def
    StampNoRestart_def ObjectStamp_def singletonConflict_def inspectWorkload_def rolloutProgress_def
  by (intro keeps inv_leaves)+

text \<open>The stages of the pipeline, from the last to the first.\<close>

lemma inv_failures:
  "cond_ok ConditionWorkloadWired CondFalse reason \<Longrightarrow> keeps_pred P (wire_failed r reason msg)"
  "keeps_pred P (rollout_failed r e)"
  "cond_ok ConditionManifestsApplied CondFalse reason \<Longrightarrow> keeps_pred P (fail_manifests r reason msg out)"
  unfolding wire_failed_def rollout_failed_def fail_manifests_def
  by (intro keeps inv_leaves inv_rolling inv_condition counters_counted; simp add: cond_ok_def allowed_reasons_def)+

lemma inv_progress: "keeps_pred P (report_progress r kind ns name)"
  unfolding report_progress_def
  by (intro keeps keeps_bind_of [OF inv_engine(9) progress_reasons] inv_leaves inv_rolling inv_condition)
     (simp_all add: progress_ok_def counter_series_def)

lemma inv_wireAndStamp: "keeps_pred P (wireAndStamp r cmName version)"
proof -
  have none: "keeps_pred P (wire_no_rollout r cs cmName version)" for cs
    unfolding wire_no_rollout_def Let_def
    by (intro keeps inv_leaves inv_engine inv_rolling inv_status inv_condition inv_failures cond_ok_reasons)
       (simp_all add: cond_ok_def allowed_reasons_def counter_series_def)
  have auto: "keeps_pred P (wire_rollout r cs cmName version st)" for cs st
    unfolding wire_rollout_def Let_def
    by (intro keeps inv_leaves inv_engine inv_status inv_condition inv_failures inv_progress cond_ok_reasons)
       (simp_all add: cond_ok_def allowed_reasons_def counter_series_def)
  show ?thesis
    unfolding wireAndStamp_def
    by (intro keeps keeps_bind_of [OF inv_engine(8) inspect_reasons] inv_leaves none auto inv_failures) simp_all
qed

lemma inv_computeReady: "keeps_pred P (computeReady r)"
  unfolding computeReady_def
  by (intro keeps inv_leaves inv_ready) (simp_all add: cond_ok_def allowed_reasons_def)

lemma inv_resolveSecrets: "keeps_pred P (resolveSecrets r now)"
proof -
  have one: "keeps_pred P (resolveOne r ns ref)" for ns ref
    unfolding resolveOne_def by (intro keeps inv_leaves inv_resolver)
  have all: "keeps_pred P (resolve_refs r ns prior refs)" for ns prior refs
    by (induction refs) (auto intro!: keeps one inv_metric count_resolution_ok)
  have "cond_ok ConditionSecretsReady (if d_SecretsReady d then CondTrue else CondFalse) (d_Reason d)"
    if "d = Evaluate refs since bound now" for d refs since bound
    using Evaluate_decision that by (simp add: decision_ok_def)
  moreover have "cond_ok ConditionSecretsReady CondTrue (d_Reason (Evaluate [] 0 0 now))"
    by (simp add: Evaluate_def cond_ok_def allowed_reasons_def)
  ultimately show ?thesis
    unfolding resolveSecrets_def Let_def by (intro keeps inv_leaves inv_condition inv_status all) simp_all
qed

lemma inv_hold: "decision_ok d \<Longrightarrow> \<not> d_AllReady d \<Longrightarrow> keeps_pred P (hold_rollout r d prior)"
  unfolding hold_rollout_def
  by (intro keeps inv_leaves inv_rolling inv_ready) (simp_all add: counter_series_def decision_ok_def)

lemma inv_sync_secrets: "keeps_pred P (sync_secrets r steady res cmName)"
  unfolding sync_secrets_def Let_def
  by (intro keeps_bind_of [OF inv_resolveSecrets resolveSecrets_decision] keeps inv_leaves inv_status inv_hold
        inv_wireAndStamp inv_established inv_computeReady inv_metric metric_step_ok.version) simp_all

lemma inv_applyManifests: "keeps_pred P (applyManifests r dir)"
proof -
  have failed: "cond_ok ConditionManifestsApplied CondFalse ReasonManifestApplyFailed"
      "cond_ok ConditionManifestsApplied CondFalse ReasonManifestInvalid"
      "cond_ok ConditionManifestsApplied CondTrue ReasonSynced"
    by (simp_all add: cond_ok_def allowed_reasons_def)
  have objs: "keeps_pred P (apply_objects r cs obs)" for cs obs
    by (induction obs) (auto intro!: keeps inv_engine inv_failures failed simp: Let_def)
  show ?thesis
    unfolding applyManifests_def
    by (intro keeps inv_leaves objs inv_prunes inv_condition inv_failures cond_ok_reasons failed)
qed

lemma inv_sync_apply: "keeps_pred P (sync_apply r steady res rendered)"
  unfolding sync_apply_def Let_def
  by (intro keeps inv_leaves inv_engine inv_prunes inv_ready inv_applyManifests inv_sync_secrets)
     (simp_all add: cond_ok_def allowed_reasons_def counter_series_def)

lemma inv_sync_checkout: "keeps_pred P (sync_checkout r steady res)"
  unfolding sync_checkout_def Let_def
  by (intro keeps inv_leaves inv_status inv_condition inv_ready inv_sync_apply counters_counted cond_ok_reasons)
     (simp_all add: cond_ok_def allowed_reasons_def)

lemma inv_after_claim: "keeps_pred P (after_claim r cs steady)"
proof -
  have cred: "keeps_pred P (loadCredential r)"
    unfolding loadCredential_def Let_def by (intro keeps inv_leaves)
  have fetch: "keeps_pred P (timed_fetch r cs c)" for c
    unfolding timed_fetch_def by (intro keeps inv_leaves inv_metric metric_step_ok.observe)
  have clean: "keeps_pred P (writes (CCleanup d) f)" for d f
    by (rule inv_writes) simp
  show ?thesis
    unfolding after_claim_def Let_def
    by (intro keeps cred fetch clean inv_leaves inv_condition inv_ready inv_sync_checkout counters_counted cond_ok_reasons)
       (simp_all add: cond_ok_def allowed_reasons_def counter_series_def)
qed

lemma inv_sync: "keeps_pred P (sync r)"
proof -
  have lost: "keeps_pred P (claim_lost r cs steady other)" for cs steady other
    unfolding claim_lost_def Let_def
    by (intro keeps inv_leaves inv_condition inv_ready) (simp_all add: cond_ok_def allowed_reasons_def)
  have observed: "keeps_pred P (modify_cs (\<lambda>cs. cs\<lparr>cs_Status := (cs_Status cs)\<lparr>st_ObservedGeneration := cs_Generation cs\<rparr>\<rparr>))"
  proof (rule keeps_predI)
    fix w
    assume "P w"
    from keeps_predD [OF inv_status this, of "st_ObservedGeneration_update (\<lambda>_. cs_Generation (w_CS w))"]
    show "P (snd (run_state (modify_cs (\<lambda>cs. cs\<lparr>cs_Status := (cs_Status cs)\<lparr>st_ObservedGeneration := cs_Generation cs\<rparr>\<rparr>)) w))"
      by (simp add: set_status_def run_acts)
  qed
  show ?thesis
    unfolding sync_def Let_def by (intro keeps observed inv_leaves inv_engine lost inv_after_claim)
qed

lemma inv_finalize: "keeps_pred P (finalize r)"
proof -
  have drop: "keeps_pred P (modify_cs (\<lambda>c. lib_RemoveFinalizer (rc_Client r) c FinalizerName))"
    by (rule keeps_predI) (simp add: run_acts inv_finalizers)
  show ?thesis
    unfolding finalize_def unwire_workload_def prune_all_def Let_def
    by (intro keeps inv_leaves inv_engine inv_prunes drop inv_metric metric_step_ok.clear)
qed

text \<open>The result of a read is known in the rest; a status update sends the ConfigSync in memory.\<close>

lemma inv_reads_of: "(\<And>k. keeps_pred P (h (fst (g k)))) \<Longrightarrow> keeps_pred P (State_Monad.bind (reads g) h)"
  by (simp add: keeps_pred_def run_reads inv_cluster)

lemma inv_report_then:
  assumes "\<And>x. keeps_pred P (h x)"
  shows "keeps_pred P (do { cs \<leftarrow> the_cs; u \<leftarrow> k_StatusUpdate (rc_Client r) cs; h u })"
proof (rule keeps_predI)
  fix w
  assume "P w"
  then have "P (w\<lparr>w_Cluster := snd (cl_StatusUpdate (rc_Client r) (w_CS w) (w_Cluster w)),
      w_Calls := w_Calls w @ [CStatusUpdate (w_CS w)]\<rparr>)"
    using inv_report [OF inv_cluster] by simp
  from keeps_predD [OF assms this]
  show "P (snd (run_state (do { cs \<leftarrow> the_cs; u \<leftarrow> k_StatusUpdate (rc_Client r) cs; h u }) w))"
    by (simp add: run_simps)
qed

lemma inv_Reconcile: "keeps_pred P (Reconcile r ns name)"
proof -
  have load: "keeps_pred P (modify_cs (\<lambda>_. cs))" if "fst (cl_GetConfigSync (rc_Client r) ns name k) = Inr cs" for cs k
    by (rule keeps_predI) (simp add: run_acts inv_loaded [OF that])
  have meta: "keeps_pred P (modify_cs (\<lambda>c. lib_AddFinalizer (rc_Client r) c FinalizerName))"
    "keeps_pred P (modify_cs (\<lambda>c. c\<lparr>cs_Annotations := (cs_Annotations c)(AnnotationSyncNow := None)\<rparr>))"
    by (rule keeps_predI; simp add: run_acts inv_finalizers inv_annotations)+
  have result: "keeps_pred P recordReconcileResult"
    unfolding recordReconcileResult_def Let_def
    by (intro keeps inv_leaves inv_metric metric_step_ok.degraded)
       (auto simp: counter_series_def split: option.splits if_splits)
  have "keeps_pred P (reconcile_object r ns name)"
    unfolding reconcile_object_def
    by (rule inv_reads_of, intro keeps load meta result inv_leaves inv_finalize inv_sync inv_report_then)
  then show ?thesis
    unfolding Reconcile_def by (intro keeps inv_leaves inv_metric metric_step_ok.observe)
qed

end

end
