(* ===== verification/Ctl_Reports.thy ===== *)
theory Ctl_Reports
  imports Ctl_Invariant
begin

text \<open>
  The invariants of what the reconciler reports, as instances of \<open>handler_invariant\<close>: events carry no
  secret, metrics stay within a fixed set of series, and the conditions of the status stay well typed,
  in memory and in every status update that is sent.
\<close>

section \<open>Events carry no secret\<close>

text \<open>
  The registry is in order and knows \<open>s\<close>, and no event of the run so far, those from position \<open>n\<close> on,
  contains it.
\<close>

definition no_leak :: "string \<Rightarrow> nat \<Rightarrow> 'k world \<Rightarrow> bool" where
  "no_leak s n w \<longleftrightarrow> redactor_ok (w_Redactor w) \<and> s \<in> set (rd_secrets (w_Redactor w)) \<and>
     (\<forall>ev \<in> set (drop n (w_Events w)). \<not> contains (e_Message ev) s)"

text \<open>A reconciler that redacts, ranging over its registry in some order, with resolvers that only read.\<close>

definition redacting :: "'k reconciler \<Rightarrow> string \<Rightarrow> bool" where
  "redacting r s \<longleftrightarrow> rc_HasRedactor r \<and> apart s \<and> resolvers_read_only r \<and>
     (\<forall>xs. set (lib_MapOrder (rc_Client r) xs) = set xs)"

lemma keeps_leak_event:
  fixes r :: "'k reconciler"
  assumes "redacting r s"
  shows "keeps_pred (no_leak s n) (record_event r t reason msg)"
proof (rule keeps_predI)
  fix w :: "'k world"
  assume w: "no_leak s n w"
  have "\<not> contains (redactor_String (w_Redactor w) msg) s"
    using w assms by (intro redactor_String_clean) (simp_all add: no_leak_def redacting_def)
  with w assms show "no_leak s n (snd (run_state (record_event r t reason msg) w))"
    by (auto simp: record_event_def redactMsg_def run_acts no_leak_def redacting_def dest: in_set_dropD)
qed

text \<open>A resolver keeps whatever does not look at the cluster.\<close>

lemma keeps_resolver:
  assumes "resolvers_read_only r" "rc_Resolvers r b = Some resolve" "\<And>w k. P w \<Longrightarrow> P (w\<lparr>w_Cluster := k\<rparr>)"
  shows "keeps_pred P (resolve ns ref)"
proof (rule keeps_predI)
  fix w
  assume "P w"
  moreover obtain k where "snd (run_state (resolve ns ref) w) = w\<lparr>w_Cluster := k\<rparr>"
    using read_only_resolver [OF assms(1,2)] by blast
  ultimately show "P (snd (run_state (resolve ns ref) w))" by (simp add: assms(3))
qed

lemma leak_invariant:
  assumes "redacting r s"
  shows "handler_invariant (no_leak s n) r"
proof (unfold_locales, goal_cases)
  case (9 b resolve ns ref)
  then show ?case using assms keeps_resolver [of r b resolve "no_leak s n"] by (simp add: redacting_def no_leak_def)
qed (use assms in \<open>auto intro!: keeps_predI keeps_predD [OF keeps_leak_event]
      simp: no_leak_def setCondition_def set_status_def redactor_add_def redactor_Add_ok redactor_Add_secrets
        redacting_def run_simps\<close>)

section \<open>Metrics stay within their series\<close>

definition metrics_bounded :: "metrics \<Rightarrow> bool" where
  "metrics_bounded m \<longleftrightarrow> (\<forall>c. mt_Counters m c \<noteq> 0 \<longrightarrow> c \<in> set counter_series) \<and> one_series m"

lemma metrics_bounded_step: "metric_step_ok f \<Longrightarrow> metrics_bounded m \<Longrightarrow> metrics_bounded (f m)"
proof (induction arbitrary: m rule: metric_step_ok.induct)
  case (count c)
  then show ?case
    using metric_step_one_series [of m "OpInc c"] by (auto simp: metrics_bounded_def Inc_def)
next
  case (observe h d)
  then show ?case using metric_step_one_series [of m "OpObserve h d"] by (simp add: metrics_bounded_def)
next
  case (degraded ns name v)
  then show ?case using metric_step_one_series [of m "OpDegraded ns name v"] by (simp add: metrics_bounded_def)
next
  case (version ns name v)
  then show ?case using metric_step_one_series [of m "OpSet ns name v"] by (simp add: metrics_bounded_def)
next
  case (clear ns name)
  then show ?case using metric_step_one_series [of m "OpClear ns name"] by (simp add: metrics_bounded_def)
qed simp

lemma metrics_bounded_init: "metrics_bounded metrics_init"
  using metric_run_one_series [of "[]"] by (simp add: metrics_bounded_def metrics_init_def)

lemma metrics_invariant:
  fixes r :: "'k reconciler"
  assumes "resolvers_read_only r"
  shows "handler_invariant (\<lambda>w. metrics_bounded (w_Metrics w)) r"
proof (unfold_locales, goal_cases)
  case (9 b resolve ns ref)
  then show ?case using keeps_resolver [OF assms, of b resolve "\<lambda>w. metrics_bounded (w_Metrics w)"] by simp
qed (auto intro!: keeps_predI simp: metrics_bounded_step setCondition_def set_status_def record_event_def redactMsg_def
      redactor_add_def run_simps)

section \<open>The status is well typed\<close>

definition typed_conditions :: "config_sync \<Rightarrow> bool" where
  "typed_conditions cs \<longleftrightarrow> distinct (map c_Type (st_Conditions (cs_Status cs))) \<and>
     list_all (\<lambda>c. cond_ok (c_Type c) (c_Status c) (c_Reason c)) (st_Conditions (cs_Status cs))"

text \<open>What the library promises: setting a condition adds it or replaces the one of its type, and the
  finalizers are not in the status.\<close>

definition status_law :: "'k client \<Rightarrow> bool" where
  "status_law cl \<longleftrightarrow>
     (\<forall>now c cs. distinct (map c_Type cs) \<longrightarrow>
        distinct (map c_Type (lib_SetStatusCondition cl now c cs)) \<and>
        (\<forall>x \<in> set (lib_SetStatusCondition cl now c cs). x \<in> set cs \<or> (\<exists>l. x = c\<lparr>c_LastTransitionTime := l\<rparr>))) \<and>
     (\<forall>cs f. cs_Status (lib_AddFinalizer cl cs f) = cs_Status cs \<and> cs_Status (lib_RemoveFinalizer cl cs f) = cs_Status cs)"

text \<open>The ConfigSyncs in the cluster have a status that the reconciler wrote.\<close>

definition stored_typed :: "'k client \<Rightarrow> bool" where
  "stored_typed cl \<longleftrightarrow> (\<forall>ns name k cs. fst (cl_GetConfigSync cl ns name k) = Inr cs \<longrightarrow> typed_conditions cs)"

definition typed_run :: "nat \<Rightarrow> 'k world \<Rightarrow> bool" where
  "typed_run n w \<longleftrightarrow> n \<le> length (w_Calls w) \<and> typed_conditions (w_CS w) \<and>
     (\<forall>cs. CStatusUpdate cs \<in> set (drop n (w_Calls w)) \<longrightarrow> typed_conditions cs)"

lemma keeps_typed_condition:
  fixes r :: "'k reconciler"
  assumes "status_law (rc_Client r)" "cond_ok t st reason"
  shows "keeps_pred (typed_run n) (setCondition r t st reason msg)"
proof (rule keeps_predI)
  fix w :: "'k world"
  assume w: "typed_run n w"
  let ?cs = "st_Conditions (cs_Status (w_CS w))"
  define c where "c = \<lparr>c_Type = t, c_Status = st, c_Reason = reason, c_Message = msg,
     c_ObservedGeneration = cs_Generation (w_CS w), c_LastTransitionTime = 0\<rparr>"
  define now where "now = fst (cl_Now (rc_Client r) (w_Cluster w))"
  have "distinct (map c_Type ?cs)" using w by (simp add: typed_run_def typed_conditions_def)
  then have set: "distinct (map c_Type (lib_SetStatusCondition (rc_Client r) now c ?cs))"
    "\<forall>x \<in> set (lib_SetStatusCondition (rc_Client r) now c ?cs). x \<in> set ?cs \<or> (\<exists>l. x = c\<lparr>c_LastTransitionTime := l\<rparr>)"
    using assms(1) unfolding status_law_def by blast+
  have "list_all (\<lambda>c. cond_ok (c_Type c) (c_Status c) (c_Reason c)) (lib_SetStatusCondition (rc_Client r) now c ?cs)"
    unfolding list_all_iff
  proof
    fix x
    assume "x \<in> set (lib_SetStatusCondition (rc_Client r) now c ?cs)"
    with set(2) consider "x \<in> set ?cs" | l where "x = c\<lparr>c_LastTransitionTime := l\<rparr>" by blast
    then show "cond_ok (c_Type x) (c_Status x) (c_Reason x)"
    proof cases
      case 1
      then show ?thesis using w by (simp add: typed_run_def typed_conditions_def list_all_iff)
    qed (simp add: c_def assms(2))
  qed
  with w set(1) show "typed_run n (snd (run_state (setCondition r t st reason msg) w))"
    by (simp add: setCondition_def run_simps typed_run_def typed_conditions_def c_def now_def)
qed

lemma typed_invariant:
  fixes r :: "'k reconciler"
  assumes "resolvers_read_only r" "status_law (rc_Client r)" "stored_typed (rc_Client r)"
  shows "handler_invariant (typed_run n) r"
proof (unfold_locales, goal_cases)
  case (5 t st reason msg)
  then show ?case by (rule keeps_typed_condition [OF assms(2)])
next
  case (9 b resolve ns ref)
  then show ?case using keeps_resolver [OF assms(1), of b resolve "typed_run n"] by (simp add: typed_run_def)
next
  case (10 ns name k cs w)
  then show ?case using assms(3) by (auto simp: stored_typed_def typed_run_def)
next
  case (11 w fin)
  then show ?case using assms(2) by (simp add: status_law_def typed_run_def typed_conditions_def)
next
  case (12 w fin)
  then show ?case using assms(2) by (simp add: status_law_def typed_run_def typed_conditions_def)
qed (auto intro!: keeps_predI simp: typed_run_def typed_conditions_def set_status_def record_event_def redactMsg_def
      redactor_add_def run_simps)

section \<open>The production set-up\<close>

interpretation production_metrics:
  handler_invariant "\<lambda>w. metrics_bounded (w_Metrics w)" "production pf cl reader c" for pf cl reader c
  by (rule metrics_invariant [OF production_resolvers])

section \<open>The schema of the custom resource\<close>

text \<open>The patterns that \<open>kohen.dev_configsyncs.yaml\<close> gives for the reason and the type of a condition. A type
  may have a DNS prefix before a slash.\<close>

text \<open>A character class of a pattern, as its ranges.\<close>

definition char_class :: "(char \<times> char) list \<Rightarrow> char \<Rightarrow> bool" where
  "char_class ranges c = list_ex (\<lambda>(lo, hi). lo \<le> c \<and> c \<le> hi) ranges"

definition lowers :: "(char \<times> char) list" where
  "lowers = [(CHR ''a'', CHR ''z'')]"
definition uppers :: "(char \<times> char) list" where
  "uppers = [(CHR ''A'', CHR ''Z'')]"
definition digits :: "(char \<times> char) list" where
  "digits = [(CHR ''0'', CHR ''9'')]"

definition ascii_letter :: "char \<Rightarrow> bool" where
  "ascii_letter = char_class (lowers @ uppers)"

definition ascii_digit :: "char \<Rightarrow> bool" where
  "ascii_digit = char_class digits"

definition crd_reason :: "string \<Rightarrow> bool" where
  "crd_reason s \<longleftrightarrow> s \<noteq> [] \<and> length s \<le> 1024 \<and> ascii_letter (hd s) \<and>
     list_all (\<lambda>c. ascii_letter c \<or> ascii_digit c \<or> c \<in> set ''_,:'') s \<and>
     (ascii_letter (last s) \<or> ascii_digit (last s) \<or> last s = CHR ''_'')"

definition dns_label :: "string \<Rightarrow> bool" where
  "dns_label s \<longleftrightarrow> s \<noteq> [] \<and> list_all (\<lambda>c. char_class (lowers @ digits) c \<or> c = CHR ''-'') s \<and>
     hd s \<noteq> CHR ''-'' \<and> last s \<noteq> CHR ''-''"

definition crd_name :: "string \<Rightarrow> bool" where
  "crd_name s \<longleftrightarrow> s \<noteq> [] \<and> list_all (\<lambda>c. ascii_letter c \<or> ascii_digit c \<or> c \<in> set ''-_.'') s \<and>
     (ascii_letter (hd s) \<or> ascii_digit (hd s)) \<and> (ascii_letter (last s) \<or> ascii_digit (last s))"

definition crd_type :: "string \<Rightarrow> bool" where
  "crd_type s \<longleftrightarrow> length s \<le> 316 \<and>
     (case splitOn CHR ''/'' s of
        [name] \<Rightarrow> crd_name name
      | [dns, name] \<Rightarrow> list_all dns_label (splitOn CHR ''.'' dns) \<and> crd_name name
      | _ \<Rightarrow> False)"

definition condition_types :: "string list" where
  "condition_types = [ConditionReady, ConditionFetched, ConditionRendered, ConditionManifestsApplied,
     ConditionSecretsReady, ConditionWorkloadWired, ConditionRolloutComplete]"

lemma vocabulary_valid: "list_all (\<lambda>t. crd_type t \<and> list_all crd_reason (allowed_reasons t)) condition_types"
  by code_simp

lemma cond_ok_valid: "cond_ok t st reason \<Longrightarrow> crd_type t \<and> crd_reason reason"
proof -
  assume ok: "cond_ok t st reason"
  then have "t \<in> set condition_types"
    by (auto simp: cond_ok_def allowed_reasons_def condition_types_def split: if_splits)
  with vocabulary_valid ok show ?thesis by (auto simp: list_all_iff cond_ok_def)
qed

text \<open>The schema also bounds a message by 32768 characters, which nothing in the code does: the message of
  ManifestsApplied names every manifest, and with some hundred manifests it is longer. The API server then
  refuses the whole status.\<close>

lemma length_joinWith: "sum_list (map length xs) \<le> length (joinWith sep xs)"
  by (induction sep xs rule: joinWith.induct) auto

lemma length_applied_message: "xs \<noteq> [] \<Longrightarrow> sum_list (map length xs) \<le> length (applied_message xs)"
proof -
  assume "xs \<noteq> []"
  then have "length (joinWith '' '' (sort xs)) \<le> length (applied_message xs)" by (simp add: applied_message_def)
  moreover have "sum_list (map length (sort xs)) = sum_list (map length xs)"
    by (metis mset_map mset_sort sum_mset_sum_list)
  ultimately show ?thesis using length_joinWith [of "sort xs" "'' ''"] by simp
qed

lemma applied_message_exceeds_schema:
  "\<exists>names. distinct names \<and> list_all (\<lambda>n. 0 < length n \<and> length n \<le> 253) names \<and> 32768 < length (applied_message names)"
proof -
  define names where "names = map (\<lambda>i. replicate i CHR ''a'') [1..<254] @ map (\<lambda>i. replicate i CHR ''b'') [1..<254]"
  have "distinct names"
    by (auto simp: names_def distinct_map inj_on_def)
  moreover have "list_all (\<lambda>n. 0 < length n \<and> length n \<le> 253) names"
    by (auto simp: names_def list_all_iff)
  moreover have "sum_list (map length names) = 64262" by (simp add: names_def comp_def Sum_Ico_nat)
  then have "32768 < length (applied_message names)"
    using length_applied_message [of names] by (force simp: names_def)
  ultimately show ?thesis by blast
qed

end
