(* ===== verification/Controller_Properties.thy ===== *)
theory Controller_Properties
  imports Ctl_Demo Ctl_Finalize Ctl_Reports
begin

text \<open>Properties of the reconciler, and of its production set-up as a whole.\<close>

section \<open>One ConfigSync per workload\<close>

lemma rival_seniority:
  "rival cs other \<longleftrightarrow> cs_Name other \<noteq> cs_Name cs \<and> not_deleting other \<and>
     sp_WorkloadRef (cs_Spec other) = sp_WorkloadRef (cs_Spec cs) \<and> seniority_of other < seniority_of cs"
  by (auto simp: rival_def winsOver_seniority)

text \<open>When the list names each ConfigSync once, no conflict is being the most senior of the workload.\<close>

lemma quiet_iff_senior:
  assumes "distinct (map cs_Name items)" "cs \<in> set items" "not_deleting cs"
    and "fst (cl_ListConfigSyncs (rc_Client r) (cs_Namespace cs) k) = Inr items"
  shows "fst (run_state (singletonConflict r) (w\<lparr>w_CS := cs, w_Cluster := k\<rparr>)) = None \<longleftrightarrow>
    (\<forall>b \<in> {b \<in> set items. not_deleting b \<and> sp_WorkloadRef (cs_Spec b) = sp_WorkloadRef (cs_Spec cs)}.
       seniority_of cs \<le> seniority_of b)" (is "?quiet \<longleftrightarrow> (\<forall>b \<in> ?S. _ b)")
proof -
  have "?quiet \<longleftrightarrow> (\<forall>b \<in> set items. \<not> rival cs b)"
    using assms(4) by (auto simp: run_singletonConflict find_None_iff)
  also have "\<dots> \<longleftrightarrow> (\<forall>b \<in> ?S. seniority_of cs \<le> seniority_of b)"
  proof (intro iffI ballI)
    fix b
    assume "\<forall>b \<in> set items. \<not> rival cs b" and b: "b \<in> ?S"
    then have "cs_Name b = cs_Name cs \<or> \<not> seniority_of b < seniority_of cs"
      using b by (auto simp: rival_seniority)
    moreover have "b = cs" if "cs_Name b = cs_Name cs"
      using that b assms(1,2) unfolding distinct_map inj_on_def by blast
    ultimately show "seniority_of cs \<le> seniority_of b" by auto
  next
    fix b
    assume least: "\<forall>b \<in> ?S. seniority_of cs \<le> seniority_of b" and b: "b \<in> set items"
    show "\<not> rival cs b"
    proof
      assume "rival cs b"
      then have "b \<in> ?S" "seniority_of b < seniority_of cs" using b by (auto simp: rival_seniority)
      with least show False by (meson not_less)
    qed
  qed
  finally show ?thesis .
qed

text \<open>C9: Of the live ConfigSyncs of a namespace that target the same workload, when all of
  them see the same list, exactly one is not in conflict: the oldest, ties broken by name.\<close>

theorem singleton_one_winner:
  assumes "distinct (map cs_Name items)"
    and "\<forall>cs \<in> set items. fst (cl_ListConfigSyncs (rc_Client r) (cs_Namespace cs) k) = Inr items"
    and "\<exists>cs \<in> set items. not_deleting cs \<and> sp_WorkloadRef (cs_Spec cs) = workload"
  shows "\<exists>!cs. cs \<in> set items \<and> not_deleting cs \<and> sp_WorkloadRef (cs_Spec cs) = workload \<and>
     fst (run_state (singletonConflict r) (w\<lparr>w_CS := cs, w_Cluster := k\<rparr>)) = None"
proof -
  let ?S = "{cs \<in> set items. not_deleting cs \<and> sp_WorkloadRef (cs_Spec cs) = workload}"
  have inj: "inj_on seniority_of ?S"
  proof (rule inj_onI)
    fix a b
    assume "a \<in> ?S" "b \<in> ?S" "seniority_of a = seniority_of b"
    then show "a = b" using assms(1) by (simp add: seniority_of_def distinct_map inj_on_def)
  qed
  have quiet: "fst (run_state (singletonConflict r) (w\<lparr>w_CS := cs, w_Cluster := k\<rparr>)) = None \<longleftrightarrow>
      (\<forall>b \<in> ?S. seniority_of cs \<le> seniority_of b)" if "cs \<in> ?S" for cs
    using quiet_iff_senior [OF assms(1), of cs r k w] assms(2) that by simp
  have "finite ?S" "?S \<noteq> {}" using assms(3) by auto
  note one = ex1_least [OF this inj]
  have "m \<in> ?S \<and> (\<forall>b \<in> ?S. seniority_of m \<le> seniority_of b) \<longleftrightarrow>
      m \<in> set items \<and> not_deleting m \<and> sp_WorkloadRef (cs_Spec m) = workload \<and>
      fst (run_state (singletonConflict r) (w\<lparr>w_CS := m, w_Cluster := k\<rparr>)) = None" for m
  proof (cases "m \<in> ?S")
    case True
    then show ?thesis unfolding quiet [OF True] by simp
  next
    case False
    then show ?thesis by blast
  qed
  with one show ?thesis by simp
qed

theorem singleton_one_winner_witness:
  "\<exists>!cs. cs \<in> set [demo_sync] \<and> not_deleting cs \<and> sp_WorkloadRef (cs_Spec cs) = sp_WorkloadRef (cs_Spec demo_sync) \<and>
     fst (run_state (singletonConflict demo_reconciler) ((mem_world demo_mem)\<lparr>w_CS := cs, w_Cluster := demo_mem\<rparr>)) = None"
  by (rule singleton_one_winner)
     (simp_all add: demo_reconciler_def mem_client_def demo_mem_def demo_sync_def not_deleting_def)

section \<open>Readiness\<close>

text \<open>C1: Whatever path a sync takes, the Ready condition it leaves is true only if all of Fetched,
  Rendered, ManifestsApplied, SecretsReady, WorkloadWired and RolloutComplete are.\<close>

theorem sync_ready_sound:
  assumes "condition_law (rc_Client r)" "run_state (sync r) w = (out, w')"
    and "conditionTrue (w_CS w') ConditionReady"
  shows "list_all (conditionTrue (w_CS w')) [ConditionFetched, ConditionRendered, ConditionManifestsApplied,
     ConditionSecretsReady, ConditionWorkloadWired, ConditionRolloutComplete]"
proof -
  have "ready_sound (w_CS w')"
    using sync_sound [OF assms(1)] assms(2) unfolding establishes_def by (metis snd_conv)
  with assms(3) show ?thesis by (simp add: ready_sound_def all_conditions_def gate_conditions_def)
qed

theorem sync_ready_sound_witness:
  "list_all (conditionTrue (w_CS (snd demo_end))) [ConditionFetched, ConditionRendered, ConditionManifestsApplied,
     ConditionSecretsReady, ConditionWorkloadWired, ConditionRolloutComplete]"
  by (rule sync_ready_sound [OF demo_reconciler_facts(1) demo_sync_run demo_sync_ready])



section \<open>The secrets gate\<close>

text \<open>The versions in the status.\<close>

definition versions_in :: "config_sync \<Rightarrow> string \<times> string" where
  "versions_in cs = (st_ConfigVersion (cs_Status cs), st_WorkloadVersion (cs_Status cs))"

lemma keeps_versions_conditions [keeps]:
  "keeps_pred (\<lambda>w. versions_in (w_CS w) = v) (setCondition r t st reason msg)"
  "keeps_pred (\<lambda>w. versions_in (w_CS w) = v) (set_status (st_SecretRefs_update g))"
  "keeps_pred (\<lambda>w. versions_in (w_CS w) = v) (set_rolling b)"
  by (rule keeps_predI; simp add: setCondition_def set_status_def set_rolling_def run_simps versions_in_def)+

lemma keeps_versions_resolveSecrets:
  fixes r :: "'k reconciler"
  assumes "resolvers_read_only r"
  shows "keeps_pred (\<lambda>w. versions_in (w_CS w) = v) (resolveSecrets r now)"
proof -
  have "keeps_pred (\<lambda>w. versions_in (w_CS w) = v) (f ns ref)" if rf: "rc_Resolvers r b = Some f" for b f ns ref
  proof (rule keeps_predI)
    fix w :: "'k world"
    assume "versions_in (w_CS w) = v"
    moreover obtain k where "snd (run_state (f ns ref) w) = w\<lparr>w_Cluster := k\<rparr>"
      using read_only_resolver [OF assms rf] by blast
    ultimately show "versions_in (w_CS (snd (run_state (f ns ref) w))) = v" by simp
  qed
  then have one: "keeps_pred (\<lambda>w. versions_in (w_CS w) = v) (resolveOne r ns ref)" for ns ref
    unfolding resolveOne_def by (intro keeps)
  have "keeps_pred (\<lambda>w. versions_in (w_CS w) = v) (resolve_refs r ns prior refs)" for ns prior refs
    by (induction refs) (auto intro!: keeps one)
  then show ?thesis unfolding resolveSecrets_def Let_def by (intro keeps)
qed

lemma hold_rollout_silent: "issues A (hold_rollout r d prior)"
  unfolding hold_rollout_def by (intro issue_rules)

lemma hold_rollout_outcome:
  assumes "condition_law (rc_Client r)" "run_state (hold_rollout r d prior) w = (out, w')"
  shows "out = (requeue_after progressingRequeue, None)" "versions_in (w_CS w') = versions_in (w_CS w)"
    "\<not> conditionTrue (w_CS w') ConditionReady" "conditionReason (w_CS w') ConditionReady = d_ReadyReason d"
proof -
  obtain m w1 where s: "run_state (setCondition r ConditionReady CondFalse (d_ReadyReason d) m) w1 = ((), w')"
      "versions_in (w_CS w1) = versions_in (w_CS w)" "out = (requeue_after progressingRequeue, None)"
    using assms(2)
    by (auto simp: hold_rollout_def set_rolling_def set_status_def redactMsg_def setReady_def run_acts versions_in_def
        split: if_splits prod.splits)
  from s(3) show "out = (requeue_after progressingRequeue, None)" .
  from setCondition_conditions [OF assms(1) s(1), of ConditionReady]
  show "\<not> conditionTrue (w_CS w') ConditionReady" "conditionReason (w_CS w') ConditionReady = d_ReadyReason d"
    by simp_all
  from keeps_predD [OF keeps_versions_conditions(1) s(2)] s(1)
  show "versions_in (w_CS w') = versions_in (w_CS w)" by (metis snd_conv)
qed

text \<open>C7: While a secret reference is not resolved, the pipeline stops before the workload: it writes
  nothing more to the cluster, leaves the recorded versions, requeues soon, and reports not ready with
  the reason of the decision.\<close>

theorem secrets_gate:
  assumes "condition_law (rc_Client r)" "resolvers_read_only r"
    and "cl_Now (rc_Client r) (w_Cluster w) = (now, k)"
    and "run_state (resolveSecrets r now) (w\<lparr>w_Cluster := k\<rparr>) = (d, w1)" "\<not> d_AllReady d"
    and "run_state (sync_secrets r steady res cmName) w = (out, w')"
  shows "out = (requeue_after progressingRequeue, None) \<and> w_Calls w' = w_Calls w \<and>
    versions_in (w_CS w') = versions_in (w_CS w) \<and>
    \<not> conditionTrue (w_CS w') ConditionReady \<and> conditionReason (w_CS w') ConditionReady = d_ReadyReason d"
proof -
  let ?prior = "conditionReason (w_CS w) ConditionSecretsReady"
  obtain w2 where w2: "run_state (hold_rollout r d ?prior) w2 = (out, w')"
    "w_CS w2 = w_CS w1" "w_Calls w2 = w_Calls w1"
    using assms(3-6)
    by (auto simp: sync_secrets_def Let_def run_simps record_event_def redactMsg_def split: if_splits prod.splits)
  have "w_Calls w1 = w_Calls w"
    using issues_nothing [OF issues_resolveSecrets [OF assms(2)], of now "w\<lparr>w_Cluster := k\<rparr>"] assms(4) by simp
  moreover have "w_Calls w' = w_Calls w2"
    using issues_nothing [OF hold_rollout_silent, of r d ?prior w2] w2(1) by simp
  moreover have "versions_in (w_CS w1) = versions_in (w_CS w)"
    using keeps_predD [OF keeps_versions_resolveSecrets [OF assms(2), of "versions_in (w_CS w)" now],
        of "w\<lparr>w_Cluster := k\<rparr>"] assms(4) by simp
  ultimately show ?thesis using hold_rollout_outcome [OF assms(1) w2(1)] w2(2,3) by simp
qed

theorem secrets_gate_witness:
  "fst (run_state (sync_secrets demo_reconciler no_requeue demo_checkout ''web-config'') demo_gated) =
     (requeue_after progressingRequeue, None) \<and>
   \<not> conditionTrue (w_CS (snd (run_state (sync_secrets demo_reconciler no_requeue demo_checkout ''web-config'') demo_gated)))
       ConditionReady"
proof -
  let ?m = "sync_secrets demo_reconciler no_requeue demo_checkout ''web-config''"
  have now: "cl_Now (rc_Client demo_reconciler) (w_Cluster demo_gated) = (100, w_Cluster demo_gated)"
    by (simp add: demo_data demo_gated_def)
  have same: "demo_gated\<lparr>w_Cluster := w_Cluster demo_gated\<rparr> = demo_gated"
    by simp
  show ?thesis
    using secrets_gate [OF demo_reconciler_facts now prod.collapse [symmetric], of no_requeue demo_checkout "''web-config''"]
      demo_gated_waits unfolding same by (metis prod.collapse)
qed

section \<open>What the workload sees\<close>

text \<open>C8: With rollouts off, wiring never touches the stamp of the pod template, so no write restarts
  the workload. With rollouts on, a workload whose stamp is the version already is not written to at
  all, and every other write stamps the template with the version.\<close>

theorem rollout_writes:
  "\<exists>calls. w_Calls (snd (run_state (wireAndStamp r cmName version) w)) = w_Calls w @ calls \<and>
     (if sp_Rollout (cs_Spec (w_CS w)) = RolloutNone
      then list_all (\<lambda>c. wire_call_stamping None c \<or> stamp_call c) calls
      else if fst (run_state (inspectWorkload (rc_Client r) (wl_Kind (sp_WorkloadRef (cs_Spec (w_CS w))))
                (cs_Namespace (w_CS w)) (wl_Name (sp_WorkloadRef (cs_Spec (w_CS w)))) True) w) = Inr version
      then calls = []
      else list_all (wire_call_stamping (if version = [] then None else Some version)) calls)"
proof -
  from wireAndStamp_calls [of r cmName version w] obtain calls where c:
    "w_Calls (snd (run_state (wireAndStamp r cmName version) w)) = w_Calls w @ calls"
    "list_all (stamps_allowed (w_CS w) version) calls"
    "sp_Rollout (cs_Spec (w_CS w)) = RolloutNone \<or> calls = [] \<or>
      fst (run_state (inspectWorkload (rc_Client r) (wl_Kind (sp_WorkloadRef (cs_Spec (w_CS w))))
         (cs_Namespace (w_CS w)) (wl_Name (sp_WorkloadRef (cs_Spec (w_CS w)))) True) w) \<noteq> Inr version"
    by blast
  have "stamps_allowed (w_CS w) version =
     (if sp_Rollout (cs_Spec (w_CS w)) = RolloutNone then (\<lambda>c. wire_call_stamping None c \<or> stamp_call c)
      else wire_call_stamping (if version = [] then None else Some version))"
    by (simp add: fun_eq_iff stamps_allowed_def)
  with c show ?thesis by (intro exI [of _ calls] conjI; presburger)
qed

section \<open>Deletion\<close>



section \<open>No secret in an event\<close>


end
