(* ===== verification/Ctl_Namespace.thy ===== *)
theory Ctl_Namespace
  imports Ctl_Finalize
begin

text \<open>
  Namespace locality: every call that changes the cluster concerns an object of the ConfigSync's own
  namespace. What the client library does with namespaces is the contract \<open>namespaced\<close>.
\<close>

fun local_call :: "string \<Rightarrow> call \<Rightarrow> bool" where
  "local_call ns (CPatch p) \<longleftrightarrow> ko_Namespace (pa_Object p) = ns"
| "local_call ns (CDelete ob) \<longleftrightarrow> ko_Namespace ob = ns"
| "local_call ns (CUpdate cs) \<longleftrightarrow> cs_Namespace cs = ns"
| "local_call ns (CStatusUpdate cs) \<longleftrightarrow> cs_Namespace cs = ns"
| "local_call ns (CCleanup dir) \<longleftrightarrow> True"

text \<open>
  The client's contract: an owner reference, a finalizer do not move an object; a get returns the
  object asked for; a listing of a namespace lists objects of it.
\<close>

definition namespaced :: "'k client \<Rightarrow> bool" where
  "namespaced cl \<longleftrightarrow>
     (\<forall>owner ob ob'. lib_SetControllerReference cl owner ob = Inr ob' \<longrightarrow> ko_Namespace ob' = ko_Namespace ob) \<and>
     (\<forall>cs f. cs_Namespace (lib_AddFinalizer cl cs f) = cs_Namespace cs \<and>
             cs_Namespace (lib_RemoveFinalizer cl cs f) = cs_Namespace cs) \<and>
     (\<forall>ns n k cs. fst (cl_GetConfigSync cl ns n k) = Inr cs \<longrightarrow> cs_Namespace cs = ns) \<and>
     (\<forall>g ns sel k xs items ob. fst (cl_ListObjects cl g ns sel k) = Inr xs \<longrightarrow> lib_ExtractList cl xs = Inr items \<longrightarrow>
        ob \<in> set items \<longrightarrow> ko_Namespace ob = ns)"

lemma namespacedD:
  assumes "namespaced cl"
  shows "lib_SetControllerReference cl owner ob = Inr ob' \<Longrightarrow> ko_Namespace ob' = ko_Namespace ob"
    "cs_Namespace (lib_AddFinalizer cl cs f) = cs_Namespace cs"
    "cs_Namespace (lib_RemoveFinalizer cl cs f) = cs_Namespace cs"
    "fst (cl_GetConfigSync cl ns n k) = Inr cs \<Longrightarrow> cs_Namespace cs = ns"
    "fst (cl_ListObjects cl g ns sel k) = Inr xs \<Longrightarrow> lib_ExtractList cl xs = Inr items \<Longrightarrow>
     ob \<in> set items \<Longrightarrow> ko_Namespace ob = ns"
  using assms unfolding namespaced_def by blast+

section \<open>The engines\<close>

lemma ensureGVK_namespace: "ensureGVK cl ob = Inr ob' \<Longrightarrow> ko_Namespace ob' = ko_Namespace ob"
  by (auto simp: ensureGVK_def split: if_splits sum.splits list.splits)

lemma owned_patch_local:
  assumes "namespaced cl" "owned_patch cl owner ob c"
  shows "local_call (ko_Namespace ob) c"
proof (cases c)
  case (CPatch p)
  with assms(2) obtain o2 where "lib_SetControllerReference cl owner (own_labels owner ob) = Inr o2"
    "pa_Object p = o2\<lparr>ko_ManagedFields := [], ko_ResourceVersion := []\<rparr>"
    by (auto split: sum.splits)
  with namespacedD(1) [OF assms(1) this(1)] CPatch show ?thesis by (simp add: own_labels_def)
qed (use assms(2) in simp_all)

lemma issues_local_Apply:
  assumes "namespaced cl" "ko_Namespace ob = ns"
  shows "issues (local_call ns) (Apply cl owner ob)"
proof (rule issues_weaken [OF issues_Apply])
  fix c
  assume "\<exists>ob'. ensureGVK cl ob = Inr ob' \<and> owned_patch cl owner ob' c"
  then obtain ob' where "ko_Namespace ob' = ns" "owned_patch cl owner ob' c"
    using ensureGVK_namespace assms(2) by blast
  with owned_patch_local [OF assms(1)] show "local_call ns c" by blast
qed

lemma issues_reads_of:
  assumes "\<And>k. issues A (g (fst (f k)))"
  shows "issues A (State_Monad.bind (reads f) g)"
proof (rule issuesI)
  fix w
  from issuesE [OF assms, of "w_Cluster w" "w\<lparr>w_Cluster := snd (f (w_Cluster w))\<rparr>"] obtain cs where
    "w_Calls (snd (run_state (g (fst (f (w_Cluster w)))) (w\<lparr>w_Cluster := snd (f (w_Cluster w))\<rparr>))) = w_Calls w @ cs"
    "list_all A cs" by auto
  then show "\<exists>cs. w_Calls (snd (run_state (reads f \<bind> g) w)) = w_Calls w @ cs \<and> list_all A cs"
    by (simp add: run_simps)
qed

lemma issues_local_Prune:
  assumes "namespaced cl" "cs_Namespace owner = ns"
  shows "issues (local_call ns) (Prune cl owner g keep)"
  unfolding Prune_def
proof (rule issues_reads_of)
  fix k
  have "issues (local_call ns) (prune_items cl keep items)"
    if "fst (cl_ListObjects cl g (cs_Namespace owner) (owner_selector owner) k) = Inr xs"
      "lib_ExtractList cl xs = Inr items" for xs items
  proof (rule issues_weaken [OF issues_prune_items])
    fix c
    assume "deletes_from keep items c"
    then show "local_call ns c"
      using namespacedD(5) [OF assms(1) that] assms(2) by (cases c) auto
  qed
  then show "issues (local_call ns)
      (case fst (cl_ListObjects cl g (cs_Namespace owner) (owner_selector owner) k) of
         Inl e \<Rightarrow> State_Monad.return (Some (ApplyErr ApplyApplyFailed ''listing owned objects'' (Some e)))
       | Inr list \<Rightarrow> (case lib_ExtractList cl list of
            Inl e \<Rightarrow> State_Monad.return (Some (ApplyErr ApplyApplyFailed ''extracting list'' (Some e)))
          | Inr items \<Rightarrow> prune_items cl keep items))"
    by (intro issue_rules)
qed

lemma issues_local_prunes:
  assumes "namespaced (rc_Client r)" "cs_Namespace cs = ns"
  shows "issues (local_call ns) (prune_manifests r cs keep vs)" "issues (local_call ns) (prune_all r cs)"
proof -
  have "issues (local_call ns) (PruneKind (rc_Client r) cs g kp)" for g kp
    unfolding PruneKind_def by (intro issue_rules issues_local_Prune assms)
  then show p: "issues (local_call ns) (prune_manifests r cs keep vs)" for keep vs
    by (induction vs) (auto intro!: issue_rules)
  show "issues (local_call ns) (prune_all r cs)"
    unfolding prune_all_def by (intro issue_rules issues_local_Prune assms p)
qed

lemma issues_local_workload:
  "ws_Namespace s = ns \<Longrightarrow> issues (local_call ns) (Wire cl s)"
  "issues (local_call ns) (Unwire cl kind ns name)"
  "issues (local_call ns) (StampNoRestart cl kind ns name v)"
  "issues (local_call ns) (ClearStamp cl kind ns name)"
  unfolding Wire_def Unwire_def StampNoRestart_def ClearStamp_def
  by (intro issue_rules issues_wire_apply;
      auto simp: wire_base_def bare_object_def stampPatch_def dest!: stampObject_payload)+

lemma issues_local_wireAndStamp:
  assumes "cs_Namespace cs = ns"
  shows "issues (local_call ns) (wire_no_rollout r cs cmName version)"
    "issues (local_call ns) (wire_rollout r cs cmName version st)"
  unfolding wire_no_rollout_def wire_rollout_def Let_def assms
  by (intro issue_rules issues_local_workload; simp add: wire_request_def assms)+

section \<open>The pipeline\<close>

lemma acts_local_wireAndStamp:
  assumes "cs_Namespace cs = ns"
  shows "acts_for (local_call ns) cs (wireAndStamp r cmName version)"
proof -
  have w: "acts_for (local_call ns) cs (wire_no_rollout r cs' cmName version)"
    "acts_for (local_call ns) cs (wire_rollout r cs' cmName version st)" if "same_sync cs cs'" for cs' st
    using that assms issues_local_wireAndStamp [of cs' ns]
    by (auto intro!: acts_leaf keeps simp: same_sync_def)
  have i: "acts_for (local_call ns) cs (inspectWorkload cl kind n name b)"
    "acts_for (local_call ns) cs (wire_failed r reason msg)" for cl kind n name b reason msg
    by (rule acts_leaf; intro issue_rules keeps)+
  show ?thesis unfolding wireAndStamp_def by (intro acts w i) (auto split: prod.split intro!: i)
qed

lemma acts_local_applyManifests:
  fixes r :: "'k reconciler"
  assumes cl: "namespaced (rc_Client r)" and ns: "cs_Namespace cs = ns"
  shows "acts_for (local_call ns) cs (applyManifests r dir)"
  unfolding acts_for_def
proof (intro allI impI conjI)
  fix w :: "'k world"
  assume w: "same_sync cs (w_CS w)"
  show "same_sync cs (w_CS (snd (run_state (applyManifests r dir) w)))"
    using keeps_predD [OF keeps_sync_applyManifests w] .
  have nsw: "cs_Namespace (w_CS w) = ns" using w ns by (simp add: same_sync_def)
  obtain calls where c: "w_Calls (snd (run_state (applyManifests r dir) w)) = w_Calls w @ calls"
    "calls = [] \<or> (\<exists>objs. Load (rc_Tree r (w_Cluster w)) (rc_Yaml r) dir = Inr objs \<and>
        list_all (\<lambda>ob. applicable (rc_Yaml r)
          \<lparr>gd_Namespace = cs_Namespace (w_CS w), gd_StoreAllowList = storeAllowList r\<rparr> (mo_U ob)) objs \<and>
        list_all (\<lambda>c. local_call ns c \<or> applies_one_of r (w_CS w) objs c) calls)"
    using applyManifests_calls_of [OF issues_local_prunes(1) [OF cl nsw], of dir] by blast
  have "local_call ns x"
    if "local_call ns x \<or> applies_one_of r (w_CS w) objs x"
      "list_all (\<lambda>ob. applicable (rc_Yaml r)
          \<lparr>gd_Namespace = cs_Namespace (w_CS w), gd_StoreAllowList = storeAllowList r\<rparr> (mo_U ob)) objs" for x objs
  proof (cases "local_call ns x")
    case False
    with that(1) obtain ob ob' where ob: "ob \<in> set objs"
      "ensureGVK (rc_Client r) (in_namespace (w_CS w) (object_of r (mo_U ob))) = Inr ob'"
      "owned_patch (rc_Client r) (w_CS w) ob' x"
      unfolding applies_one_of_def by blast
    have "u_Namespace (mo_U ob) = [] \<or> u_Namespace (mo_U ob) = ns"
      using that(2) ob(1) nsw by (auto simp: list_all_iff applicable_def)
    then have "ko_Namespace ob' = ns"
      using ensureGVK_namespace [OF ob(2)] nsw by (auto simp: in_namespace_def object_of_def)
    with owned_patch_local [OF cl ob(3)] show ?thesis by simp
  qed
  then have "list_all (local_call ns) calls" using c(2) by (auto simp: list_all_iff)
  with c(1) show "\<exists>calls. w_Calls (snd (run_state (applyManifests r dir) w)) = w_Calls w @ calls
      \<and> list_all (local_call ns) calls" by blast
qed

lemma acts_local_sync_apply:
  assumes cl: "namespaced (rc_Client r)" and ro: "resolvers_read_only r" and ns: "cs_Namespace cs = ns"
  shows "acts_for (local_call ns) cs (sync_apply r steady res rendered)"
proof -
  have app: "acts_for (local_call ns) cs (Apply (rc_Client r) cs' (buildConfigMap cs' cmName rendered))"
    if "same_sync cs cs'" for cs' cmName
    by (rule acts_leaf [OF issues_local_Apply [OF cl] keeps_sync_engine(1)])
       (use that ns in \<open>simp add: buildConfigMap_def same_sync_def\<close>)
  have pr: "acts_for (local_call ns) cs (Prune (rc_Client r) cs' g keep)" if "same_sync cs cs'" for cs' g keep
    by (rule acts_leaf [OF issues_local_Prune [OF cl] keeps_sync_engine(2)]) (use that ns in \<open>simp add: same_sync_def\<close>)
  have res: "acts_for (local_call ns) cs (resolveSecrets r now)" for now
    by (rule acts_leaf [OF issues_resolveSecrets [OF ro] keeps_sync_resolveSecrets [OF ro]])
  have secrets: "acts_for (local_call ns) cs (sync_secrets r steady res cmName)" for cmName
    unfolding sync_secrets_def hold_rollout_def Let_def
    by (intro acts res acts_local_wireAndStamp [OF ns] acts_computeReady)
  show ?thesis
    unfolding sync_apply_def Let_def
    by (intro acts app pr acts_local_applyManifests [OF cl ns] secrets)
qed

lemma acts_local_sync:
  assumes cl: "namespaced (rc_Client r)" and ro: "resolvers_read_only r" and ns: "cs_Namespace cs = ns"
  shows "acts_for (local_call ns) cs (sync r)"
proof -
  have checkout: "acts_for (local_call ns) cs (sync_checkout r steady res)" for steady res
    unfolding sync_checkout_def Let_def by (intro acts acts_local_sync_apply [OF assms])
  have clean: "acts_for (local_call ns) cs (writes (CCleanup dir) f)" for dir f
    by (rule acts_leaf [OF issues_writes keeps_sync_acts(2)]) simp
  have claim: "acts_for (local_call ns) cs (after_claim r cs' steady)" for cs' steady
    unfolding after_claim_def timed_fetch_def Let_def by (intro acts acts_loadCredential checkout clean)
  have obs: "acts_for (local_call ns) cs (modify_cs (\<lambda>cs. cs\<lparr>cs_Status := (cs_Status cs)\<lparr>st_ObservedGeneration := cs_Generation cs\<rparr>\<rparr>))"
    unfolding acts_for_def by (simp add: run_acts same_sync_def)
  show ?thesis
    unfolding sync_def claim_lost_def Let_def by (intro acts claim obs)
qed

section \<open>The finalizer\<close>

lemma issues_local_cleanup:
  assumes "namespaced (rc_Client r)" "cs_Namespace cs = ns"
  shows "issues (local_call ns) (cleanup r cs)"
proof -
  have "issues (local_call ns) (unwire_workload r cs)"
    unfolding unwire_workload_def Let_def assms(2) by (intro issue_rules issues_local_workload)
  moreover have "issues (local_call ns) (singletonConflict r)"
    unfolding singletonConflict_def by (intro issue_rules)
  ultimately show ?thesis
    unfolding cleanup_def by (intro issue_rules issues_local_prunes [OF assms])
qed

lemma finalize_local:
  assumes "namespaced (rc_Client r)" "cs_Namespace (w_CS w) = ns"
  shows "\<exists>calls. w_Calls (snd (run_state (finalize r) w)) = w_Calls w @ calls \<and> list_all (local_call ns) calls"
proof -
  obtain x w1 where c: "run_state (cleanup r (w_CS w)) w = (x, w1)" by (cases "run_state (cleanup r (w_CS w)) w")
  obtain calls where s: "w_Calls w1 = w_Calls w @ calls" "list_all (local_call ns) calls"
    using issuesE [OF issues_local_cleanup [OF assms], of w] c by auto
  have "holds_sync (w_CS w) (cleanup r (w_CS w))"
    unfolding cleanup_def by (intro keeps holds_sync_cleanup)
  from keeps_predD [OF this refl] c have w1: "w_CS w1 = w_CS w" by simp
  have "local_call ns (CUpdate (lib_RemoveFinalizer (rc_Client r) (w_CS w) FinalizerName))"
    using namespacedD(3) [OF assms(1)] assms(2) by simp
  with c s w1 show ?thesis
    by (cases x) (auto simp: finalize_cleanup run_simps)
qed

section \<open>Reconcile\<close>

lemma reconcile_object_local:
  fixes r :: "'k reconciler" and w :: "'k world"
  assumes cl: "namespaced (rc_Client r)" and ro: "resolvers_read_only r"
  shows "\<exists>calls. w_Calls (snd (run_state (reconcile_object r ns name) w)) = w_Calls w @ calls \<and> list_all (local_call ns) calls"
proof (cases "fst (cl_GetConfigSync (rc_Client r) ns name (w_Cluster w))")
  case (Inl e)
  then show ?thesis by (simp add: reconcile_object_def run_reads)
next
  case (Inr cs)
  have ns: "cs_Namespace cs = ns" using namespacedD(4) [OF cl Inr] .
  define w1 where "w1 = w\<lparr>w_Cluster := snd (cl_GetConfigSync (rc_Client r) ns name (w_Cluster w)), w_CS := cs\<rparr>"
  have w1: "w_CS w1 = cs" "w_Calls w1 = w_Calls w" by (simp_all add: w1_def)
  have fin: "\<exists>calls. w_Calls (snd (run_state (finalize r) w1)) = w_Calls w1 @ calls \<and> list_all (local_call ns) calls"
    using finalize_local [OF cl, of w1 ns] ns w1 by blast
  obtain out w2 where s: "run_state (sync r) w1 = (out, w2)" by (cases "run_state (sync r) w1")
  have "same_sync cs (w_CS w1)" by (simp add: w1 same_sync_def)
  from acts_forD [OF acts_local_sync [OF cl ro ns] this] s obtain calls where
    w2: "same_sync cs (w_CS w2)" "w_Calls w2 = w_Calls w @ calls" "list_all (local_call ns) calls"
    by (auto simp: w1)
  obtain u w3 where rec: "run_state recordReconcileResult w2 = (u, w3)" by (cases "run_state recordReconcileResult w2")
  then have w3: "w_CS w3 = w_CS w2" "w_Calls w3 = w_Calls w2"
    by (auto simp: recordReconcileResult_def run_acts Let_def split: prod.splits)
  have ns2: "cs_Namespace (w_CS w2) = ns" using w2(1) ns by (simp add: same_sync_def)
  have ev: "w_Calls (snd (run_state (record_event r t reason msg) v)) = w_Calls v" for t reason msg and v :: "'k world"
    by (rule issues_nothing [OF issues_record_event])
  show ?thesis
    using fin s rec w1 w2 w3 ns ns2 namespacedD(2) [OF cl] Inr ev
    by (auto simp: reconcile_object_def run_simps w1_def [symmetric] split_beta split: option.split)
qed

lemma Reconcile_local:
  assumes "namespaced (rc_Client r)" "resolvers_read_only r"
  shows "\<exists>calls. w_Calls (snd (run_state (Reconcile r ns name) w)) = w_Calls w @ calls \<and> list_all (local_call ns) calls"
  using reconcile_object_local [OF assms, of ns name "w\<lparr>w_Cluster := snd (cl_Now (rc_Client r) (w_Cluster w))\<rparr>"]
  by (simp add: run_Reconcile split_beta)

end
