(* ===== verification/Operator_Properties.thy ===== *)
theory Operator_Properties
  imports Controller_Properties Git_Properties Ctl_Namespace Ctl_Outcome
begin

text \<open>Properties of the operator as a whole: secret resolution, the configuration, production runs.\<close>

section \<open>Secret resolution\<close>

text \<open>The state of a reference as the status reports it.\<close>

definition reported :: "secret_ref_status list \<Rightarrow> (bool \<times> bool) list" where
  "reported = map (\<lambda>s. (ss_Resolved s, ss_Established s))"

lemma reported_flags:
  "reported (map snd (fst (run_state (resolve_refs r ns prior refs) w))) =
   flags_of (map fst (fst (run_state (resolve_refs r ns prior refs) w)))"
  by (induction refs arbitrary: w)
     (auto simp: reported_def flags_of_def evaluated_def ref_status_def split_beta run_simps)

lemma setCondition_status:
  "run_state (setCondition r t st reason msg) w = (u, w') \<Longrightarrow>
   st_SecretRefs (cs_Status (w_CS w')) = st_SecretRefs (cs_Status (w_CS w))"
  by (auto simp: setCondition_def run_simps)

text \<open>The two runs of the resolution: without references, and over them.\<close>

lemma run_resolve_none:
  "sp_SecretRefs (cs_Spec (w_CS w)) = [] \<Longrightarrow>
   run_state (resolveSecrets r now) w =
     (let d = Evaluate [] 0 0 now; w1 = snd (run_state (set_status (\<lambda>st. st\<lparr>st_SecretRefs := []\<rparr>)) w)
      in (d, snd (run_state (setCondition r ConditionSecretsReady CondTrue (d_Reason d) (d_Message d)) w1)))"
  by (simp add: resolveSecrets_def run_acts split_beta Let_def)

lemma run_resolve_refs:
  "sp_SecretRefs (cs_Spec (w_CS w)) \<noteq> [] \<Longrightarrow>
   run_state (resolveSecrets r now) w =
     (let x = run_state (resolve_refs r (cs_Namespace (w_CS w))
                (priorEstablished (st_SecretRefs (cs_Status (w_CS w)))) (sp_SecretRefs (cs_Spec (w_CS w)))) w;
          d = Evaluate (map fst (fst x)) (degraded_since (w_CS w) now) (max_degraded r) now;
          w1 = snd (run_state (set_status (\<lambda>st. st\<lparr>st_SecretRefs := map snd (fst x)\<rparr>)) (snd x));
          m = run_state (redactMsg r (d_Message d)) w1
      in (d, snd (run_state (setCondition r ConditionSecretsReady (if d_SecretsReady d then CondTrue else CondFalse)
               (d_Reason d) (fst m)) (snd m))))"
  by (simp add: resolveSecrets_def run_acts split_beta Let_def)

lemma set_status_refs:
  "st_SecretRefs (cs_Status (w_CS (snd (run_state (set_status (\<lambda>st. st\<lparr>st_SecretRefs := xs\<rparr>)) w)))) = xs"
  by (simp add: set_status_def run_acts)

lemma redactMsg_CS: "w_CS (snd (run_state (redactMsg r msg) w)) = w_CS w"
  by (simp add: redactMsg_def run_acts)

text \<open>The report of a resolution.\<close>

lemma resolve_report:
  assumes "condition_law (rc_Client r)" "run_state (resolveSecrets r now) w = (d, w')"
  shows "map ss_Name (st_SecretRefs (cs_Status (w_CS w'))) = map sr_Name (sp_SecretRefs (cs_Spec (w_CS w))) \<and>
    list_all (\<lambda>s. ss_Established s = priorEstablished (st_SecretRefs (cs_Status (w_CS w))) (ss_Name s))
      (st_SecretRefs (cs_Status (w_CS w'))) \<and>
    d_Reason d = phase_reason (readiness (reported (st_SecretRefs (cs_Status (w_CS w'))))
      (too_long (degraded_since (w_CS w) now) (max_degraded r) now)) \<and>
    d_AllReady d = list_all ss_Resolved (st_SecretRefs (cs_Status (w_CS w'))) \<and>
    conditionTrue (w_CS w') ConditionSecretsReady = d_AllReady d \<and>
    conditionReason (w_CS w') ConditionSecretsReady = d_Reason d"
proof (cases "sp_SecretRefs (cs_Spec (w_CS w)) = []")
  case True
  define w1 where "w1 = snd (run_state (set_status (\<lambda>st. st\<lparr>st_SecretRefs := []\<rparr>)) w)"
  have s: "run_state (setCondition r ConditionSecretsReady CondTrue (d_Reason d) (d_Message d)) w1 = ((), w')"
      "st_SecretRefs (cs_Status (w_CS w1)) = []" "d = Evaluate [] 0 0 now"
    using assms(2) True set_status_refs [of "[]" w] by (auto simp: run_resolve_none Let_def w1_def prod_eq_iff)
  have d: "d_AllReady d" "d_Reason d = ReasonSynced" by (simp_all add: s(3) Evaluate_def)
  show ?thesis
    using setCondition_conditions [OF assms(1) s(1)] setCondition_status [OF s(1)] s(2) d True
    by (simp add: reported_def readiness_def)
next
  case False
  let ?prior = "priorEstablished (st_SecretRefs (cs_Status (w_CS w)))"
  let ?run = "run_state (resolve_refs r (cs_Namespace (w_CS w)) ?prior (sp_SecretRefs (cs_Spec (w_CS w)))) w"
  define w0 where "w0 = snd (run_state (set_status (\<lambda>st. st\<lparr>st_SecretRefs := map snd (fst ?run)\<rparr>)) (snd ?run))"
  define m where "m = fst (run_state (redactMsg r (d_Message d)) w0)"
  define w1 where "w1 = snd (run_state (redactMsg r (d_Message d)) w0)"
  have w1: "w_CS w1 = w_CS w0" by (simp add: w1_def redactMsg_CS)
  have d3: "d = Evaluate (map fst (fst ?run)) (degraded_since (w_CS w) now) (max_degraded r) now"
    using assms(2) False by (simp add: run_resolve_refs Let_def)
  have s: "run_state (setCondition r ConditionSecretsReady
         (if d_SecretsReady d then CondTrue else CondFalse) (d_Reason d) m) w1 = ((), w')"
      "st_SecretRefs (cs_Status (w_CS w1)) = map snd (fst ?run)"
      "d = Evaluate (map fst (fst ?run)) (degraded_since (w_CS w) now) (max_degraded r) now"
    using assms(2) False set_status_refs [of "map snd (fst ?run)" "snd ?run"] w1 d3
    by (auto simp: run_resolve_refs Let_def w1_def m_def w0_def prod_eq_iff)
  have sts: "st_SecretRefs (cs_Status (w_CS w')) = map snd (fst ?run)"
    using setCondition_status [OF s(1)] s(2) by simp
  have flags: "flags_of (map fst (fst ?run)) = reported (st_SecretRefs (cs_Status (w_CS w')))"
    by (simp add: sts reported_flags)
  have all: "list_all fst (reported xs) = list_all ss_Resolved xs" for xs
    by (simp add: reported_def list_all_iff)
  have d: "d_SecretsReady d = d_AllReady d" "d_AllReady d = list_all ss_Resolved (st_SecretRefs (cs_Status (w_CS w')))"
    unfolding s(3) Evaluate_refines flags readiness_Resolved_iff all by simp_all
  have names: "map ss_Name (st_SecretRefs (cs_Status (w_CS w'))) = map sr_Name (sp_SecretRefs (cs_Spec (w_CS w)))"
    unfolding sts using resolve_refs_shape(2) by (simp add: comp_def)
  have kept: "list_all (\<lambda>s. ss_Established s = ?prior (ss_Name s)) (st_SecretRefs (cs_Status (w_CS w')))"
    unfolding sts using resolve_refs_shape(3) [of ?prior r "cs_Namespace (w_CS w)" "sp_SecretRefs (cs_Spec (w_CS w))" w]
    by (auto simp: list_all_iff)
  show ?thesis
    using setCondition_conditions [OF assms(1) s(1), of ConditionSecretsReady] names kept d Evaluate_refines(1) flags s(3)
    by (simp split: if_splits)
qed

text \<open>C10: Resolving the secrets of a ConfigSync leaves one status per reference, in order, with
  the establishment of earlier syncs; the decision is that of the readiness policy on these statuses,
  and the SecretsReady condition is true, with its reason, exactly when every reference is resolved.\<close>

theorem resolveSecrets_reports:
  assumes "condition_law (rc_Client r)" "run_state (resolveSecrets r now) w = (d, w')"
  shows "map ss_Name (st_SecretRefs (cs_Status (w_CS w'))) = map sr_Name (sp_SecretRefs (cs_Spec (w_CS w))) \<and>
    list_all (\<lambda>s. ss_Established s = priorEstablished (st_SecretRefs (cs_Status (w_CS w))) (ss_Name s))
      (st_SecretRefs (cs_Status (w_CS w'))) \<and>
    d_Reason d = phase_reason (readiness (reported (st_SecretRefs (cs_Status (w_CS w'))))
      (too_long (degraded_since (w_CS w) now) (max_degraded r) now)) \<and>
    d_AllReady d = list_all ss_Resolved (st_SecretRefs (cs_Status (w_CS w'))) \<and>
    conditionTrue (w_CS w') ConditionSecretsReady = d_AllReady d \<and>
    conditionReason (w_CS w') ConditionSecretsReady = d_Reason d"
  by (rule resolve_report [OF assms])

theorem resolveSecrets_reports_witness:
  "map ss_Name (st_SecretRefs (cs_Status (w_CS (snd (run_state (resolveSecrets demo_reconciler 100) demo_gated))))) = [''db''] \<and>
   \<not> conditionTrue (w_CS (snd (run_state (resolveSecrets demo_reconciler 100) demo_gated))) ConditionSecretsReady"
proof -
  have "sp_SecretRefs (cs_Spec (w_CS demo_gated)) = [demo_secret_ref]" "sr_Name demo_secret_ref = ''db''"
    by (simp_all add: demo_gated_def demo_secret_ref_def)
  with resolveSecrets_reports [OF demo_reconciler_facts(1) prod.collapse [symmetric], of 100 demo_gated] demo_gated_waits
  show ?thesis by simp
qed

text \<open>What the wiring marked as established is what the next resolution reads.\<close>

lemma priorEstablished_marked:
  "priorEstablished (map (\<lambda>s. s\<lparr>ss_Established := True\<rparr>) sts) n \<longleftrightarrow> n \<in> ss_Name ` set sts"
proof -
  have "(\<lambda>s. ss_Name s = n) \<circ> (\<lambda>s. s\<lparr>ss_Established := True\<rparr>) = (\<lambda>s. ss_Name s = n)" by (simp add: fun_eq_iff)
  note same = this
  have f: "List.find (\<lambda>s. ss_Name s = n) (map (\<lambda>s. s\<lparr>ss_Established := True\<rparr>) xs) =
      map_option (\<lambda>s. s\<lparr>ss_Established := True\<rparr>) (List.find (\<lambda>s. ss_Name s = n) xs)" for xs
    unfolding find_map_type same ..
  show ?thesis
  proof (cases "List.find (\<lambda>s. ss_Name s = n) (rev sts)")
    case None
    then have "n \<notin> ss_Name ` set sts" by (auto simp: find_None_iff)
    with None show ?thesis by (simp add: priorEstablished_def rev_map f)
  next
    case (Some s)
    then have "n \<in> ss_Name ` set sts" by (auto dest!: find_SomeD)
    with Some show ?thesis by (simp add: priorEstablished_def rev_map f)
  qed
qed

lemma phase_established:
  assumes "list_all snd flags"
  shows "phase_reason (readiness flags t) \<noteq> ReasonAwaitingFirstResolution"
proof -
  have "\<not> list_ex (\<lambda>(ready, established). \<not> ready \<and> \<not> established) flags"
    using assms by (auto simp: list_ex_iff list_all_iff)
  then show ?thesis by (simp add: readiness_def)
qed

text \<open>C11: Once a wired sync has marked its references, the mark survives in the status: the next
  resolution of the same references finds each of them established, so an outage is served from the
  last good version and never treated as a first resolution.\<close>

theorem established_fail_safe:
  assumes "condition_law (rc_Client r)" "run_state markSecretsEstablished w = (u, w1)"
    and "st_SecretRefs (cs_Status (w_CS v)) = st_SecretRefs (cs_Status (w_CS w1))"
    and "map sr_Name (sp_SecretRefs (cs_Spec (w_CS v))) = map ss_Name (st_SecretRefs (cs_Status (w_CS w)))"
    and "run_state (resolveSecrets r now) v = (d, v')"
  shows "list_all ss_Established (st_SecretRefs (cs_Status (w_CS v'))) \<and> d_Reason d \<noteq> ReasonAwaitingFirstResolution"
proof -
  let ?sts = "st_SecretRefs (cs_Status (w_CS v'))"
  have marked: "st_SecretRefs (cs_Status (w_CS v)) =
      map (\<lambda>s. s\<lparr>ss_Established := True\<rparr>) (st_SecretRefs (cs_Status (w_CS w)))"
    using assms(2,3) by (auto simp: markSecretsEstablished_def set_status_def run_acts)
  note rep = resolve_report [OF assms(1,5)]
  have "ss_Name ` set ?sts = ss_Name ` set (st_SecretRefs (cs_Status (w_CS w)))"
    using rep assms(4) by (metis list.set_map)
  then have all: "list_all ss_Established ?sts"
    using rep unfolding marked by (auto simp: list_all_iff priorEstablished_marked)
  then have "list_all snd (reported ?sts)" by (simp add: reported_def list_all_iff)
  from phase_established [OF this] rep all show ?thesis by simp
qed

theorem established_fail_safe_witness:
  "list_all ss_Established (st_SecretRefs (cs_Status (w_CS (snd (run_state (resolveSecrets demo_reconciler 100)
     (snd (run_state markSecretsEstablished (snd (run_state (resolveSecrets demo_reconciler 100) demo_gated)))))))))"
proof -
  let ?w = "snd (run_state (resolveSecrets demo_reconciler 100) demo_gated)"
  let ?v = "snd (run_state markSecretsEstablished ?w)"
  have "map sr_Name (sp_SecretRefs (cs_Spec (w_CS ?v))) = map ss_Name (st_SecretRefs (cs_Status (w_CS ?w)))"
    by code_simp
  from established_fail_safe [OF demo_reconciler_facts(1) prod.collapse [symmetric] refl this prod.collapse [symmetric]]
  show ?thesis by blast
qed

section \<open>The operator's configuration\<close>

text \<open>Loading the configuration fails only if the file cannot be read or decoded; the bound on
  degraded service of a loaded configuration is positive, so no configuration turns it off.\<close>

theorem config_Load_errors:
  "case config_Load readFile unmarshal path of
     Inl e \<Rightarrow> path \<noteq> [] \<and> (case readFile path of Inl e' \<Rightarrow> True | Inr data \<Rightarrow> isl (unmarshal data config_Default))
   | Inr c \<Rightarrow> 0 < cf_MaxDegradedDuration c"
  by (cases "config_Load readFile unmarshal path")
     (auto simp: config_Load_cases config_Load_pos split: if_splits sum.splits)

section \<open>No secret in an event\<close>



section \<open>The production operator\<close>

text \<open>A sync that writes has fetched, and with the dependencies of the set-up the fetch admits https and
  ssh sources only, of a host that the SSRF guard accepts and the allow-list permits.\<close>

lemma production_admits:
  assumes "run_state (sync (production pf cl reader c)) w = (out, w')" "w_Calls w' \<noteq> w_Calls w"
  shows "\<exists>p. parseURL (src_URL (sp_Source (cs_Spec (w_CS w)))) False = Inr p \<and>
     (pu_kind p = transportHTTPS \<or> pu_kind p = transportSSH) \<and>
     reachable (Some (pf_DefaultResolver pf)) (pu_host p) \<and>
     (cf_SourceAllowList c = [] \<or> list_ex (entry_permits p) (cf_SourceAllowList c))"
proof -
  let ?r = "production pf cl reader c" and ?git = "fst (NewClient (default_git_options pf c))"
  let ?ref = "source_reference (w_CS w)"
  obtain res cred k where "fst (rc_Fetch ?r ?ref cred k) = Inr res"
    using sync_calls [OF production_resolvers [of pf cl reader c], of w] assms
    by (auto simp: sync_calls_ok_def)
  then obtain gw gw' where "run_state (Fetch ?git (pf_Git pf) ?ref cred) gw = (Inr res, gw')"
    by (auto simp: on_platform_def split: prod.splits)
  from Fetch_admits [OF this _ production_client(2,3), of res] show ?thesis
    by (simp add: production_client source_reference_def)
qed

text \<open>A platform over the in-memory cluster that keeps no cached worktree from one sync to the next.\<close>

definition demo_platform :: "mem platform" where
  "demo_platform = \<lparr>pf_Git = demo_env_on (\<lambda>k. k), pf_GetCache = (\<lambda>k. newFetchCache minute 2),
     pf_PutCache = (\<lambda>c k. k), pf_GetTemp = (\<lambda>k. []), pf_PutTemp = (\<lambda>t k. k),
     pf_DefaultResolver = (\<lambda>h. Inr [[93, 184, 216, 34]]), pf_Tree = (\<lambda>k. demo_empty_fs), pf_Yaml = demo_yl,
     pf_Meta = demo_tree configmap_gvk [], pf_Remove = (\<lambda>d k. (None, k))\<rparr>"

definition demo_operator :: "mem reconciler" where
  "demo_operator = production demo_platform mem_client mem_client (config_Default\<lparr>cf_SourceAllowList := [''g.io'']\<rparr>)"

text \<open>The ConfigSync of the demonstration, pinned to a short commit hash.\<close>

definition demo_pinned :: config_sync where
  "demo_pinned = demo_sync\<lparr>cs_Spec := demo_spec\<lparr>sp_Source :=
     \<lparr>src_URL = ''https://g.io/a'', src_Ref = ''c0ffee1'', src_AuthSecretRef = None\<rparr>\<rparr>\<rparr>"

definition demo_pinned_world :: "mem world" where
  "demo_pinned_world = demo_start\<lparr>w_CS := demo_pinned\<rparr>"

lemma demo_operator_fetches:
  "fst (rc_Fetch demo_operator (source_reference demo_pinned) None k) =
     Inr \<lparr>fr_Commit = ''c0ffee1'', fr_Dir = ''/tmp/w/conf'', fr_WorktreeDir = ''/tmp/w'',
           fr_Cleanup = RemoveDir ''/tmp/w''\<rparr>"
proof -
  let ?git = "fst (NewClient (default_git_options demo_platform (config_Default\<lparr>cf_SourceAllowList := [''g.io'']\<rparr>)))"
  have "fst (run_state (Fetch ?git (demo_env_on (\<lambda>k. k)) (source_reference demo_pinned) None)
      \<lparr>gw_Os = k, gw_Cache = newFetchCache minute 2, gw_Temp = []\<rparr>) =
     Inr \<lparr>fr_Commit = ''c0ffee1'', fr_Dir = ''/tmp/w/conf'', fr_WorktreeDir = ''/tmp/w'',
           fr_Cleanup = RemoveDir ''/tmp/w''\<rparr>"
    by code_simp
  then show ?thesis
    by (simp add: demo_operator_def on_platform_def demo_platform_def split_beta)
qed

lemma demo_operator_sel:
  "rc_Client demo_operator = mem_client"
  by (simp add: demo_operator_def)

lemma demo_operator_fetches_current:
  "fst (rc_Fetch demo_operator (source_reference (demo_pinned\<lparr>cs_Status := st\<rparr>)) None k) =
     Inr \<lparr>fr_Commit = ''c0ffee1'', fr_Dir = ''/tmp/w/conf'', fr_WorktreeDir = ''/tmp/w'',
           fr_Cleanup = RemoveDir ''/tmp/w''\<rparr>"
  using demo_operator_fetches [of k] by (simp add: source_reference_def)

lemma demo_operator_writes:
  "w_Calls (snd (run_state (sync demo_operator) demo_pinned_world)) \<noteq> w_Calls demo_pinned_world"
proof -
  define cs where "cs = demo_pinned\<lparr>cs_Status := (cs_Status demo_pinned)\<lparr>st_ObservedGeneration := cs_Generation demo_pinned\<rparr>\<rparr>"
  define w0 where "w0 = demo_pinned_world\<lparr>w_CS := cs\<rparr>"
  have w: "w_CS demo_pinned_world = demo_pinned" "w_Calls demo_pinned_world = []" "w_CS w0 = cs"
    by (simp_all add: demo_pinned_world_def demo_start_def mem_world_def w0_def)
  have alone: "run_state (singletonConflict demo_operator) w0 = (None, w0)"
    by (simp add: run_singletonConflict demo_operator_sel mem_client_sel w0_def cs_def demo_pinned_world_def demo_start_def
        mem_world_def demo_mem_def demo_pinned_def demo_sync_def rival_def)
  have cred: "run_state (loadCredential demo_operator) w0 = (Inr None, w0)"
    by (simp add: loadCredential_def run_acts w cs_def demo_pinned_def)
  have fetch: "fst (rc_Fetch demo_operator (source_reference cs) None k) =
     Inr \<lparr>fr_Commit = ''c0ffee1'', fr_Dir = ''/tmp/w/conf'', fr_WorktreeDir = ''/tmp/w'', fr_Cleanup = RemoveDir ''/tmp/w''\<rparr>" for k
    unfolding cs_def by (rule demo_operator_fetches_current)
  have "w_Calls (snd (run_state (after_claim demo_operator cs steady) w0)) \<noteq> []" for steady
    by (simp add: after_claim_def timed_fetch_def cred fetch run_simps split_beta)
  then have "w_Calls (snd (run_state (sync demo_operator) demo_pinned_world)) \<noteq> []"
    by (simp add: sync_def run_acts w Let_def alone flip: cs_def w0_def)
  then show ?thesis by (simp add: w)
qed

section \<open>Staying in the queue\<close>

text \<open>C6: A reconcile of a live ConfigSync always comes back: it ends with an error, which the queue
  retries, with an immediate requeue or with a timed one. Only an object that is gone leaves the queue.\<close>

theorem Reconcile_keeps_going:
  "case fst (cl_GetConfigSync (rc_Client r) ns name (snd (cl_Now (rc_Client r) (w_Cluster w)))) of
     Inl e \<Rightarrow> fst (run_state (Reconcile r ns name) w) = (no_requeue, if isNotFound e then None else Some e)
   | Inr cs \<Rightarrow> if not_deleting cs then comes_back (fst (run_state (Reconcile r ns name) w)) else True"
  by (rule Reconcile_comes_back)

section \<open>Staying in the namespace\<close>

text \<open>C5: Every call by which a reconcile of a ConfigSync changes the cluster, in the pipeline, in
  the finalizer or on the ConfigSync itself, concerns an object of that ConfigSync's namespace, whatever
  the manifests in git say.\<close>

theorem writes_stay_in_namespace:
  assumes "namespaced (rc_Client r)" "resolvers_read_only r"
  shows "\<exists>calls. w_Calls (snd (run_state (Reconcile r ns name) w)) = w_Calls w @ calls \<and> list_all (local_call ns) calls"
  by (rule Reconcile_local [OF assms])

lemma mem_namespaced: "namespaced mem_client"
  by (auto simp: namespaced_def mem_client_def mem_list_def lookup_def dest!: find_SomeD split: option.splits)

theorem writes_stay_in_namespace_witness:
  "\<exists>calls. w_Calls (snd (run_state (Reconcile demo_operator ''prod'' ''web'') demo_start)) = calls \<and>
     list_all (local_call ''prod'') calls"
proof -
  have "resolvers_read_only demo_operator" unfolding demo_operator_def by (rule production_resolvers)
  moreover have "namespaced (rc_Client demo_operator)" by (simp add: demo_operator_sel mem_namespaced)
  moreover have "w_Calls demo_start = []" by (simp add: demo_start_def mem_world_def)
  ultimately show ?thesis using writes_stay_in_namespace [of demo_operator "''prod''" "''web''" demo_start] by simp
qed

end
