(* ===== verification/Main_Properties.thy ===== *)
theory Main_Properties
  imports Ctl_Main Operator_Properties
begin

text \<open>Properties of the process: where it writes from, given its command line, and what its watches ask for.\<close>

section \<open>From the command line to the cluster\<close>

text \<open>C4: A process that serves writes to the cluster only from sources its operator permits: the command
  line names a configuration that loads, the manager was made with the options of the command line and
  caches no Secret without the credential label, and a sync that changes the cluster is of an https or ssh
  source whose host the SSRF guard accepts with the system resolver and which the allow-list of that
  configuration permits.\<close>

theorem operator_writes_permitted:
  assumes "main h = Served r rd opts code" "run_state (sync r) w = (out, w')" "w_Calls w' \<noteq> w_Calls w"
  shows "\<exists>fl cfg mgr p. parse_flags (ho_Flags h) default_flags (ho_Args h) = Inr fl \<and>
     config_Load (ho_ReadFile h) (ho_Unmarshal h) (mf_configPath fl) = Inr cfg \<and>
     ho_NewManager h opts = Inr mgr \<and> mg_SecretLabels opts = [(LabelGitCredential, ''true'')] \<and>
     set (mg_DefaultNamespaces opts) = {ho_Getenv h ''WATCH_NAMESPACE''} - {[]} \<and>
     parseURL (src_URL (sp_Source (cs_Spec (w_CS w)))) False = Inr p \<and>
     (pu_kind p = transportHTTPS \<or> pu_kind p = transportSSH) \<and>
     reachable (Some (pf_DefaultResolver (mn_Platform mgr))) (pu_host p) \<and>
     (cf_SourceAllowList cfg = [] \<or> list_ex (entry_permits p) (cf_SourceAllowList cfg))"
proof -
  obtain fl cfg mgr where start: "parse_flags (ho_Flags h) default_flags (ho_Args h) = Inr fl"
      "config_Load (ho_ReadFile h) (ho_Unmarshal h) (mf_configPath fl) = Inr cfg"
      "opts = managerOptions fl (ho_Getenv h)" "ho_NewManager h opts = Inr mgr"
      "r = production (mn_Platform mgr) (mn_Client mgr) (mn_APIReader mgr) cfg"
    using main_Served [OF assms(1)] by blast
  from production_admits [OF assms(2) [unfolded start(5)] assms(3)] start(1,2,4) show ?thesis
    by (auto simp: start(3) managerOptions_def Let_def)
qed

definition demo_manager :: "mem manager" where
  "demo_manager = \<lparr>mn_Client = mem_client, mn_APIReader = mem_client, mn_Platform = demo_platform,
     mn_Complete = (\<lambda>r ws. None), mn_AddHealthz = None, mn_AddReadyz = None, mn_Start = None\<rparr>"

definition demo_host :: "mem host" where
  "demo_host = \<lparr>ho_Args = [''--config=/etc/kohen.yaml'', ''--leader-elect''],
     ho_Getenv = (\<lambda>v. if v = ''WATCH_NAMESPACE'' then ''prod'' else []),
     ho_ReadFile = (\<lambda>path. if path = ''/etc/kohen.yaml'' then Inr ''allow'' else Inl (Plain ''no such file'')),
     ho_Unmarshal = (\<lambda>data c. Inr (c\<lparr>cf_SourceAllowList := [''g.io'']\<rparr>)),
     ho_Flags = (\<lambda>name. None), ho_RestConfig = None, ho_NewManager = (\<lambda>opts. Inr demo_manager)\<rparr>"

definition demo_flags :: main_flags where
  "demo_flags = default_flags\<lparr>mf_configPath := ''/etc/kohen.yaml'', mf_enableLeader := True\<rparr>"

lemma demo_host_flags: "parse_flags (ho_Flags demo_host) default_flags (ho_Args demo_host) = Inr demo_flags"
  by code_simp

lemma demo_host_config:
  "config_Load (ho_ReadFile demo_host) (ho_Unmarshal demo_host) (mf_configPath demo_flags) =
     Inr (config_Default\<lparr>cf_SourceAllowList := [''g.io'']\<rparr>)"
  by code_simp

lemma demo_serve: "serve demo_manager opts (config_Default\<lparr>cf_SourceAllowList := [''g.io'']\<rparr>) = Served demo_operator redactor_New opts 0"
  by (simp add: serve_production demo_manager_def flip: demo_operator_def)

lemma demo_host_sel: "ho_RestConfig demo_host = None" "ho_NewManager demo_host opts = Inr demo_manager"
  by (simp_all add: demo_host_def)

lemma demo_host_serves:
  "main demo_host = Served demo_operator redactor_New (managerOptions demo_flags (ho_Getenv demo_host)) 0"
  by (simp add: main_def demo_host_flags demo_host_config demo_host_sel demo_serve)

theorem operator_writes_permitted_witness:
  "\<exists>p. parseURL ''https://g.io/a'' False = Inr p \<and>
     reachable (Some (\<lambda>h. Inr [[93, 184, 216, 34]])) (pu_host p) \<and> list_ex (entry_permits p) [''g.io'']"
  using operator_writes_permitted [OF demo_host_serves prod.collapse [symmetric] demo_operator_writes]
    demo_host_flags demo_host_config
  by (auto simp: demo_host_def demo_manager_def demo_platform_def demo_pinned_world_def demo_pinned_def)

section \<open>Watches\<close>







end
