(* ===== verification/Report_Properties.thy ===== *)
theory Report_Properties
  imports Ctl_Demo Ctl_Reports
begin

text \<open>What the operator reports: the conditions of the status and the metrics.\<close>

section \<open>The status\<close>







section \<open>The metrics\<close>

text \<open>C28: Whatever ConfigSyncs the production operator reconciles, in whatever order and with whatever
  outcomes, its counters have only series of a fixed set of 34, and it exports at most one version per
  ConfigSync.\<close>

theorem metrics_stay_bounded:
  fixes w :: "'k world" and reqs :: "(string \<times> string) list" and pf cl reader c
  defines "m \<equiv> w_Metrics (fold (\<lambda>(ns, name) w. snd (run_state (Reconcile (production pf cl reader c) ns name) w)) reqs
    (w\<lparr>w_Metrics := metrics_init\<rparr>))"
  shows "{series. mt_Counters m series \<noteq> 0} \<subseteq> set counter_series \<and> length counter_series = 34 \<and>
     (\<forall>ns name. \<exists>v. versions_of m ns name \<subseteq> {v})"
proof -
  have "metrics_bounded (w_Metrics v) \<Longrightarrow> metrics_bounded (w_Metrics
      (fold (\<lambda>(ns, name) w. snd (run_state (Reconcile (production pf cl reader c) ns name) w)) reqs v))" for v
    by (induction reqs arbitrary: v) (auto dest: keeps_predD [OF production_metrics.inv_Reconcile])
  then have "metrics_bounded m" unfolding m_def by (simp add: metrics_bounded_init)
  moreover have "length counter_series = 34" by (simp add: counter_series_def)
  ultimately show ?thesis unfolding metrics_bounded_def one_series_def by blast
qed

end
