(* ===== verification/Go_Store.thy ===== *)
theory Go_Store
  imports Prelude
begin

text \<open>
  Memory as Go has it, for the code whose meaning depends on aliasing. A store maps addresses to
  arrays; \<open>new\<close> and \<open>make\<close> take the next free address. A pointer designates one element of an array and
  a slice a window of one, with its capacity, so slices may overlap and pointers may lead into them.
  Which arrays there are is a type of the client; \<open>elem\<close> says how arrays of one element type are cells
  of it.

  The locale \<open>deep_copy\<close> is the contract of a deep copy: it only allocates, its result depends on
  nothing but what it allocated and reads as the original did, and what a value reads as depends only
  on memory that existed when it was well formed. Pointers and slices of deep copies are deep copies,
  and so are structs of them.
\<close>

section \<open>Stores, pointers and slices\<close>

record 'c store =
  sto_Next :: nat
  sto_Cells :: "nat \<rightharpoonup> 'c"

record pointer =
  pt_Arr :: nat
  pt_Idx :: nat

record slice =
  sl_Arr :: nat
  sl_Off :: nat
  sl_Len :: nat
  sl_Cap :: nat

record ('c, 'a) elem =
  el_inj :: "'a list \<Rightarrow> 'c"
  el_prj :: "'c \<Rightarrow> 'a list option"
  el_zero :: 'a

definition elem_ok :: "('c, 'a) elem \<Rightarrow> bool" where
  "elem_ok e \<longleftrightarrow> (\<forall>xs. el_prj e (el_inj e xs) = Some xs)"

definition arr :: "('c, 'a) elem \<Rightarrow> 'c store \<Rightarrow> nat \<Rightarrow> 'a list option" where
  "arr e h a = Option.bind (sto_Cells h a) (el_prj e)"

text \<open>An element of an array. Go's memory safety excludes the default case.\<close>

definition at :: "('c, 'a) elem \<Rightarrow> 'c store \<Rightarrow> nat \<Rightarrow> nat \<Rightarrow> 'a" where
  "at e h a i = (case arr e h a of Some xs \<Rightarrow> if i < length xs then xs ! i else el_zero e | None \<Rightarrow> el_zero e)"

definition alloc :: "('c, 'a) elem \<Rightarrow> nat \<Rightarrow> ('c store, nat) state" where
  "alloc e n = State (\<lambda>h. (sto_Next h,
     \<lparr>sto_Next = Suc (sto_Next h), sto_Cells = (sto_Cells h)(sto_Next h \<mapsto> el_inj e (replicate n (el_zero e)))\<rparr>))"

definition load :: "('c, 'a) elem \<Rightarrow> nat \<Rightarrow> nat \<Rightarrow> ('c store, 'a) state" where
  "load e a i = State (\<lambda>h. (at e h a i, h))"

definition assign :: "('c, 'a) elem \<Rightarrow> nat \<Rightarrow> nat \<Rightarrow> 'a \<Rightarrow> ('c store, unit) state" where
  "assign e a i v = State (\<lambda>h. ((), case arr e h a of
     Some xs \<Rightarrow> h\<lparr>sto_Cells := (sto_Cells h)(a \<mapsto> el_inj e (xs[i := v]))\<rparr> | None \<Rightarrow> h))"

text \<open>\<open>new(T)\<close> and \<open>make([]T, n)\<close>.\<close>

definition new :: "('c, 'a) elem \<Rightarrow> ('c store, pointer) state" where
  "new e = do { a \<leftarrow> alloc e 1; State_Monad.return \<lparr>pt_Arr = a, pt_Idx = 0\<rparr> }"

definition make :: "('c, 'a) elem \<Rightarrow> nat \<Rightarrow> ('c store, slice) state" where
  "make e n = do { a \<leftarrow> alloc e n; State_Monad.return \<lparr>sl_Arr = a, sl_Off = 0, sl_Len = n, sl_Cap = n\<rparr> }"

section \<open>The copying idioms\<close>

text \<open>\<open>for i := range *in { (*in)[i].DeepCopyInto(&(*out)[i]) }\<close> for the given indices.\<close>

primrec copy_elems ::
  "('c, 'a) elem \<Rightarrow> ('a \<Rightarrow> ('c store, 'a) state) \<Rightarrow> slice \<Rightarrow> slice \<Rightarrow> nat list \<Rightarrow> ('c store, unit) state" where
  "copy_elems e c s t [] = State_Monad.return ()"
| "copy_elems e c s t (i # is) = do {
     v \<leftarrow> load e (sl_Arr s) (sl_Off s + i);
     w \<leftarrow> c v;
     _ \<leftarrow> assign e (sl_Arr t) (sl_Off t + i) w;
     copy_elems e c s t is
   }"

text \<open>\<open>if in.X != nil { *out = make([]T, len(*in)); ... }\<close>; the built-in \<open>copy\<close> copies elements as they are.\<close>

definition copy_window ::
  "('c, 'a) elem \<Rightarrow> ('a \<Rightarrow> ('c store, 'a) state) \<Rightarrow> slice \<Rightarrow> ('c store, slice) state" where
  "copy_window e c s = do {
     t \<leftarrow> make e (sl_Len s);
     _ \<leftarrow> copy_elems e c s t [0..<sl_Len s];
     State_Monad.return t
   }"

definition copy_slice ::
  "('c, 'a) elem \<Rightarrow> ('a \<Rightarrow> ('c store, 'a) state) \<Rightarrow> slice option \<Rightarrow> ('c store, slice option) state" where
  "copy_slice e c so =
     (case so of
        None \<Rightarrow> State_Monad.return None
      | Some s \<Rightarrow> do { t \<leftarrow> copy_window e c s; State_Monad.return (Some t) })"

text \<open>\<open>if in != nil { *out = new(T); (*in).DeepCopyInto(*out) }\<close>; a plain \<open>**out = **in\<close> copies the value.\<close>

definition copy_pointee ::
  "('c, 'a) elem \<Rightarrow> ('a \<Rightarrow> ('c store, 'a) state) \<Rightarrow> pointer \<Rightarrow> ('c store, pointer) state" where
  "copy_pointee e c p = do {
     q \<leftarrow> new e;
     v \<leftarrow> load e (pt_Arr p) (pt_Idx p);
     w \<leftarrow> c v;
     _ \<leftarrow> assign e (pt_Arr q) (pt_Idx q) w;
     State_Monad.return q
   }"

definition copy_pointer ::
  "('c, 'a) elem \<Rightarrow> ('a \<Rightarrow> ('c store, 'a) state) \<Rightarrow> pointer option \<Rightarrow> ('c store, pointer option) state" where
  "copy_pointer e c po =
     (case po of
        None \<Rightarrow> State_Monad.return None
      | Some p \<Rightarrow> do { q \<leftarrow> copy_pointee e c p; State_Monad.return (Some q) })"

section \<open>Agreement of stores\<close>

definition agree_below :: "nat \<Rightarrow> 'c store \<Rightarrow> 'c store \<Rightarrow> bool" where
  "agree_below n h k \<longleftrightarrow> n \<le> sto_Next k \<and> (\<forall>a < n. sto_Cells k a = sto_Cells h a)"

definition agree_between :: "nat \<Rightarrow> nat \<Rightarrow> 'c store \<Rightarrow> 'c store \<Rightarrow> bool" where
  "agree_between lo hi h k \<longleftrightarrow> hi \<le> sto_Next k \<and> (\<forall>a. lo \<le> a \<and> a < hi \<longrightarrow> sto_Cells k a = sto_Cells h a)"

text \<open>A run allocates and writes nothing but what it allocates.\<close>

definition only_allocates :: "'c store \<Rightarrow> 'c store \<Rightarrow> bool" where
  "only_allocates h k \<longleftrightarrow> sto_Next h \<le> sto_Next k \<and>
     (\<forall>a. a < sto_Next h \<or> sto_Next k \<le> a \<longrightarrow> sto_Cells k a = sto_Cells h a)"

lemma only_allocates_refl [simp]: "only_allocates h h"
  by (simp add: only_allocates_def)

lemma only_allocates_trans: "only_allocates h k \<Longrightarrow> only_allocates k l \<Longrightarrow> only_allocates h l"
  by (auto simp: only_allocates_def)

lemma only_allocates_below: "only_allocates h k \<Longrightarrow> n \<le> sto_Next h \<Longrightarrow> agree_below n h k"
  by (simp add: only_allocates_def agree_below_def)

lemma agree_below_trans: "agree_below n h k \<Longrightarrow> agree_below n k l \<Longrightarrow> agree_below n h l"
  by (simp add: agree_below_def)

text \<open>What a prefix, or a suffix, of a run allocated is still there at its end.\<close>

lemma agree_between_prefix:
  assumes "agree_between (sto_Next h) (sto_Next l) l m" "only_allocates h k" "only_allocates k l"
  shows "agree_between (sto_Next h) (sto_Next k) k m"
  using assms by (auto simp: agree_between_def only_allocates_def)

lemma agree_between_suffix:
  assumes "agree_between (sto_Next h) (sto_Next l) l m" "only_allocates h k"
  shows "agree_between (sto_Next k) (sto_Next l) l m"
proof -
  have "sto_Next h \<le> a" if "sto_Next k \<le> a" for a
    using le_trans [OF _ that] assms(2) unfolding only_allocates_def by blast
  then show ?thesis using assms(1) unfolding agree_between_def by blast
qed

section \<open>The contract of a deep copy\<close>

locale deep_copy =
  fixes copy :: "'a \<Rightarrow> ('c store, 'a) state"
    and view :: "'c store \<Rightarrow> 'a \<Rightarrow> 'v"
    and wf :: "'c store \<Rightarrow> 'a \<Rightarrow> bool"
  assumes allocates: "wf h x \<Longrightarrow> run_state (copy x) h = (y, h') \<Longrightarrow> only_allocates h h'"
    and copied: "wf h x \<Longrightarrow> run_state (copy x) h = (y, h') \<Longrightarrow>
      agree_between (sto_Next h) (sto_Next h') h' k \<Longrightarrow> wf k y \<and> view k y = view h x"
    and local: "wf h x \<Longrightarrow> agree_below (sto_Next h) h k \<Longrightarrow> wf k x \<and> view k x = view h x"
begin

text \<open>The two sides are isolated: writes outside the copy do not show in it, writes to it do not
  show in the original.\<close>

lemma copy_isolated:
  assumes "wf h x" "run_state (copy x) h = (y, h')"
    and "sto_Next h' \<le> sto_Next k" "\<forall>a. sto_Next h \<le> a \<and> a < sto_Next h' \<longrightarrow> sto_Cells k a = sto_Cells h' a"
  shows "view k y = view h x"
  using copied [OF assms(1,2)] assms(3,4) by (simp add: agree_between_def)

lemma original_isolated:
  assumes "wf h x" "run_state (copy x) h = (y, h')"
    and "sto_Next h' \<le> sto_Next k" "\<forall>a < sto_Next h. sto_Cells k a = sto_Cells h' a"
  shows "view k x = view h x"
proof -
  note grown = allocates [OF assms(1,2), unfolded only_allocates_def]
  then have "sto_Cells k a = sto_Cells h a" if "a < sto_Next h" for a using that assms(4) by metis
  moreover have "sto_Next h \<le> sto_Next k" using grown assms(3) by linarith
  ultimately show ?thesis using local [OF assms(1)] unfolding agree_below_def by blast
qed

end

section \<open>Deep copies of structs\<close>

text \<open>A value without pointers is copied by assignment.\<close>

lemma deep_copy_flat: "deep_copy State_Monad.return (\<lambda>h x. f x) (\<lambda>h x. True)"
  by unfold_locales auto

text \<open>Two values, one after the other.\<close>

definition copy_pair ::
  "('a \<Rightarrow> ('c store, 'a) state) \<Rightarrow> ('b \<Rightarrow> ('c store, 'b) state) \<Rightarrow> 'a \<times> 'b \<Rightarrow> ('c store, 'a \<times> 'b) state" where
  "copy_pair c d xy = do { x \<leftarrow> c (fst xy); y \<leftarrow> d (snd xy); State_Monad.return (x, y) }"

lemma run_copy_pair:
  "run_state (copy_pair c d xy) h = (z, l) \<longleftrightarrow>
     (\<exists>k. run_state (c (fst xy)) h = (fst z, k) \<and> run_state (d (snd xy)) k = (snd z, l))"
  by (cases z) (auto simp: copy_pair_def split: prod.splits)

lemma deep_copy_pair:
  assumes c: "deep_copy c v w" and d: "deep_copy d v' w'"
  shows "deep_copy (copy_pair c d) (\<lambda>h xy. (v h (fst xy), v' h (snd xy))) (\<lambda>h xy. w h (fst xy) \<and> w' h (snd xy))"
    (is "deep_copy _ ?v ?w")
proof -
  have both: "\<exists>k. run_state (c (fst xy)) h = (fst z, k) \<and> run_state (d (snd xy)) k = (snd z, l) \<and>
      only_allocates h k \<and> only_allocates k l \<and> w' k (snd xy) \<and> v' k (snd xy) = v' h (snd xy)"
    if xy: "?w h xy" and run: "run_state (copy_pair c d xy) h = (z, l)" for h xy z l
  proof -
    obtain k where k: "run_state (c (fst xy)) h = (fst z, k)" "run_state (d (snd xy)) k = (snd z, l)"
      using run by (auto simp: run_copy_pair)
    have hk: "only_allocates h k" using deep_copy.allocates [OF c _ k(1)] xy by simp
    have "w' k (snd xy) \<and> v' k (snd xy) = v' h (snd xy)"
      using deep_copy.local [OF d _ only_allocates_below [OF hk order_refl]] xy by simp
    with k hk deep_copy.allocates [OF d _ k(2)] show ?thesis by blast
  qed
  show ?thesis
  proof (unfold_locales, goal_cases)
    case (1 h xy z l)
    then show ?case using both only_allocates_trans by blast
  next
    case (2 h xy z l m)
    obtain k where k: "run_state (c (fst xy)) h = (fst z, k)" "run_state (d (snd xy)) k = (snd z, l)"
        "only_allocates h k" "only_allocates k l" "w' k (snd xy)" "v' k (snd xy) = v' h (snd xy)"
      using both [OF 2(1,2)] by blast
    then show ?case
      using deep_copy.copied [OF c _ k(1) agree_between_prefix [OF 2(3) k(3,4)]]
        deep_copy.copied [OF d k(5) k(2) agree_between_suffix [OF 2(3) k(3)]] 2(1) by simp
  next
    case (3 h xy k)
    then show ?case using deep_copy.local [OF c] deep_copy.local [OF d] by blast
  qed
qed

text \<open>A struct is copied by assignment and its fields \<open>get\<close> by copying; \<open>V\<close> reads the rest.\<close>

lemma deep_copy_struct:
  assumes c: "deep_copy c v w"
    and f: "\<And>r. f r = do { y \<leftarrow> c (get r); State_Monad.return (upd y r) }"
    and get: "\<And>r y. get (upd y r) = y"
    and view: "\<And>h r. vw h r = V r (v h (get r))" and V: "\<And>r y x. V (upd y r) x = V r x"
    and wf: "\<And>h r. wff h r = w h (get r)"
  shows "deep_copy f vw wff"
proof (unfold_locales, goal_cases)
  case (1 h r r' k)
  then show ?case using deep_copy.allocates [OF c] by (auto simp: f wf split: prod.splits)
next
  case (2 h r r' k m)
  then obtain y where y: "run_state (c (get r)) h = (y, k)" "r' = upd y r"
    by (auto simp: f split: prod.splits)
  then show ?case using deep_copy.copied [OF c _ y(1) 2(3)] 2(1) by (simp add: wf view get V)
next
  case (3 h r k)
  then show ?case using deep_copy.local [OF c] by (auto simp: wf view)
qed

text \<open>A value that may be nil.\<close>

lemma deep_copy_option:
  assumes c: "deep_copy c v w"
    and none: "f None = State_Monad.return None"
    and some: "\<And>x. f (Some x) = do { y \<leftarrow> c x; State_Monad.return (Some y) }"
  shows "deep_copy f (\<lambda>h. map_option (v h)) (\<lambda>h. pred_option (w h))"
proof (unfold_locales, goal_cases)
  case (1 h x y k)
  then show ?case using deep_copy.allocates [OF c] by (cases x) (auto simp: none some split: prod.splits)
next
  case (2 h x y k m)
  then show ?case using deep_copy.copied [OF c] by (cases x) (auto simp: none some split: prod.splits)
next
  case (3 h x k)
  then show ?case using deep_copy.local [OF c] by (cases x) auto
qed

section \<open>Deep copies through pointers and slices\<close>

text \<open>What a window of an array reads as, and that it lies in the array.\<close>

definition view_window :: "('c, 'a) elem \<Rightarrow> ('c store \<Rightarrow> 'a \<Rightarrow> 'v) \<Rightarrow> 'c store \<Rightarrow> slice \<Rightarrow> 'v list" where
  "view_window e v h s = map (\<lambda>i. v h (at e h (sl_Arr s) (sl_Off s + i))) [0..<sl_Len s]"

definition wf_window :: "('c, 'a) elem \<Rightarrow> ('c store \<Rightarrow> 'a \<Rightarrow> bool) \<Rightarrow> 'c store \<Rightarrow> slice \<Rightarrow> bool" where
  "wf_window e w h s \<longleftrightarrow> sl_Arr s < sto_Next h \<and>
     (\<exists>xs. arr e h (sl_Arr s) = Some xs \<and> sl_Len s \<le> sl_Cap s \<and> sl_Off s + sl_Cap s \<le> length xs) \<and>
     (\<forall>i < sl_Len s. w h (at e h (sl_Arr s) (sl_Off s + i)))"

definition view_slice where "view_slice e v h = map_option (view_window e v h)"
definition wf_slice where "wf_slice e w h = pred_option (wf_window e w h)"

text \<open>The window of one element that a pointer designates.\<close>

definition pointee :: "pointer \<Rightarrow> slice" where
  "pointee p = \<lparr>sl_Arr = pt_Arr p, sl_Off = pt_Idx p, sl_Len = 1, sl_Cap = 1\<rparr>"

definition view_pointee where "view_pointee e v h p = v h (at e h (pt_Arr p) (pt_Idx p))"
definition wf_pointee where "wf_pointee e w h p = wf_window e w h (pointee p)"
definition view_pointer where "view_pointer e v h = map_option (view_pointee e v h)"
definition wf_pointer where "wf_pointer e w h = pred_option (wf_pointee e w h)"

lemma view_window_pointee: "view_window e v h (pointee p) = [view_pointee e v h p]"
  by (simp add: view_window_def view_pointee_def pointee_def)

lemma copy_window_pointee:
  "copy_window e c (pointee p) = do { q \<leftarrow> copy_pointee e c p; State_Monad.return (pointee q) }"
  by (simp add: copy_window_def copy_pointee_def pointee_def make_def new_def)

lemma arr_below: "agree_below n h k \<Longrightarrow> a < n \<Longrightarrow> arr e k a = arr e h a"
  by (simp add: agree_below_def arr_def)

lemma at_below: "agree_below n h k \<Longrightarrow> a < n \<Longrightarrow> at e k a i = at e h a i"
  by (simp add: at_def arr_below)

lemma run_copy_elems_Cons:
  "run_state (copy_elems e c s t (i # is)) h = (u, h') \<longleftrightarrow>
     (\<exists>w k. run_state (c (at e h (sl_Arr s) (sl_Off s + i))) h = (w, k) \<and>
       run_state (copy_elems e c s t is) (snd (run_state (assign e (sl_Arr t) (sl_Off t + i) w) k)) = (u, h'))"
  by (auto simp: load_def assign_def split: prod.splits)

text \<open>Two stores agree on a range of addresses.\<close>

definition same_cells :: "nat \<Rightarrow> nat \<Rightarrow> 'c store \<Rightarrow> 'c store \<Rightarrow> bool" where
  "same_cells lo hi h k \<longleftrightarrow> sto_Next h \<le> sto_Next k \<and> (\<forall>a. lo \<le> a \<and> a < hi \<longrightarrow> sto_Cells k a = sto_Cells h a)"

text \<open>The run that copied \<open>p\<close> returned a new struct. Whatever is written later, the copy reads as \<open>p\<close> did as
  long as what the run allocated is not written, and \<open>p\<close> does as long as what there was before is not.\<close>

definition isolated_copy ::
    "('c, 'a) elem \<Rightarrow> ('c store \<Rightarrow> 'a \<Rightarrow> 'v) \<Rightarrow> 'c store \<Rightarrow> pointer \<Rightarrow> pointer option \<times> 'c store \<Rightarrow> bool" where
  "isolated_copy e v h p run \<longleftrightarrow> (\<exists>q h'. run = (Some q, h') \<and> sto_Next h \<le> pt_Arr q \<and>
     (\<forall>k. same_cells (sto_Next h) (sto_Next h') h' k \<longrightarrow> view_pointee e v k q = view_pointee e v h p) \<and>
     (\<forall>k. same_cells 0 (sto_Next h) h' k \<longrightarrow> view_pointee e v k p = view_pointee e v h p))"

locale deep_copy_elems = deep_copy copy view wf
  for copy :: "'a \<Rightarrow> ('c store, 'a) state" and view :: "'c store \<Rightarrow> 'a \<Rightarrow> 'v" and wf :: "'c store \<Rightarrow> 'a \<Rightarrow> bool" +
  fixes e :: "('c, 'a) elem"
  assumes elem_ok: "elem_ok e"
begin

lemma prj_inj [simp]: "el_prj e (el_inj e xs) = Some xs"
  using elem_ok by (simp add: elem_ok_def)

text \<open>The store after an assignment to an array that is there.\<close>

lemma run_assign:
  assumes "arr e h a = Some xs"
  shows "run_state (assign e a i v) h = ((), h\<lparr>sto_Cells := (sto_Cells h)(a \<mapsto> el_inj e (xs[i := v]))\<rparr>)"
  using assms by (simp add: assign_def)

text \<open>The loop: the target array \<open>a\<close> was allocated after the source was well formed, in \<open>h0\<close>.\<close>

lemma copy_elems_loop:
  assumes "wf_window e wf h0 s" "agree_below (sto_Next h0) h0 h" "sto_Next h0 \<le> sl_Arr t" "sl_Arr t < sto_Next h"
    and "arr e h (sl_Arr t) = Some xs" "distinct is" "\<forall>i \<in> set is. i < sl_Len s \<and> sl_Off t + i < length xs"
    and "run_state (copy_elems e copy s t is) h = (u, h')"
  shows "\<exists>ys. arr e h' (sl_Arr t) = Some ys \<and> length ys = length xs \<and> sto_Next h \<le> sto_Next h' \<and>
     (\<forall>a. a \<noteq> sl_Arr t \<and> (a < sto_Next h \<or> sto_Next h' \<le> a) \<longrightarrow> sto_Cells h' a = sto_Cells h a) \<and>
     (\<forall>j. j \<notin> (\<lambda>i. sl_Off t + i) ` set is \<longrightarrow> ys ! j = xs ! j) \<and>
     (\<forall>i \<in> set is. \<forall>k. agree_between (sto_Next h) (sto_Next h') h' k \<longrightarrow>
        wf k (ys ! (sl_Off t + i)) \<and> view k (ys ! (sl_Off t + i)) = view h0 (at e h0 (sl_Arr s) (sl_Off s + i)))"
  using assms(2,4-8)
proof (induction "is" arbitrary: h xs)
  case Nil
  then show ?case by simp
next
  case (Cons i js)
  let ?a = "sl_Arr t" and ?v = "at e h0 (sl_Arr s) (sl_Off s + i)"
  have src: "wf h0 ?v" "at e h (sl_Arr s) (sl_Off s + i) = ?v"
    using assms(1) Cons.prems(1,5) by (auto simp: wf_window_def at_below)
  then obtain w k where w: "run_state (copy ?v) h = (w, k)"
    and rest: "run_state (copy_elems e copy s t js) (snd (run_state (assign e ?a (sl_Off t + i) w) k)) = (u, h')"
    using Cons.prems(6) unfolding run_copy_elems_Cons by auto
  have v: "wf h ?v" "view h ?v = view h0 ?v" using local [OF src(1) Cons.prems(1)] by auto
  note hk = allocates [OF v(1) w]
  then have k: "sto_Cells k ?a = sto_Cells h ?a" "sto_Next h \<le> sto_Next k"
    using Cons.prems(2) by (auto simp: only_allocates_def)
  then have ka: "arr e k ?a = Some xs" using Cons.prems(3) by (simp add: arr_def)
  define l where "l = k\<lparr>sto_Cells := (sto_Cells k)(?a \<mapsto> el_inj e (xs[sl_Off t + i := w]))\<rparr>"
  have l: "agree_below (sto_Next h0) h0 l" "?a < sto_Next l" "arr e l ?a = Some (xs[sl_Off t + i := w])"
      "sto_Next l = sto_Next k"
    using Cons.prems(1,2) k assms(3) hk by (auto simp: l_def agree_below_def only_allocates_def arr_def)
  have "run_state (copy_elems e copy s t js) l = (u, h')"
    using rest by (simp add: run_assign [OF ka] l_def)
  from Cons.IH [OF l(1-3) _ _ this] Cons.prems(4,5) obtain ys where ys:
    "arr e h' ?a = Some ys" "length ys = length xs" "sto_Next l \<le> sto_Next h'"
    "\<forall>a. a \<noteq> ?a \<and> (a < sto_Next l \<or> sto_Next h' \<le> a) \<longrightarrow> sto_Cells h' a = sto_Cells l a"
    "\<forall>j. j \<notin> (\<lambda>i. sl_Off t + i) ` set js \<longrightarrow> ys ! j = xs[sl_Off t + i := w] ! j"
    "\<forall>i \<in> set js. \<forall>k. agree_between (sto_Next l) (sto_Next h') h' k \<longrightarrow>
        wf k (ys ! (sl_Off t + i)) \<and> view k (ys ! (sl_Off t + i)) = view h0 (at e h0 (sl_Arr s) (sl_Off s + i))"
    by auto
  have here: "wf m (ys ! (sl_Off t + i)) \<and> view m (ys ! (sl_Off t + i)) = view h0 ?v"
    if "agree_between (sto_Next h) (sto_Next h') h' m" for m
  proof -
    have "sl_Off t + i \<notin> (+) (sl_Off t) ` set js" using Cons.prems(4) by auto
    with ys(5) Cons.prems(5) have "ys ! (sl_Off t + i) = w" by simp
    moreover have "sto_Cells h' a = sto_Cells k a" if "sto_Next h \<le> a" "a < sto_Next k" for a
      using that ys(4) Cons.prems(2) l(4) by (simp add: l_def)
    then have "agree_between (sto_Next h) (sto_Next k) k m"
      using that ys(3) l(4) by (simp add: agree_between_def)
    ultimately show ?thesis using copied [OF v(1) w] v(2) by simp
  qed
  have there: "agree_between (sto_Next l) (sto_Next h') h' m"
    if "agree_between (sto_Next h) (sto_Next h') h' m" for m
    using that k(2) l(4) by (simp add: agree_between_def)
  have frame: "sto_Cells h' a = sto_Cells h a" if "a \<noteq> ?a" "a < sto_Next h \<or> sto_Next h' \<le> a" for a
    using that ys(3,4) hk k(2) l(4) by (auto simp: l_def only_allocates_def)
  show ?case
  proof (intro exI [of _ ys] conjI)
    show "\<forall>i \<in> set (i # js). \<forall>k. agree_between (sto_Next h) (sto_Next h') h' k \<longrightarrow>
        wf k (ys ! (sl_Off t + i)) \<and> view k (ys ! (sl_Off t + i)) = view h0 (at e h0 (sl_Arr s) (sl_Off s + i))"
      using here there ys(6) by simp
  qed (use ys frame k(2) l(4) in auto)
qed

lemma view_window_local:
  assumes "wf_window e wf h s" "agree_below (sto_Next h) h k"
  shows "wf_window e wf k s" "view_window e view k s = view_window e view h s"
proof -
  have a: "sl_Arr s < sto_Next h" using assms(1) by (simp add: wf_window_def)
  have el: "wf k (at e h (sl_Arr s) (sl_Off s + i)) \<and>
      view k (at e h (sl_Arr s) (sl_Off s + i)) = view h (at e h (sl_Arr s) (sl_Off s + i))" if "i < sl_Len s" for i
    using local [OF _ assms(2)] assms(1) that by (simp add: wf_window_def)
  then show "view_window e view k s = view_window e view h s"
    by (simp add: view_window_def at_below [OF assms(2) a])
  show "wf_window e wf k s"
    using assms el a by (auto simp: wf_window_def at_below [OF assms(2) a] arr_below [OF assms(2) a] agree_below_def)
qed

lemma run_copy_window:
  assumes "wf_window e wf h s" "run_state (copy_window e copy s) h = (t, h')"
  shows "only_allocates h h'"
    "agree_between (sto_Next h) (sto_Next h') h' k \<Longrightarrow> wf_window e wf k t \<and> view_window e view k t = view_window e view h s"
proof -
  let ?a = "sto_Next h" and ?n = "sl_Len s"
  define h1 where "h1 = \<lparr>sto_Next = Suc ?a, sto_Cells = (sto_Cells h)(?a \<mapsto> el_inj e (replicate ?n (el_zero e)))\<rparr>"
  have t: "t = \<lparr>sl_Arr = ?a, sl_Off = 0, sl_Len = ?n, sl_Cap = ?n\<rparr>"
    and loop: "run_state (copy_elems e copy s t [0..<?n]) h1 = ((), h')"
    using assms(2) by (auto simp: copy_window_def make_def alloc_def h1_def split: prod.splits)
  have "agree_below ?a h h1" "arr e h1 (sl_Arr t) = Some (replicate ?n (el_zero e))"
    by (auto simp: h1_def t agree_below_def arr_def)
  from copy_elems_loop [OF assms(1) this(1) _ _ this(2) _ _ loop] obtain ys where ys:
    "arr e h' ?a = Some ys" "length ys = ?n" "Suc ?a \<le> sto_Next h'"
    "\<forall>a. a \<noteq> ?a \<and> (a < Suc ?a \<or> sto_Next h' \<le> a) \<longrightarrow> sto_Cells h' a = sto_Cells h1 a"
    "\<forall>i < ?n. \<forall>k. agree_between (Suc ?a) (sto_Next h') h' k \<longrightarrow>
        wf k (ys ! i) \<and> view k (ys ! i) = view h (at e h (sl_Arr s) (sl_Off s + i))"
    by (auto simp: t h1_def)
  show "only_allocates h h'"
    using ys(3,4) by (auto simp: only_allocates_def h1_def)
  assume k: "agree_between ?a (sto_Next h') h' k"
  then have "agree_between (Suc ?a) (sto_Next h') h' k" by (simp add: agree_between_def)
  moreover have "arr e k ?a = Some ys"
    using k ys(1,3) by (simp add: arr_def agree_between_def)
  moreover have "?a < sto_Next k" using k ys(3) by (simp add: agree_between_def)
  ultimately show "wf_window e wf k t \<and> view_window e view k t = view_window e view h s"
    using ys(2,5) by (simp add: t wf_window_def view_window_def at_def)
qed

sublocale window: deep_copy "copy_window e copy" "view_window e view" "wf_window e wf"
  using run_copy_window view_window_local by unfold_locales blast+


sublocale slice: deep_copy "copy_slice e copy" "view_slice e view" "wf_slice e wf"
  unfolding view_slice_def wf_slice_def
  by (rule deep_copy_option [OF window.deep_copy_axioms]) (simp_all add: copy_slice_def)

lemma run_copy_pointee:
  "run_state (copy_pointee e copy p) h = (q, h') \<Longrightarrow> run_state (copy_window e copy (pointee p)) h = (pointee q, h')"
  by (simp add: copy_window_pointee)

sublocale pointee: deep_copy "copy_pointee e copy" "view_pointee e view" "wf_pointee e wf"
proof (unfold_locales, goal_cases)
  case (1 h p q h')
  then show ?case using window.allocates run_copy_pointee unfolding wf_pointee_def by blast
next
  case (2 h p q h' k)
  then show ?case
    using window.copied [OF _ run_copy_pointee [OF 2(2)] 2(3)] unfolding wf_pointee_def by (simp add: view_window_pointee)
next
  case (3 h p k)
  then show ?case using window.local [OF _ 3(2)] unfolding wf_pointee_def by (metis list.inject view_window_pointee)
qed

sublocale pointer: deep_copy "copy_pointer e copy" "view_pointer e view" "wf_pointer e wf"
  unfolding view_pointer_def wf_pointer_def
  by (rule deep_copy_option [OF pointee.deep_copy_axioms]) (simp_all add: copy_pointer_def)

lemmas slice_deep_copy = slice.deep_copy_axioms
lemmas pointer_deep_copy = pointer.deep_copy_axioms

lemma copy_isolates:
  assumes "wf_pointee e wf h p"
  shows "isolated_copy e view h p (run_state (copy_pointer e copy (Some p)) h)"
proof -
  obtain q h' where run: "run_state (copy_pointee e copy p) h = (q, h')" by force
  then have "pt_Arr q = sto_Next h"
    by (auto simp: copy_pointee_def new_def alloc_def split: prod.splits)
  moreover have "run_state (copy_pointer e copy (Some p)) h = (Some q, h')"
    using run by (simp add: copy_pointer_def)
  ultimately show ?thesis
    using pointee.copy_isolated [OF assms run] pointee.original_isolated [OF assms run]
    by (auto simp: isolated_copy_def same_cells_def)
qed

end

end
