(* ===== verification/Api_DeepCopy.thy ===== *)
theory Api_DeepCopy
  imports Api_Types Go_Store
begin

text \<open>
  The deep copies of \<open>api/v1alpha1/zz_generated.deepcopy.go\<close>, over a store. The structs here are laid
  out as in \<open>configsync_types.go\<close>, with the pointers and slices that \<open>Api_Types\<close> reads through: \<open>view\<close>
  functions read a struct of this theory as one of \<open>Api_Types\<close>, plus whether each slice is nil, which
  the JSON form of a list shows. \<open>DeepCopyInto\<close> is the function from \<open>*in\<close> to the value it leaves in
  \<open>*out\<close>. The deep copies of \<open>ObjectMeta\<close>, \<open>ListMeta\<close> and \<open>Condition\<close> belong to the API machinery and are
  parameters.
\<close>

section \<open>The structs\<close>

record local_object_reference =
  lo_Name :: string

record git_source_m =
  gm_URL :: string
  gm_Ref :: string
  gm_AuthSecretRef :: "pointer option"

record config_map_spec =
  cm_Name :: string

record sync_spec =
  sy_Interval :: duration

record secret_surface_m =
  um_As :: string
  um_MountPath :: string
  um_EnvVar :: string
  um_Key :: string
  um_RolloutOnRotate :: "pointer option"

record secret_reference_m =
  rm_Name :: string
  rm_Backend :: string
  rm_ExternalSecret :: "pointer option"
  rm_NativeSecret :: "pointer option"
  rm_Surface :: secret_surface_m

record config_sync_spec_m =
  pm_Source :: git_source_m
  pm_Path :: string
  pm_WorkloadRef :: workload_ref
  pm_ConfigMap :: config_map_spec
  pm_Wiring :: wiring
  pm_Rollout :: string
  pm_Sync :: sync_spec
  pm_SecretRefs :: "slice option"

record config_sync_status_m =
  tm_ObservedGeneration :: int
  tm_SourceCommit :: string
  tm_ConfigVersion :: string
  tm_WorkloadVersion :: string
  tm_RolloutInProgress :: bool
  tm_SecretRefs :: "slice option"
  tm_Conditions :: "slice option"

record api_type_meta =
  ty_Kind :: string
  ty_APIVersion :: string

record 'm config_sync_m =
  cm_TypeMeta :: api_type_meta
  cm_ObjectMeta :: 'm
  cm_Spec :: config_sync_spec_m
  cm_Status :: config_sync_status_m

record 'l config_sync_list =
  cl_TypeMeta :: api_type_meta
  cl_ListMeta :: 'l
  cl_Items :: "slice option"

text \<open>The arrays of a store: one kind per struct, and those of the library.\<close>

datatype ('x, 'm, 'l) cell =
    CBool "bool list"
  | CLocalObjectReference "local_object_reference list"
  | CGitSource "git_source_m list"
  | CWorkloadReference "workload_ref list"
  | CConfigMapSpec "config_map_spec list"
  | CWiring "wiring list"
  | CSyncSpec "sync_spec list"
  | CSecretSurface "secret_surface_m list"
  | CSecretReference "secret_reference_m list"
  | CConfigSyncSpec "config_sync_spec_m list"
  | CSecretRefStatus "secret_ref_status list"
  | CCondition "condition list"
  | CConfigSyncStatus "config_sync_status_m list"
  | CConfigSync "'m config_sync_m list"
  | CConfigSyncList "'l config_sync_list list"
  | CLibrary 'x

text \<open>The API machinery: its deep copies, and the zero values of its structs.\<close>

record ('x, 'm, 'l) meta_lib =
  ml_ObjectMeta :: "'m \<Rightarrow> (('x, 'm, 'l) cell store, 'm) state"
  ml_ListMeta :: "'l \<Rightarrow> (('x, 'm, 'l) cell store, 'l) state"
  ml_Condition :: "condition \<Rightarrow> (('x, 'm, 'l) cell store, condition) state"
  ml_NoObjectMeta :: 'm
  ml_NoListMeta :: 'l
  ml_NoCondition :: condition

section \<open>Element types\<close>

definition local_zero :: local_object_reference where "local_zero = \<lparr>lo_Name = []\<rparr>"
definition source_zero :: git_source_m where
  "source_zero = \<lparr>gm_URL = [], gm_Ref = [], gm_AuthSecretRef = None\<rparr>"
definition workload_zero :: workload_ref where "workload_zero = \<lparr>wl_Kind = [], wl_Name = []\<rparr>"
definition map_spec_zero :: config_map_spec where "map_spec_zero = \<lparr>cm_Name = []\<rparr>"
definition wiring_zero :: wiring where "wiring_zero = \<lparr>wi_Container = [], wi_MountPath = []\<rparr>"
definition sync_spec_zero :: sync_spec where "sync_spec_zero = \<lparr>sy_Interval = 0\<rparr>"
definition surface_zero :: secret_surface_m where
  "surface_zero = \<lparr>um_As = [], um_MountPath = [], um_EnvVar = [], um_Key = [], um_RolloutOnRotate = None\<rparr>"
definition reference_zero :: secret_reference_m where
  "reference_zero = \<lparr>rm_Name = [], rm_Backend = [], rm_ExternalSecret = None, rm_NativeSecret = None,
     rm_Surface = surface_zero\<rparr>"
definition spec_zero :: config_sync_spec_m where
  "spec_zero = \<lparr>pm_Source = source_zero, pm_Path = [], pm_WorkloadRef = workload_zero, pm_ConfigMap = map_spec_zero,
     pm_Wiring = wiring_zero, pm_Rollout = [], pm_Sync = sync_spec_zero, pm_SecretRefs = None\<rparr>"
definition ref_status_zero :: secret_ref_status where
  "ref_status_zero = \<lparr>ss_Name = [], ss_Resolved = False, ss_Backend = [], ss_Reason = [], ss_Established = False\<rparr>"
definition status_zero :: config_sync_status_m where
  "status_zero = \<lparr>tm_ObservedGeneration = 0, tm_SourceCommit = [], tm_ConfigVersion = [], tm_WorkloadVersion = [],
     tm_RolloutInProgress = False, tm_SecretRefs = None, tm_Conditions = None\<rparr>"
definition api_type_meta_zero :: api_type_meta where "api_type_meta_zero = \<lparr>ty_Kind = [], ty_APIVersion = []\<rparr>"

definition bool_el :: "(('x, 'm, 'l) cell, bool) elem" where
  "bool_el = \<lparr>el_inj = CBool, el_prj = (\<lambda>c. case c of CBool xs \<Rightarrow> Some xs | _ \<Rightarrow> None), el_zero = False\<rparr>"
definition local_el :: "(('x, 'm, 'l) cell, local_object_reference) elem" where
  "local_el = \<lparr>el_inj = CLocalObjectReference,
     el_prj = (\<lambda>c. case c of CLocalObjectReference xs \<Rightarrow> Some xs | _ \<Rightarrow> None), el_zero = local_zero\<rparr>"
definition source_el :: "(('x, 'm, 'l) cell, git_source_m) elem" where
  "source_el = \<lparr>el_inj = CGitSource,
     el_prj = (\<lambda>c. case c of CGitSource xs \<Rightarrow> Some xs | _ \<Rightarrow> None), el_zero = source_zero\<rparr>"
definition workload_el :: "(('x, 'm, 'l) cell, workload_ref) elem" where
  "workload_el = \<lparr>el_inj = CWorkloadReference,
     el_prj = (\<lambda>c. case c of CWorkloadReference xs \<Rightarrow> Some xs | _ \<Rightarrow> None), el_zero = workload_zero\<rparr>"
definition map_spec_el :: "(('x, 'm, 'l) cell, config_map_spec) elem" where
  "map_spec_el = \<lparr>el_inj = CConfigMapSpec,
     el_prj = (\<lambda>c. case c of CConfigMapSpec xs \<Rightarrow> Some xs | _ \<Rightarrow> None), el_zero = map_spec_zero\<rparr>"
definition wiring_el :: "(('x, 'm, 'l) cell, wiring) elem" where
  "wiring_el = \<lparr>el_inj = CWiring,
     el_prj = (\<lambda>c. case c of CWiring xs \<Rightarrow> Some xs | _ \<Rightarrow> None), el_zero = wiring_zero\<rparr>"
definition sync_spec_el :: "(('x, 'm, 'l) cell, sync_spec) elem" where
  "sync_spec_el = \<lparr>el_inj = CSyncSpec,
     el_prj = (\<lambda>c. case c of CSyncSpec xs \<Rightarrow> Some xs | _ \<Rightarrow> None), el_zero = sync_spec_zero\<rparr>"
definition surface_el :: "(('x, 'm, 'l) cell, secret_surface_m) elem" where
  "surface_el = \<lparr>el_inj = CSecretSurface,
     el_prj = (\<lambda>c. case c of CSecretSurface xs \<Rightarrow> Some xs | _ \<Rightarrow> None), el_zero = surface_zero\<rparr>"
definition reference_el :: "(('x, 'm, 'l) cell, secret_reference_m) elem" where
  "reference_el = \<lparr>el_inj = CSecretReference,
     el_prj = (\<lambda>c. case c of CSecretReference xs \<Rightarrow> Some xs | _ \<Rightarrow> None), el_zero = reference_zero\<rparr>"
definition spec_el :: "(('x, 'm, 'l) cell, config_sync_spec_m) elem" where
  "spec_el = \<lparr>el_inj = CConfigSyncSpec,
     el_prj = (\<lambda>c. case c of CConfigSyncSpec xs \<Rightarrow> Some xs | _ \<Rightarrow> None), el_zero = spec_zero\<rparr>"
definition ref_status_el :: "(('x, 'm, 'l) cell, secret_ref_status) elem" where
  "ref_status_el = \<lparr>el_inj = CSecretRefStatus,
     el_prj = (\<lambda>c. case c of CSecretRefStatus xs \<Rightarrow> Some xs | _ \<Rightarrow> None), el_zero = ref_status_zero\<rparr>"
definition condition_el :: "('x, 'm, 'l) meta_lib \<Rightarrow> (('x, 'm, 'l) cell, condition) elem" where
  "condition_el lib = \<lparr>el_inj = CCondition,
     el_prj = (\<lambda>c. case c of CCondition xs \<Rightarrow> Some xs | _ \<Rightarrow> None), el_zero = ml_NoCondition lib\<rparr>"
definition status_el :: "(('x, 'm, 'l) cell, config_sync_status_m) elem" where
  "status_el = \<lparr>el_inj = CConfigSyncStatus,
     el_prj = (\<lambda>c. case c of CConfigSyncStatus xs \<Rightarrow> Some xs | _ \<Rightarrow> None), el_zero = status_zero\<rparr>"
definition sync_el :: "('x, 'm, 'l) meta_lib \<Rightarrow> (('x, 'm, 'l) cell, 'm config_sync_m) elem" where
  "sync_el lib = \<lparr>el_inj = CConfigSync,
     el_prj = (\<lambda>c. case c of CConfigSync xs \<Rightarrow> Some xs | _ \<Rightarrow> None),
     el_zero = \<lparr>cm_TypeMeta = api_type_meta_zero, cm_ObjectMeta = ml_NoObjectMeta lib, cm_Spec = spec_zero,
       cm_Status = status_zero\<rparr>\<rparr>"
definition list_el :: "('x, 'm, 'l) meta_lib \<Rightarrow> (('x, 'm, 'l) cell, 'l config_sync_list) elem" where
  "list_el lib = \<lparr>el_inj = CConfigSyncList,
     el_prj = (\<lambda>c. case c of CConfigSyncList xs \<Rightarrow> Some xs | _ \<Rightarrow> None),
     el_zero = \<lparr>cl_TypeMeta = api_type_meta_zero, cl_ListMeta = ml_NoListMeta lib, cl_Items = None\<rparr>\<rparr>"

lemma elems_ok [simp]:
  "elem_ok bool_el" "elem_ok local_el" "elem_ok source_el" "elem_ok workload_el" "elem_ok map_spec_el" "elem_ok wiring_el"
  "elem_ok sync_spec_el" "elem_ok surface_el" "elem_ok reference_el" "elem_ok spec_el" "elem_ok ref_status_el"
  "elem_ok (condition_el lib)" "elem_ok status_el" "elem_ok (sync_el lib)" "elem_ok (list_el lib)"
  by (simp_all add: elem_ok_def bool_el_def local_el_def source_el_def workload_el_def map_spec_el_def wiring_el_def
    sync_spec_el_def surface_el_def reference_el_def spec_el_def ref_status_el_def condition_el_def status_el_def
    sync_el_def list_el_def)

section \<open>DeepCopyInto\<close>

text \<open>The structs without pointers.\<close>

definition ConfigMapSpec_DeepCopyInto :: "config_map_spec \<Rightarrow> (('x, 'm, 'l) cell store, config_map_spec) state" where
  "ConfigMapSpec_DeepCopyInto = State_Monad.return"
definition LocalObjectReference_DeepCopyInto ::
    "local_object_reference \<Rightarrow> (('x, 'm, 'l) cell store, local_object_reference) state" where
  "LocalObjectReference_DeepCopyInto = State_Monad.return"
definition SecretRefStatus_DeepCopyInto :: "secret_ref_status \<Rightarrow> (('x, 'm, 'l) cell store, secret_ref_status) state" where
  "SecretRefStatus_DeepCopyInto = State_Monad.return"
definition SyncSpec_DeepCopyInto :: "sync_spec \<Rightarrow> (('x, 'm, 'l) cell store, sync_spec) state" where
  "SyncSpec_DeepCopyInto s = State_Monad.return (s\<lparr>sy_Interval := sy_Interval s\<rparr>)"
definition Wiring_DeepCopyInto :: "wiring \<Rightarrow> (('x, 'm, 'l) cell store, wiring) state" where
  "Wiring_DeepCopyInto = State_Monad.return"
definition WorkloadReference_DeepCopyInto :: "workload_ref \<Rightarrow> (('x, 'm, 'l) cell store, workload_ref) state" where
  "WorkloadReference_DeepCopyInto = State_Monad.return"

text \<open>The structs with pointers and slices, field by field.\<close>

definition GitSource_DeepCopyInto :: "git_source_m \<Rightarrow> (('x, 'm, 'l) cell store, git_source_m) state" where
  "GitSource_DeepCopyInto s = do {
     a \<leftarrow> copy_pointer local_el State_Monad.return (gm_AuthSecretRef s);
     State_Monad.return (s\<lparr>gm_AuthSecretRef := a\<rparr>)
   }"

definition SecretSurface_DeepCopyInto :: "secret_surface_m \<Rightarrow> (('x, 'm, 'l) cell store, secret_surface_m) state" where
  "SecretSurface_DeepCopyInto s = do {
     b \<leftarrow> copy_pointer bool_el State_Monad.return (um_RolloutOnRotate s);
     State_Monad.return (s\<lparr>um_RolloutOnRotate := b\<rparr>)
   }"

definition SecretReference_DeepCopyInto ::
    "secret_reference_m \<Rightarrow> (('x, 'm, 'l) cell store, secret_reference_m) state" where
  "SecretReference_DeepCopyInto r = do {
     e \<leftarrow> copy_pointer local_el State_Monad.return (rm_ExternalSecret r);
     n \<leftarrow> copy_pointer local_el State_Monad.return (rm_NativeSecret r);
     u \<leftarrow> SecretSurface_DeepCopyInto (rm_Surface r);
     State_Monad.return (r\<lparr>rm_ExternalSecret := e, rm_NativeSecret := n, rm_Surface := u\<rparr>)
   }"

definition ConfigSyncSpec_DeepCopyInto ::
    "config_sync_spec_m \<Rightarrow> (('x, 'm, 'l) cell store, config_sync_spec_m) state" where
  "ConfigSyncSpec_DeepCopyInto s = do {
     g \<leftarrow> GitSource_DeepCopyInto (pm_Source s);
     rs \<leftarrow> copy_slice reference_el SecretReference_DeepCopyInto (pm_SecretRefs s);
     State_Monad.return (s\<lparr>pm_Source := g, pm_WorkloadRef := pm_WorkloadRef s, pm_ConfigMap := pm_ConfigMap s,
       pm_Wiring := pm_Wiring s, pm_Sync := pm_Sync s, pm_SecretRefs := rs\<rparr>)
   }"

definition ConfigSyncStatus_DeepCopyInto ::
    "('x, 'm, 'l) meta_lib \<Rightarrow> config_sync_status_m \<Rightarrow> (('x, 'm, 'l) cell store, config_sync_status_m) state" where
  "ConfigSyncStatus_DeepCopyInto lib s = do {
     rs \<leftarrow> copy_slice ref_status_el State_Monad.return (tm_SecretRefs s);
     cs \<leftarrow> copy_slice (condition_el lib) (ml_Condition lib) (tm_Conditions s);
     State_Monad.return (s\<lparr>tm_SecretRefs := rs, tm_Conditions := cs\<rparr>)
   }"

definition ConfigSync_DeepCopyInto ::
    "('x, 'm, 'l) meta_lib \<Rightarrow> 'm config_sync_m \<Rightarrow> (('x, 'm, 'l) cell store, 'm config_sync_m) state" where
  "ConfigSync_DeepCopyInto lib c = do {
     m \<leftarrow> ml_ObjectMeta lib (cm_ObjectMeta c);
     p \<leftarrow> ConfigSyncSpec_DeepCopyInto (cm_Spec c);
     t \<leftarrow> ConfigSyncStatus_DeepCopyInto lib (cm_Status c);
     State_Monad.return (c\<lparr>cm_TypeMeta := cm_TypeMeta c, cm_ObjectMeta := m, cm_Spec := p, cm_Status := t\<rparr>)
   }"

definition ConfigSyncList_DeepCopyInto ::
    "('x, 'm, 'l) meta_lib \<Rightarrow> 'l config_sync_list \<Rightarrow> (('x, 'm, 'l) cell store, 'l config_sync_list) state" where
  "ConfigSyncList_DeepCopyInto lib l = do {
     m \<leftarrow> ml_ListMeta lib (cl_ListMeta l);
     xs \<leftarrow> copy_slice (sync_el lib) (ConfigSync_DeepCopyInto lib) (cl_Items l);
     State_Monad.return (l\<lparr>cl_TypeMeta := cl_TypeMeta l, cl_ListMeta := m, cl_Items := xs\<rparr>)
   }"

section \<open>DeepCopy\<close>

text \<open>\<open>DeepCopy\<close>: nil for nil, else a new struct filled by \<open>DeepCopyInto\<close>. A receiver is a pointer.\<close>

definition ConfigMapSpec_DeepCopy :: "pointer option \<Rightarrow> (('x, 'm, 'l) cell store, pointer option) state" where
  "ConfigMapSpec_DeepCopy = copy_pointer map_spec_el ConfigMapSpec_DeepCopyInto"
definition ConfigSync_DeepCopy ::
    "('x, 'm, 'l) meta_lib \<Rightarrow> pointer option \<Rightarrow> (('x, 'm, 'l) cell store, pointer option) state" where
  "ConfigSync_DeepCopy lib = copy_pointer (sync_el lib) (ConfigSync_DeepCopyInto lib)"
definition ConfigSyncList_DeepCopy ::
    "('x, 'm, 'l) meta_lib \<Rightarrow> pointer option \<Rightarrow> (('x, 'm, 'l) cell store, pointer option) state" where
  "ConfigSyncList_DeepCopy lib = copy_pointer (list_el lib) (ConfigSyncList_DeepCopyInto lib)"
definition ConfigSyncSpec_DeepCopy :: "pointer option \<Rightarrow> (('x, 'm, 'l) cell store, pointer option) state" where
  "ConfigSyncSpec_DeepCopy = copy_pointer spec_el ConfigSyncSpec_DeepCopyInto"
definition ConfigSyncStatus_DeepCopy ::
    "('x, 'm, 'l) meta_lib \<Rightarrow> pointer option \<Rightarrow> (('x, 'm, 'l) cell store, pointer option) state" where
  "ConfigSyncStatus_DeepCopy lib = copy_pointer status_el (ConfigSyncStatus_DeepCopyInto lib)"
definition GitSource_DeepCopy :: "pointer option \<Rightarrow> (('x, 'm, 'l) cell store, pointer option) state" where
  "GitSource_DeepCopy = copy_pointer source_el GitSource_DeepCopyInto"
definition LocalObjectReference_DeepCopy :: "pointer option \<Rightarrow> (('x, 'm, 'l) cell store, pointer option) state" where
  "LocalObjectReference_DeepCopy = copy_pointer local_el LocalObjectReference_DeepCopyInto"
definition SecretRefStatus_DeepCopy :: "pointer option \<Rightarrow> (('x, 'm, 'l) cell store, pointer option) state" where
  "SecretRefStatus_DeepCopy = copy_pointer ref_status_el SecretRefStatus_DeepCopyInto"
definition SecretReference_DeepCopy :: "pointer option \<Rightarrow> (('x, 'm, 'l) cell store, pointer option) state" where
  "SecretReference_DeepCopy = copy_pointer reference_el SecretReference_DeepCopyInto"
definition SecretSurface_DeepCopy :: "pointer option \<Rightarrow> (('x, 'm, 'l) cell store, pointer option) state" where
  "SecretSurface_DeepCopy = copy_pointer surface_el SecretSurface_DeepCopyInto"
definition SyncSpec_DeepCopy :: "pointer option \<Rightarrow> (('x, 'm, 'l) cell store, pointer option) state" where
  "SyncSpec_DeepCopy = copy_pointer sync_spec_el SyncSpec_DeepCopyInto"
definition Wiring_DeepCopy :: "pointer option \<Rightarrow> (('x, 'm, 'l) cell store, pointer option) state" where
  "Wiring_DeepCopy = copy_pointer wiring_el Wiring_DeepCopyInto"
definition WorkloadReference_DeepCopy :: "pointer option \<Rightarrow> (('x, 'm, 'l) cell store, pointer option) state" where
  "WorkloadReference_DeepCopy = copy_pointer workload_el WorkloadReference_DeepCopyInto"

text \<open>\<open>DeepCopyObject\<close> wraps the result in an interface value, nil when it is nil.\<close>

datatype runtime_object = SyncObject pointer | ListObject pointer

definition ConfigSync_DeepCopyObject ::
    "('x, 'm, 'l) meta_lib \<Rightarrow> pointer option \<Rightarrow> (('x, 'm, 'l) cell store, runtime_object option) state" where
  "ConfigSync_DeepCopyObject lib p = do {
     c \<leftarrow> ConfigSync_DeepCopy lib p;
     State_Monad.return (case c of Some q \<Rightarrow> Some (SyncObject q) | None \<Rightarrow> None)
   }"
definition ConfigSyncList_DeepCopyObject ::
    "('x, 'm, 'l) meta_lib \<Rightarrow> pointer option \<Rightarrow> (('x, 'm, 'l) cell store, runtime_object option) state" where
  "ConfigSyncList_DeepCopyObject lib p = do {
     c \<leftarrow> ConfigSyncList_DeepCopy lib p;
     State_Monad.return (case c of Some q \<Rightarrow> Some (ListObject q) | None \<Rightarrow> None)
   }"

end
