(* ===== verification/DeepCopy_Properties.thy ===== *)
theory DeepCopy_Properties
  imports Api_DeepCopy
begin

text \<open>
  Every deep copy of the API types meets the contract of \<open>Go_Store\<close>: it reads as the original and shares
  no memory with it. The views read a struct of the store as one of \<open>Api_Types\<close>.
\<close>

section \<open>Views\<close>

definition view_source :: "('x, 'm, 'l) cell store \<Rightarrow> git_source_m \<Rightarrow> git_source" where
  "view_source h s = \<lparr>src_URL = gm_URL s, src_Ref = gm_Ref s,
     src_AuthSecretRef = view_pointer local_el (\<lambda>h. lo_Name) h (gm_AuthSecretRef s)\<rparr>"

definition wf_source :: "('x, 'm, 'l) cell store \<Rightarrow> git_source_m \<Rightarrow> bool" where
  "wf_source h s = wf_pointer local_el (\<lambda>h x. True) h (gm_AuthSecretRef s)"

definition view_surface :: "('x, 'm, 'l) cell store \<Rightarrow> secret_surface_m \<Rightarrow> secret_surface" where
  "view_surface h u = \<lparr>sf_As = um_As u, sf_MountPath = um_MountPath u, sf_EnvVar = um_EnvVar u, sf_Key = um_Key u,
     sf_RolloutOnRotate = view_pointer bool_el (\<lambda>h b. b) h (um_RolloutOnRotate u)\<rparr>"

definition wf_surface :: "('x, 'm, 'l) cell store \<Rightarrow> secret_surface_m \<Rightarrow> bool" where
  "wf_surface h u = wf_pointer bool_el (\<lambda>h x. True) h (um_RolloutOnRotate u)"

definition view_reference :: "('x, 'm, 'l) cell store \<Rightarrow> secret_reference_m \<Rightarrow> secret_reference" where
  "view_reference h r = \<lparr>sr_Name = rm_Name r, sr_Backend = rm_Backend r,
     sr_ExternalSecret = view_pointer local_el (\<lambda>h. lo_Name) h (rm_ExternalSecret r),
     sr_NativeSecret = view_pointer local_el (\<lambda>h. lo_Name) h (rm_NativeSecret r),
     sr_Surface = view_surface h (rm_Surface r)\<rparr>"

definition wf_reference :: "('x, 'm, 'l) cell store \<Rightarrow> secret_reference_m \<Rightarrow> bool" where
  "wf_reference h r \<longleftrightarrow> wf_pointer local_el (\<lambda>h x. True) h (rm_ExternalSecret r) \<and>
     wf_pointer local_el (\<lambda>h x. True) h (rm_NativeSecret r) \<and> wf_surface h (rm_Surface r)"

text \<open>A nil slice has no elements.\<close>

definition listed :: "'v list option \<Rightarrow> 'v list" where
  "listed xs = (case xs of None \<Rightarrow> [] | Some ys \<Rightarrow> ys)"

definition view_spec :: "('x, 'm, 'l) cell store \<Rightarrow> config_sync_spec_m \<Rightarrow> config_sync_spec \<times> bool" where
  "view_spec h s =
     (\<lparr>sp_Source = view_source h (pm_Source s), sp_Path = pm_Path s, sp_WorkloadRef = pm_WorkloadRef s,
       sp_ConfigMapName = cm_Name (pm_ConfigMap s), sp_Wiring = pm_Wiring s, sp_Rollout = pm_Rollout s,
       sp_SyncInterval = sy_Interval (pm_Sync s),
       sp_SecretRefs = listed (view_slice reference_el view_reference h (pm_SecretRefs s))\<rparr>,
      view_slice reference_el view_reference h (pm_SecretRefs s) = None)"

definition wf_spec :: "('x, 'm, 'l) cell store \<Rightarrow> config_sync_spec_m \<Rightarrow> bool" where
  "wf_spec h s \<longleftrightarrow> wf_source h (pm_Source s) \<and> wf_slice reference_el wf_reference h (pm_SecretRefs s)"

definition view_status ::
    "('x, 'm, 'l) meta_lib \<Rightarrow> ('x, 'm, 'l) cell store \<Rightarrow> config_sync_status_m \<Rightarrow> config_sync_status \<times> bool \<times> bool" where
  "view_status lib h s =
     (let refs = view_slice ref_status_el (\<lambda>h x. x) h (tm_SecretRefs s);
          conds = view_slice (condition_el lib) (\<lambda>h x. x) h (tm_Conditions s)
      in (\<lparr>st_ObservedGeneration = tm_ObservedGeneration s, st_SourceCommit = tm_SourceCommit s,
           st_ConfigVersion = tm_ConfigVersion s, st_WorkloadVersion = tm_WorkloadVersion s,
           st_RolloutInProgress = tm_RolloutInProgress s, st_SecretRefs = listed refs, st_Conditions = listed conds\<rparr>,
          refs = None, conds = None))"

definition wf_status :: "('x, 'm, 'l) meta_lib \<Rightarrow> ('x, 'm, 'l) cell store \<Rightarrow> config_sync_status_m \<Rightarrow> bool" where
  "wf_status lib h s \<longleftrightarrow> wf_slice ref_status_el (\<lambda>h x. True) h (tm_SecretRefs s) \<and>
     wf_slice (condition_el lib) (\<lambda>h x. True) h (tm_Conditions s)"

text \<open>The metadata reads as \<open>vm\<close> says.\<close>

definition view_sync where
  "view_sync lib vm h c =
     (cm_TypeMeta c, vm h (cm_ObjectMeta c), view_spec h (cm_Spec c), view_status lib h (cm_Status c))"

definition wf_sync where
  "wf_sync lib wm h c \<longleftrightarrow> wm h (cm_ObjectMeta c) \<and> wf_spec h (cm_Spec c) \<and> wf_status lib h (cm_Status c)"

definition view_list where
  "view_list lib vm vl h l = (cl_TypeMeta l, vl h (cl_ListMeta l), view_slice (sync_el lib) (view_sync lib vm) h (cl_Items l))"

definition wf_list where
  "wf_list lib wm wl h l \<longleftrightarrow> wl h (cl_ListMeta l) \<and> wf_slice (sync_el lib) (wf_sync lib wm) h (cl_Items l)"

section \<open>The contract, struct by struct\<close>

interpretation locals: deep_copy_elems State_Monad.return "\<lambda>h. lo_Name" "\<lambda>h x. True" local_el
  by (intro deep_copy_elems.intro deep_copy_elems_axioms.intro deep_copy_flat elems_ok)

interpretation bools: deep_copy_elems State_Monad.return "\<lambda>h b. b" "\<lambda>h x. True" bool_el
  by (intro deep_copy_elems.intro deep_copy_elems_axioms.intro deep_copy_flat elems_ok)

interpretation ref_statuses: deep_copy_elems State_Monad.return "\<lambda>h x. x" "\<lambda>h x. True" ref_status_el
  by (intro deep_copy_elems.intro deep_copy_elems_axioms.intro deep_copy_flat elems_ok)

interpretation source: deep_copy GitSource_DeepCopyInto view_source wf_source
  by (rule deep_copy_struct [OF locals.pointer.deep_copy_axioms, of _ gm_AuthSecretRef "\<lambda>a. gm_AuthSecretRef_update (\<lambda>_. a)"
        _ "\<lambda>s a. \<lparr>src_URL = gm_URL s, src_Ref = gm_Ref s, src_AuthSecretRef = a\<rparr>"])
     (simp_all add: GitSource_DeepCopyInto_def view_source_def wf_source_def)

interpretation surface: deep_copy SecretSurface_DeepCopyInto view_surface wf_surface
  by (rule deep_copy_struct [OF bools.pointer.deep_copy_axioms, of _ um_RolloutOnRotate "\<lambda>b. um_RolloutOnRotate_update (\<lambda>_. b)"
        _ "\<lambda>u b. \<lparr>sf_As = um_As u, sf_MountPath = um_MountPath u, sf_EnvVar = um_EnvVar u, sf_Key = um_Key u,
             sf_RolloutOnRotate = b\<rparr>"])
     (simp_all add: SecretSurface_DeepCopyInto_def view_surface_def wf_surface_def)

interpretation references: deep_copy_elems SecretReference_DeepCopyInto view_reference wf_reference reference_el
proof (intro deep_copy_elems.intro deep_copy_elems_axioms.intro elems_ok)
  show "deep_copy SecretReference_DeepCopyInto
      (view_reference :: ('x, 'm, 'l) cell store \<Rightarrow> _) (wf_reference :: ('x, 'm, 'l) cell store \<Rightarrow> _)"
    by (rule deep_copy_struct [OF deep_copy_pair [OF locals.pointer.deep_copy_axioms
            deep_copy_pair [OF locals.pointer.deep_copy_axioms surface.deep_copy_axioms]],
          of _ "\<lambda>r. (rm_ExternalSecret r, rm_NativeSecret r, rm_Surface r)"
             "\<lambda>x r. r\<lparr>rm_ExternalSecret := fst x, rm_NativeSecret := fst (snd x), rm_Surface := snd (snd x)\<rparr>"
          _ "\<lambda>r x. \<lparr>sr_Name = rm_Name r, sr_Backend = rm_Backend r, sr_ExternalSecret = fst x,
               sr_NativeSecret = fst (snd x), sr_Surface = snd (snd x)\<rparr>"])
       (simp_all add: SecretReference_DeepCopyInto_def copy_pair_def view_reference_def wf_reference_def)
qed

interpretation spec: deep_copy ConfigSyncSpec_DeepCopyInto view_spec wf_spec
  by (rule deep_copy_struct [OF deep_copy_pair [OF source.deep_copy_axioms references.slice.deep_copy_axioms],
        of _ "\<lambda>s. (pm_Source s, pm_SecretRefs s)" "\<lambda>x s. s\<lparr>pm_Source := fst x, pm_SecretRefs := snd x\<rparr>"
        _ "\<lambda>s x. (\<lparr>sp_Source = fst x, sp_Path = pm_Path s, sp_WorkloadRef = pm_WorkloadRef s,
             sp_ConfigMapName = cm_Name (pm_ConfigMap s), sp_Wiring = pm_Wiring s, sp_Rollout = pm_Rollout s,
             sp_SyncInterval = sy_Interval (pm_Sync s), sp_SecretRefs = listed (snd x)\<rparr>, snd x = None)"])
     (simp_all add: ConfigSyncSpec_DeepCopyInto_def copy_pair_def view_spec_def wf_spec_def)

text \<open>What the API machinery's deep copies do: they are deep copies.\<close>

definition meta_lib_ok where
  "meta_lib_ok lib vm wm vl wl \<longleftrightarrow> deep_copy (ml_ObjectMeta lib) vm wm \<and> deep_copy (ml_ListMeta lib) vl wl \<and>
     deep_copy (ml_Condition lib) (\<lambda>h c. c) (\<lambda>h c. True)"

lemma status_deep:
  assumes "deep_copy (ml_Condition lib) (\<lambda>h c. c) (\<lambda>h c. True)"
  shows "deep_copy (ConfigSyncStatus_DeepCopyInto lib) (view_status lib) (wf_status lib)"
proof -
  have conds: "deep_copy_elems (ml_Condition lib) (\<lambda>h c. c) (\<lambda>h c. True) (condition_el lib)"
    using assms by (intro deep_copy_elems.intro deep_copy_elems_axioms.intro elems_ok)
  show ?thesis
    by (rule deep_copy_struct [OF deep_copy_pair [OF ref_statuses.slice.deep_copy_axioms deep_copy_elems.slice_deep_copy [OF conds]],
          of _ "\<lambda>s. (tm_SecretRefs s, tm_Conditions s)" "\<lambda>x s. s\<lparr>tm_SecretRefs := fst x, tm_Conditions := snd x\<rparr>"
          _ "\<lambda>s x. (\<lparr>st_ObservedGeneration = tm_ObservedGeneration s, st_SourceCommit = tm_SourceCommit s,
               st_ConfigVersion = tm_ConfigVersion s, st_WorkloadVersion = tm_WorkloadVersion s,
               st_RolloutInProgress = tm_RolloutInProgress s, st_SecretRefs = listed (fst x),
               st_Conditions = listed (snd x)\<rparr>, fst x = None, snd x = None)"])
       (simp_all add: ConfigSyncStatus_DeepCopyInto_def copy_pair_def view_status_def wf_status_def Let_def)
qed

lemma sync_deep:
  assumes "meta_lib_ok lib vm wm vl wl"
  shows "deep_copy_elems (ConfigSync_DeepCopyInto lib) (view_sync lib vm) (wf_sync lib wm) (sync_el lib)"
proof (intro deep_copy_elems.intro deep_copy_elems_axioms.intro elems_ok)
  have m: "deep_copy (ml_ObjectMeta lib) vm wm" and c: "deep_copy (ml_Condition lib) (\<lambda>h c. c) (\<lambda>h c. True)"
    using assms by (simp_all add: meta_lib_ok_def)
  show "deep_copy (ConfigSync_DeepCopyInto lib) (view_sync lib vm) (wf_sync lib wm)"
    by (rule deep_copy_struct [OF deep_copy_pair [OF m deep_copy_pair [OF spec.deep_copy_axioms status_deep [OF c]]],
          of _ "\<lambda>c. (cm_ObjectMeta c, cm_Spec c, cm_Status c)"
             "\<lambda>x c. c\<lparr>cm_ObjectMeta := fst x, cm_Spec := fst (snd x), cm_Status := snd (snd x)\<rparr>"
          _ "\<lambda>c x. (cm_TypeMeta c, x)"])
       (simp_all add: ConfigSync_DeepCopyInto_def copy_pair_def view_sync_def wf_sync_def)
qed

lemma list_deep:
  assumes "meta_lib_ok lib vm wm vl wl"
  shows "deep_copy_elems (ConfigSyncList_DeepCopyInto lib) (view_list lib vm vl) (wf_list lib wm wl) (list_el lib)"
proof (intro deep_copy_elems.intro deep_copy_elems_axioms.intro elems_ok)
  have l: "deep_copy (ml_ListMeta lib) vl wl" using assms by (simp add: meta_lib_ok_def)
  show "deep_copy (ConfigSyncList_DeepCopyInto lib) (view_list lib vm vl) (wf_list lib wm wl)"
    by (rule deep_copy_struct [OF deep_copy_pair [OF l deep_copy_elems.slice_deep_copy [OF sync_deep [OF assms]]],
          of _ "\<lambda>l. (cl_ListMeta l, cl_Items l)" "\<lambda>x l. l\<lparr>cl_ListMeta := fst x, cl_Items := snd x\<rparr>"
          _ "\<lambda>l x. (cl_TypeMeta l, x)"])
       (simp_all add: ConfigSyncList_DeepCopyInto_def copy_pair_def view_list_def wf_list_def)
qed

section \<open>Isolation\<close>

text \<open>C24: The deep copies of a ConfigSync and of a list of them, nested pointers and slices included, read
  as the original and share no memory with it, so that neither sees what is written to the other.\<close>

theorem DeepCopy_isolates:
  assumes "meta_lib_ok lib vm wm vl wl"
  shows "(wf_pointee (sync_el lib) (wf_sync lib wm) h p \<longrightarrow>
      isolated_copy (sync_el lib) (view_sync lib vm) h p (run_state (ConfigSync_DeepCopy lib (Some p)) h)) \<and>
    (wf_pointee (list_el lib) (wf_list lib wm wl) h p \<longrightarrow>
      isolated_copy (list_el lib) (view_list lib vm vl) h p (run_state (ConfigSyncList_DeepCopy lib (Some p)) h))"
  unfolding ConfigSync_DeepCopy_def ConfigSyncList_DeepCopy_def
  using deep_copy_elems.copy_isolates [OF sync_deep [OF assms]]
    deep_copy_elems.copy_isolates [OF list_deep [OF assms]] by blast

text \<open>A store with one ConfigSync in a list. Its finalizers are memory of the library, and its credential
  and its secret reference share a pointer.\<close>

definition finalizer_el :: "((string list, 'm, 'l) cell, string) elem" where
  "finalizer_el = \<lparr>el_inj = CLibrary, el_prj = (\<lambda>c. case c of CLibrary xs \<Rightarrow> Some xs | _ \<Rightarrow> None), el_zero = []\<rparr>"

definition demo_lib :: "(string list, slice option, string) meta_lib" where
  "demo_lib = \<lparr>ml_ObjectMeta = copy_slice finalizer_el State_Monad.return, ml_ListMeta = State_Monad.return,
     ml_Condition = State_Monad.return, ml_NoObjectMeta = None, ml_NoListMeta = [],
     ml_NoCondition = \<lparr>c_Type = [], c_Status = CondUnknown, c_Reason = [], c_Message = [], c_ObservedGeneration = 0,
       c_LastTransitionTime = 0\<rparr>\<rparr>"

lemma demo_lib_ok:
  "meta_lib_ok demo_lib (view_slice finalizer_el (\<lambda>h x. x)) (wf_slice finalizer_el (\<lambda>h x. True)) (\<lambda>h x. x) (\<lambda>h x. True)"
proof -
  have "deep_copy_elems State_Monad.return (\<lambda>h x. x) (\<lambda>h x. True) (finalizer_el :: ((_, slice option, string) cell, string) elem)"
    by (intro deep_copy_elems.intro deep_copy_elems_axioms.intro deep_copy_flat) (simp add: elem_ok_def finalizer_el_def)
  from deep_copy_elems.slice_deep_copy [OF this] show ?thesis
    by (simp add: meta_lib_ok_def demo_lib_def deep_copy_flat)
qed

definition one_of :: "nat \<Rightarrow> slice" where
  "one_of a = \<lparr>sl_Arr = a, sl_Off = 0, sl_Len = 1, sl_Cap = 1\<rparr>"

definition demo_sync_m :: "slice option config_sync_m" where
  "demo_sync_m =
     \<lparr>cm_TypeMeta = api_type_meta_zero, cm_ObjectMeta = Some (one_of 0),
      cm_Spec = spec_zero\<lparr>pm_Source := source_zero\<lparr>gm_AuthSecretRef := Some \<lparr>pt_Arr = 1, pt_Idx = 0\<rparr>\<rparr>,
        pm_SecretRefs := Some (one_of 2)\<rparr>,
      cm_Status = status_zero\<rparr>"

definition demo_store :: "(string list, slice option, string) cell store" where
  "demo_store =
     \<lparr>sto_Next = 5, sto_Cells =
        [0 \<mapsto> CLibrary [''kohen.dev/finalizer''],
         1 \<mapsto> CLocalObjectReference [\<lparr>lo_Name = ''creds''\<rparr>],
         2 \<mapsto> CSecretReference [reference_zero\<lparr>rm_NativeSecret := Some \<lparr>pt_Arr = 1, pt_Idx = 0\<rparr>\<rparr>],
         3 \<mapsto> CConfigSync [demo_sync_m],
         4 \<mapsto> CConfigSyncList [\<lparr>cl_TypeMeta = api_type_meta_zero, cl_ListMeta = [], cl_Items = Some (one_of 3)\<rparr>]]\<rparr>"

theorem DeepCopy_isolates_witness:
  "isolated_copy (list_el demo_lib) (view_list demo_lib (view_slice finalizer_el (\<lambda>h x. x)) (\<lambda>h x. x)) demo_store
     \<lparr>pt_Arr = 4, pt_Idx = 0\<rparr> (run_state (ConfigSyncList_DeepCopy demo_lib (Some \<lparr>pt_Arr = 4, pt_Idx = 0\<rparr>)) demo_store)"
proof -
  note wfs = wf_pointee_def wf_slice_def wf_pointer_def wf_window_def pointee_def arr_def at_def one_of_def
  have "wf_sync demo_lib (wf_slice finalizer_el (\<lambda>h x. True)) demo_store demo_sync_m"
    by (simp add: wf_sync_def wf_spec_def wf_source_def wf_reference_def wf_surface_def wf_status_def demo_sync_m_def
      wfs demo_store_def finalizer_el_def local_el_def reference_el_def spec_zero_def source_zero_def status_zero_def
      reference_zero_def surface_zero_def)
  then have "wf_pointee (list_el demo_lib) (wf_list demo_lib (wf_slice finalizer_el (\<lambda>h x. True)) (\<lambda>h x. True)) demo_store
      \<lparr>pt_Arr = 4, pt_Idx = 0\<rparr>"
    by (simp add: wf_list_def wfs demo_store_def sync_el_def list_el_def)
  with DeepCopy_isolates [OF demo_lib_ok] show ?thesis by blast
qed

end
