(* ===== verification/Leakcheck.thy ===== *)
theory Leakcheck
  imports Redact Errors
begin

text \<open>
  The leak scanner of the repository's tests (\<open>test/leakcheck\<close>), and what it has to do with the
  redactor: what went through a redactor that holds the values a scanner looks for passes the scanner.
  A failed assertion is its message; \<open>json.Marshal\<close> is a parameter.
\<close>

record scanner =
  sc_secrets :: "string list"

definition scanner_Add :: "string list \<Rightarrow> scanner \<Rightarrow> scanner" where
  "scanner_Add secrets s = s\<lparr>sc_secrets := sc_secrets s @ filter (\<lambda>sec. trimSpace sec \<noteq> []) secrets\<rparr>"

definition scanner_New :: "string list \<Rightarrow> scanner" where
  "scanner_New secrets = scanner_Add secrets \<lparr>sc_secrets = []\<rparr>"

definition Find :: "scanner \<Rightarrow> string \<Rightarrow> string list" where
  "Find s text = filter (contains text) (sc_secrets s)"

fun AssertClean :: "scanner \<Rightarrow> string \<Rightarrow> string list \<Rightarrow> string list" where
  "AssertClean s label [] = []"
| "AssertClean s label (v # vs) =
     (let found = Find s v
      in if length found > 0
         then (''secret leak in '' @ label @ '': '' @ show_nat (length found) @ '' registered secret(s) found in '' @ quote v)
              # AssertClean s label vs
         else AssertClean s label vs)"

text \<open>The test stops on the left.\<close>

definition AssertObjectClean :: "('o \<Rightarrow> error + string) \<Rightarrow> scanner \<Rightarrow> string \<Rightarrow> 'o \<Rightarrow> string + string list" where
  "AssertObjectClean marshal s label obj =
     (case marshal obj of
        Inl err \<Rightarrow> Inl (''leakcheck marshal '' @ label @ '': '' @ err_text err)
      | Inr b \<Rightarrow> Inr (AssertClean s label [b]))"

section \<open>The scanner and the redactor\<close>

lemma AssertClean_iff: "AssertClean s label vs = [] \<longleftrightarrow> (\<forall>v \<in> set vs. \<forall>sec \<in> set (sc_secrets s). \<not> contains v sec)"
  by (induction vs) (auto simp: Find_def Let_def filter_empty_conv)

text \<open>A text with a value contains the trimmed value, which is what a redactor registers.\<close>

lemma contains_trimSpace: "contains t s \<Longrightarrow> contains t (trimSpace s)"
  using trimSpace_sub [of s] unfolding contains_def
  by (metis sublist_append_leftI sublist_append_rightI sublist_order.dual_order.trans)

text \<open>What went through a redactor that was handed the values of a scanner passes the scanner, as far as
  the values are long enough to be registered and no part of the placeholder.\<close>

lemma redacted_passes_scanner:
  assumes "redactor_ok r" "\<forall>xs. set (order xs) = set xs"
    and "\<forall>sec \<in> set secrets. minSecretLen \<le> length (trimSpace sec) \<and> apart (trimSpace sec)"
  shows "AssertClean (scanner_New secrets) label (map (redactor_String (redactor_Add order secrets r)) texts) = []"
proof -
  have "\<not> contains (redactor_String (redactor_Add order secrets r) t) sec" if "sec \<in> set secrets" for t sec
  proof -
    have "trimSpace sec \<in> set (concat (map candidates_of secrets))" using that by (auto simp: candidates_of_def)
    then have "trimSpace sec \<in> set (rd_secrets (redactor_Add order secrets r))"
      using assms(3) that by (simp add: redactor_Add_secrets)
    from redactor_String_clean [OF redactor_Add_ok [OF assms(1,2)] this] assms(3) that contains_trimSpace
    show ?thesis by blast
  qed
  then show ?thesis by (auto simp: AssertClean_iff scanner_New_def scanner_Add_def)
qed

end
