(* ===== verification/Spec2Isabelle.thy ===== *)
theory Spec2Isabelle
  imports Go_Sha256_Check Policy_Properties Net_Properties Cluster_Properties Git_Properties Render Main_Properties
    Report_Properties DeepCopy_Properties Leakcheck
begin

text \<open>
  A verification library for Kohen, a Kubernetes operator written in Go that syncs configuration from
  git into a ConfigMap and wires it into a workload.

  \<^bold>\<open>The program.\<close> A \<open>ConfigSync\<close> object names a git source, a path, a Deployment or StatefulSet and
  secret references. \<open>Reconcile\<close> (\<open>internal/controller\<close>) runs one pipeline per object: claim the
  workload, load the credential, fetch (\<open>internal/git\<close>), render the tree into ConfigMap data
  (\<open>internal/render\<close>), apply and prune owned objects (\<open>internal/apply\<close>), apply the secret manifests of
  the tree (\<open>internal/manifest\<close>), resolve the secret references (\<open>internal/secret\<close> and its backends),
  compute the config version (\<open>internal/rollout\<close>), wire and stamp the workload (\<open>internal/wire\<close>), and
  set the Ready condition. Every message passes the redactor (\<open>internal/redact\<close>); counters, gauges and
  histograms are in \<open>internal/metrics\<close>; the operator's own configuration is in \<open>internal/config\<close>.
  \<open>main\<close> (\<open>cmd/operator\<close>) reads the command line, makes the manager and registers the reconciler with
  its watches.

  \<^bold>\<open>How the code is modelled.\<close> Strings are byte strings, integers of fixed width are words where the
  width matters (replica counts, observed generations, the digest), times and durations are integers.
  Maps are maps, or association lists where Go's random order of ranging matters: that order is then a
  parameter. Errors are the datatype \<open>error\<close> with the wrapping structure of Go (Errors). An action of the
  operator is a function of the state monad over a \<open>world\<close> (Kube): the cluster, the ConfigSync in
  memory, the redactor, the metrics, the events and the log of the calls that change the cluster. The
  API server, go-git, the file system, the resolver, the YAML decoders and the library functions that
  are not in the repository are fields of records (\<open>client\<close>, \<open>git_env\<close>, \<open>tree_fs\<close>, \<open>yaml_lib\<close>) and so
  parameters of every definition; what a theorem needs of them is a named hypothesis
  (\<open>condition_law\<close>, \<open>status_law\<close>, \<open>namespaced\<close>, \<open>resolvers_read_only\<close>, \<open>env_ok\<close>, \<open>meta_lib_ok\<close>), and
  Kube_Demo and Ctl_Demo give an instance on which the witnesses run. Handlers work on values; only the
  generated deep copies, whose point is aliasing, are modelled over a store of arrays with pointers and
  slices (Go_Store).

  \<^bold>\<open>The theories.\<close>
  \<^item> Prelude: list and option lemmas, and the preservation rules \<open>keeps\<close> of the state monad.
  \<^item> Go_Strings, Go_Path, Go_Url, Net_IP, Go_Sha256: what the source uses of Go's standard library;
    Go_Sha256_Check evaluates a test vector.
  \<^item> Errors: error values, their texts and the \<open>ReasonOf\<close> functions, through the locale \<open>typed_error\<close>.
  \<^item> Api_Types: the types of \<open>api/v1alpha1\<close> and their defaulting methods.
  \<^item> Go_Store: the store, pointers, slices, and the loops of generated deep copies; the locale \<open>deep_copy\<close>
    (a copy only allocates, reads as the original, and refers to new memory only) with its sublocales for
    slices and pointers. Api_DeepCopy: the functions of \<open>zz_generated.deepcopy.go\<close> on the structs as Go
    lays them out. DeepCopy_Properties: interpretations for every struct, and the isolation of a copy.
  \<^item> Secret_Policy: \<open>Evaluate\<close> of \<open>internal/secret\<close>, refined against the policy \<open>readiness\<close>.
  \<^item> Redact and Metrics: the packages of these names. Leakcheck: the leak scanner of the tests
    (\<open>test/leakcheck\<close>), which redacted text passes.
  \<^item> Kube: the client, the world, its actions, and the rules \<open>issue_rules\<close> that bound the calls of an
    action.
  \<^item> Resolvers: the native, external-secrets and fake backends against the locales \<open>resolver\<close> and
    \<open>live_resolver\<close>.
  \<^item> Rollout, Wire, Apply: versions, progress and stamps; the owned fields of a workload; ownership,
    Server-Side Apply and pruning.
  \<^item> Url_Guard, Git_Cache, Git_Source: parsing, allow-list and SSRF guard of a source; the fetch cache
    with its goroutines as the step relation \<open>cache_step\<close>; the fetch pipeline.
  \<^item> Manifest and Render: loading, guard rails, and the ConfigMap data of a tree.
  \<^item> Config: the operator's configuration.
  \<^item> Ctl_Helpers, Ctl_Secrets, Ctl_Manifests, Ctl_Workload, Controller: the reconciler, in the order of
    its files: \<open>helpers.go\<close>, \<open>secrets.go\<close>, \<open>manifests.go\<close> and \<open>configsync_controller.go\<close>. The long
    \<open>sync\<close> is split at its early returns: \<open>sync\<close>, \<open>after_claim\<close>, \<open>sync_checkout\<close>, \<open>sync_apply\<close>,
    \<open>sync_secrets\<close>, \<open>hold_rollout\<close>; \<open>reconcile_object\<close> is \<open>Reconcile\<close> without its timing.
  \<^item> Ctl_Setup: \<open>NewClient\<close>, \<open>SetupWithManager\<close> and the reconciler that \<open>main\<close> builds. Ctl_Main: \<open>main\<close>
    with its command line, the options of the manager, and the watches.
  \<^item> Ctl_Calls, Ctl_Finalize, Ctl_Namespace, Ctl_Outcome, Ctl_Ready: what the handlers write, in which
    order, in which namespace, what they return, and what conditions they leave.
  \<^item> Ctl_Invariant: the locale \<open>handler_invariant\<close>, whose laws list the primitive steps of the handlers
    and whose \<open>inv_Reconcile\<close> concludes that a reconcile keeps the invariant. Ctl_Reports instantiates it
    three times: no event carries a secret, the metrics stay within their series, and the conditions
    stay typed; it also holds what the resource schema (\<open>config/crd\<close>) demands of a condition.
  \<^item> Kube_Demo, Ctl_Demo: the in-memory cluster and the concrete reconciler of the witnesses.
  \<^item> Policy_Properties, Net_Properties, Cluster_Properties, Git_Properties, Render,
    Controller_Properties, Operator_Properties, Main_Properties, Report_Properties,
    DeepCopy_Properties: the properties, numbered in order of importance.

  \<^bold>\<open>What the properties show.\<close> Of a reconcile: Ready is never better than what it summarizes, a failed
  stage leaves the last good state, a finalizer is dropped last and only after the clean-up, writes stay
  in the namespace and come from sources only that the configuration on the command line permits, a live
  object never leaves the queue, one ConfigSync wins a workload, no event carries a registered secret,
  the reported conditions are those of the schema, the metrics have a fixed set of series, and a changed
  workload or Secret asks for a reconcile of its users. Of secrets: the gate in front of a
  rollout, the refinement of the readiness policy, establishment across syncs, bounded outages, and
  that no decision depends on a secret value. Of git: the cache under every interleaving, no leaked
  worktree or temporary file, host-key verification, the address ranges of the guard. Of the objects:
  no adoption, exact pruning, owned fields only, exact rendering within the size limit, and deep copies
  that share no memory with the original.

  \<^bold>\<open>Bounds.\<close> No fuel hides a loop: recursions are structural or have a measure. The second eviction loop
  of the cache runs \<open>evict_cap\<close> for as many rounds as there are entries; each round removes one, and
  \<open>evictLocked_within_cap\<close> shows that the loop's own exit condition holds at the end.

  \<^bold>\<open>Not modelled.\<close> Log lines; how controller-runtime delivers watch events and serves the manager, the
  scheme, health checks and signals (calls into a library only, whose failures are parameters of
  \<open>main\<close>); the buckets of a histogram; the three package variables of \<open>groupversion_info.go\<close> and the
  linker's version strings; the deep copies of the API machinery's own types; the test environment and
  the test git server, which start processes; the once-only installation of the HTTP transport,
  of which the redirect policy is modelled. Clock reads inside one critical section of the cache are one
  instant. Concurrent reconciles of different objects are interleavings of the calls of the model; only
  the fetch cache, which they share in memory, has a step relation of its own.
\<close>

end
